(* ===== verification/GIS_Prelude.thy ===== *)
theory GIS_Prelude
  imports Complex_Main "HOL-Library.Multiset"
begin

text \<open>
  Shared vocabulary of the development: how Python values, exceptions, dictionaries
  and \<open>for\<close> loops of the sources are represented, and the lemmas about them that the
  component theories use.

  \<^item> A Python \<open>str\<close> is a \<open>string\<close>; text outside ASCII is its UTF-8 byte sequence, which
    preserves equality and concatenation, the only string operations the sources use.
  \<^item> A Python \<open>float\<close> is a \<open>rat\<close>: every literal of the sources is a decimal, so it is
    read exactly; the rounding of IEEE doubles is not modelled.
  \<^item> An exception is a value of \<open>py_error\<close>, and a computation that may raise returns
    \<open>py_error + 'a\<close> with \<open>Inl\<close> for the exception; \<open>rbind\<close> sequences two of them.
  \<^item> A \<open>dict\<close> is an association list in insertion order; \<open>getitem\<close> is \<open>d[k]\<close>.
  \<^item> A \<open>for\<close> loop whose body may raise is \<open>for_each\<close>: it threads the loop state and
    stops at the first exception.
  \<^item> The standard output of a process is the list of the lines printed so far
    (\<open>stdout\<close>), and \<open>print_line\<close> is \<open>print\<close> with one argument.
\<close>

named_theorems gis_defs "unfolding equations of the model's operations"

type_synonym pystr = string
type_synonym pyfloat = rat

datatype py_error =
    KeyError pystr
  | IndexError
  | ZeroDivisionError
  | ValueError pystr
  | TypeError pystr
  | DataSourceError pystr
  | FileNotFoundError pystr

type_synonym 'a result = "py_error + 'a"

primrec rbind :: "'a result \<Rightarrow> ('a \<Rightarrow> 'b result) \<Rightarrow> 'b result" where
  "rbind (Inl e) f = Inl e"
| "rbind (Inr a) f = f a"

primrec is_ok :: "'a result \<Rightarrow> bool" where
  "is_ok (Inl e) = False"
| "is_ok (Inr a) = True"

definition getitem :: "('k \<times> 'v) list \<Rightarrow> 'k \<Rightarrow> ('k \<Rightarrow> pystr) \<Rightarrow> 'v result" where
  "getitem d k shw = (case map_of d k of None \<Rightarrow> Inl (KeyError (shw k)) | Some v \<Rightarrow> Inr v)"

abbreviation getitem_str :: "(pystr \<times> 'v) list \<Rightarrow> pystr \<Rightarrow> 'v result" where
  "getitem_str d k \<equiv> getitem d k (\<lambda>s. s)"

definition list_item :: "'a list \<Rightarrow> nat \<Rightarrow> 'a result" where
  "list_item xs i = (if i < length xs then Inr (xs ! i) else Inl IndexError)"

definition truediv :: "pyfloat \<Rightarrow> pyfloat \<Rightarrow> pyfloat result" where
  "truediv a b = (if b = 0 then Inl ZeroDivisionError else Inr (a / b))"

fun for_each :: "('s \<Rightarrow> 'a \<Rightarrow> 's result) \<Rightarrow> 'a list \<Rightarrow> 's \<Rightarrow> 's result" where
  "for_each body [] s = Inr s"
| "for_each body (x # xs) s = rbind (body s x) (for_each body xs)"

type_synonym stdout = "pystr list"

definition print_line :: "pystr \<Rightarrow> stdout \<Rightarrow> stdout" where
  "print_line msg out = out @ [msg]"

definition pjoin :: "pystr \<Rightarrow> pystr \<Rightarrow> pystr" where
  "pjoin p q = (if q \<noteq> [] \<and> hd q = CHR ''/'' then q else p @ ''/'' @ q)"


section \<open>Results\<close>

lemma rbind_ok_iff: "rbind m f = Inr b \<longleftrightarrow> (\<exists>a. m = Inr a \<and> f a = Inr b)"
  by (cases m) auto

lemma rbind_raise_iff:
  "rbind m f = Inl e \<longleftrightarrow> m = Inl e \<or> (\<exists>a. m = Inr a \<and> f a = Inl e)"
  by (cases m) auto

lemma rbind_assoc: "rbind (rbind m f) g = rbind m (\<lambda>a. rbind (f a) g)"
  by (cases m) auto

lemma rbind_Inr_right [simp]: "rbind m Inr = m"
  by (cases m) auto

lemma is_ok_iff: "is_ok r \<longleftrightarrow> (\<exists>a. r = Inr a)"
  by (cases r) auto

lemma is_ok_rbind: "is_ok (rbind m f) \<longleftrightarrow> (\<exists>a. m = Inr a \<and> is_ok (f a))"
  by (cases m) auto


section \<open>Dictionaries and lists\<close>

lemma getitem_ok_iff: "getitem d k shw = Inr v \<longleftrightarrow> map_of d k = Some v"
  by (simp add: getitem_def split: option.splits)

lemma getitem_raise_iff:
  "getitem d k shw = Inl e \<longleftrightarrow> k \<notin> fst ` set d \<and> e = KeyError (shw k)"
  by (auto simp: getitem_def map_of_eq_None_iff [symmetric] split: option.splits)

lemma getitem_in_set: "getitem d k shw = Inr v \<Longrightarrow> (k, v) \<in> set d"
  by (simp add: getitem_ok_iff map_of_SomeD)

lemma getitem_distinct:
  "distinct (map fst d) \<Longrightarrow> (k, v) \<in> set d \<Longrightarrow> getitem d k shw = Inr v"
  by (simp add: getitem_ok_iff)

lemma getitem_Cons [simp]:
  "getitem ((k', v) # d) k shw = (if k = k' then Inr v else getitem d k shw)"
  by (simp add: getitem_def)

lemma getitem_Nil [simp]: "getitem [] k shw = Inl (KeyError (shw k))"
  by (simp add: getitem_def)

lemma list_item_ok_iff: "list_item xs i = Inr x \<longleftrightarrow> i < length xs \<and> xs ! i = x"
  by (auto simp: list_item_def)

lemma list_item_raise_iff: "list_item xs i = Inl e \<longleftrightarrow> length xs \<le> i \<and> e = IndexError"
  by (auto simp: list_item_def)

lemma truediv_ok_iff: "truediv a b = Inr c \<longleftrightarrow> b \<noteq> 0 \<and> c = a / b"
  by (auto simp: truediv_def)

lemma truediv_raise_iff: "truediv a b = Inl e \<longleftrightarrow> b = 0 \<and> e = ZeroDivisionError"
  by (auto simp: truediv_def)

lemma length_enumerate0: "length (enumerate 0 xs) = length xs"
  by simp

lemma enumerate0_nth: "i < length xs \<Longrightarrow> enumerate 0 xs ! i = (i, xs ! i)"
  by (simp add: nth_enumerate_eq)

lemma enumerate_mem_iff:
  "(i, x) \<in> set (enumerate n xs) \<longleftrightarrow> n \<le> i \<and> i < n + length xs \<and> xs ! (i - n) = x"
  by (auto simp: in_set_enumerate_eq)

lemma ball_enumerate0:
  "(\<forall>(i, x) \<in> set (enumerate 0 xs). P i x) \<longleftrightarrow> (\<forall>i < length xs. P i (xs ! i))"
  by (auto simp: in_set_enumerate_eq)

text \<open>
  A list that agrees index by index with a list of distinct elements, and contains all
  of them, is that list.
\<close>

lemma prefix_of_distinct_superset:
  assumes "distinct ls" and "set ls \<subseteq> set ks"
    and "\<forall>i < length ks. i < length ls \<and> ls ! i = ks ! i"
  shows "ks = ls"
proof -
  from assms(3) have le: "length ks \<le> length ls"
    by (cases "length ks") auto
  from assms(1,2) have "card (set ls) \<le> card (set ks)"
    by (intro card_mono) auto
  also have "\<dots> \<le> length ks" by (rule card_length)
  finally have "length ls \<le> length ks" using assms(1) by (simp add: distinct_card)
  with le have "length ks = length ls" by simp
  with assms(3) show ?thesis by (simp add: list_eq_iff_nth_eq)
qed


section \<open>Loops\<close>

lemma for_each_append:
  "for_each body (xs @ ys) s = rbind (for_each body xs s) (for_each body ys)"
proof (induction xs arbitrary: s)
  case Nil
  then show ?case by simp
next
  case (Cons x xs)
  then show ?case by (cases "body s x") simp_all
qed

lemma for_each_Nil_fun: "for_each body [] = Inr"
  by (rule ext) simp

lemma for_each_snoc:
  "for_each body (xs @ [x]) s = rbind (for_each body xs s) (\<lambda>s'. body s' x)"
  by (cases "for_each body xs s") (simp_all add: for_each_append for_each_Nil_fun)

text \<open>
  The loop rule: a property kept by every iteration that returns is kept by a loop
  that returns.
\<close>

lemma for_each_invariant:
  assumes "for_each body xs s = Inr s'"
    and "P s"
    and "\<And>x t t'. x \<in> set xs \<Longrightarrow> P t \<Longrightarrow> body t x = Inr t' \<Longrightarrow> P t'"
  shows "P s'"
  using assms
proof (induction xs arbitrary: s)
  case Nil
  then show ?case by simp
next
  case (Cons x xs)
  from Cons.prems(1) obtain t where t: "body s x = Inr t" and rest: "for_each body xs t = Inr s'"
    by (auto simp: rbind_ok_iff)
  from Cons.prems(2) t have "P t" by (auto intro: Cons.prems(3) [of x s t])
  with rest Cons.prems(3) show ?case by (intro Cons.IH [of t]) auto
qed

text \<open>
  The loop returns when every iteration returns from a state that satisfies the
  invariant.
\<close>

lemma for_each_ok:
  assumes "P s"
    and "\<And>x t. x \<in> set xs \<Longrightarrow> P t \<Longrightarrow> \<exists>t'. body t x = Inr t' \<and> P t'"
  shows "\<exists>s'. for_each body xs s = Inr s' \<and> P s'"
  using assms
proof (induction xs arbitrary: s)
  case Nil
  then show ?case by simp
next
  case (Cons x xs)
  from Cons.prems obtain t where t: "body s x = Inr t" and "P t"
    by (meson list.set_intros(1))
  with Cons.prems(2) have "\<exists>s'. for_each body xs t = Inr s' \<and> P s'"
    by (intro Cons.IH) auto
  with t show ?case by simp
qed

text \<open>A loop whose body never raises is a \<open>fold\<close>.\<close>

lemma for_each_total:
  "(\<And>t x. body t x = Inr (step x t)) \<Longrightarrow> for_each body xs s = Inr (fold step xs s)"
  by (induction xs arbitrary: s) simp_all

text \<open>The first iteration that raises ends the loop with its exception.\<close>

lemma for_each_raise:
  assumes "for_each body xs s = Inr t" and "body t x = Inl e"
  shows "for_each body (xs @ x # ys) s = Inl e"
  using assms by (simp add: for_each_append)


text \<open>Printing a list of lines, one call each, appends the list.\<close>

lemma fold_print_line [simp]: "fold print_line msgs out = out @ msgs"
  by (induction msgs arbitrary: out) (simp_all add: print_line_def)


section \<open>Paths\<close>

lemma pjoin_relative: "q \<noteq> [] \<Longrightarrow> hd q \<noteq> CHR ''/'' \<Longrightarrow> pjoin p q = p @ ''/'' @ q"
  by (simp add: pjoin_def)

end
