(* ===== verification/Config.thy ===== *)
theory Config
  imports GIS_Prelude "HOL-Library.List_Lexorder" "HOL-Library.Char_ord"
begin

text \<open>
  The configuration module \<^verbatim>\<open>src/src/config.py\<close>: the resource paths of the classes
  \<^verbatim>\<open>Font\<close>, \<^verbatim>\<open>Shapefile\<close> and \<^verbatim>\<open>Json\<close>, font registration, and the class
  \<^verbatim>\<open>FigConfig\<close> with the region table \<^verbatim>\<open>AREA_RANGE\<close>.

  The region table is a Python \<open>dict\<close> whose iteration order is its insertion order;
  it is the association list \<open>FigConfig_AREA_RANGE\<close>, field \<open>AREA_RANGE\<close> of the record
  \<open>FigConfig\<close>. Each entry is an \<open>area_info\<close> record with the keys of the source
  dictionary as fields. The operations of the other theories take the configuration as
  an argument, so that their lemmas hold for every region table and the shipped table is
  one instance.

  \<open>show_all\<close> prints the names of the fonts of the font manager in the order of
  \<open>sorted\<close>. The name of a font is stored in its file, so the function that reads it
  (\<open>name_of\<close>) is an argument; Python compares strings by code point, which for UTF-8
  byte sequences is the lexicographic order of the bytes, the order of \<open>string\<close> here.

  The lemmas state what the shipped table satisfies: its keys and their order, that the
  keys are distinct, that every bounding box is non-degenerate, which levels occur, which
  regions contain their own centre, and which bounding boxes lie inside the main one.
\<close>

section \<open>Paths and fonts\<close>

definition WORK_DIR :: pystr where
  "WORK_DIR = ''/app''"

definition FONT_DIR :: pystr where
  "FONT_DIR = pjoin (pjoin WORK_DIR ''res'') ''fonts''"

definition CharisSIL :: pystr where
  "CharisSIL = pjoin FONT_DIR ''CharisSIL-Regular.ttf''"

definition CharisSIL_Bold :: pystr where
  "CharisSIL_Bold = pjoin FONT_DIR ''CharisSIL-Bold.ttf''"

definition NotoSerifTC :: pystr where
  "NotoSerifTC = pjoin FONT_DIR ''NotoSerifTC-Regular.ttf''"

definition NotoSerifTC_Bold :: pystr where
  "NotoSerifTC_Bold = pjoin FONT_DIR ''NotoSerifTC-Bold.ttf''"

definition TimesNewRoman :: pystr where
  "TimesNewRoman = pjoin FONT_DIR ''TimesNewRoman-Regular.ttf''"

definition TimesNewRoman_Bold :: pystr where
  "TimesNewRoman_Bold = pjoin FONT_DIR ''TimesNewRoman-Bold.ttf''"

definition Urbanist :: pystr where
  "Urbanist = pjoin FONT_DIR ''Urbanist-Regular.ttf''"

text \<open>
  The font manager of the plotting library is the list of the font files added to it,
  oldest first. Reading the font file is not modelled.
\<close>

type_synonym font_manager = "pystr list"

definition addfont :: "font_manager \<Rightarrow> pystr \<Rightarrow> font_manager" where
  "addfont fm path = fm @ [path]"

definition register :: "font_manager \<Rightarrow> pystr \<Rightarrow> font_manager" where
  "register fm font = addfont fm font"

definition register_all :: "font_manager \<Rightarrow> font_manager" where
  "register_all fm =
     fold (\<lambda>font m. addfont m font)
       [CharisSIL, CharisSIL_Bold, NotoSerifTC, NotoSerifTC_Bold,
        TimesNewRoman, TimesNewRoman_Bold, Urbanist] fm"

definition msg_all_fonts :: pystr where
  "msg_all_fonts =
     [CHR 0xE6, CHR 0x89, CHR 0x80, CHR 0xE6, CHR 0x9C, CHR 0x89, CHR 0xE5, CHR 0x8F,
      CHR 0xAF, CHR 0xE7, CHR 0x94, CHR 0xA8, CHR 0xE5, CHR 0xAD, CHR 0x97, CHR 0xE9,
      CHR 0xAB, CHR 0x94, CHR 0xEF, CHR 0xBC, CHR 0x9A]"

definition show_all :: "(pystr \<Rightarrow> pystr) \<Rightarrow> font_manager \<Rightarrow> stdout \<Rightarrow> stdout" where
  "show_all name_of fm out =
     (let font_names = sort (map name_of fm);
          out = print_line msg_all_fonts out
      in fold print_line font_names out)"

definition SHAPEFILE_DIR :: pystr where
  "SHAPEFILE_DIR = pjoin (pjoin WORK_DIR ''res'') ''shp''"

definition COUNTY :: pystr where
  "COUNTY = pjoin SHAPEFILE_DIR ''COUNTY_MOI_1090820.shp''"

definition TOWN :: pystr where
  "TOWN = pjoin SHAPEFILE_DIR ''TOWN_MOI_1120825.shp''"

text \<open>An object of class \<^verbatim>\<open>Shapefile\<close>: its attributes are those of the class.\<close>

record Shapefile =
  sf_SHAPEFILE_DIR :: pystr
  sf_COUNTY :: pystr
  sf_TOWN :: pystr

definition Shapefile_init :: Shapefile where
  "Shapefile_init = \<lparr>sf_SHAPEFILE_DIR = SHAPEFILE_DIR, sf_COUNTY = COUNTY, sf_TOWN = TOWN\<rparr>"

definition JSON_DIR :: pystr where
  "JSON_DIR = pjoin (pjoin WORK_DIR ''res'') ''json''"

definition COUNTY_TOWN :: pystr where
  "COUNTY_TOWN = pjoin JSON_DIR ''county_town.json''"

definition TOWN_TYPE_BY_TOWN :: pystr where
  "TOWN_TYPE_BY_TOWN = pjoin JSON_DIR ''town_type_by_town.json''"

definition TOWN_TYPE_BY_TYPE :: pystr where
  "TOWN_TYPE_BY_TYPE = pjoin JSON_DIR ''town_type_by_type.json''"

definition NO_GAS_STATION_TOWN :: pystr where
  "NO_GAS_STATION_TOWN = pjoin JSON_DIR ''no_gas_station_town.json''"


section \<open>The figure configuration and the region table\<close>

record area_bounds =
  min_x :: pyfloat
  max_x :: pyfloat
  min_y :: pyfloat
  max_y :: pyfloat

record area_info =
  name :: pystr
  level :: nat
  center :: "pyfloat \<times> pyfloat"
  bounds :: area_bounds

type_synonym area_range = "(pystr \<times> area_info) list"

record fig_config =
  WIDTH :: pyfloat
  HEIGHT :: pyfloat
  DPI :: nat
  SIZE :: "pyfloat \<times> pyfloat"
  AREA_RANGE :: area_range

definition FigConfig_AREA_RANGE :: area_range where
  "FigConfig_AREA_RANGE =
    [(''taiwan'',
        \<lparr>name = [CHR 0xE5, CHR 0x8F, CHR 0xB0, CHR 0xE7, CHR 0x81, CHR 0xA3,
                 CHR 0xE6, CHR 0x9C, CHR 0xAC, CHR 0xE5, CHR 0xB3, CHR 0xB6],
         level = 0, center = (120.96, 23.7),
         bounds = \<lparr>min_x = 118.9, max_x = 122.6, min_y = 21.75, max_y = 25.35\<rparr>\<rparr>),
     (''penghu'',
        \<lparr>name = [CHR 0xE6, CHR 0xBE, CHR 0x8E, CHR 0xE6, CHR 0xB9, CHR 0x96,
                 CHR 0xE7, CHR 0xB8, CHR 0xA3],
         level = 1, center = (119.57, 23.57),
         bounds = \<lparr>min_x = 119.3, max_x = 119.74, min_y = 23.16, max_y = 23.86\<rparr>\<rparr>),
     (''kinmen'',
        \<lparr>name = [CHR 0xE9, CHR 0x87, CHR 0x91, CHR 0xE9, CHR 0x96, CHR 0x80,
                 CHR 0xE7, CHR 0xB8, CHR 0xA3],
         level = 1, center = (118.3, 24.4),
         bounds = \<lparr>min_x = 118.1, max_x = 118.6, min_y = 24.34, max_y = 24.56\<rparr>\<rparr>),
     (''kinmen-wuqiu'',
        \<lparr>name = [CHR 0xE9, CHR 0x87, CHR 0x91, CHR 0xE9, CHR 0x96, CHR 0x80,
                 CHR 0xE7, CHR 0xB8, CHR 0xA3, CHR 0xE7, CHR 0x83, CHR 0x8F,
                 CHR 0xE5, CHR 0x9D, CHR 0xB5, CHR 0xE9, CHR 0x84, CHR 0x89],
         level = 2, center = (119.5, 24.8),
         bounds = \<lparr>min_x = 119.42, max_x = 119.5, min_y = 24.96, max_y = 25.02\<rparr>\<rparr>),
     (''lienchiang'',
        \<lparr>name = [CHR 0xE9, CHR 0x80, CHR 0xA3, CHR 0xE6, CHR 0xB1, CHR 0x9F,
                 CHR 0xE7, CHR 0xB8, CHR 0xA3],
         level = 1, center = (119.90, 26.20),
         bounds = \<lparr>min_x = 119.86, max_x = 120.1, min_y = 26.12, max_y = 26.30\<rparr>\<rparr>),
     (''lienchiang-dongyin'',
        \<lparr>name = [CHR 0xE9, CHR 0x80, CHR 0xA3, CHR 0xE6, CHR 0xB1, CHR 0x9F,
                 CHR 0xE7, CHR 0xB8, CHR 0xA3, CHR 0xE6, CHR 0x9D, CHR 0xB1,
                 CHR 0xE5, CHR 0xBC, CHR 0x95, CHR 0xE9, CHR 0x84, CHR 0x89],
         level = 2, center = (120.5, 26.3),
         bounds = \<lparr>min_x = 120.45, max_x = 120.52, min_y = 26.34, max_y = 26.4\<rparr>\<rparr>),
     (''lienchiang-juguang'',
        \<lparr>name = [CHR 0xE9, CHR 0x80, CHR 0xA3, CHR 0xE6, CHR 0xB1, CHR 0x9F,
                 CHR 0xE7, CHR 0xB8, CHR 0xA3, CHR 0xE8, CHR 0x8E, CHR 0x92,
                 CHR 0xE5, CHR 0x85, CHR 0x89, CHR 0xE9, CHR 0x84, CHR 0x89],
         level = 2, center = (119.9, 25.9),
         bounds = \<lparr>min_x = 119.91, max_x = 120, min_y = 25.93, max_y = 26\<rparr>\<rparr>)]"

definition FigConfig :: fig_config where
  "FigConfig =
     \<lparr>WIDTH = 14.65, HEIGHT = 16, DPI = 200, SIZE = (14.65, 16),
      AREA_RANGE = FigConfig_AREA_RANGE\<rparr>"


section \<open>Well-formedness of a region table\<close>

text \<open>
  These predicates are not code of the repository: they say what the layout and the
  renderers need of a region table.
\<close>

definition valid_bounds :: "area_bounds \<Rightarrow> bool" where
  "valid_bounds b \<longleftrightarrow> min_x b < max_x b \<and> min_y b < max_y b"

definition in_bounds :: "area_bounds \<Rightarrow> pyfloat \<times> pyfloat \<Rightarrow> bool" where
  "in_bounds b p \<longleftrightarrow> min_x b \<le> fst p \<and> fst p \<le> max_x b \<and> min_y b \<le> snd p \<and> snd p \<le> max_y b"

definition bounds_within :: "area_bounds \<Rightarrow> area_bounds \<Rightarrow> bool" where
  "bounds_within inner outer \<longleftrightarrow>
     min_x outer \<le> min_x inner \<and> max_x inner \<le> max_x outer \<and>
     min_y outer \<le> min_y inner \<and> max_y inner \<le> max_y outer"

definition bounds_disjoint :: "area_bounds \<Rightarrow> area_bounds \<Rightarrow> bool" where
  "bounds_disjoint a b \<longleftrightarrow>
     max_x a < min_x b \<or> max_x b < min_x a \<or> max_y a < min_y b \<or> max_y b < min_y a"

definition wf_area_range :: "area_range \<Rightarrow> bool" where
  "wf_area_range ar \<longleftrightarrow>
     distinct (map fst ar) \<and> list_all (\<lambda>(k, a). valid_bounds (bounds a) \<and> level a \<le> 2) ar"


section \<open>Paths\<close>

lemmas path_defs =
  WORK_DIR_def FONT_DIR_def SHAPEFILE_DIR_def JSON_DIR_def pjoin_def

lemma Urbanist_path: "Urbanist = ''/app/res/fonts/Urbanist-Regular.ttf''"
  by (simp add: Urbanist_def path_defs)

lemma NotoSerifTC_path: "NotoSerifTC = ''/app/res/fonts/NotoSerifTC-Regular.ttf''"
  by (simp add: NotoSerifTC_def path_defs)

lemma COUNTY_path: "COUNTY = ''/app/res/shp/COUNTY_MOI_1090820.shp''"
  by (simp add: COUNTY_def path_defs)

lemma TOWN_path: "TOWN = ''/app/res/shp/TOWN_MOI_1120825.shp''"
  by (simp add: TOWN_def path_defs)

lemma TOWN_TYPE_BY_TOWN_path: "TOWN_TYPE_BY_TOWN = ''/app/res/json/town_type_by_town.json''"
  by (simp add: TOWN_TYPE_BY_TOWN_def path_defs)

lemma register_appends: "register fm font = fm @ [font]"
  by (simp add: register_def addfont_def)

lemma register_all_appends:
  "register_all fm =
     fm @ [CharisSIL, CharisSIL_Bold, NotoSerifTC, NotoSerifTC_Bold,
           TimesNewRoman, TimesNewRoman_Bold, Urbanist]"
  by (simp add: register_all_def addfont_def)


text \<open>
  \<open>show_all\<close> prints a heading and then every font of the font manager once, in
  ascending order of the names.
\<close>

lemma show_all_eq:
  "show_all name_of fm out = out @ msg_all_fonts # sort (map name_of fm)"
  by (simp add: show_all_def Let_def print_line_def)

lemma show_all_sorted:
  "sorted (drop (Suc (length out)) (show_all name_of fm out))"
  by (simp add: show_all_eq)

lemma show_all_mset:
  "mset (drop (Suc (length out)) (show_all name_of fm out)) = image_mset name_of (mset fm)"
  by (simp add: show_all_eq)

lemma show_all_registered:
  "mset (drop (Suc (length out)) (show_all name_of (register_all fm) out)) =
     image_mset name_of (mset fm) +
     mset (map name_of [CharisSIL, CharisSIL_Bold, NotoSerifTC, NotoSerifTC_Bold,
       TimesNewRoman, TimesNewRoman_Bold, Urbanist])"
  by (simp add: show_all_eq register_all_def addfont_def)


section \<open>The shipped region table\<close>

lemma AREA_RANGE_keys:
  "map fst FigConfig_AREA_RANGE =
     [''taiwan'', ''penghu'', ''kinmen'', ''kinmen-wuqiu'', ''lienchiang'',
      ''lienchiang-dongyin'', ''lienchiang-juguang'']"
  by (simp add: FigConfig_AREA_RANGE_def)

lemma AREA_RANGE_length: "length FigConfig_AREA_RANGE = 7"
  by (simp add: FigConfig_AREA_RANGE_def)

lemma AREA_RANGE_distinct: "distinct (map fst FigConfig_AREA_RANGE)"
  by (simp add: AREA_RANGE_keys)

lemma AREA_RANGE_levels: "map (level \<circ> snd) FigConfig_AREA_RANGE = [0, 1, 1, 2, 1, 2, 2]"
  by (simp add: FigConfig_AREA_RANGE_def)

lemma AREA_RANGE_bounds:
  "map (bounds \<circ> snd) FigConfig_AREA_RANGE =
    [\<lparr>min_x = 118.9, max_x = 122.6, min_y = 21.75, max_y = 25.35\<rparr>,
     \<lparr>min_x = 119.3, max_x = 119.74, min_y = 23.16, max_y = 23.86\<rparr>,
     \<lparr>min_x = 118.1, max_x = 118.6, min_y = 24.34, max_y = 24.56\<rparr>,
     \<lparr>min_x = 119.42, max_x = 119.5, min_y = 24.96, max_y = 25.02\<rparr>,
     \<lparr>min_x = 119.86, max_x = 120.1, min_y = 26.12, max_y = 26.30\<rparr>,
     \<lparr>min_x = 120.45, max_x = 120.52, min_y = 26.34, max_y = 26.4\<rparr>,
     \<lparr>min_x = 119.91, max_x = 120, min_y = 25.93, max_y = 26\<rparr>]"
  by (simp add: FigConfig_AREA_RANGE_def)

lemma AREA_RANGE_of_FigConfig [simp]: "AREA_RANGE FigConfig = FigConfig_AREA_RANGE"
  by (simp add: FigConfig_def)

lemma FigConfig_SIZE: "SIZE FigConfig = (WIDTH FigConfig, HEIGHT FigConfig)"
  by (simp add: FigConfig_def)

text \<open>
  The bounding box stored under each key, as rewrite rules: proofs about the shipped
  table look a region up without unfolding the whole table.
\<close>

lemma AREA_RANGE_lookup_bounds:
  "map_option bounds (map_of FigConfig_AREA_RANGE ''taiwan'') =
     Some \<lparr>min_x = 118.9, max_x = 122.6, min_y = 21.75, max_y = 25.35\<rparr>"
  "map_option bounds (map_of FigConfig_AREA_RANGE ''penghu'') =
     Some \<lparr>min_x = 119.3, max_x = 119.74, min_y = 23.16, max_y = 23.86\<rparr>"
  "map_option bounds (map_of FigConfig_AREA_RANGE ''kinmen'') =
     Some \<lparr>min_x = 118.1, max_x = 118.6, min_y = 24.34, max_y = 24.56\<rparr>"
  "map_option bounds (map_of FigConfig_AREA_RANGE ''kinmen-wuqiu'') =
     Some \<lparr>min_x = 119.42, max_x = 119.5, min_y = 24.96, max_y = 25.02\<rparr>"
  "map_option bounds (map_of FigConfig_AREA_RANGE ''lienchiang'') =
     Some \<lparr>min_x = 119.86, max_x = 120.1, min_y = 26.12, max_y = 26.30\<rparr>"
  "map_option bounds (map_of FigConfig_AREA_RANGE ''lienchiang-dongyin'') =
     Some \<lparr>min_x = 120.45, max_x = 120.52, min_y = 26.34, max_y = 26.4\<rparr>"
  "map_option bounds (map_of FigConfig_AREA_RANGE ''lienchiang-juguang'') =
     Some \<lparr>min_x = 119.91, max_x = 120, min_y = 25.93, max_y = 26\<rparr>"
  by (simp_all add: FigConfig_AREA_RANGE_def)

lemma list_all_snd_map:
  "list_all (\<lambda>(k, a). P (f a)) ar \<longleftrightarrow> list_all P (map (f \<circ> snd) ar)"
  by (induction ar) auto

lemma AREA_RANGE_valid_bounds:
  "list_all (\<lambda>(k, a). valid_bounds (bounds a)) FigConfig_AREA_RANGE"
  unfolding list_all_snd_map [of valid_bounds bounds] AREA_RANGE_bounds
  by (simp add: valid_bounds_def)


section \<open>Properties of the shipped table\<close>

text \<open>The shipped region table is well formed: its keys are distinct, every
  bounding box has \<open>min_x < max_x\<close> and \<open>min_y < max_y\<close>, and every level is at most 2.\<close>

theorem shipped_table_wf: "wf_area_range FigConfig_AREA_RANGE"
  by (simp add: wf_area_range_def FigConfig_AREA_RANGE_def valid_bounds_def)

text \<open>In the shipped table the centre of every region of level 0 or 1 lies in
  the region's bounding box, and the centre of each of the three regions of level 2 lies
  outside its own bounding box.\<close>

theorem shipped_centers:
  "map (\<lambda>(k, a). (k, level a, in_bounds (bounds a) (center a))) FigConfig_AREA_RANGE =
     [(''taiwan'', 0, True), (''penghu'', 1, True), (''kinmen'', 1, True),
      (''kinmen-wuqiu'', 2, False), (''lienchiang'', 1, True),
      (''lienchiang-dongyin'', 2, False), (''lienchiang-juguang'', 2, False)]"
  by (simp add: FigConfig_AREA_RANGE_def in_bounds_def)

text \<open>In the shipped table the bounding boxes of \<open>penghu\<close> and \<open>kinmen-wuqiu\<close>
  lie inside the bounding box of \<open>taiwan\<close>, and every other pair of bounding boxes is
  disjoint: the extents of the panels are not pairwise disjoint.\<close>

theorem shipped_bounds_overlap:
  "map (\<lambda>(k, a). (k, map (\<lambda>(k', a'). bounds_disjoint (bounds a) (bounds a')) FigConfig_AREA_RANGE,
                    bounds_within (bounds a) (bounds (snd (hd FigConfig_AREA_RANGE)))))
       FigConfig_AREA_RANGE =
     [(''taiwan'', [False, False, True, False, True, True, True], True),
      (''penghu'', [False, False, True, True, True, True, True], True),
      (''kinmen'', [True, True, False, True, True, True, True], False),
      (''kinmen-wuqiu'', [False, True, True, False, True, True, True], True),
      (''lienchiang'', [True, True, True, True, False, True, True], False),
      (''lienchiang-dongyin'', [True, True, True, True, True, False, True], False),
      (''lienchiang-juguang'', [True, True, True, True, True, True, False], False)]"
  by (simp add: FigConfig_AREA_RANGE_def bounds_disjoint_def bounds_within_def)


section \<open>Properties of the fonts\<close>


end
