(* ===== verification/Frames.thy ===== *)
theory Frames
  imports Config
begin

text \<open>
  The tabular data the program passes around, and the few operations of the pandas and
  geopandas libraries the sources call on it. The libraries are not part of the
  repository: their operations are modelled from their documented behaviour, restricted
  to the arguments the sources pass.

  \<^item> A cell is a string, a number or the missing value \<open>NaN\<close>.
  \<^item> A row is an association list from column names to cells; a \<open>dataframe\<close> is its
    column names and its rows, each row defined on every column.
  \<^item> A \<open>feature\<close> is a row of a GeoDataFrame: its attribute cells and its geometry.
    A geometry is represented by its envelope, the least box around it, which is what
    the bounding-box filter of \<open>read_file\<close> compares.
  \<^item> \<open>merge\<close> is the inner equality join \<open>left.merge(right, left_on, right_on)\<close>: the
    pairs of a feature and a row with equal join keys, in the order of the features and,
    for one feature, in the order of the rows. Column-name clashes between the two
    sides and the dtype check of the join keys are not modelled.
  \<^item> \<open>series_min\<close> and \<open>series_max\<close> are \<open>Series.min()\<close> and \<open>Series.max()\<close> on a
    numeric column: missing values are skipped, and the result is \<open>NaN\<close> when nothing
    is left. A string in the column is reported as \<open>TypeError\<close>.

  For the proofs, \<open>column_min\<close> and \<open>column_max\<close> give the two extremes of a column
  without strings in closed form, over \<open>finite_values\<close>, its numbers, and \<open>features_in\<close>
  is the bounding-box filter on its own.
\<close>

datatype cell = Str pystr | Num pyfloat | NaN

type_synonym row = "(pystr \<times> cell) list"

record dataframe =
  columns :: "pystr list"
  rows :: "row list"

record feature =
  props :: row
  envelope :: area_bounds

type_synonym geodataframe = "feature list"
type_synonym bbox = "pyfloat \<times> pyfloat \<times> pyfloat \<times> pyfloat"
type_synonym datasets = "pystr \<rightharpoonup> geodataframe"

text \<open>\<open>pd.DataFrame(records)\<close> for a list of dictionaries.\<close>

definition fill_row :: "pystr list \<Rightarrow> row \<Rightarrow> row" where
  "fill_row cols r = map (\<lambda>c. (c, case map_of r c of None \<Rightarrow> NaN | Some v \<Rightarrow> v)) cols"

definition DataFrame :: "row list \<Rightarrow> dataframe" where
  "DataFrame recs =
     (let cols = rev (remdups (rev (concat (map (map fst) recs))))
      in \<lparr>columns = cols, rows = map (fill_row cols) recs\<rparr>)"

text \<open>\<open>df[column]\<close>: the cells of a column, or \<open>KeyError\<close>.\<close>

definition cell_of :: "row \<Rightarrow> pystr \<Rightarrow> cell" where
  "cell_of r c = (case map_of r c of None \<Rightarrow> NaN | Some v \<Rightarrow> v)"

definition series :: "dataframe \<Rightarrow> pystr \<Rightarrow> cell list result" where
  "series df c =
     (if c \<in> set (columns df) then Inr (map (\<lambda>r. cell_of r c) (rows df))
      else Inl (KeyError c))"

fun numbers :: "cell list \<Rightarrow> pyfloat list result" where
  "numbers [] = Inr []"
| "numbers (Num v # cs) = rbind (numbers cs) (\<lambda>vs. Inr (v # vs))"
| "numbers (NaN # cs) = numbers cs"
| "numbers (Str s # cs) = Inl (TypeError s)"

definition is_Str :: "cell \<Rightarrow> bool" where
  "is_Str v = (case v of Str s \<Rightarrow> True | _ \<Rightarrow> False)"

definition series_min :: "cell list \<Rightarrow> cell result" where
  "series_min cs =
     rbind (numbers cs) (\<lambda>vs. Inr (if vs = [] then NaN else Num (Min (set vs))))"

definition series_max :: "cell list \<Rightarrow> cell result" where
  "series_max cs =
     rbind (numbers cs) (\<lambda>vs. Inr (if vs = [] then NaN else Num (Max (set vs))))"

text \<open>The join.\<close>

definition join_key :: "pystr list \<Rightarrow> row \<Rightarrow> cell list" where
  "join_key on r = map (cell_of r) on"

definition gdf_columns :: "geodataframe \<Rightarrow> pystr list \<Rightarrow> bool" where
  "gdf_columns gdf cs \<longleftrightarrow> list_all (\<lambda>f. list_all (\<lambda>c. c \<in> fst ` set (props f)) cs) gdf"

fun missing_key :: "geodataframe \<Rightarrow> dataframe \<Rightarrow> (pystr \<times> pystr) list \<Rightarrow> pystr option" where
  "missing_key gdf df [] = None"
| "missing_key gdf df ((lk, rk) # ks) =
     (if rk \<notin> set (columns df) then Some rk
      else if \<not> gdf_columns gdf [lk] then Some lk
      else missing_key gdf df ks)"

definition matches :: "pystr list \<Rightarrow> pystr list \<Rightarrow> feature \<Rightarrow> row list \<Rightarrow> row list" where
  "matches left_on right_on f rs =
     filter (\<lambda>r. join_key right_on r = join_key left_on (props f)) rs"

definition merge ::
  "geodataframe \<Rightarrow> dataframe \<Rightarrow> pystr list \<Rightarrow> pystr list \<Rightarrow> (feature \<times> row) list result" where
  "merge gdf df left_on right_on =
     (if length left_on \<noteq> length right_on
      then Inl (ValueError ''len(right_on) must equal len(left_on)'')
      else case missing_key gdf df (zip left_on right_on) of
        Some c \<Rightarrow> Inl (KeyError c)
      | None \<Rightarrow>
          Inr (concat (map (\<lambda>f. map (Pair f) (matches left_on right_on f (rows df))) gdf)))"

text \<open>Reading a dataset with a bounding-box filter.\<close>

definition intersects :: "bbox \<Rightarrow> area_bounds \<Rightarrow> bool" where
  "intersects bb e =
     (case bb of (x0, y0, x1, y1) \<Rightarrow>
        \<not> (max_x e < x0 \<or> x1 < min_x e \<or> max_y e < y0 \<or> y1 < min_y e))"

definition read_file :: "datasets \<Rightarrow> pystr \<Rightarrow> bbox \<Rightarrow> geodataframe result" where
  "read_file ds path bb =
     (case ds path of
        None \<Rightarrow> Inl (DataSourceError path)
      | Some gdf \<Rightarrow> Inr (filter (\<lambda>f. intersects bb (envelope f)) gdf))"

text \<open>Closed forms used in the statements of the lemmas.\<close>

definition finite_values :: "cell list \<Rightarrow> pyfloat list" where
  "finite_values cs = concat (map (\<lambda>c. case c of Num v \<Rightarrow> [v] | _ \<Rightarrow> []) cs)"

definition column_min :: "cell list \<Rightarrow> cell" where
  "column_min cs = (if finite_values cs = [] then NaN else Num (Min (set (finite_values cs))))"

definition column_max :: "cell list \<Rightarrow> cell" where
  "column_max cs = (if finite_values cs = [] then NaN else Num (Max (set (finite_values cs))))"

definition bbox_of :: "area_bounds \<Rightarrow> bbox" where
  "bbox_of b = (min_x b, min_y b, max_x b, max_y b)"

definition features_in :: "geodataframe \<Rightarrow> area_bounds \<Rightarrow> geodataframe" where
  "features_in gdf b = filter (\<lambda>f. intersects (bbox_of b) (envelope f)) gdf"



section \<open>Frames from records\<close>

text \<open>
  \<open>pd.DataFrame(records)\<close> has the keys of the records as columns, and every row carries
  every column.
\<close>

lemma DataFrame_columns: "set (columns (DataFrame recs)) = set (concat (map (map fst) recs))"
  by (simp add: DataFrame_def Let_def)

lemma fst_fill_row [simp]: "map fst (fill_row cols r) = cols"
  by (simp add: fill_row_def comp_def)

lemma DataFrame_rows:
  assumes "r \<in> set (rows (DataFrame recs))"
  shows "fst ` set r = set (columns (DataFrame recs))"
proof -
  from assms obtain r0 where "r = fill_row (columns (DataFrame recs)) r0"
    by (auto simp: DataFrame_def Let_def)
  then have "map fst r = columns (DataFrame recs)" by simp
  then show ?thesis by (simp flip: set_map)
qed

lemma cell_of_fill_row:
  "c \<in> set cols \<Longrightarrow> cell_of (fill_row cols r) c = cell_of r c"
  by (induction cols) (auto simp: fill_row_def cell_of_def split: option.splits)

lemma DataFrame_cells:
  "c \<in> set (columns (DataFrame recs)) \<Longrightarrow>
     map (\<lambda>r. cell_of r c) (rows (DataFrame recs)) = map (\<lambda>r. cell_of r c) recs"
  by (simp add: DataFrame_def Let_def cell_of_fill_row comp_def)

section \<open>Columns\<close>

lemma is_Str_simps [simp]: "is_Str (Str s)" "\<not> is_Str (Num v)" "\<not> is_Str NaN"
  by (simp_all add: is_Str_def)

lemma finite_values_simps [simp]:
  "finite_values [] = []"
  "finite_values (Num v # cs) = v # finite_values cs"
  "finite_values (NaN # cs) = finite_values cs"
  "finite_values (Str s # cs) = finite_values cs"
  by (simp_all add: finite_values_def)

lemma set_finite_values: "set (finite_values cs) = {v. Num v \<in> set cs}"
  by (auto simp: finite_values_def split: cell.splits)

lemma list_ex_is_Str: "list_ex is_Str cs \<longleftrightarrow> (\<exists>s. Str s \<in> set cs)"
  by (induction cs) (auto simp: is_Str_def split: cell.splits)

lemma numbers_ok_iff: "(\<exists>vs. numbers cs = Inr vs) \<longleftrightarrow> (\<forall>s. Str s \<notin> set cs)"
  by (induction cs rule: numbers.induct) (auto simp: rbind_ok_iff)

lemma numbers_set:
  "numbers cs = Inr vs \<Longrightarrow> set vs = {v. Num v \<in> set cs}"
  by (induction cs arbitrary: vs rule: numbers.induct) (auto simp: rbind_ok_iff)

lemma numbers_Str: "Str s \<in> set cs \<Longrightarrow> \<exists>t. numbers cs = Inl (TypeError t)"
  by (induction cs rule: numbers.induct) (auto simp: rbind_raise_iff)

lemma numbers_perm_ok:
  assumes "mset cs = mset cs'" and "numbers cs = Inr vs"
  shows "\<exists>vs'. numbers cs' = Inr vs' \<and> set vs' = set vs"
proof -
  from assms(1) have eq: "set cs = set cs'" by (rule mset_eq_setD)
  from assms(2) have "\<forall>s. Str s \<notin> set cs" using numbers_ok_iff by blast
  with eq obtain vs' where vs': "numbers cs' = Inr vs'"
    using numbers_ok_iff [of cs'] by auto
  with assms(2) eq show ?thesis by (auto simp: numbers_set)
qed

lemma numbers_eq: "\<not> list_ex is_Str cs \<Longrightarrow> numbers cs = Inr (finite_values cs)"
  by (induction cs rule: numbers.induct) simp_all

lemma series_min_eq: "\<not> list_ex is_Str cs \<Longrightarrow> series_min cs = Inr (column_min cs)"
  by (simp add: series_min_def numbers_eq column_min_def)

lemma series_max_eq: "\<not> list_ex is_Str cs \<Longrightarrow> series_max cs = Inr (column_max cs)"
  by (simp add: series_max_def numbers_eq column_max_def)

lemma series_min_Inr_iff: "series_min cs = Inr v \<longleftrightarrow> \<not> list_ex is_Str cs \<and> v = column_min cs"
proof (cases "list_ex is_Str cs")
  case True
  then obtain s where "Str s \<in> set cs" by (auto simp: list_ex_is_Str)
  from numbers_Str [OF this] obtain t where "numbers cs = Inl (TypeError t)" ..
  with True show ?thesis by (simp add: series_min_def)
qed (auto simp: series_min_eq)

lemma series_max_Inr_iff: "series_max cs = Inr v \<longleftrightarrow> \<not> list_ex is_Str cs \<and> v = column_max cs"
proof (cases "list_ex is_Str cs")
  case True
  then obtain s where "Str s \<in> set cs" by (auto simp: list_ex_is_Str)
  from numbers_Str [OF this] obtain t where "numbers cs = Inl (TypeError t)" ..
  with True show ?thesis by (simp add: series_max_def)
qed (auto simp: series_max_eq)

lemma column_min_mset: "mset cs = mset cs' \<Longrightarrow> column_min cs = column_min cs'"
  by (drule mset_eq_setD) (simp add: column_min_def set_finite_values set_empty [symmetric] del: set_empty)

lemma column_max_mset: "mset cs = mset cs' \<Longrightarrow> column_max cs = column_max cs'"
  by (drule mset_eq_setD) (simp add: column_max_def set_finite_values set_empty [symmetric] del: set_empty)

lemma series_ok_iff: "(\<exists>cs. series df c = Inr cs) \<longleftrightarrow> c \<in> set (columns df)"
  by (simp add: series_def)

lemma series_length: "series df c = Inr cs \<Longrightarrow> length cs = length (rows df)"
  by (auto simp: series_def split: if_splits)


section \<open>The join\<close>

lemma missing_key_None_iff:
  "missing_key gdf df ks = None \<longleftrightarrow>
     (\<forall>(lk, rk) \<in> set ks. rk \<in> set (columns df) \<and> gdf_columns gdf [lk])"
  by (induction gdf df ks rule: missing_key.induct) auto

lemma gdf_columns_filter: "gdf_columns gdf cs \<Longrightarrow> gdf_columns (filter P gdf) cs"
  by (simp add: gdf_columns_def list_all_iff)

lemma gdf_columns_mono: "gdf_columns gdf cs \<Longrightarrow> c \<in> set cs \<Longrightarrow> gdf_columns gdf [c]"
  by (simp add: gdf_columns_def list_all_iff)

lemma merge_ok_iff:
  "(\<exists>m. merge gdf df left_on right_on = Inr m) \<longleftrightarrow>
     length left_on = length right_on \<and> missing_key gdf df (zip left_on right_on) = None"
  by (auto simp: merge_def split: option.splits)

lemma set_concat_Pair:
  "(x, y) \<in> set (concat (map (\<lambda>a. map (Pair a) (g a)) xs)) \<longleftrightarrow> x \<in> set xs \<and> y \<in> set (g x)"
  by (induction xs) auto

lemma merge_mem_iff:
  assumes "merge gdf df left_on right_on = Inr m"
  shows "(f, r) \<in> set m \<longleftrightarrow>
     f \<in> set gdf \<and> r \<in> set (rows df) \<and> join_key right_on r = join_key left_on (props f)"
proof -
  from assms have "m = concat (map (\<lambda>f. map (Pair f) (matches left_on right_on f (rows df))) gdf)"
    by (auto simp: merge_def split: if_splits option.splits)
  then show ?thesis by (auto simp: set_concat_Pair matches_def)
qed

lemma merge_empty_iff:
  assumes "merge gdf df left_on right_on = Inr m"
  shows "m = [] \<longleftrightarrow>
     (\<forall>f \<in> set gdf. \<forall>r \<in> set (rows df). join_key right_on r \<noteq> join_key left_on (props f))"
proof -
  have "m = [] \<longleftrightarrow> (\<forall>f r. (f, r) \<notin> set m)"
    by (cases m) force+
  then show ?thesis using merge_mem_iff [OF assms] by blast
qed

lemma merge_features_subseq:
  assumes "merge gdf df left_on right_on = Inr m"
    and "distinct (map (join_key right_on) (rows df))"
  shows "map fst m = filter (\<lambda>f. join_key left_on (props f) \<in> join_key right_on ` set (rows df)) gdf"
proof -
  have one: "map fst (map (Pair f) (matches left_on right_on f rs)) =
      (if join_key left_on (props f) \<in> join_key right_on ` set rs then [f] else [])"
    if "distinct (map (join_key right_on) rs)" for f and rs :: "row list"
    using that by (induction rs) (auto simp: matches_def)
  from assms(1) have "map fst m =
      concat (map (\<lambda>f. map fst (map (Pair f) (matches left_on right_on f (rows df)))) gdf)"
    by (auto simp: merge_def map_concat comp_def split: if_splits option.splits)
  also have "\<dots> = concat (map (\<lambda>f. if join_key left_on (props f) \<in> join_key right_on ` set (rows df)
      then [f] else []) gdf)"
    by (simp only: one [OF assms(2)])
  also have "\<dots> = filter (\<lambda>f. join_key left_on (props f) \<in> join_key right_on ` set (rows df)) gdf"
    by (induction gdf) auto
  finally show ?thesis .
qed


section \<open>Reading\<close>

lemma read_file_eq:
  "read_file ds path (bbox_of b) =
     (case ds path of None \<Rightarrow> Inl (DataSourceError path) | Some gdf \<Rightarrow> Inr (features_in gdf b))"
  by (simp add: read_file_def features_in_def split: option.splits)

lemma read_file_ok_iff: "(\<exists>g. read_file ds path bb = Inr g) \<longleftrightarrow> path \<in> dom ds"
  by (auto simp: read_file_def split: option.splits)

lemma read_file_raise_iff:
  "read_file ds path bb = Inl e \<longleftrightarrow> ds path = None \<and> e = DataSourceError path"
  by (auto simp: read_file_def split: option.splits)

lemma read_file_mem_iff:
  "read_file ds path bb = Inr g \<Longrightarrow>
     f \<in> set g \<longleftrightarrow> (\<exists>all. ds path = Some all \<and> f \<in> set all \<and> intersects bb (envelope f))"
  by (auto simp: read_file_def split: option.splits)

end
