(* ===== verification/Pyplot.thy ===== *)
theory Pyplot
  imports Frames
begin

text \<open>
  The part of the matplotlib interface the sources use. The library is not code of the
  repository; what is modelled is the state its calls leave behind, as far as the
  sources and the properties of the development depend on it.

  \<^item> \<open>axes\<close> is an inset Axes: the rectangle it was created with (in fractions of its
    parent), its label, tick lists, frame flag, data limits and the artists drawn on
    it, oldest first. An Axes starts with limits \<open>(0, 1)\<close>, automatic ticks (\<open>None\<close>)
    and a visible frame.
  \<^item> \<open>figure\<close> is a Figure together with its single top-level Axes (the pair
    \<open>(fig, ax)\<close> of the sources): the figure's number, size and resolution, then the
    fields of the Axes, among them \<open>child_axes\<close>, the list \<open>ax.child_axes\<close> in creation
    order, the legend and the colorbars.
  \<^item> An \<open>artist\<close> is one plotting call on an Axes with the data it drew:
    \<open>BoundaryPlot\<close> for \<open>gdf.boundary.plot(color, linewidth)\<close>, \<open>ColumnPlot\<close> for
    \<open>gdf.plot(column, cmap)\<close> with the range its colours are normalised over,
    \<open>ColorPlot\<close> for \<open>gdf.plot(color)\<close> with one colour per feature, \<open>Hist2D\<close> for the mesh
    of \<open>ax.hist2d\<close> (theory \<open>Histogram\<close>), and \<open>Scatter\<close> for
    \<open>ax.scatter(x, y, s, c, alpha, edgecolor, linewidth)\<close> with sizes and colours as
    lists (a scalar is a list of one; \<open>None\<close> stands for the default size 36 and the
    first colour of the cycle). As in matplotlib, \<open>scatter\<close> raises \<open>ValueError\<close>
    when \<open>x\<close> and \<open>y\<close> differ in length, when the sizes are neither one nor as many as
    the points, and when the colours are neither none, one nor as many as the points, in
    this order; whether a string names a colour is not modelled. As in geopandas, plotting an empty frame
    draws nothing, and \<open>gdf.plot(column, cmap)\<close> without \<open>vmin\<close> and \<open>vmax\<close> normalises
    over the smallest and largest value of the frame it is given; a column with a string
    is plotted by category, without a range. The aspect that geopandas sets on the Axes
    when it plots is not modelled. For the proofs, \<open>fill_artists\<close> and \<open>edge_artists\<close> are
    what \<open>column_plot\<close> and a black boundary plot of width \<open>0.8\<close> add to an Axes,
    \<open>scatter_error\<close> is the exception of \<open>scatter\<close>, if any, and \<open>extent\<close> is the box an
    Axes shows.
  \<^item> \<open>ax_legend_call\<close> is \<open>ax.legend(handles, labels, prop, loc)\<close>; a handle is a
    rectangle patch, represented by its colour and its label.
  \<^item> \<open>pyplot\<close> is the process-wide state of \<open>matplotlib.pyplot\<close>: the numbers of the
    figures registered with it, oldest first, and the one \<open>rcParams\<close> entry the sources
    write. A figure stays registered, and its memory retained, until it is closed.
\<close>

type_synonym rect = "pyfloat \<times> pyfloat \<times> pyfloat \<times> pyfloat"

datatype artist =
    BoundaryPlot geodataframe pystr pyfloat
  | ColumnPlot "(feature \<times> row) list" pystr pystr "(cell \<times> cell) option"
  | ColorPlot geodataframe "cell list"
  | Scatter "pyfloat list" "pyfloat list" "pyfloat list" "pystr list" pyfloat "pystr option"
      "pyfloat option"
  | Hist2D "nat option list list" "pyfloat list" "pyfloat list" pystr pyfloat

record axes =
  label :: pystr
  position :: rect
  xticks :: "pyfloat list option"
  yticks :: "pyfloat list option"
  frame_on :: bool
  xlim :: "pyfloat \<times> pyfloat"
  ylim :: "pyfloat \<times> pyfloat"
  artists :: "artist list"

datatype locator = AutoLocator | MaxNLocator nat | NullLocator

record colorbar =
  cbar_vmin :: cell
  cbar_vmax :: cell
  cbar_cmap :: pystr
  cbar_format :: pystr
  cbar_location :: pystr
  cbar_orientation :: pystr
  cbar_fraction :: pyfloat
  cbar_pad :: pyfloat
  cbar_locator :: locator
  cbar_labelsize :: "nat option"
  cbar_labelfontfamily :: "pystr option"

record legend =
  handles :: "(pystr \<times> pystr) list"
  labels :: "pystr list"
  prop_family :: pystr
  prop_size :: nat
  loc :: pystr

record figure =
  number :: nat
  figsize :: "pyfloat \<times> pyfloat"
  dpi :: nat
  axis_on :: bool
  ax_xticks :: "pyfloat list option"
  ax_yticks :: "pyfloat list option"
  ax_xlim :: "pyfloat \<times> pyfloat"
  ax_ylim :: "pyfloat \<times> pyfloat"
  child_axes :: "axes list"
  ax_legend :: "legend option"
  colorbars :: "colorbar list"

record pyplot =
  fignums :: "nat list"
  max_open_warning :: nat

definition default_max_open_warning :: nat where
  "default_max_open_warning = 20"

definition next_num :: "nat list \<Rightarrow> nat" where
  "next_num allnums = (if allnums = [] then 1 else Max (set allnums) + 1)"

definition new_figure :: "nat \<Rightarrow> pyfloat \<times> pyfloat \<Rightarrow> nat \<Rightarrow> figure" where
  "new_figure n sz d =
     \<lparr>number = n, figsize = sz, dpi = d, axis_on = True, ax_xticks = None, ax_yticks = None,
      ax_xlim = (0, 1), ax_ylim = (0, 1), child_axes = [], ax_legend = None, colorbars = []\<rparr>"

definition subplots :: "pyplot \<Rightarrow> pyfloat \<times> pyfloat \<Rightarrow> nat \<Rightarrow> figure \<times> pyplot" where
  "subplots plt sz d =
     (let n = next_num (fignums plt)
      in (new_figure n sz d, plt\<lparr>fignums := fignums plt @ [n]\<rparr>))"

definition inset_axes :: "rect \<Rightarrow> pystr \<Rightarrow> axes" where
  "inset_axes r lbl =
     \<lparr>label = lbl, position = r, xticks = None, yticks = None, frame_on = True,
      xlim = (0, 1), ylim = (0, 1), artists = []\<rparr>"

definition add_artist :: "artist \<Rightarrow> axes \<Rightarrow> axes" where
  "add_artist a ax = ax\<lparr>artists := artists ax @ [a]\<rparr>"

text \<open>Plotting a frame on an Axes.\<close>

definition boundary_plot :: "geodataframe \<Rightarrow> pystr \<Rightarrow> pyfloat \<Rightarrow> axes \<Rightarrow> axes" where
  "boundary_plot gdf color linewidth ax =
     (if gdf = [] then ax else add_artist (BoundaryPlot gdf color linewidth) ax)"

definition color_plot :: "geodataframe \<Rightarrow> cell list \<Rightarrow> axes \<Rightarrow> axes" where
  "color_plot gdf color ax = (if gdf = [] then ax else add_artist (ColorPlot gdf color) ax)"

definition merged_value :: "pystr \<Rightarrow> feature \<times> row \<Rightarrow> cell" where
  "merged_value c fr = cell_of (props (fst fr) @ snd fr) c"

definition column_plot :: "(feature \<times> row) list \<Rightarrow> pystr \<Rightarrow> pystr \<Rightarrow> axes \<Rightarrow> axes result" where
  "column_plot m c cmap ax =
     (if m = [] then Inr ax
      else if \<not> list_all (\<lambda>fr. c \<in> fst ` set (props (fst fr) @ snd fr)) m then Inl (KeyError c)
      else let vals = map (merged_value c) m in
        if list_ex is_Str vals then Inr (add_artist (ColumnPlot m c cmap None) ax)
        else rbind (series_min vals) (\<lambda>mn. rbind (series_max vals) (\<lambda>mx.
               Inr (add_artist (ColumnPlot m c cmap (Some (mn, mx))) ax))))"

definition scatter ::
  "pyfloat list \<Rightarrow> pyfloat list \<Rightarrow> pyfloat list option \<Rightarrow> pystr list option \<Rightarrow> pyfloat \<Rightarrow>
   pystr option \<Rightarrow> pyfloat option \<Rightarrow> axes \<Rightarrow> axes result" where
  "scatter x y s c alpha edgecolor linewidth ax =
     (let s = (case s of None \<Rightarrow> [36] | Some s \<Rightarrow> s);
          c = (case c of None \<Rightarrow> [''C0''] | Some c \<Rightarrow> c)
      in if length x \<noteq> length y then Inl (ValueError ''x and y must be the same size'')
         else if length s \<noteq> 1 \<and> length s \<noteq> length x
         then Inl (ValueError ''s must be a scalar, or float array-like with the same size as x and y'')
         else if length c \<noteq> 0 \<and> length c \<noteq> 1 \<and> length c \<noteq> length x
         then Inl (ValueError ''c argument is inconsistent with x and y'')
         else Inr (add_artist (Scatter x y s c alpha edgecolor linewidth) ax))"

text \<open>What the two plotting calls add, and what an Axes shows.\<close>

definition has_column :: "(feature \<times> row) list \<Rightarrow> pystr \<Rightarrow> bool" where
  "has_column m c = list_all (\<lambda>fr. c \<in> fst ` set (props (fst fr) @ snd fr)) m"

definition fill_norm :: "(feature \<times> row) list \<Rightarrow> pystr \<Rightarrow> (cell \<times> cell) option" where
  "fill_norm m c =
     (let vals = map (merged_value c) m
      in if list_ex is_Str vals then None else Some (column_min vals, column_max vals))"

definition fill_artists :: "(feature \<times> row) list \<Rightarrow> pystr \<Rightarrow> pystr \<Rightarrow> artist list" where
  "fill_artists m c cmap = (if m = [] then [] else [ColumnPlot m c cmap (fill_norm m c)])"

definition edge_artists :: "geodataframe \<Rightarrow> artist list" where
  "edge_artists g = (if g = [] then [] else [BoundaryPlot g ''black'' 0.8])"

definition scatter_sizes :: "pyfloat list option \<Rightarrow> pyfloat list" where
  "scatter_sizes s = (case s of None \<Rightarrow> [36] | Some s \<Rightarrow> s)"

definition scatter_colors :: "pystr list option \<Rightarrow> pystr list" where
  "scatter_colors c = (case c of None \<Rightarrow> [''C0''] | Some c \<Rightarrow> c)"

definition scatter_error ::
  "pyfloat list \<Rightarrow> pyfloat list \<Rightarrow> pyfloat list option \<Rightarrow> pystr list option \<Rightarrow> py_error option" where
  "scatter_error x y s c =
     (if length x \<noteq> length y then Some (ValueError ''x and y must be the same size'')
      else if length (scatter_sizes s) \<notin> {1, length x}
      then Some (ValueError ''s must be a scalar, or float array-like with the same size as x and y'')
      else if length (scatter_colors c) \<notin> {0, 1, length x}
      then Some (ValueError ''c argument is inconsistent with x and y'')
      else None)"

definition extent :: "axes \<Rightarrow> area_bounds" where
  "extent p = \<lparr>min_x = fst (xlim p), max_x = snd (xlim p), min_y = fst (ylim p), max_y = snd (ylim p)\<rparr>"

definition ax_legend_call ::
  "(pystr \<times> pystr) list \<Rightarrow> pystr list \<Rightarrow> pystr \<Rightarrow> nat \<Rightarrow> pystr \<Rightarrow> figure \<Rightarrow> figure" where
  "ax_legend_call hs ls family sz lc ax =
     ax\<lparr>ax_legend := Some \<lparr>handles = hs, labels = ls, prop_family = family, prop_size = sz,
                              loc = lc\<rparr>\<rparr>"

definition close :: "pyplot \<Rightarrow> nat \<Rightarrow> pyplot" where
  "close plt n = plt\<lparr>fignums := removeAll n (fignums plt)\<rparr>"

definition close_all :: "pyplot \<Rightarrow> pyplot" where
  "close_all plt = plt\<lparr>fignums := []\<rparr>"

definition rcdefaults :: "pyplot \<Rightarrow> pyplot" where
  "rcdefaults plt = plt\<lparr>max_open_warning := default_max_open_warning\<rparr>"


section \<open>The figure registry\<close>

lemma next_num_fresh: "next_num ns \<notin> set ns"
proof (cases "ns = []")
  case True
  then show ?thesis by simp
next
  case False
  then have "\<forall>n \<in> set ns. n < next_num ns"
    by (auto simp: next_num_def less_Suc_eq_le)
  then show ?thesis by auto
qed

lemma next_num_snoc: "next_num (ns @ [next_num ns]) = next_num ns + 1"
proof (cases "ns = []")
  case False
  then have "Max (insert (Max (set ns) + 1) (set ns)) = Max (set ns) + 1"
    by (subst Max_insert) (simp_all add: max_def)
  with False show ?thesis by (simp add: next_num_def)
qed (simp add: next_num_def)

lemma next_num_pos: "0 < next_num ns"
  by (simp add: next_num_def)

lemma subplots_number: "number (fst (subplots plt sz d)) = next_num (fignums plt)"
  by (simp add: subplots_def new_figure_def Let_def)

lemma subplots_fignums:
  "fignums (snd (subplots plt sz d)) = fignums plt @ [next_num (fignums plt)]"
  by (simp add: subplots_def Let_def)

lemma subplots_fresh: "number (fst (subplots plt sz d)) \<notin> set (fignums plt)"
  by (simp add: subplots_number next_num_fresh)

lemma subplots_registered:
  "number (fst (subplots plt sz d)) \<in> set (fignums (snd (subplots plt sz d)))"
  by (simp add: subplots_number subplots_fignums)

lemma subplots_distinct:
  "distinct (fignums plt) \<Longrightarrow> distinct (fignums (snd (subplots plt sz d)))"
  by (simp add: subplots_fignums next_num_fresh)

lemma subplots_rc [simp]:
  "max_open_warning (snd (subplots plt sz d)) = max_open_warning plt"
  by (simp add: subplots_def Let_def)

lemma close_fignums [simp]: "fignums (close plt n) = removeAll n (fignums plt)"
  by (simp add: close_def)

lemma close_rc [simp]: "max_open_warning (close plt n) = max_open_warning plt"
  by (simp add: close_def)

lemma close_all_fignums [simp]: "fignums (close_all plt) = []"
  by (simp add: close_all_def)

lemma close_all_rc [simp]: "max_open_warning (close_all plt) = max_open_warning plt"
  by (simp add: close_all_def)

lemma rcdefaults_fignums [simp]: "fignums (rcdefaults plt) = fignums plt"
  by (simp add: rcdefaults_def)

lemma rcdefaults_rc [simp]: "max_open_warning (rcdefaults plt) = default_max_open_warning"
  by (simp add: rcdefaults_def)

lemma close_subplots:
  "fignums (close (snd (subplots plt sz d)) (number (fst (subplots plt sz d)))) = fignums plt"
  by (simp add: subplots_number subplots_fignums next_num_fresh)

lemma close_distinct: "distinct (fignums plt) \<Longrightarrow> distinct (fignums (close plt n))"
  by (simp add: distinct_removeAll)


section \<open>Axes\<close>

lemma add_artist_fields [simp]:
  "label (add_artist a ax) = label ax"
  "position (add_artist a ax) = position ax"
  "xlim (add_artist a ax) = xlim ax"
  "ylim (add_artist a ax) = ylim ax"
  "frame_on (add_artist a ax) = frame_on ax"
  "artists (add_artist a ax) = artists ax @ [a]"
  by (simp_all add: add_artist_def)

lemma boundary_plot_fields [simp]:
  "label (boundary_plot g c w ax) = label ax"
  "position (boundary_plot g c w ax) = position ax"
  "xlim (boundary_plot g c w ax) = xlim ax"
  "ylim (boundary_plot g c w ax) = ylim ax"
  "frame_on (boundary_plot g c w ax) = frame_on ax"
  by (simp_all add: boundary_plot_def)

lemma boundary_plot_edge:
  "boundary_plot g ''black'' 0.8 ax = ax\<lparr>artists := artists ax @ edge_artists g\<rparr>"
  by (simp add: boundary_plot_def add_artist_def edge_artists_def)

lemma column_plot_Nil [simp]: "column_plot [] c cmap ax = Inr ax"
  by (simp add: column_plot_def)

lemma column_plot_eq:
  "column_plot m c cmap ax =
     (if m \<noteq> [] \<and> \<not> has_column m c then Inl (KeyError c)
      else Inr (ax\<lparr>artists := artists ax @ fill_artists m c cmap\<rparr>))"
  by (simp add: column_plot_def has_column_def fill_artists_def fill_norm_def Let_def
      series_min_eq series_max_eq add_artist_def)

lemma scatter_eq:
  "scatter x y s c alpha ec lw ax =
     (case scatter_error x y s c of
        Some e \<Rightarrow> Inl e
      | None \<Rightarrow> Inr (ax\<lparr>artists := artists ax @
                 [Scatter x y (scatter_sizes s) (scatter_colors c) alpha ec lw]\<rparr>))"
  by (simp add: scatter_def scatter_error_def scatter_sizes_def scatter_colors_def add_artist_def
      Let_def)

lemma scatter_error_None_iff:
  "scatter_error x y s c = None \<longleftrightarrow>
     length x = length y \<and> length (scatter_sizes s) \<in> {1, length x} \<and>
     length (scatter_colors c) \<in> {0, 1, length x}"
  by (simp add: scatter_error_def)

lemma scatter_error_ValueError: "scatter_error x y s c = Some e \<Longrightarrow> \<exists>msg. e = ValueError msg"
  by (auto simp: scatter_error_def split: if_splits)

lemma extent_artists [simp]: "extent (ax\<lparr>artists := as\<rparr>) = extent ax"
  by (simp add: extent_def)

lemma edge_artists_Nil [simp]: "edge_artists [] = []"
  by (simp add: edge_artists_def)

lemma edge_artists_last: "g \<noteq> [] \<Longrightarrow> last (as @ edge_artists g) = BoundaryPlot g ''black'' 0.8"
  by (simp add: edge_artists_def)

end
