(* ===== verification/GeoPlot.thy ===== *)
theory GeoPlot
  imports Pyplot
begin

text \<open>
  The layout engine: class \<^verbatim>\<open>GeoPlot\<close> of \<^verbatim>\<open>src/src/core.py\<close>.

  \<open>GeoPlot_init\<close> is the constructor, \<open>cal_insert_ax_height\<close> and \<open>inset\<close> are the methods
  \<^verbatim>\<open>_cal_insert_ax_height\<close> and \<^verbatim>\<open>_inset\<close>, and \<open>base\<close> is the method \<^verbatim>\<open>base\<close>, which
  creates the figure and places one inset Axes per region. The constructor of the source
  instantiates \<^verbatim>\<open>FigConfig\<close>; here the configuration is an argument, and
  \<open>GeoPlot_init FigConfig\<close> is the object the program builds.

  \<open>base\<close> returns the state of pyplot beside its result, because the figure it creates is
  registered with pyplot before anything can fail: a \<open>KeyError\<close> for a region missing
  from the table or a \<open>ZeroDivisionError\<close> for a region of zero width leaves that figure
  registered.

  The definitions \<open>panel\<close>, \<open>place\<close> and \<open>layout_labels\<close> are not code: they name the
  inset that \<open>inset\<close> builds, one block of \<open>base\<close>, and the labels in the order in which
  \<open>base\<close> places them, and the lemmas are stated with them.
\<close>

record GeoPlot =
  fig_config :: fig_config
  area_list :: "(nat \<times> pystr) list"

definition GeoPlot_init :: "fig_config \<Rightarrow> GeoPlot" where
  "GeoPlot_init cfg = \<lparr>fig_config = cfg, area_list = enumerate 0 (map fst (AREA_RANGE cfg))\<rparr>"

definition cal_insert_ax_height :: "area_bounds \<Rightarrow> pyfloat \<Rightarrow> pyfloat result" where
  "cal_insert_ax_height b width =
     rbind (truediv (max_y b - min_y b) (max_x b - min_x b)) (\<lambda>aspect.
     let height = width * aspect in Inr height)"

definition inset :: "GeoPlot \<Rightarrow> figure \<Rightarrow> rect \<Rightarrow> pystr \<Rightarrow> bool \<Rightarrow> figure result" where
  "inset self ax rect lbl frame =
     (let ax_in = inset_axes rect lbl;
          ax_in = ax_in\<lparr>xticks := Some [], yticks := Some [], frame_on := frame\<rparr>
      in rbind (getitem_str (AREA_RANGE (fig_config self)) lbl) (\<lambda>area_info.
         let ax_in = ax_in\<lparr>xlim := (min_x (bounds area_info), max_x (bounds area_info)),
                           ylim := (min_y (bounds area_info), max_y (bounds area_info))\<rparr>
         in Inr (ax\<lparr>child_axes := child_axes ax @ [ax_in]\<rparr>)))"

definition base :: "GeoPlot \<Rightarrow> pyplot \<Rightarrow> figure result \<times> pyplot" where
  "base self plt =
    (let (fig, plt) = subplots plt (SIZE (fig_config self)) (DPI (fig_config self));
         ax = fig\<lparr>axis_on := False, ax_xticks := Some [], ax_yticks := Some [],
                  ax_xlim := (118.93, 122.7), ax_ylim := (21.5, 25.5)\<rparr>;
         area_range = AREA_RANGE (fig_config self)
     in (rbind (inset self ax (0, 0, 1, 1) ''taiwan'' False) (\<lambda>ax.
         let x0 = 0.02; x1 = 0.19; w0 = 0.21; w1 = 0.06; y = 0.35 in
         rbind (getitem_str area_range ''penghu'') (\<lambda>a.
         rbind (cal_insert_ax_height (bounds a) w0) (\<lambda>h.
         rbind (inset self ax (x0, y, w0, h) ''penghu'' True) (\<lambda>ax.
         let y = y + h + 0.01 in
         rbind (getitem_str area_range ''kinmen'') (\<lambda>a.
         rbind (cal_insert_ax_height (bounds a) w0) (\<lambda>h.
         rbind (inset self ax (x0, y, w0, h) ''kinmen'' True) (\<lambda>ax.
         rbind (getitem_str area_range ''kinmen-wuqiu'') (\<lambda>a.
         rbind (cal_insert_ax_height (bounds a) w1) (\<lambda>h'.
         rbind (inset self ax (x1, y + h' - 0.02, w1, h') ''kinmen-wuqiu'' True) (\<lambda>ax.
         let y = y + h + 0.01 in
         rbind (getitem_str area_range ''lienchiang'') (\<lambda>a.
         rbind (cal_insert_ax_height (bounds a) w0) (\<lambda>h.
         rbind (inset self ax (x0, y, w0, h) ''lienchiang'' True) (\<lambda>ax.
         rbind (getitem_str area_range ''lienchiang-dongyin'') (\<lambda>a.
         rbind (cal_insert_ax_height (bounds a) w1) (\<lambda>h'.
         rbind (inset self ax (x1, y + h' - 0.03, w1, h') ''lienchiang-dongyin'' True) (\<lambda>ax.
         rbind (getitem_str area_range ''lienchiang-juguang'') (\<lambda>a.
         rbind (cal_insert_ax_height (bounds a) w1) (\<lambda>h'.
         rbind (inset self ax (x1, y + h' + 0.05, w1, h') ''lienchiang-juguang'' True) (\<lambda>ax.
         Inr ax))))))))))))))))))), plt))"


section \<open>Specification of the layout\<close>

text \<open>
  The inset Axes that \<open>inset\<close> builds for a label, a rectangle, a frame flag and the
  region's bounding box.
\<close>

definition panel :: "pystr \<Rightarrow> rect \<Rightarrow> bool \<Rightarrow> area_bounds \<Rightarrow> axes" where
  "panel lbl r frame b =
     \<lparr>label = lbl, position = r, xticks = Some [], yticks = Some [], frame_on = frame,
      xlim = (min_x b, max_x b), ylim = (min_y b, max_y b), artists = []\<rparr>"

definition aspect :: "area_bounds \<Rightarrow> pyfloat" where
  "aspect b = (max_y b - min_y b) / (max_x b - min_x b)"

text \<open>
  One block of \<open>base\<close>: look the region up, compute the height for the given width, and
  place the inset at the rectangle \<open>pos h\<close>.
\<close>

definition place ::
  "GeoPlot \<Rightarrow> pystr \<Rightarrow> pyfloat \<Rightarrow> (pyfloat \<Rightarrow> rect) \<Rightarrow> figure \<Rightarrow> (figure \<times> pyfloat) result" where
  "place self lbl w pos ax =
     rbind (getitem_str (AREA_RANGE (fig_config self)) lbl) (\<lambda>a.
     rbind (cal_insert_ax_height (bounds a) w) (\<lambda>h.
     rbind (inset self ax (pos h) lbl True) (\<lambda>ax. Inr (ax, h))))"

definition layout_labels :: "pystr list" where
  "layout_labels =
     [''taiwan'', ''penghu'', ''kinmen'', ''kinmen-wuqiu'', ''lienchiang'',
      ''lienchiang-dongyin'', ''lienchiang-juguang'']"

text \<open>
  The layout in closed form, for a function \<open>B\<close> from labels to bounding boxes: the
  three outlying groups are stacked from \<open>y = 0.35\<close> upwards with gaps of \<open>0.01\<close>, each
  \<open>0.21\<close> wide and as high as its aspect ratio demands; the sub-groups are \<open>0.06\<close> wide
  and sit at \<open>x = 0.19\<close>, offset from the bottom of their group's panel.
\<close>

definition h0 :: "(pystr \<Rightarrow> area_bounds) \<Rightarrow> pystr \<Rightarrow> pyfloat" where
  "h0 B l = 0.21 * aspect (B l)"

definition h1 :: "(pystr \<Rightarrow> area_bounds) \<Rightarrow> pystr \<Rightarrow> pyfloat" where
  "h1 B l = 0.06 * aspect (B l)"

definition y_penghu :: pyfloat where
  "y_penghu = 0.35"

definition y_kinmen :: "(pystr \<Rightarrow> area_bounds) \<Rightarrow> pyfloat" where
  "y_kinmen B = 0.35 + h0 B ''penghu'' + 0.01"

definition y_lienchiang :: "(pystr \<Rightarrow> area_bounds) \<Rightarrow> pyfloat" where
  "y_lienchiang B = 0.35 + h0 B ''penghu'' + h0 B ''kinmen'' + 0.02"

definition layout :: "(pystr \<Rightarrow> area_bounds) \<Rightarrow> axes list" where
  "layout B =
     [panel ''taiwan'' (0, 0, 1, 1) False (B ''taiwan''),
      panel ''penghu'' (0.02, y_penghu, 0.21, h0 B ''penghu'') True (B ''penghu''),
      panel ''kinmen'' (0.02, y_kinmen B, 0.21, h0 B ''kinmen'') True (B ''kinmen''),
      panel ''kinmen-wuqiu''
        (0.19, y_kinmen B + h1 B ''kinmen-wuqiu'' - 0.02, 0.06, h1 B ''kinmen-wuqiu'') True
        (B ''kinmen-wuqiu''),
      panel ''lienchiang'' (0.02, y_lienchiang B, 0.21, h0 B ''lienchiang'') True
        (B ''lienchiang''),
      panel ''lienchiang-dongyin''
        (0.19, y_lienchiang B + h1 B ''lienchiang-dongyin'' - 0.03, 0.06,
         h1 B ''lienchiang-dongyin'') True
        (B ''lienchiang-dongyin''),
      panel ''lienchiang-juguang''
        (0.19, y_lienchiang B + h1 B ''lienchiang-juguang'' + 0.05, 0.06,
         h1 B ''lienchiang-juguang'') True
        (B ''lienchiang-juguang'')]"

text \<open>The bounding box a region table gives a label, and the figure \<open>base\<close> starts from.\<close>

definition bounds_of :: "area_range \<Rightarrow> pystr \<Rightarrow> area_bounds" where
  "bounds_of ar l = bounds (the (map_of ar l))"

definition base_figure :: "GeoPlot \<Rightarrow> pyplot \<Rightarrow> figure" where
  "base_figure self plt =
     (new_figure (next_num (fignums plt)) (SIZE (fig_config self)) (DPI (fig_config self)))
       \<lparr>axis_on := False, ax_xticks := Some [], ax_yticks := Some [],
        ax_xlim := (118.93, 122.7), ax_ylim := (21.5, 25.5)\<rparr>"

text \<open>
  The exception \<open>base\<close> ends with: that of the first label, in placement order, that is
  missing from the table or, for an inset whose height is computed, has zero width.
\<close>

fun first_error :: "area_range \<Rightarrow> pystr list \<Rightarrow> py_error option" where
  "first_error ar [] = None"
| "first_error ar (l # ls) =
     (case map_of ar l of
        None \<Rightarrow> Some (KeyError l)
      | Some a \<Rightarrow>
          if l \<noteq> ''taiwan'' \<and> max_x (bounds a) = min_x (bounds a) then Some ZeroDivisionError
          else first_error ar ls)"

text \<open>Rectangles in axes fractions.\<close>

definition rect_in_unit :: "rect \<Rightarrow> bool" where
  "rect_in_unit r =
     (case r of (x, y, w, h) \<Rightarrow> 0 \<le> x \<and> 0 \<le> y \<and> 0 < w \<and> 0 < h \<and> x + w \<le> 1 \<and> y + h \<le> 1)"

definition rects_disjoint :: "rect \<Rightarrow> rect \<Rightarrow> bool" where
  "rects_disjoint r r' =
     (case r of (x, y, w, h) \<Rightarrow> case r' of (x', y', w', h') \<Rightarrow>
        x + w \<le> x' \<or> x' + w' \<le> x \<or> y + h \<le> y' \<or> y' + h' \<le> y)"

definition aspect_locked :: "axes \<Rightarrow> bool" where
  "aspect_locked ax =
     (case position ax of (x, y, w, h) \<Rightarrow>
        h * (snd (xlim ax) - fst (xlim ax)) = w * (snd (ylim ax) - fst (ylim ax)))"

definition rect_bottom :: "rect \<Rightarrow> pyfloat" where
  "rect_bottom r = (case r of (x, y, w, h) \<Rightarrow> y)"

definition rect_top :: "rect \<Rightarrow> pyfloat" where
  "rect_top r = (case r of (x, y, w, h) \<Rightarrow> y + h)"

text \<open>Sample inputs: the object the program builds, a fresh pyplot, and the figure they give.\<close>

definition shipped :: GeoPlot where
  "shipped = GeoPlot_init FigConfig"

definition plt0 :: pyplot where
  "plt0 = \<lparr>fignums = [], max_open_warning = 0\<rparr>"

definition shipped_figure :: figure where
  "shipped_figure =
     (base_figure shipped plt0)\<lparr>child_axes := layout (bounds_of FigConfig_AREA_RANGE)\<rparr>"

text \<open>Further sample tables: one more region, no region, a region of zero width.\<close>

definition eight_regions :: fig_config where
  "eight_regions =
     FigConfig\<lparr>AREA_RANGE := FigConfig_AREA_RANGE @
       [(''lanyu'', \<lparr>name = ''Lanyu'', level = 1, center = (121.55, 22.05),
          bounds = \<lparr>min_x = 121.45, max_x = 121.65, min_y = 21.9, max_y = 22.1\<rparr>\<rparr>)]\<rparr>"

definition no_regions :: fig_config where
  "no_regions = FigConfig\<lparr>AREA_RANGE := []\<rparr>"

definition flat_penghu :: fig_config where
  "flat_penghu =
     FigConfig\<lparr>AREA_RANGE := map (\<lambda>(k, a). if k = ''penghu''
        then (k, a\<lparr>bounds := (bounds a)\<lparr>max_x := min_x (bounds a)\<rparr>\<rparr>) else (k, a)) FigConfig_AREA_RANGE\<rparr>"


section \<open>The operations, as equations\<close>

lemma area_list_init [simp]:
  "area_list (GeoPlot_init cfg) = enumerate 0 (map fst (AREA_RANGE cfg))"
  "fig_config (GeoPlot_init cfg) = cfg"
  by (simp_all add: GeoPlot_init_def)

lemma cal_insert_ax_height_eq:
  "cal_insert_ax_height b w =
     (if max_x b = min_x b then Inl ZeroDivisionError else Inr (w * aspect b))"
  by (simp add: cal_insert_ax_height_def truediv_def aspect_def)

lemma inset_eq:
  "inset self ax r lbl fr =
     (case map_of (AREA_RANGE (fig_config self)) lbl of
        None \<Rightarrow> Inl (KeyError lbl)
      | Some a \<Rightarrow> Inr (ax\<lparr>child_axes := child_axes ax @ [panel lbl r fr (bounds a)]\<rparr>))"
  by (simp add: inset_def getitem_def panel_def inset_axes_def Let_def split: option.splits)

lemma place_eq:
  "place self lbl w pos ax =
     (case map_of (AREA_RANGE (fig_config self)) lbl of
        None \<Rightarrow> Inl (KeyError lbl)
      | Some a \<Rightarrow>
          if max_x (bounds a) = min_x (bounds a) then Inl ZeroDivisionError
          else Inr (ax\<lparr>child_axes := child_axes ax @
                         [panel lbl (pos (w * aspect (bounds a))) True (bounds a)]\<rparr>,
                    w * aspect (bounds a)))"
  by (simp add: place_def getitem_def cal_insert_ax_height_eq inset_eq split: option.splits)

text \<open>\<open>base\<close> is the placement of the main panel followed by six blocks.\<close>

lemma base_places:
  "fst (base self plt) =
     rbind (inset self (base_figure self plt) (0, 0, 1, 1) ''taiwan'' False) (\<lambda>ax.
     rbind (place self ''penghu'' 0.21 (\<lambda>h. (0.02, 0.35, 0.21, h)) ax) (\<lambda>(ax, h).
     let y = 0.35 + h + 0.01 in
     rbind (place self ''kinmen'' 0.21 (\<lambda>h. (0.02, y, 0.21, h)) ax) (\<lambda>(ax, h).
     rbind (place self ''kinmen-wuqiu'' 0.06 (\<lambda>h'. (0.19, y + h' - 0.02, 0.06, h')) ax) (\<lambda>(ax, h').
     let y = y + h + 0.01 in
     rbind (place self ''lienchiang'' 0.21 (\<lambda>h. (0.02, y, 0.21, h)) ax) (\<lambda>(ax, h).
     rbind (place self ''lienchiang-dongyin'' 0.06 (\<lambda>h'. (0.19, y + h' - 0.03, 0.06, h')) ax) (\<lambda>(ax, h').
     rbind (place self ''lienchiang-juguang'' 0.06 (\<lambda>h'. (0.19, y + h' + 0.05, 0.06, h')) ax) (\<lambda>(ax, h').
     Inr ax)))))))"
  by (simp add: base_def place_def base_figure_def subplots_def Let_def rbind_assoc)

lemma base_plt:
  "snd (base self plt) = plt\<lparr>fignums := fignums plt @ [next_num (fignums plt)]\<rparr>"
  by (simp add: base_def subplots_def Let_def)

text \<open>
  The refinement lemma: the figure \<open>base\<close> returns carries the closed-form layout, and
  the exception it raises is the first error of the table.
\<close>

lemma base_eq:
  "fst (base self plt) =
     (case first_error (AREA_RANGE (fig_config self)) layout_labels of
        Some e \<Rightarrow> Inl e
      | None \<Rightarrow> Inr ((base_figure self plt)
            \<lparr>child_axes := layout (bounds_of (AREA_RANGE (fig_config self)))\<rparr>))"
  by (simp add: base_places place_eq inset_eq layout_labels_def layout_def bounds_of_def
      h0_def h1_def y_penghu_def y_kinmen_def y_lienchiang_def base_figure_def new_figure_def Let_def
      split: option.splits)

lemma base_Inr_iff:
  "fst (base self plt) = Inr fig \<longleftrightarrow>
     first_error (AREA_RANGE (fig_config self)) layout_labels = None \<and>
     fig = (base_figure self plt)\<lparr>child_axes := layout (bounds_of (AREA_RANGE (fig_config self)))\<rparr>"
  by (auto simp: base_eq split: option.splits)

lemma base_Inl_iff:
  "fst (base self plt) = Inl e \<longleftrightarrow>
     first_error (AREA_RANGE (fig_config self)) layout_labels = Some e"
  by (auto simp: base_eq split: option.splits)


section \<open>Errors of the table\<close>

lemma first_error_None_iff:
  "first_error ar ls = None \<longleftrightarrow>
     (\<forall>l \<in> set ls. \<exists>a. map_of ar l = Some a \<and>
        (l \<noteq> ''taiwan'' \<longrightarrow> max_x (bounds a) \<noteq> min_x (bounds a)))"
  by (induction ls) (auto split: option.splits)

lemma first_error_Some:
  "first_error ar ls = Some e \<Longrightarrow>
     (\<exists>l \<in> set ls. map_of ar l = None \<and> e = KeyError l) \<or>
     (\<exists>l \<in> set ls. \<exists>a. l \<noteq> ''taiwan'' \<and> map_of ar l = Some a \<and>
        max_x (bounds a) = min_x (bounds a) \<and> e = ZeroDivisionError)"
  by (induction ls) (auto split: option.splits if_splits)

lemma nth_key_map_of: "i < length ar \<Longrightarrow> \<exists>r. map_of ar (map fst ar ! i) = Some r"
  by (cases "map_of ar (map fst ar ! i)") (auto simp: map_of_eq_None_iff)

lemma first_error_None_keys:
  "first_error ar ls = None \<Longrightarrow> set ls \<subseteq> set (map fst ar)"
proof
  fix l assume "first_error ar ls = None" and "l \<in> set ls"
  then obtain a where "map_of ar l = Some a" by (auto simp: first_error_None_iff)
  then have "(l, a) \<in> set ar" by (rule map_of_SomeD)
  then show "l \<in> set (map fst ar)" by force
qed

lemma first_error_None_length:
  assumes "first_error ar layout_labels = None"
  shows "7 \<le> length ar"
proof -
  have "card (set layout_labels) = 7"
    using distinct_card [of layout_labels] by (simp add: layout_labels_def)
  moreover have "card (set layout_labels) \<le> card (set (map fst ar))"
    using first_error_None_keys [OF assms] by (intro card_mono) simp_all
  moreover have "card (set (map fst ar)) \<le> length (map fst ar)" by (rule card_length)
  ultimately show ?thesis by simp
qed


section \<open>The closed-form layout\<close>

lemma panel_fields [simp]:
  "label (panel l r fr b) = l"
  "position (panel l r fr b) = r"
  "frame_on (panel l r fr b) = fr"
  "xlim (panel l r fr b) = (min_x b, max_x b)"
  "ylim (panel l r fr b) = (min_y b, max_y b)"
  "xticks (panel l r fr b) = Some []"
  "yticks (panel l r fr b) = Some []"
  "artists (panel l r fr b) = []"
  by (simp_all add: panel_def)

lemma distinct_layout_labels: "distinct layout_labels"
  by (simp add: layout_labels_def)

lemma length_layout_labels [simp]: "length layout_labels = 7"
  by (simp add: layout_labels_def)

lemma layout_labels_layout [simp]: "map label (layout B) = layout_labels"
  by (simp add: layout_def layout_labels_def)

lemma length_layout [simp]: "length (layout B) = 7"
  by (simp add: layout_def)

lemma layout_mem:
  "ax \<in> set (layout B) \<Longrightarrow>
     label ax \<in> set layout_labels \<and>
     xlim ax = (min_x (B (label ax)), max_x (B (label ax))) \<and>
     ylim ax = (min_y (B (label ax)), max_y (B (label ax))) \<and>
     xticks ax = Some [] \<and> yticks ax = Some [] \<and> artists ax = [] \<and>
     (frame_on ax \<longleftrightarrow> label ax \<noteq> ''taiwan'')"
  by (auto simp: layout_def layout_labels_def)

lemma extent_layout: "p \<in> set (layout B) \<Longrightarrow> extent p = B (label p)"
  by (drule layout_mem) (simp add: extent_def)

lemma layout_nth:
  assumes "i < 7"
  shows "label (layout B ! i) = layout_labels ! i" "artists (layout B ! i) = []"
    "extent (layout B ! i) = B (layout_labels ! i)"
proof -
  from assms have m: "layout B ! i \<in> set (layout B)" by simp
  have "map label (layout B) ! i = layout_labels ! i" by simp
  with assms show l: "label (layout B ! i) = layout_labels ! i" by (simp del: layout_labels_layout)
  from layout_mem [OF m] show "artists (layout B ! i) = []" by simp
  from extent_layout [OF m] l show "extent (layout B ! i) = B (layout_labels ! i)" by simp
qed

lemma panel_aspect_locked:
  "max_x b \<noteq> min_x b \<Longrightarrow> h = w * aspect b \<Longrightarrow> aspect_locked (panel l (x, y, w, h) fr b)"
  by (simp add: aspect_locked_def aspect_def)

lemma layout_aspect:
  "ax \<in> set (layout B) \<Longrightarrow> label ax \<noteq> ''taiwan'' \<Longrightarrow>
     max_x (B (label ax)) \<noteq> min_x (B (label ax)) \<Longrightarrow> aspect_locked ax"
  by (auto simp: layout_def h0_def h1_def intro!: panel_aspect_locked)

lemma layout_positions:
  "map position (layout B) =
     [(0, 0, 1, 1),
      (0.02, y_penghu, 0.21, h0 B ''penghu''),
      (0.02, y_kinmen B, 0.21, h0 B ''kinmen''),
      (0.19, y_kinmen B + h1 B ''kinmen-wuqiu'' - 0.02, 0.06, h1 B ''kinmen-wuqiu''),
      (0.02, y_lienchiang B, 0.21, h0 B ''lienchiang''),
      (0.19, y_lienchiang B + h1 B ''lienchiang-dongyin'' - 0.03, 0.06, h1 B ''lienchiang-dongyin''),
      (0.19, y_lienchiang B + h1 B ''lienchiang-juguang'' + 0.05, 0.06, h1 B ''lienchiang-juguang'')]"
  by (simp add: layout_def)

lemma base_child_axes:
  "fst (base self plt) = Inr ax \<Longrightarrow> child_axes ax = layout (bounds_of (AREA_RANGE (fig_config self)))"
  by (simp add: base_Inr_iff)

lemma base_number: "fst (base self plt) = Inr fig \<Longrightarrow> number fig = next_num (fignums plt)"
  by (simp add: base_Inr_iff base_figure_def new_figure_def)

lemma base_colorbars: "fst (base self plt) = Inr ax \<Longrightarrow> colorbars ax = []"
  by (simp add: base_Inr_iff base_figure_def new_figure_def)

lemma base_positions:
  "fst (base self plt) = Inr fig \<Longrightarrow>
     map position (child_axes fig) = map position (layout (bounds_of (AREA_RANGE (fig_config self))))"
  by (simp add: base_Inr_iff)

lemma base_child_nth:
  assumes "fst (base self plt) = Inr fig" and "i < 7"
  shows "position (child_axes fig ! i) =
     map position (layout (bounds_of (AREA_RANGE (fig_config self)))) ! i"
  using assms by (simp add: base_Inr_iff del: layout_labels_layout)

lemma valid_bounds_aspect_pos: "valid_bounds b \<Longrightarrow> 0 < aspect b"
  by (simp add: valid_bounds_def aspect_def)


section \<open>The shipped table\<close>

lemma bounds_of_FigConfig [simp]:
  "bounds_of FigConfig_AREA_RANGE ''taiwan'' =
     \<lparr>min_x = 118.9, max_x = 122.6, min_y = 21.75, max_y = 25.35\<rparr>"
  "bounds_of FigConfig_AREA_RANGE ''penghu'' =
     \<lparr>min_x = 119.3, max_x = 119.74, min_y = 23.16, max_y = 23.86\<rparr>"
  "bounds_of FigConfig_AREA_RANGE ''kinmen'' =
     \<lparr>min_x = 118.1, max_x = 118.6, min_y = 24.34, max_y = 24.56\<rparr>"
  "bounds_of FigConfig_AREA_RANGE ''kinmen-wuqiu'' =
     \<lparr>min_x = 119.42, max_x = 119.5, min_y = 24.96, max_y = 25.02\<rparr>"
  "bounds_of FigConfig_AREA_RANGE ''lienchiang'' =
     \<lparr>min_x = 119.86, max_x = 120.1, min_y = 26.12, max_y = 26.30\<rparr>"
  "bounds_of FigConfig_AREA_RANGE ''lienchiang-dongyin'' =
     \<lparr>min_x = 120.45, max_x = 120.52, min_y = 26.34, max_y = 26.4\<rparr>"
  "bounds_of FigConfig_AREA_RANGE ''lienchiang-juguang'' =
     \<lparr>min_x = 119.91, max_x = 120, min_y = 25.93, max_y = 26\<rparr>"
  by (simp_all add: bounds_of_def FigConfig_AREA_RANGE_def)

lemma first_error_FigConfig: "first_error FigConfig_AREA_RANGE layout_labels = None"
  by (simp add: FigConfig_AREA_RANGE_def layout_labels_def)

lemma base_FigConfig:
  "fst (base (GeoPlot_init FigConfig) plt) =
     Inr ((base_figure (GeoPlot_init FigConfig) plt)
            \<lparr>child_axes := layout (bounds_of FigConfig_AREA_RANGE)\<rparr>)"
  by (simp add: base_eq first_error_FigConfig)

lemma layout_FigConfig_positions:
  "map position (layout (bounds_of FigConfig_AREA_RANGE)) =
     [(0, 0, 1, 1),
      (1 / 50, 7 / 20, 21 / 100, 147 / 440),
      (1 / 50, 1527 / 2200, 21 / 100, 231 / 2500),
      (19 / 100, 791 / 1100, 3 / 50, 9 / 200),
      (1 / 50, 43807 / 55000, 21 / 100, 63 / 400),
      (19 / 100, 314899 / 385000, 3 / 50, 9 / 175),
      (19 / 100, 147371 / 165000, 3 / 50, 7 / 150)]"
  by (simp add: layout_positions h0_def h1_def aspect_def y_penghu_def y_kinmen_def y_lienchiang_def)

lemma layout_labels_FigConfig: "map fst (AREA_RANGE FigConfig) = layout_labels"
  by (simp add: AREA_RANGE_keys layout_labels_def)

lemma base_shipped: "fst (base shipped plt0) = Inr shipped_figure"
  by (simp add: shipped_def shipped_figure_def base_FigConfig)

lemma fig_config_shipped [simp]: "fig_config shipped = FigConfig"
  by (simp add: shipped_def)

lemma child_axes_shipped [simp]:
  "child_axes shipped_figure = layout (bounds_of FigConfig_AREA_RANGE)"
  by (simp add: shipped_figure_def)


section \<open>Properties of the layout\<close>

text \<open>Claim C5: whenever \<open>base\<close> returns a figure, addressing the panels by the index of
  \<open>area_list\<close>, as every renderer does, reaches the panel of that region for every
  region exactly when the region table enumerates its keys in the order in which
  \<open>base\<close> places the panels.\<close>

theorem base_panel_region_iff:
  assumes "fst (base (GeoPlot_init cfg) plt) = Inr fig"
  shows "(\<forall>(i, a) \<in> set (area_list (GeoPlot_init cfg)).
            i < length (child_axes fig) \<and> label (child_axes fig ! i) = a)
         \<longleftrightarrow> map fst (AREA_RANGE cfg) = layout_labels"
proof -
  let ?ks = "map fst (AREA_RANGE cfg)"
  from assms have ok: "first_error (AREA_RANGE cfg) layout_labels = None"
    and fig: "child_axes fig = layout (bounds_of (AREA_RANGE cfg))"
    by (auto simp: base_Inr_iff)
  have nth: "label (child_axes fig ! i) = layout_labels ! i" if "i < 7" for i
  proof -
    have "layout_labels ! i = map label (child_axes fig) ! i"
      by (simp only: fig layout_labels_layout)
    also have "\<dots> = label (child_axes fig ! i)"
      using that by (simp add: fig del: layout_labels_layout)
    finally show ?thesis by simp
  qed
  have "(\<forall>(i, a) \<in> set (area_list (GeoPlot_init cfg)).
            i < length (child_axes fig) \<and> label (child_axes fig ! i) = a)
        \<longleftrightarrow> (\<forall>i < length ?ks. i < 7 \<and> label (child_axes fig ! i) = ?ks ! i)"
    by (simp add: ball_enumerate0 fig)
  also have "\<dots> \<longleftrightarrow> (\<forall>i < length ?ks. i < length layout_labels \<and> layout_labels ! i = ?ks ! i)"
    using nth by auto
  also have "\<dots> \<longleftrightarrow> ?ks = layout_labels"
  proof
    assume "\<forall>i < length ?ks. i < length layout_labels \<and> layout_labels ! i = ?ks ! i"
    with distinct_layout_labels first_error_None_keys [OF ok]
    show "?ks = layout_labels" by (rule prefix_of_distinct_superset)
  next
    assume eq: "?ks = layout_labels"
    show "\<forall>i < length ?ks. i < length layout_labels \<and> layout_labels ! i = ?ks ! i"
      unfolding eq by simp
  qed
  finally show ?thesis .
qed

theorem base_panel_region_iff_witness:
  "fst (base (GeoPlot_init FigConfig) plt0) = Inr shipped_figure \<and>
   list_all (\<lambda>(i, a). i < length (child_axes shipped_figure) \<and>
                      label (child_axes shipped_figure ! i) = a)
     (area_list (GeoPlot_init FigConfig))"
proof -
  have h: "fst (base (GeoPlot_init FigConfig) plt0) = Inr shipped_figure"
    by (rule base_shipped [unfolded shipped_def])
  from layout_labels_FigConfig
  have "\<forall>(i, a) \<in> set (area_list (GeoPlot_init FigConfig)).
      i < length (child_axes shipped_figure) \<and> label (child_axes shipped_figure ! i) = a"
    by (rule iffD2 [OF base_panel_region_iff [OF h]])
  with h show ?thesis by (simp only: list_all_iff simp_thms)
qed

text \<open>Every panel of a figure returned by \<open>base\<close> shows exactly the bounding
  box that the region table stores under the panel's label: its x limits are
  \<open>(min_x, max_x)\<close> and its y limits \<open>(min_y, max_y)\<close> of that region.\<close>

theorem base_extent:
  assumes "fst (base self plt) = Inr fig" and "ax \<in> set (child_axes fig)"
  shows "\<exists>a. map_of (AREA_RANGE (fig_config self)) (label ax) = Some a \<and>
     xlim ax = (min_x (bounds a), max_x (bounds a)) \<and>
     ylim ax = (min_y (bounds a), max_y (bounds a))"
proof -
  let ?ar = "AREA_RANGE (fig_config self)"
  from assms have ok: "first_error ?ar layout_labels = None"
    and ax: "ax \<in> set (layout (bounds_of ?ar))"
    by (auto simp: base_Inr_iff)
  from layout_mem [OF ax] have l: "label ax \<in> set layout_labels"
    and lim: "xlim ax = (min_x (bounds_of ?ar (label ax)), max_x (bounds_of ?ar (label ax)))"
      "ylim ax = (min_y (bounds_of ?ar (label ax)), max_y (bounds_of ?ar (label ax)))"
    by simp_all
  from ok l obtain a where "map_of ?ar (label ax) = Some a"
    by (auto simp: first_error_None_iff)
  with lim show ?thesis by (simp add: bounds_of_def)
qed

theorem base_extent_witness:
  "fst (base shipped plt0) = Inr shipped_figure \<and>
   child_axes shipped_figure ! 1 \<in> set (child_axes shipped_figure) \<and>
   label (child_axes shipped_figure ! 1) = ''penghu'' \<and>
   xlim (child_axes shipped_figure ! 1) = (119.3, 119.74) \<and>
   ylim (child_axes shipped_figure ! 1) = (23.16, 23.86)"
proof -
  have mem: "child_axes shipped_figure ! 1 \<in> set (child_axes shipped_figure)"
    by (simp add: layout_def)
  have lbl: "label (child_axes shipped_figure ! 1) = ''penghu''"
    by (simp add: layout_def)
  from base_extent [OF base_shipped mem] lbl
  have "xlim (child_axes shipped_figure ! 1) = (119.3, 119.74) \<and>
        ylim (child_axes shipped_figure ! 1) = (23.16, 23.86)"
    by (auto simp: FigConfig_AREA_RANGE_def)
  with base_shipped mem lbl show ?thesis by simp
qed

text \<open>Every panel of a figure returned by \<open>base\<close>, except the main panel
  \<open>taiwan\<close>, is aspect-locked: its height times the width of its region's bounding box
  equals its width times the height of the bounding box, that is, height / width is
  \<open>(max_y - min_y) / (max_x - min_x)\<close>.\<close>

theorem base_aspect:
  assumes "fst (base self plt) = Inr fig" and "ax \<in> set (child_axes fig)"
    and "label ax \<noteq> ''taiwan''"
  shows "aspect_locked ax"
proof -
  let ?ar = "AREA_RANGE (fig_config self)"
  from assms have ok: "first_error ?ar layout_labels = None"
    and ax: "ax \<in> set (layout (bounds_of ?ar))"
    by (auto simp: base_Inr_iff)
  from layout_mem [OF ax] have "label ax \<in> set layout_labels" by simp
  with ok assms(3) have "max_x (bounds_of ?ar (label ax)) \<noteq> min_x (bounds_of ?ar (label ax))"
    by (auto simp: first_error_None_iff bounds_of_def)
  with ax assms(3) show ?thesis by (rule layout_aspect)
qed

theorem base_aspect_witness:
  "fst (base shipped plt0) = Inr shipped_figure \<and>
   child_axes shipped_figure ! 3 \<in> set (child_axes shipped_figure) \<and>
   label (child_axes shipped_figure ! 3) = ''kinmen-wuqiu'' \<and>
   aspect_locked (child_axes shipped_figure ! 3)"
proof -
  have mem: "child_axes shipped_figure ! 3 \<in> set (child_axes shipped_figure)"
    by (simp add: layout_def)
  have lbl: "label (child_axes shipped_figure ! 3) = ''kinmen-wuqiu''"
    by (simp add: layout_def)
  then have "label (child_axes shipped_figure ! 3) \<noteq> ''taiwan''" by simp
  with base_shipped mem have "aspect_locked (child_axes shipped_figure ! 3)"
    by (rule base_aspect)
  with base_shipped mem lbl show ?thesis by simp
qed

text \<open>Claim C1: \<open>base\<close> refines the closed-form layout. For every configuration and
  every state of pyplot it registers one new figure and returns either that figure with
  exactly the seven panels of \<open>layout\<close>, or the exception of the first label, in
  placement order, that is missing from the table or has a bounding box of zero width.\<close>

theorem base_refines_layout:
  "base self plt =
     (case first_error (AREA_RANGE (fig_config self)) layout_labels of
        Some e \<Rightarrow> Inl e
      | None \<Rightarrow> Inr ((base_figure self plt)
            \<lparr>child_axes := layout (bounds_of (AREA_RANGE (fig_config self)))\<rparr>),
      plt\<lparr>fignums := fignums plt @ [next_num (fignums plt)]\<rparr>)"
  by (simp add: prod_eq_iff base_eq base_plt)

text \<open>Claim C16: \<open>base\<close> returns a figure exactly when each of the seven labels it places
  is a key of the region table and each of the six insets has a bounding box whose
  \<open>max_x\<close> differs from its \<open>min_x\<close>.\<close>

theorem base_ok_iff:
  "is_ok (fst (base self plt)) \<longleftrightarrow>
     (\<forall>l \<in> set layout_labels. \<exists>a. map_of (AREA_RANGE (fig_config self)) l = Some a \<and>
        (l \<noteq> ''taiwan'' \<longrightarrow> max_x (bounds a) \<noteq> min_x (bounds a)))"
  by (simp add: is_ok_iff base_Inr_iff first_error_None_iff)

theorem base_ok_iff_witness:
  "is_ok (fst (base shipped plt0)) \<and> \<not> is_ok (fst (base (GeoPlot_init no_regions) plt0))"
proof -
  have "is_ok (fst (base shipped plt0))"
    by (simp add: base_ok_iff layout_labels_def FigConfig_AREA_RANGE_def)
  moreover have "\<not> is_ok (fst (base (GeoPlot_init no_regions) plt0))"
    by (auto simp: base_ok_iff layout_labels_def no_regions_def)
  ultimately show ?thesis by simp
qed

text \<open>Claim C17: the only exceptions \<open>base\<close> raises are \<open>KeyError\<close> for one of its seven
  labels that is missing from the region table, and \<open>ZeroDivisionError\<close> for an inset
  region whose bounding box has zero width.\<close>

theorem base_raises:
  assumes "fst (base self plt) = Inl e"
  shows "(\<exists>l \<in> set layout_labels. l \<notin> fst ` set (AREA_RANGE (fig_config self)) \<and> e = KeyError l) \<or>
         (\<exists>l \<in> set layout_labels. \<exists>a. l \<noteq> ''taiwan'' \<and>
            map_of (AREA_RANGE (fig_config self)) l = Some a \<and>
            max_x (bounds a) = min_x (bounds a) \<and> e = ZeroDivisionError)"
  using first_error_Some [of "AREA_RANGE (fig_config self)" layout_labels e] assms
  by (simp add: base_Inl_iff map_of_eq_None_iff)

lemma base_no_regions: "fst (base (GeoPlot_init no_regions) plt0) = Inl (KeyError ''taiwan'')"
  by (simp add: base_eq no_regions_def layout_labels_def)

lemma base_flat_penghu: "fst (base (GeoPlot_init flat_penghu) plt0) = Inl ZeroDivisionError"
  by (simp add: base_eq flat_penghu_def layout_labels_def FigConfig_AREA_RANGE_def)

theorem base_raises_witness:
  "fst (base (GeoPlot_init no_regions) plt0) = Inl (KeyError ''taiwan'') \<and>
   fst (base (GeoPlot_init flat_penghu) plt0) = Inl ZeroDivisionError \<and>
   (\<exists>l \<in> set layout_labels. \<exists>a. l \<noteq> ''taiwan'' \<and>
      map_of (AREA_RANGE (fig_config (GeoPlot_init flat_penghu))) l = Some a \<and>
      max_x (bounds a) = min_x (bounds a))"
  using base_raises [OF base_flat_penghu] base_no_regions base_flat_penghu by auto

text \<open>Every call of \<open>base\<close>, also one that raises, leaves exactly one more
  figure registered with pyplot, under a number that was not in use; a returned figure
  carries that number.\<close>

theorem base_registers_figure:
  "fignums (snd (base self plt)) = fignums plt @ [next_num (fignums plt)] \<and>
   next_num (fignums plt) \<notin> set (fignums plt) \<and>
   (case fst (base self plt) of Inl e \<Rightarrow> True | Inr fig \<Rightarrow> number fig = next_num (fignums plt))"
  by (simp add: base_plt next_num_fresh base_eq base_figure_def new_figure_def
      split: option.splits)

text \<open>The panels of the three outlying groups (indices 1, 2 and 4) are stacked:
  each starts \<open>0.01\<close> above the top of the one before, and when the three bounding
  boxes are non-degenerate the three rectangles are pairwise disjoint.\<close>

theorem base_level1_disjoint:
  assumes "fst (base self plt) = Inr fig"
    and "valid_bounds (bounds_of (AREA_RANGE (fig_config self)) ''penghu'')"
    and "valid_bounds (bounds_of (AREA_RANGE (fig_config self)) ''kinmen'')"
    and "valid_bounds (bounds_of (AREA_RANGE (fig_config self)) ''lienchiang'')"
  shows "rect_bottom (position (child_axes fig ! 2)) = rect_top (position (child_axes fig ! 1)) + 0.01 \<and>
         rect_bottom (position (child_axes fig ! 4)) = rect_top (position (child_axes fig ! 2)) + 0.01 \<and>
         rects_disjoint (position (child_axes fig ! 1)) (position (child_axes fig ! 2)) \<and>
         rects_disjoint (position (child_axes fig ! 2)) (position (child_axes fig ! 4)) \<and>
         rects_disjoint (position (child_axes fig ! 1)) (position (child_axes fig ! 4))"
proof -
  let ?B = "bounds_of (AREA_RANGE (fig_config self))"
  from assms(2-4) have "0 < h0 ?B ''penghu''" "0 < h0 ?B ''kinmen''" "0 < h0 ?B ''lienchiang''"
    by (simp_all add: h0_def valid_bounds_aspect_pos)
  then show ?thesis
    by (simp add: base_child_nth [OF assms(1)] layout_positions rects_disjoint_def
        rect_bottom_def rect_top_def y_penghu_def y_kinmen_def y_lienchiang_def)
qed

theorem base_level1_disjoint_witness:
  "fst (base shipped plt0) = Inr shipped_figure \<and>
   valid_bounds (bounds_of (AREA_RANGE (fig_config shipped)) ''penghu'') \<and>
   valid_bounds (bounds_of (AREA_RANGE (fig_config shipped)) ''kinmen'') \<and>
   valid_bounds (bounds_of (AREA_RANGE (fig_config shipped)) ''lienchiang'') \<and>
   rects_disjoint (position (child_axes shipped_figure ! 1)) (position (child_axes shipped_figure ! 2)) \<and>
   rects_disjoint (position (child_axes shipped_figure ! 2)) (position (child_axes shipped_figure ! 4)) \<and>
   rects_disjoint (position (child_axes shipped_figure ! 1)) (position (child_axes shipped_figure ! 4))"
proof -
  have v: "valid_bounds (bounds_of (AREA_RANGE (fig_config shipped)) ''penghu'')"
    "valid_bounds (bounds_of (AREA_RANGE (fig_config shipped)) ''kinmen'')"
    "valid_bounds (bounds_of (AREA_RANGE (fig_config shipped)) ''lienchiang'')"
    by (simp_all add: valid_bounds_def)
  from base_level1_disjoint [OF base_shipped v] base_shipped v show ?thesis by simp
qed

text \<open>For the shipped configuration \<open>base\<close> returns a figure, and each of its
  panels has positive width and height and lies inside the unit square of the parent
  Axes.\<close>

theorem shipped_panels_in_unit_square:
  "\<exists>fig. fst (base (GeoPlot_init FigConfig) plt) = Inr fig \<and>
     list_all rect_in_unit (map position (child_axes fig))"
  by (simp add: base_FigConfig layout_FigConfig_positions rect_in_unit_def)

text \<open>For the shipped configuration the main panel \<open>taiwan\<close> is not
  aspect-locked: it fills the unit square while its bounding box is 3.7 wide and 3.6
  high.\<close>

theorem shipped_main_panel_not_aspect_locked:
  "\<exists>fig. fst (base (GeoPlot_init FigConfig) plt) = Inr fig \<and>
     label (child_axes fig ! 0) = ''taiwan'' \<and> \<not> aspect_locked (child_axes fig ! 0)"
  by (simp add: base_FigConfig layout_def aspect_locked_def)

text \<open>For the shipped configuration each sub-group panel (indices 3, 5 and 6)
  overlaps the rectangle of its group's panel (indices 2 and 4), while the two sub-group
  panels of \<open>lienchiang\<close> are disjoint from each other.\<close>

theorem shipped_level2_overlap:
  "\<exists>fig. fst (base (GeoPlot_init FigConfig) plt) = Inr fig \<and>
     \<not> rects_disjoint (position (child_axes fig ! 2)) (position (child_axes fig ! 3)) \<and>
     \<not> rects_disjoint (position (child_axes fig ! 4)) (position (child_axes fig ! 5)) \<and>
     \<not> rects_disjoint (position (child_axes fig ! 4)) (position (child_axes fig ! 6)) \<and>
     rects_disjoint (position (child_axes fig ! 5)) (position (child_axes fig ! 6))"
proof -
  have "position (layout (bounds_of FigConfig_AREA_RANGE) ! i) =
      map position (layout (bounds_of FigConfig_AREA_RANGE)) ! i" if "i < 7" for i
    using that by simp
  then show ?thesis
    by (simp add: base_FigConfig layout_FigConfig_positions rects_disjoint_def)
qed

text \<open>A figure returned by \<open>base\<close> has exactly seven panels, whatever the
  number of regions in the table.\<close>

theorem base_panel_count:
  "fst (base self plt) = Inr fig \<Longrightarrow> length (child_axes fig) = 7"
  by (auto simp: base_Inr_iff)

lemma base_eight_regions:
  "\<exists>fig. fst (base (GeoPlot_init eight_regions) plt0) = Inr fig"
  by (simp add: base_eq eight_regions_def layout_labels_def FigConfig_AREA_RANGE_def)

theorem base_panel_count_witness:
  "\<exists>fig. fst (base (GeoPlot_init eight_regions) plt0) = Inr fig \<and>
     length (child_axes fig) = 7 \<and> length (area_list (GeoPlot_init eight_regions)) = 8"
proof -
  from base_eight_regions obtain fig where fig: "fst (base (GeoPlot_init eight_regions) plt0) = Inr fig"
    by blast
  from base_panel_count [OF fig] fig show ?thesis
    by (simp add: eight_regions_def AREA_RANGE_length)
qed

end
