(* ===== verification/GeoData.thy ===== *)
theory GeoData
  imports Frames
begin

text \<open>
  The geometry source and the attribute binder: class \<^verbatim>\<open>GeoData\<close> of \<^verbatim>\<open>src/src/core.py\<close>.

  An object of the class (\<open>GeoData\<close>, built by \<open>GeoData_init\<close>) holds instances of
  \<^verbatim>\<open>FigConfig\<close> and \<^verbatim>\<open>Shapefile\<close> and never changes them, and its methods read only the
  two dataset paths, which are class attributes. The methods are therefore functions of
  the file contents \<open>ds\<close> (a map from a path to the features stored there) and of their
  arguments:
  \<open>get_county_gpd\<close> and \<open>get_town_gpd\<close> read the county and the township dataset through
  a bounding-box filter and fail with \<open>DataSourceError\<close> when the dataset is missing;
  \<open>merge_gdf_and_df\<close> passes its keyword arguments \<open>left_on\<close> and \<open>right_on\<close> to the
  join.

  The lemmas say what a read returns, and what the join binds: exactly the pairs of a
  feature and a row with equal keys; nothing when no row matches; every feature once and
  in order when the rows have distinct keys that cover the features; and one pair per
  matching row when keys repeat.
\<close>

record GeoData =
  gd_fig_config :: fig_config
  gd_shapefile :: Shapefile

definition GeoData_init :: "fig_config \<Rightarrow> GeoData" where
  "GeoData_init cfg = \<lparr>gd_fig_config = cfg, gd_shapefile = Shapefile_init\<rparr>"

record merge_kwargs =
  left_on :: "pystr list"
  right_on :: "pystr list"

definition get_county_gpd :: "datasets \<Rightarrow> bbox \<Rightarrow> geodataframe result" where
  "get_county_gpd ds bb = (let gdf = read_file ds COUNTY bb in gdf)"

definition get_town_gpd :: "datasets \<Rightarrow> bbox \<Rightarrow> geodataframe result" where
  "get_town_gpd ds bb = (let gdf = read_file ds TOWN bb in gdf)"

definition merge_gdf_and_df ::
  "geodataframe \<Rightarrow> dataframe \<Rightarrow> merge_kwargs \<Rightarrow> (feature \<times> row) list result" where
  "merge_gdf_and_df gdf df kwargs =
     (let gdf = merge gdf df (left_on kwargs) (right_on kwargs) in gdf)"


section \<open>Sample data\<close>

text \<open>
  Three counties whose envelopes lie in the main island, in Penghu and in Kinmen, a
  dataset store that holds them, and caller rows keyed by county name.
\<close>

definition county :: "pystr \<Rightarrow> area_bounds \<Rightarrow> feature" where
  "county n e = \<lparr>props = [(''COUNTYNAME'', Str n)], envelope = e\<rparr>"

definition Taipei :: feature where
  "Taipei = county ''Taipei'' \<lparr>min_x = 121.45, max_x = 121.67, min_y = 24.96, max_y = 25.21\<rparr>"

definition Penghu :: feature where
  "Penghu = county ''Penghu'' \<lparr>min_x = 119.31, max_x = 119.73, min_y = 23.18, max_y = 23.8\<rparr>"

definition Kinmen :: feature where
  "Kinmen = county ''Kinmen'' \<lparr>min_x = 118.13, max_x = 119.49, min_y = 24.35, max_y = 25.01\<rparr>"

definition sample_counties :: geodataframe where
  "sample_counties = [Taipei, Penghu, Kinmen]"

definition taipei_10 :: row where
  "taipei_10 = [(''county'', Str ''Taipei''), (''value'', Num 10)]"

definition penghu_20 :: row where
  "penghu_20 = [(''county'', Str ''Penghu''), (''value'', Num 20)]"

definition taipei_30 :: row where
  "taipei_30 = [(''county'', Str ''Taipei''), (''value'', Num 30)]"

definition sample_store :: datasets where
  "sample_store = [COUNTY \<mapsto> sample_counties]"

definition sample_rows :: dataframe where
  "sample_rows = DataFrame [taipei_10, penghu_20]"

definition duplicate_rows :: dataframe where
  "duplicate_rows = DataFrame [taipei_10, taipei_30]"

definition atlantis_1 :: row where
  "atlantis_1 = [(''county'', Str ''Atlantis''), (''value'', Num 1)]"

definition unmatched_rows :: dataframe where
  "unmatched_rows = DataFrame [atlantis_1]"

definition county_on :: merge_kwargs where
  "county_on = \<lparr>left_on = [''COUNTYNAME''], right_on = [''county'']\<rparr>"


section \<open>Reading\<close>

lemma get_county_gpd_eq: "get_county_gpd ds bb = read_file ds COUNTY bb"
  by (simp add: get_county_gpd_def)

lemma get_town_gpd_eq: "get_town_gpd ds bb = read_file ds TOWN bb"
  by (simp add: get_town_gpd_def)

lemma merge_gdf_and_df_eq:
  "merge_gdf_and_df gdf df kw = merge gdf df (left_on kw) (right_on kw)"
  by (simp add: merge_gdf_and_df_def)

lemma merge_returns:
  assumes "length (left_on kw) = length (right_on kw)"
    and "set (right_on kw) \<subseteq> set (columns df)" and "gdf_columns gdf (left_on kw)"
  shows "\<exists>m. merge_gdf_and_df gdf df kw = Inr m"
  unfolding merge_gdf_and_df_eq merge_ok_iff missing_key_None_iff
  using assms by (auto dest: set_zip_leftD set_zip_rightD intro: gdf_columns_mono)

lemma COUNTY_neq_TOWN: "COUNTY \<noteq> TOWN"
  by (simp add: COUNTY_path TOWN_path)

lemmas row_defs = taipei_10_def penghu_20_def taipei_30_def atlantis_1_def

lemmas county_defs = Taipei_def Penghu_def Kinmen_def county_def

lemma sample_rows_eq:
  "sample_rows = \<lparr>columns = [''county'', ''value''], rows = [taipei_10, penghu_20]\<rparr>"
  by (simp add: sample_rows_def DataFrame_def fill_row_def Let_def row_defs)

lemma duplicate_rows_eq:
  "duplicate_rows = \<lparr>columns = [''county'', ''value''], rows = [taipei_10, taipei_30]\<rparr>"
  by (simp add: duplicate_rows_def DataFrame_def fill_row_def Let_def row_defs)

lemma unmatched_rows_eq:
  "unmatched_rows = \<lparr>columns = [''county'', ''value''], rows = [atlantis_1]\<rparr>"
  by (simp add: unmatched_rows_def DataFrame_def fill_row_def Let_def row_defs)

lemma sample_keys [simp]:
  "join_key [''county''] taipei_10 = [Str ''Taipei'']"
  "join_key [''county''] penghu_20 = [Str ''Penghu'']"
  "join_key [''county''] taipei_30 = [Str ''Taipei'']"
  "join_key [''county''] atlantis_1 = [Str ''Atlantis'']"
  "join_key [''COUNTYNAME''] (props Taipei) = [Str ''Taipei'']"
  "join_key [''COUNTYNAME''] (props Penghu) = [Str ''Penghu'']"
  "join_key [''COUNTYNAME''] (props Kinmen) = [Str ''Kinmen'']"
  by (simp_all add: join_key_def cell_of_def row_defs county_defs)

lemma sample_distinct [simp]:
  "Taipei \<noteq> Penghu" "Taipei \<noteq> Kinmen" "Penghu \<noteq> Kinmen"
  "Penghu \<noteq> Taipei" "Kinmen \<noteq> Taipei" "Kinmen \<noteq> Penghu"
  "taipei_10 \<noteq> penghu_20" "taipei_10 \<noteq> taipei_30" "penghu_20 \<noteq> taipei_10"
  by (simp_all add: county_defs row_defs)

lemma sample_columns [simp]:
  "gdf_columns gdf [''COUNTYNAME'']" if "set gdf \<subseteq> {Taipei, Penghu, Kinmen}"
  using that by (auto simp: gdf_columns_def list_all_iff county_defs)

lemmas sample_defs =
  sample_counties_def county_on_def sample_rows_eq duplicate_rows_eq unmatched_rows_eq
  merge_gdf_and_df_eq merge_def matches_def


lemma duplicate_merge:
  "merge_gdf_and_df sample_counties duplicate_rows county_on =
     Inr [(Taipei, taipei_10), (Taipei, taipei_30)]"
  by (simp add: sample_defs)

lemma unmatched_merge: "merge_gdf_and_df sample_counties unmatched_rows county_on = Inr []"
  by (simp add: sample_defs)

lemma take2_merge:
  "merge_gdf_and_df ([Taipei, Penghu]) sample_rows county_on =
     Inr [(Taipei, taipei_10), (Penghu, penghu_20)]"
  by (simp add: sample_defs)

lemma sample_store_COUNTY [simp]: "sample_store COUNTY = Some sample_counties"
  by (simp add: sample_store_def)

lemma sample_read:
  "get_county_gpd sample_store (118.9, 21.75, 122.6, 25.35) = Inr sample_counties"
  "get_county_gpd sample_store (119.3, 23.16, 119.74, 23.86) = Inr [Penghu]"
  "get_town_gpd sample_store (118.9, 21.75, 122.6, 25.35) = Inl (DataSourceError TOWN)"
  by (simp_all add: get_county_gpd_eq get_town_gpd_eq read_file_def sample_store_def
      COUNTY_neq_TOWN [symmetric] sample_counties_def county_defs intersects_def)

text \<open>
  A read fails with \<open>DataSourceError\<close> when the dataset is missing and otherwise returns,
  in the order of the dataset, the features whose envelope meets the bounding box.
\<close>

lemma get_gpd_returns:
  "get_county_gpd ds bb =
     (case ds COUNTY of None \<Rightarrow> Inl (DataSourceError COUNTY)
      | Some all \<Rightarrow> Inr (filter (\<lambda>f. intersects bb (envelope f)) all)) \<and>
   get_town_gpd ds bb =
     (case ds TOWN of None \<Rightarrow> Inl (DataSourceError TOWN)
      | Some all \<Rightarrow> Inr (filter (\<lambda>f. intersects bb (envelope f)) all))"
  by (simp add: get_county_gpd_eq get_town_gpd_eq read_file_def)


section \<open>Properties of the binder\<close>




text \<open>When the join keys of the caller's rows are distinct and every feature's
  key occurs among them, the features bound by \<open>merge_gdf_and_df\<close> are all the features,
  each once and in the order of the geometry.\<close>

theorem merge_full_cover:
  assumes "merge_gdf_and_df gdf df kw = Inr m"
    and "distinct (map (join_key (right_on kw)) (rows df))"
    and "\<forall>f \<in> set gdf. join_key (left_on kw) (props f) \<in> join_key (right_on kw) ` set (rows df)"
  shows "map fst m = gdf"
proof -
  from assms(1,2) have "map fst m =
      filter (\<lambda>f. join_key (left_on kw) (props f) \<in> join_key (right_on kw) ` set (rows df)) gdf"
    by (simp add: merge_gdf_and_df_eq merge_features_subseq)
  with assms(3) show ?thesis by simp
qed

theorem merge_full_cover_witness:
  "merge_gdf_and_df ([Taipei, Penghu]) sample_rows county_on =
     Inr [(Taipei, taipei_10), (Penghu, penghu_20)] \<and>
   distinct (map (join_key (right_on county_on)) (rows sample_rows)) \<and>
   map fst [(Taipei, taipei_10), (Penghu, penghu_20)] =
     [Taipei, Penghu]"
proof -
  have d: "distinct (map (join_key (right_on county_on)) (rows sample_rows))"
    by (simp add: sample_defs)
  have c: "\<forall>f \<in> set ([Taipei, Penghu]).
      join_key (left_on county_on) (props f) \<in> join_key (right_on county_on) ` set (rows sample_rows)"
    by (simp add: sample_defs)
  from merge_full_cover [OF take2_merge d c] take2_merge d show ?thesis by simp
qed

text \<open>\<open>merge_gdf_and_df\<close> returns one pair for every matching row of every
  feature, so a join key that occurs in several rows makes its feature occur that many
  times in the result.\<close>

theorem merge_fan_out:
  assumes "merge_gdf_and_df gdf df kw = Inr m"
  shows "length m =
     sum_list (map (\<lambda>f. length (filter (\<lambda>r. join_key (right_on kw) r =
        join_key (left_on kw) (props f)) (rows df))) gdf)"
  using assms
  by (auto simp: merge_gdf_and_df_eq merge_def matches_def length_concat comp_def
      split: if_splits option.splits)

theorem merge_fan_out_witness:
  "merge_gdf_and_df sample_counties duplicate_rows county_on =
     Inr [(Taipei, taipei_10), (Taipei, taipei_30)] \<and>
   sum_list (map (\<lambda>f. length (filter (\<lambda>r. join_key (right_on county_on) r =
        join_key (left_on county_on) (props f)) (rows duplicate_rows))) sample_counties) = 2"
  using merge_fan_out [OF duplicate_merge] duplicate_merge by simp

end
