(* ===== verification/Format.thy ===== *)
theory Format
  imports GIS_Prelude
begin

text \<open>
  Number formatting: the part of Python's format specification language that the sources
  use. The colour bar of a choropleth is built with a format string (default
  \<^verbatim>\<open>{x:,.0f}\<close>, \<^verbatim>\<open>src/src/graph.py\<close>), and the scripts under \<^verbatim>\<open>src/test\<close> print memory
  readings with \<^verbatim>\<open>.2f\<close>, \<^verbatim>\<open>+.2f\<close> and \<^verbatim>\<open>.1f\<close>.

  \<^item> \<open>format_spec\<close> is a specification \<open>[+][,][.precision]f\<close>: the sign flag, the
    thousands separator and the number of decimals. \<open>parse_spec\<close> reads one from its
    text, \<open>spec_str\<close> prints it; a text outside this subset is not a specification of
    the model (\<open>None\<close>).
  \<^item> \<open>format_f\<close> is \<open>format(x, spec)\<close>: the value is rounded to the precision, ties to
    even (\<open>round_half_even\<close>), the integer part is printed in decimal (\<open>digits\<close>) and
    grouped in threes from the right (\<open>group3\<close>), the decimals are padded with zeros
    (\<open>zfill\<close>). A float is a rational here, so there is no negative zero, no infinity and
    no NaN.
  \<^item> \<open>field_spec\<close> takes the specification out of a format string that is the single
    replacement field \<open>{x:spec}\<close>, and \<open>tick_label\<close> is the label the formatter of a
    colour bar gives a tick with such a format string.

  \<open>digits\<close> and \<open>group3\<close> are loops on a number and on a string that get shorter by
  division and by cutting three characters; both come with their termination proofs.
  \<open>read_label\<close> reads a label back (sign, grouped integer part, decimals); it states
  what a label means and is the inverse the round-trip lemmas use.
\<close>

record format_spec =
  fs_sign :: bool
  fs_grouping :: bool
  fs_precision :: nat

definition digit_char :: "nat \<Rightarrow> char" where
  "digit_char d = char_of (48 + d)"

function digits :: "nat \<Rightarrow> string" where
  "digits n = (if n < 10 then [digit_char n] else digits (n div 10) @ [digit_char (n mod 10)])"
  by pat_completeness auto

termination digits
  by (relation "measure (\<lambda>n. n)") auto

function group3 :: "string \<Rightarrow> string" where
  "group3 ds =
     (if length ds \<le> 3 then ds
      else group3 (take (length ds - 3) ds) @ CHR '','' # drop (length ds - 3) ds)"
  by pat_completeness auto

termination group3
  by (relation "measure length") auto

definition round_half_even :: "rat \<Rightarrow> int" where
  "round_half_even x =
     (let f = \<lfloor>x\<rfloor>; d = x - of_int f
      in if d < 1 / 2 then f else if 1 / 2 < d then f + 1 else if even f then f else f + 1)"

definition zfill :: "nat \<Rightarrow> string \<Rightarrow> string" where
  "zfill w ds = replicate (w - length ds) CHR ''0'' @ ds"

definition format_f :: "format_spec \<Rightarrow> pyfloat \<Rightarrow> pystr" where
  "format_f sp x =
     (let p = fs_precision sp;
          n = nat (round_half_even (\<bar>x\<bar> * 10 ^ p));
          whole = digits (n div 10 ^ p);
          whole = (if fs_grouping sp then group3 whole else whole);
          decimals = (if p = 0 then [] else CHR ''.'' # zfill p (digits (n mod 10 ^ p)));
          sign = (if x < 0 then ''-'' else if fs_sign sp then ''+'' else [])
      in sign @ whole @ decimals)"

text \<open>Reading digits, specifications and labels.\<close>

definition is_digit :: "char \<Rightarrow> bool" where
  "is_digit c \<longleftrightarrow> 48 \<le> (of_char c :: nat) \<and> (of_char c :: nat) \<le> 57"

definition digit_val :: "char \<Rightarrow> nat" where
  "digit_val c = of_char c - 48"

definition nat_of_digits :: "string \<Rightarrow> nat" where
  "nat_of_digits ds = foldl (\<lambda>a c. 10 * a + digit_val c) 0 ds"

definition read_nat :: "string \<Rightarrow> nat option" where
  "read_nat ds = (if ds \<noteq> [] \<and> list_all is_digit ds then Some (nat_of_digits ds) else None)"

definition strip_flag :: "char \<Rightarrow> string \<Rightarrow> bool \<times> string" where
  "strip_flag c s = (if s \<noteq> [] \<and> hd s = c then (True, tl s) else (False, s))"

definition parse_spec :: "pystr \<Rightarrow> format_spec option" where
  "parse_spec s =
     (case strip_flag CHR ''+'' s of (sg, s) \<Rightarrow>
      case strip_flag CHR '','' s of (gr, s) \<Rightarrow>
        if s = ''f'' then Some \<lparr>fs_sign = sg, fs_grouping = gr, fs_precision = 6\<rparr>
        else if 2 \<le> length s \<and> hd s = CHR ''.'' \<and> last s = CHR ''f''
        then map_option (\<lambda>p. \<lparr>fs_sign = sg, fs_grouping = gr, fs_precision = p\<rparr>)
               (read_nat (butlast (tl s)))
        else None)"

definition spec_str :: "format_spec \<Rightarrow> pystr" where
  "spec_str sp =
     (if fs_sign sp then ''+'' else []) @ (if fs_grouping sp then '','' else []) @
     ''.'' @ digits (fs_precision sp) @ ''f''"

definition field_spec :: "pystr \<Rightarrow> pystr option" where
  "field_spec fmt =
     (if 4 \<le> length fmt \<and> take 3 fmt = ''{x:'' \<and> last fmt = CHR ''}''
      then Some (butlast (drop 3 fmt)) else None)"

definition tick_label :: "pystr \<Rightarrow> pyfloat \<Rightarrow> pystr option" where
  "tick_label fmt x =
     (case field_spec fmt of
        None \<Rightarrow> None
      | Some s \<Rightarrow> map_option (\<lambda>sp. format_f sp x) (parse_spec s))"

definition read_unsigned :: "pystr \<Rightarrow> rat option" where
  "read_unsigned s =
     (let whole = filter (\<lambda>c. c \<noteq> CHR '','') (takeWhile (\<lambda>c. c \<noteq> CHR ''.'') s);
          rest = dropWhile (\<lambda>c. c \<noteq> CHR ''.'') s;
          decimals = tl rest
      in case (read_nat whole, if rest = [] then Some 0 else read_nat decimals) of
           (Some i, Some f) \<Rightarrow> Some (of_nat i + of_nat f / 10 ^ length decimals)
         | _ \<Rightarrow> None)"

definition read_label :: "pystr \<Rightarrow> rat option" where
  "read_label s =
     (case strip_flag CHR ''-'' s of (neg, s) \<Rightarrow>
      case strip_flag CHR ''+'' s of (pos, s) \<Rightarrow>
        map_option (\<lambda>v. if neg then - v else v) (read_unsigned s))"

definition unsigned :: "format_spec \<Rightarrow> nat \<Rightarrow> pystr" where
  "unsigned sp n =
     (let p = fs_precision sp
      in (if fs_grouping sp then group3 (digits (n div 10 ^ p)) else digits (n div 10 ^ p)) @
         (if p = 0 then [] else CHR ''.'' # zfill p (digits (n mod 10 ^ p))))"

definition no_flags :: format_spec where
  "no_flags = \<lparr>fs_sign = False, fs_grouping = False, fs_precision = 0\<rparr>"

definition thousands :: format_spec where
  "thousands = no_flags\<lparr>fs_grouping := True\<rparr>"


section \<open>Decimal digits\<close>

declare digits.simps [simp del] group3.simps [simp del]

lemma is_digit_digit_char [simp]: "d < 10 \<Longrightarrow> is_digit (digit_char d)"
  by (simp add: is_digit_def digit_char_def)

lemma digit_val_digit_char [simp]: "d < 10 \<Longrightarrow> digit_val (digit_char d) = d"
  by (simp add: digit_val_def digit_char_def)

lemma digits_less_10: "n < 10 \<Longrightarrow> digits n = [digit_char n]"
  by (simp add: digits.simps)

lemma digits_ge_10: "10 \<le> n \<Longrightarrow> digits n = digits (n div 10) @ [digit_char (n mod 10)]"
  by (subst digits.simps) simp

lemma digits_not_Nil [simp]: "digits n \<noteq> []"
  by (subst digits.simps) simp

lemma digits_all_digit [simp]: "list_all is_digit (digits n)"
  by (induction n rule: digits.induct) (subst digits.simps, simp)

lemma nat_of_digits_snoc [simp]: "nat_of_digits (ds @ [c]) = 10 * nat_of_digits ds + digit_val c"
  by (simp add: nat_of_digits_def)

lemma nat_of_digits_Nil [simp]: "nat_of_digits [] = 0"
  by (simp add: nat_of_digits_def)

lemma nat_of_digits_digits [simp]: "nat_of_digits (digits n) = n"
proof (induction n rule: digits.induct)
  case (1 n)
  show ?case
  proof (cases "n < 10")
    case True
    then show ?thesis by (simp add: digits_less_10 nat_of_digits_def)
  next
    case False
    with 1 show ?thesis by (simp add: digits_ge_10)
  qed
qed

lemma read_nat_digits [simp]: "read_nat (digits n) = Some n"
  by (simp add: read_nat_def)

text \<open>The loop of \<open>digits\<close> runs once per decimal place.\<close>

lemma length_digits_bounds:
  "0 < n \<Longrightarrow> 10 ^ (length (digits n) - 1) \<le> n \<and> n < 10 ^ length (digits n)"
proof (induction n rule: digits.induct)
  case (1 n)
  show ?case
  proof (cases "n < 10")
    case True
    with "1.prems" show ?thesis by (simp add: digits_less_10)
  next
    case False
    then have pos: "0 < n div 10" by simp
    from False 1 pos have IH:
      "10 ^ (length (digits (n div 10)) - 1) \<le> n div 10" "n div 10 < 10 ^ length (digits (n div 10))"
      by simp_all
    have len: "0 < length (digits (n div 10))" by simp
    from IH(1) have "10 * 10 ^ (length (digits (n div 10)) - 1) \<le> n" by simp
    with len have lo: "10 ^ length (digits (n div 10)) \<le> n"
      by (cases "length (digits (n div 10))") simp_all
    from IH(2) have "n < 10 * 10 ^ length (digits (n div 10))" by simp
    with lo False show ?thesis by (simp add: digits_ge_10)
  qed
qed

lemma length_digits_le: "n < 10 ^ k \<Longrightarrow> 0 < k \<Longrightarrow> length (digits n) \<le> k"
proof (cases "n = 0")
  case True
  assume "0 < k"
  with True show ?thesis by (simp add: digits_less_10 Suc_leI)
next
  case False
  assume "n < 10 ^ k"
  from False have "10 ^ (length (digits n) - 1) \<le> n" using length_digits_bounds by simp
  from this \<open>n < 10 ^ k\<close> have "(10::nat) ^ (length (digits n) - 1) < 10 ^ k"
    by (rule le_less_trans)
  then have "length (digits n) - 1 < k" by (rule power_less_imp_less_exp [rotated]) simp
  then show ?thesis by simp
qed


section \<open>Grouping\<close>

lemma group3_short: "length ds \<le> 3 \<Longrightarrow> group3 ds = ds"
  by (simp add: group3.simps)

lemma group3_long:
  "3 < length ds \<Longrightarrow>
     group3 ds = group3 (take (length ds - 3) ds) @ CHR '','' # drop (length ds - 3) ds"
  by (subst group3.simps) simp

text \<open>Grouping adds one separator for every three digits after the first group.\<close>

lemma length_group3: "length (group3 ds) = length ds + (length ds - 1) div 3"
proof (induction ds rule: group3.induct)
  case (1 ds)
  show ?case
  proof (cases "length ds \<le> 3")
    case True
    then show ?thesis by (simp add: group3_short)
  next
    case False
    with 1 have "length (group3 (take (length ds - 3) ds)) =
        (length ds - 3) + (length ds - 3 - 1) div 3" by simp
    with False show ?thesis by (simp add: group3_long)
  qed
qed

lemma ungroup_group3:
  "CHR '','' \<notin> set ds \<Longrightarrow> filter (\<lambda>c. c \<noteq> CHR '','') (group3 ds) = ds"
proof (induction ds rule: group3.induct)
  case (1 ds)
  show ?case
  proof (cases "length ds \<le> 3")
    case True
    with "1.prems" show ?thesis by (auto simp: group3_short filter_id_conv)
  next
    case False
    from "1.prems" have a: "CHR '','' \<notin> set (take (length ds - 3) ds)"
      and b: "filter (\<lambda>c. c \<noteq> CHR '','') (drop (length ds - 3) ds) = drop (length ds - 3) ds"
      by (auto simp: filter_id_conv dest: in_set_takeD in_set_dropD)
    from False a 1 have "filter (\<lambda>c. c \<noteq> CHR '','') (group3 (take (length ds - 3) ds)) =
        take (length ds - 3) ds" by simp
    with False b show ?thesis by (simp add: group3_long)
  qed
qed

lemma set_group3: "set (group3 ds) \<subseteq> insert CHR '','' (set ds)"
proof (induction ds rule: group3.induct)
  case (1 ds)
  show ?case
  proof (cases "length ds \<le> 3")
    case True
    then show ?thesis by (auto simp: group3_short)
  next
    case False
    with 1 have "set (group3 (take (length ds - 3) ds)) \<subseteq>
        insert CHR '','' (set (take (length ds - 3) ds))" by simp
    with False show ?thesis
      by (auto simp: group3_long dest: in_set_takeD in_set_dropD)
  qed
qed

lemma hd_group3: "ds \<noteq> [] \<Longrightarrow> hd (group3 ds) = hd ds \<and> group3 ds \<noteq> []"
proof (induction ds rule: group3.induct)
  case (1 ds)
  show ?case
  proof (cases "length ds \<le> 3")
    case True
    with "1.prems" show ?thesis by (simp add: group3_short)
  next
    case False
    then have ne: "take (length ds - 3) ds \<noteq> []" by auto
    with False 1 have "hd (group3 (take (length ds - 3) ds)) = hd (take (length ds - 3) ds)"
      and "group3 (take (length ds - 3) ds) \<noteq> []" by simp_all
    with False ne show ?thesis by (simp add: group3_long hd_take)
  qed
qed


section \<open>Rounding\<close>

lemma round_half_even_of_int [simp]: "round_half_even (of_int k) = k"
  by (simp add: round_half_even_def)

text \<open>The rounded value differs from the exact one by at most one half.\<close>

lemma round_half_even_bounds: "\<bar>of_int (round_half_even x) - x\<bar> \<le> 1 / 2"
proof -
  have "of_int \<lfloor>x\<rfloor> \<le> x" "x < of_int \<lfloor>x\<rfloor> + 1" by linarith+
  then show ?thesis by (auto simp: round_half_even_def Let_def abs_le_iff)
qed

lemma round_half_even_nonneg: "0 \<le> x \<Longrightarrow> 0 \<le> round_half_even x"
  by (auto simp: round_half_even_def Let_def)

lemma round_half_even_minus: "round_half_even (- x) = - round_half_even x"
proof (cases "x \<in> \<int>")
  case True
  then obtain k where "x = of_int k" by (auto elim: Ints_cases)
  then show ?thesis by (simp flip: of_int_minus)
next
  case False
  then have "x \<noteq> of_int \<lfloor>x\<rfloor>" by (metis Ints_of_int)
  then have "\<lceil>x\<rceil> = \<lfloor>x\<rfloor> + 1" by (simp add: ceiling_altdef)
  then have fl: "\<lfloor>- x\<rfloor> = - \<lfloor>x\<rfloor> - 1" by (simp add: ceiling_def)
  have "of_int \<lfloor>x\<rfloor> \<le> x" "x < of_int \<lfloor>x\<rfloor> + 1" by linarith+
  with \<open>x \<noteq> of_int \<lfloor>x\<rfloor>\<close> show ?thesis
    unfolding round_half_even_def Let_def fl by auto
qed


section \<open>Labels\<close>

lemma is_digit_simps [simp]:
  "\<not> is_digit CHR '',''" "\<not> is_digit CHR ''.''" "\<not> is_digit CHR ''-''" "\<not> is_digit CHR ''+''"
  "is_digit CHR ''0''" "digit_val CHR ''0'' = 0"
  by (simp_all add: is_digit_def digit_val_def)

lemma digits_chars [simp]:
  "CHR '','' \<notin> set (digits n)" "CHR ''.'' \<notin> set (digits n)"
  using digits_all_digit [of n] by (auto simp: list_all_iff)

lemma ungroup_digits [simp]: "filter (\<lambda>c. c \<noteq> CHR '','') (digits n) = digits n"
  by (auto simp: filter_id_conv)

lemma hd_digits [simp]: "is_digit (hd (digits n))"
  using digits_all_digit [of n] digits_not_Nil [of n] by (cases "digits n") simp_all

lemma nat_of_digits_zeros [simp]: "nat_of_digits (replicate k CHR ''0'' @ ds) = nat_of_digits ds"
  by (induction k) (simp_all add: nat_of_digits_def)

lemma length_zfill: "length ds \<le> w \<Longrightarrow> length (zfill w ds) = w"
  by (simp add: zfill_def)

lemma read_nat_zfill [simp]: "read_nat (zfill w (digits n)) = Some n"
  using digits_all_digit [of n] by (auto simp: read_nat_def zfill_def list_all_iff)

lemma strip_flag_simps [simp]:
  "strip_flag c (c # s) = (True, s)"
  "s \<noteq> [] \<Longrightarrow> hd s \<noteq> c \<Longrightarrow> strip_flag c s = (False, s)"
  by (simp_all add: strip_flag_def)

text \<open>The text of a formatted number is a sign and the text of its rounded magnitude.\<close>

lemma format_f_eq:
  "format_f sp x =
     (if x < 0 then ''-'' else if fs_sign sp then ''+'' else []) @
     unsigned sp (nat (round_half_even (\<bar>x\<bar> * 10 ^ fs_precision sp)))"
  by (simp add: format_f_def unsigned_def Let_def)

lemma span_dot:
  assumes "CHR ''.'' \<notin> set w"
  shows "takeWhile (\<lambda>c. c \<noteq> CHR ''.'') (w @ CHR ''.'' # r) = w"
    and "dropWhile (\<lambda>c. c \<noteq> CHR ''.'') (w @ CHR ''.'' # r) = CHR ''.'' # r"
    and "takeWhile (\<lambda>c. c \<noteq> CHR ''.'') w = w"
    and "dropWhile (\<lambda>c. c \<noteq> CHR ''.'') w = []"
  using assms by (induction w) auto

lemma unsigned_whole:
  "takeWhile (\<lambda>c. c \<noteq> CHR ''.'') (unsigned sp n) =
     (if fs_grouping sp then group3 (digits (n div 10 ^ fs_precision sp))
      else digits (n div 10 ^ fs_precision sp))"
  "dropWhile (\<lambda>c. c \<noteq> CHR ''.'') (unsigned sp n) =
     (if fs_precision sp = 0 then []
      else CHR ''.'' # zfill (fs_precision sp) (digits (n mod 10 ^ fs_precision sp)))"
proof -
  let ?w = "if fs_grouping sp then group3 (digits (n div 10 ^ fs_precision sp))
      else digits (n div 10 ^ fs_precision sp)"
  have "CHR ''.'' \<notin> set ?w"
    using set_group3 [of "digits (n div 10 ^ fs_precision sp)"] by auto
  note dot = span_dot [OF this]
  have eq: "unsigned sp n = ?w @
      (if fs_precision sp = 0 then []
       else CHR ''.'' # zfill (fs_precision sp) (digits (n mod 10 ^ fs_precision sp)))"
    by (simp add: unsigned_def Let_def)
  have take: "takeWhile (\<lambda>c. c \<noteq> CHR ''.'') (?w @ (if b then [] else CHR ''.'' # r)) = ?w"
    and drop: "dropWhile (\<lambda>c. c \<noteq> CHR ''.'') (?w @ (if b then [] else CHR ''.'' # r)) =
      (if b then [] else CHR ''.'' # r)" for b r
    by (cases b; simp only: dot if_True if_False append_Nil2)+
  show "takeWhile (\<lambda>c. c \<noteq> CHR ''.'') (unsigned sp n) = ?w"
    unfolding eq by (rule take)
  show "dropWhile (\<lambda>c. c \<noteq> CHR ''.'') (unsigned sp n) =
     (if fs_precision sp = 0 then []
      else CHR ''.'' # zfill (fs_precision sp) (digits (n mod 10 ^ fs_precision sp)))"
    unfolding eq by (rule drop)
qed

lemma hd_unsigned: "unsigned sp n \<noteq> [] \<and> is_digit (hd (unsigned sp n))"
  using hd_group3 [of "digits (n div 10 ^ fs_precision sp)"]
  by (simp add: unsigned_def Let_def)

lemma strip_flag_unsigned [simp]:
  "strip_flag CHR ''+'' (unsigned sp n) = (False, unsigned sp n)"
  "strip_flag CHR ''-'' (unsigned sp n) = (False, unsigned sp n)"
  using hd_unsigned [of sp n] by (auto simp: strip_flag_def)

lemma read_unsigned_unsigned:
  "read_unsigned (unsigned sp n) = Some (of_nat n / 10 ^ fs_precision sp)"
proof -
  let ?p = "fs_precision sp"
  have len: "length (zfill ?p (digits (n mod 10 ^ ?p))) = ?p" if "0 < ?p"
    using that by (intro length_zfill length_digits_le) simp_all
  have "(of_nat (n div 10 ^ ?p) * 10 ^ ?p + of_nat (n mod 10 ^ ?p) :: rat) =
      of_nat (n div 10 ^ ?p * 10 ^ ?p + n mod 10 ^ ?p)"
    by (simp only: of_nat_add of_nat_mult of_nat_power of_nat_numeral)
  also have "\<dots> = of_nat n" by (simp only: div_mult_mod_eq)
  finally have split: "of_nat n / 10 ^ ?p =
      (of_nat (n div 10 ^ ?p) + of_nat (n mod 10 ^ ?p) / 10 ^ ?p :: rat)"
    by (simp add: field_simps)
  show ?thesis
    unfolding read_unsigned_def unsigned_whole Let_def split
    by (simp add: ungroup_group3 len)
qed

lemma read_label_signed:
  "read_label (CHR ''-'' # unsigned sp n) = map_option uminus (read_unsigned (unsigned sp n))"
  "read_label (CHR ''+'' # unsigned sp n) = read_unsigned (unsigned sp n)"
  "read_label (unsigned sp n) = read_unsigned (unsigned sp n)"
proof -
  have plus: "strip_flag CHR ''-'' (CHR ''+'' # u) = (False, CHR ''+'' # u)" for u
    by (simp add: strip_flag_def)
  show "read_label (CHR ''-'' # unsigned sp n) = map_option uminus (read_unsigned (unsigned sp n))"
    by (simp add: read_label_def)
  show "read_label (CHR ''+'' # unsigned sp n) = read_unsigned (unsigned sp n)"
    by (simp add: read_label_def plus option.map_ident)
  show "read_label (unsigned sp n) = read_unsigned (unsigned sp n)"
    by (simp add: read_label_def option.map_ident)
qed

text \<open>
  Reading a formatted number gives the value rounded to the precision of the
  specification: nothing but the rounding is lost by printing.
\<close>

lemma read_label_format_f:
  "read_label (format_f sp x) =
     Some (of_int (round_half_even (x * 10 ^ fs_precision sp)) / 10 ^ fs_precision sp)"
proof -
  let ?p = "fs_precision sp"
  let ?n = "nat (round_half_even (\<bar>x\<bar> * 10 ^ ?p))"
  have nonneg: "0 \<le> round_half_even (\<bar>x\<bar> * 10 ^ ?p)"
    by (intro round_half_even_nonneg mult_nonneg_nonneg) simp_all
  show ?thesis
  proof (cases "x < 0")
    case True
    then have "round_half_even (\<bar>x\<bar> * 10 ^ ?p) = - round_half_even (x * 10 ^ ?p)"
      by (simp add: round_half_even_minus)
    with nonneg have "(of_nat ?n :: rat) = - of_int (round_half_even (x * 10 ^ ?p))"
      by simp
    with True show ?thesis
      by (simp add: format_f_eq read_label_signed read_unsigned_unsigned)
  next
    case False
    with nonneg have "(of_nat ?n :: rat) = of_int (round_half_even (x * 10 ^ ?p))"
      by simp
    with False show ?thesis
      by (simp add: format_f_eq read_label_signed read_unsigned_unsigned)
  qed
qed

text \<open>What a label shows is within half a unit of the last decimal of the value.\<close>

lemma format_f_error:
  assumes "read_label (format_f sp x) = Some v"
  shows "\<bar>v - x\<bar> \<le> 1 / (2 * 10 ^ fs_precision sp)"
proof -
  let ?p = "fs_precision sp"
  from assms have v: "v = of_int (round_half_even (x * 10 ^ ?p)) / 10 ^ ?p"
    by (simp add: read_label_format_f)
  have "v - x = (of_int (round_half_even (x * 10 ^ ?p)) - x * 10 ^ ?p) / 10 ^ ?p"
    by (simp add: v field_simps)
  then have "\<bar>v - x\<bar> = \<bar>of_int (round_half_even (x * 10 ^ ?p)) - x * 10 ^ ?p\<bar> / 10 ^ ?p"
    by (simp only: abs_divide) simp
  also have "\<dots> \<le> (1 / 2) / 10 ^ ?p"
    by (intro divide_right_mono round_half_even_bounds) simp
  finally show ?thesis by simp
qed


text \<open>Two values get the same label exactly when they round to the same number.\<close>

lemma format_f_eq_iff:
  "format_f sp x = format_f sp y \<Longrightarrow>
     round_half_even (x * 10 ^ fs_precision sp) = round_half_even (y * 10 ^ fs_precision sp)"
proof -
  assume "format_f sp x = format_f sp y"
  then have "read_label (format_f sp x) = read_label (format_f sp y)" by simp
  then show ?thesis by (simp add: read_label_format_f)
qed


section \<open>Specifications and format strings\<close>

lemma digits_no_flag [simp]: "hd (digits n) \<noteq> CHR ''+''" "hd (digits n) \<noteq> CHR '',''"
  using hd_digits [of n] by (auto simp del: hd_digits)

lemma parse_spec_tail:
  "parse_spec (CHR ''.'' # digits p @ ''f'') =
     Some \<lparr>fs_sign = False, fs_grouping = False, fs_precision = p\<rparr>"
  by (simp add: parse_spec_def strip_flag_def butlast_append)

text \<open>Printing a specification and reading it again gives the specification.\<close>

lemma parse_spec_spec_str: "parse_spec (spec_str sp) = Some sp"
proof -
  have tail: "strip_flag c (CHR ''.'' # r) = (c = CHR ''.'', if c = CHR ''.'' then r else CHR ''.'' # r)"
    for c r by (simp add: strip_flag_def)
  show ?thesis
    by (cases sp) (simp add: parse_spec_def spec_str_def tail butlast_append)
qed

lemma field_spec_field [simp]:
  "field_spec (CHR ''{'' # CHR ''x'' # CHR '':'' # s @ ''}'') = Some s"
  by (simp add: field_spec_def butlast_append)

lemma tick_label_field:
  "tick_label (''{x:'' @ spec_str sp @ ''}'') x = Some (format_f sp x)"
  by (simp add: tick_label_def parse_spec_spec_str)


section \<open>Evaluation\<close>

lemma floor_rat_numeral:
  "\<lfloor>numeral a / numeral b :: rat\<rfloor> = numeral a div numeral b"
  "\<lfloor>- (numeral a / numeral b) :: rat\<rfloor> = - numeral a div numeral b"
  "\<lfloor>1 / numeral b :: rat\<rfloor> = 1 div numeral b"
  using floor_divide_of_int_eq [where ?'a = rat, of "numeral a" "numeral b"]
    floor_divide_of_int_eq [where ?'a = rat, of "- numeral a" "numeral b"]
    floor_divide_of_int_eq [where ?'a = rat, of 1 "numeral b"] by simp_all

lemma digit_char_simps:
  "digit_char 0 = CHR ''0''" "digit_char 1 = CHR ''1''" "digit_char (Suc 0) = CHR ''1''"
  "digit_char 2 = CHR ''2''" "digit_char 3 = CHR ''3''" "digit_char 4 = CHR ''4''"
  "digit_char 5 = CHR ''5''" "digit_char 6 = CHR ''6''" "digit_char 7 = CHR ''7''"
  "digit_char 8 = CHR ''8''" "digit_char 9 = CHR ''9''"
  by (simp_all add: digit_char_def flip: of_char_eq_iff [where ?'a = nat])

lemma digits_numeral:
  "digits (numeral k) =
     (if (numeral k :: nat) < 10 then [digit_char (numeral k)]
      else digits (numeral k div 10) @ [digit_char (numeral k mod 10)])"
  "digits 0 = ''0''" "digits (Suc 0) = ''1''"
  by (rule digits.simps) (simp_all add: digits_less_10 digit_char_simps)

lemma group3_Cons:
  "group3 (c # cs) =
     (if length cs \<le> 2 then c # cs
      else group3 (take (length cs - 2) (c # cs)) @ CHR '','' # drop (length cs - 2) (c # cs))"
  "group3 [] = []"
  by (subst group3.simps; simp)+

lemmas format_eval =
  format_f_def Let_def round_half_even_def floor_rat_numeral digits_numeral group3_Cons
  digit_char_simps zfill_def thousands_def no_flags_def

lemma spec_str_thousands: "spec_str thousands = '',.0f''"
  by (simp add: spec_str_def thousands_def no_flags_def digits_numeral)

lemma tick_label_default: "tick_label ''{x:,.0f}'' x = Some (format_f thousands x)"
  using tick_label_field [of thousands x] by (simp add: spec_str_thousands)

end
