(* ===== verification/Graph.thy ===== *)
theory Graph
  imports GeoPlot GeoData Format
begin

text \<open>
  The renderers and the colour scale: \<^verbatim>\<open>src/src/graph.py\<close>. This theory holds the
  class \<^verbatim>\<open>Graph\<close> with its boundary and choropleth renderers; the renderers that draw
  over the boundary map are in theory \<open>Overlays\<close>, the classification map in \<open>Subsidy\<close>.

  \<^item> The parameter class \<^verbatim>\<open>ChoroplethParams\<close> is a record, its generated constructor with
    the default values is \<open>ChoroplethParams_init\<close>.
  \<^item> An object of class \<^verbatim>\<open>Graph\<close> holds a configuration, a \<open>Shapefile\<close>, a \<open>GeoPlot\<close> and
    a \<open>GeoData\<close>; the renderers read the first and the third, and the methods of the
    last are functions of the datasets. \<open>Graph_init\<close> is the constructor, which also
    registers two fonts. The methods take the contents of the datasets \<open>ds\<close>
    and the state of pyplot as arguments and return a result together with the new state
    of pyplot, since the figure they create stays registered when they raise.
  \<^item> \<open>area_bbox\<close> is the tuple \<open>bbox\<close> every renderer builds from the region table,
    \<open>on_child\<close> is a plotting call with \<open>ax=ax.child_axes[i]\<close>: it raises \<open>IndexError\<close>
    when there is no panel \<open>i\<close> and otherwise replaces that panel by the one drawn on.
  \<^item> \<open>plot_boundary_step\<close> and \<open>plot_choropleth_step\<close> are the bodies of the \<open>for\<close> loops,
    \<open>plot_boundary\<close> and \<open>plot_choropleth\<close> the methods, \<open>Graph_colorbar\<close> is \<^verbatim>\<open>_colorbar\<close>.
  \<^item> \<open>managed_plot\<close> and \<open>manage_memory\<close> are the two context managers, as functions of
    the body they enclose; \<open>ensure_figure_closed\<close> and \<open>cleanup_memory\<close> release figures.
    Garbage collection is not modelled. \<open>graph_module\<close> is the assignment to \<^verbatim>\<open>rcParams\<close>
    that runs when the module is imported.

  The specification of the renderers is \<open>paint\<close>: the regions of the table are paired
  with the panels of the figure in order, and panel \<open>i\<close> is drawn on with the data of
  region \<open>i\<close> (\<open>boundary_draw\<close>, \<open>choropleth_draw\<close>). The generic lemmas \<open>for_each_paint\<close>
  and \<open>for_each_panels\<close> say that a loop over \<open>enumerate\<close> that draws on panel \<open>i\<close> in
  step \<open>i\<close> computes \<open>paint\<close>; the refinement lemmas \<open>plot_boundary_Inr_iff\<close> and
  \<open>plot_choropleth_Inr_iff\<close> instantiate them.
  From them: when a renderer returns, what each panel holds; the fallback to the bare
  boundary; the boundary drawn last; the colour scale over the whole input and its
  independence of the order of the rows; the inputs on which the renderers return, and
  the exceptions otherwise.
\<close>

record ChoroplethParams =
  cp_data :: dataframe
  cp_column :: pystr
  cp_level :: pystr
  cp_cmap :: pystr
  cp_colorbar_format :: pystr
  cp_colorbar_tick_visible :: bool

definition ChoroplethParams_init :: "dataframe \<Rightarrow> pystr \<Rightarrow> ChoroplethParams" where
  "ChoroplethParams_init data column =
     \<lparr>cp_data = data, cp_column = column, cp_level = ''county'', cp_cmap = ''GnBu'',
      cp_colorbar_format = ''{x:,.0f}'', cp_colorbar_tick_visible = True\<rparr>"

definition graph_module :: "pyplot \<Rightarrow> pyplot" where
  "graph_module plt = plt\<lparr>max_open_warning := 0\<rparr>"

record Graph =
  graph_fig_config :: fig_config
  graph_shapefile :: Shapefile
  geo_plot :: GeoPlot
  geo_data :: GeoData

definition Graph_init :: "fig_config \<Rightarrow> font_manager \<Rightarrow> Graph \<times> font_manager" where
  "Graph_init cfg fm =
     (let self = \<lparr>graph_fig_config = cfg, graph_shapefile = Shapefile_init,
                  geo_plot = GeoPlot_init cfg, geo_data = GeoData_init cfg\<rparr>;
          fm = register fm Urbanist;
          fm = register fm NotoSerifTC
      in (self, fm))"

text \<open>Releasing figures.\<close>

definition managed_plot :: "(pyplot \<Rightarrow> 'a result \<times> pyplot) \<Rightarrow> pyplot \<Rightarrow> 'a result \<times> pyplot" where
  "managed_plot body plt = (case body plt of (r, plt) \<Rightarrow> (r, close_all plt))"

definition ensure_figure_closed :: "figure option \<Rightarrow> pyplot \<Rightarrow> pyplot" where
  "ensure_figure_closed fig plt = (case fig of None \<Rightarrow> plt | Some f \<Rightarrow> close plt (number f))"

definition cleanup_memory :: "pyplot \<Rightarrow> pyplot" where
  "cleanup_memory plt = (let plt = close_all plt; plt = rcdefaults plt in plt)"

definition manage_memory :: "(pyplot \<Rightarrow> 'a result \<times> pyplot) \<Rightarrow> pyplot \<Rightarrow> 'a result \<times> pyplot" where
  "manage_memory body plt = (case body plt of (r, plt) \<Rightarrow> (r, close_all plt))"

text \<open>The boundary renderer.\<close>

definition area_bbox :: "area_range \<Rightarrow> pystr \<Rightarrow> bbox result" where
  "area_bbox area_range a =
     rbind (getitem_str area_range a) (\<lambda>r0.
     rbind (getitem_str area_range a) (\<lambda>r1.
     rbind (getitem_str area_range a) (\<lambda>r2.
     rbind (getitem_str area_range a) (\<lambda>r3.
       Inr (min_x (bounds r0), min_y (bounds r1), max_x (bounds r2), max_y (bounds r3))))))"

definition on_child :: "figure \<Rightarrow> nat \<Rightarrow> (axes \<Rightarrow> axes result) \<Rightarrow> figure result" where
  "on_child ax i draw =
     rbind (list_item (child_axes ax) i) (\<lambda>child.
     rbind (draw child) (\<lambda>child.
       Inr (ax\<lparr>child_axes := (child_axes ax)[i := child]\<rparr>)))"

definition plot_boundary_step ::
  "area_range \<Rightarrow> datasets \<Rightarrow> figure \<Rightarrow> nat \<times> pystr \<Rightarrow> figure result" where
  "plot_boundary_step area_range ds ax ia =
     (case ia of (i, a) \<Rightarrow>
        rbind (area_bbox area_range a) (\<lambda>bbox.
        rbind (get_county_gpd ds bbox) (\<lambda>gdf.
          on_child ax i (\<lambda>child. Inr (boundary_plot gdf ''black'' 0.8 child)))))"

definition plot_boundary :: "Graph \<Rightarrow> datasets \<Rightarrow> pyplot \<Rightarrow> figure result \<times> pyplot" where
  "plot_boundary self ds plt =
     (let area_list = area_list (geo_plot self);
          area_range = AREA_RANGE (graph_fig_config self)
      in case base (geo_plot self) plt of (r, plt) \<Rightarrow>
           (rbind r (\<lambda>ax. for_each (plot_boundary_step area_range ds) area_list ax), plt))"

text \<open>The choropleth renderer and the colour scale.\<close>

definition Graph_colorbar ::
  "figure \<Rightarrow> cell \<Rightarrow> cell \<Rightarrow> pystr \<Rightarrow> pystr \<Rightarrow> bool \<Rightarrow> figure \<times> colorbar" where
  "Graph_colorbar ax v_min v_max cmap colorbar_format colorbar_tick_visible =
     (let cbar = \<lparr>cbar_vmin = v_min, cbar_vmax = v_max, cbar_cmap = cmap,
                  cbar_format = colorbar_format, cbar_location = ''right'',
                  cbar_orientation = ''vertical'', cbar_fraction = 0.03, cbar_pad = - 0.03,
                  cbar_locator = AutoLocator, cbar_labelsize = None,
                  cbar_labelfontfamily = None\<rparr>;
          cbar = (if colorbar_tick_visible
                  then cbar\<lparr>cbar_locator := MaxNLocator 6, cbar_labelsize := Some 18,
                            cbar_labelfontfamily := Some ''Urbanist''\<rparr>
                  else cbar\<lparr>cbar_locator := NullLocator\<rparr>)
      in (ax\<lparr>colorbars := colorbars ax @ [cbar]\<rparr>, cbar))"


definition plot_choropleth_step ::
  "area_range \<Rightarrow> datasets \<Rightarrow> ChoroplethParams \<Rightarrow> figure \<Rightarrow> nat \<times> pystr \<Rightarrow> figure result" where
  "plot_choropleth_step area_range ds params ax ia =
     (case ia of (i, a) \<Rightarrow>
        rbind (area_bbox area_range a) (\<lambda>bbox.
        rbind (if cp_level params = ''town'' then get_town_gpd ds bbox
               else get_county_gpd ds bbox) (\<lambda>gdf.
        rbind (merge_gdf_and_df gdf (cp_data params)
                 \<lparr>left_on = (if cp_level params = ''town'' then [''COUNTYNAME'', ''TOWNNAME'']
                              else [''COUNTYNAME'']),
                  right_on = (if cp_level params = ''town'' then [''county'', ''town'']
                              else [''county''])\<rparr>) (\<lambda>gdf.
          if gdf = [] then
            rbind (get_county_gpd ds bbox) (\<lambda>county_edge.
              on_child ax i (\<lambda>child. Inr (boundary_plot county_edge ''black'' 0.8 child)))
          else
            rbind (on_child ax i (column_plot gdf (cp_column params) (cp_cmap params))) (\<lambda>ax.
            rbind (get_county_gpd ds bbox) (\<lambda>county_edge.
              on_child ax i (\<lambda>child. Inr (boundary_plot county_edge ''black'' 0.8 child))))))))"

definition plot_choropleth ::
  "Graph \<Rightarrow> datasets \<Rightarrow> ChoroplethParams \<Rightarrow> pyplot \<Rightarrow> figure result \<times> pyplot" where
  "plot_choropleth self ds params plt =
     (let area_list = area_list (geo_plot self);
          area_range = AREA_RANGE (graph_fig_config self)
      in case base (geo_plot self) plt of (r, plt) \<Rightarrow>
           (rbind r (\<lambda>ax.
            rbind (for_each (plot_choropleth_step area_range ds params) area_list ax) (\<lambda>ax.
            rbind (series (cp_data params) (cp_column params)) (\<lambda>col.
            rbind (series_min col) (\<lambda>v_min.
            rbind (series (cp_data params) (cp_column params)) (\<lambda>col.
            rbind (series_max col) (\<lambda>v_max.
              Inr (fst (Graph_colorbar ax v_min v_max (cp_cmap params)
                          (cp_colorbar_format params) (cp_colorbar_tick_visible params))))))))),
            plt))"


text \<open>The specification: region \<open>i\<close> is drawn on panel \<open>i\<close>.\<close>

fun paint :: "('a \<Rightarrow> axes \<Rightarrow> axes result) \<Rightarrow> 'a list \<Rightarrow> axes list \<Rightarrow> axes list result" where
  "paint draw [] cs = Inr cs"
| "paint draw (a # as) [] = Inl IndexError"
| "paint draw (a # as) (c # cs) =
     rbind (draw a c) (\<lambda>c'. rbind (paint draw as cs) (\<lambda>cs'. Inr (c' # cs')))"

definition boundary_draw :: "area_range \<Rightarrow> datasets \<Rightarrow> pystr \<Rightarrow> axes \<Rightarrow> axes result" where
  "boundary_draw ar ds a child =
     rbind (area_bbox ar a) (\<lambda>bbox.
     rbind (get_county_gpd ds bbox) (\<lambda>gdf. Inr (boundary_plot gdf ''black'' 0.8 child)))"

definition choropleth_kwargs :: "ChoroplethParams \<Rightarrow> merge_kwargs" where
  "choropleth_kwargs p =
     (if cp_level p = ''town''
      then \<lparr>left_on = [''COUNTYNAME'', ''TOWNNAME''], right_on = [''county'', ''town'']\<rparr>
      else \<lparr>left_on = [''COUNTYNAME''], right_on = [''county'']\<rparr>)"

definition choropleth_path :: "ChoroplethParams \<Rightarrow> pystr" where
  "choropleth_path p = (if cp_level p = ''town'' then TOWN else COUNTY)"

definition choropleth_draw ::
  "area_range \<Rightarrow> datasets \<Rightarrow> ChoroplethParams \<Rightarrow> pystr \<Rightarrow> axes \<Rightarrow> axes result" where
  "choropleth_draw ar ds p a child =
     rbind (area_bbox ar a) (\<lambda>bbox.
     rbind (read_file ds (choropleth_path p) bbox) (\<lambda>gdf.
     rbind (merge_gdf_and_df gdf (cp_data p) (choropleth_kwargs p)) (\<lambda>m.
     rbind (column_plot m (cp_column p) (cp_cmap p) child) (\<lambda>child.
     rbind (get_county_gpd ds bbox) (\<lambda>edge. Inr (boundary_plot edge ''black'' 0.8 child))))))"

definition column_cells :: "ChoroplethParams \<Rightarrow> cell list" where
  "column_cells p = map (\<lambda>r. cell_of r (cp_column p)) (rows (cp_data p))"

text \<open>
  Sample inputs: the object the service builds, the figure the boundary renderer gives
  for the sample store, choropleth parameters over the sample rows, and rows without a
  key column.
\<close>

definition shipped_graph :: Graph where
  "shipped_graph = fst (Graph_init FigConfig [])"

definition sample_boundary :: figure where
  "sample_boundary =
     shipped_figure\<lparr>child_axes :=
       map (\<lambda>(l, p). p\<lparr>artists := artists p @
              edge_artists (features_in sample_counties (bounds_of FigConfig_AREA_RANGE l))\<rparr>)
         (zip layout_labels (layout (bounds_of FigConfig_AREA_RANGE)))\<rparr>"

definition sample_params :: ChoroplethParams where
  "sample_params = ChoroplethParams_init sample_rows ''value''"

definition keyless_rows :: dataframe where
  "keyless_rows = DataFrame [[(''name'', Str ''Taipei''), (''value'', Num 10)]]"

definition reversed_rows :: dataframe where
  "reversed_rows = DataFrame [penghu_20, taipei_10]"


section \<open>Panels and loops\<close>

lemma rbind_case: "rbind m f = (case m of Inl e \<Rightarrow> Inl e | Inr a \<Rightarrow> f a)"
  by (cases m) simp_all

lemma area_bbox_eq:
  "area_bbox ar a = rbind (getitem_str ar a) (\<lambda>r. Inr (bbox_of (bounds r)))"
  by (cases "getitem_str ar a") (simp_all add: area_bbox_def bbox_of_def)

lemma on_child_eq:
  "on_child ax i draw =
     (if i < length (child_axes ax)
      then rbind (draw (child_axes ax ! i)) (\<lambda>c. Inr (ax\<lparr>child_axes := (child_axes ax)[i := c]\<rparr>))
      else Inl IndexError)"
  by (simp add: on_child_def list_item_def)

lemma paint_length: "paint draw as cs = Inr cs' \<Longrightarrow> length cs' = length cs \<and> length as \<le> length cs"
  by (induction draw as cs arbitrary: cs' rule: paint.induct) (auto simp: rbind_ok_iff)

lemma paint_nth:
  "paint draw as cs = Inr cs' \<Longrightarrow> i < length as \<Longrightarrow> draw (as ! i) (cs ! i) = Inr (cs' ! i)"
  by (induction draw as cs arbitrary: cs' i rule: paint.induct)
     (auto simp: rbind_ok_iff nth_Cons split: nat.splits)

lemma paint_rest:
  "paint draw as cs = Inr cs' \<Longrightarrow> length as \<le> i \<Longrightarrow> cs' ! i = cs ! i"
  by (induction draw as cs arbitrary: cs' i rule: paint.induct)
     (auto simp: rbind_ok_iff nth_Cons split: nat.splits)

lemma paint_ok_iff:
  "(\<exists>cs'. paint draw as cs = Inr cs') \<longleftrightarrow>
     length as \<le> length cs \<and> (\<forall>i < length as. \<exists>c. draw (as ! i) (cs ! i) = Inr c)"
proof (induction draw as cs rule: paint.induct)
  case (3 draw a as c cs)
  have "(\<forall>i < Suc (length as). \<exists>c'. draw ((a # as) ! i) ((c # cs) ! i) = Inr c') \<longleftrightarrow>
      (\<exists>c'. draw a c = Inr c') \<and> (\<forall>i < length as. \<exists>c'. draw (as ! i) (cs ! i) = Inr c')"
    by (auto simp: less_Suc_eq_0_disj)
  with 3 show ?case by (auto simp: rbind_ok_iff)
qed simp_all

lemma paint_map:
  "length as = length cs \<Longrightarrow> (\<And>a c. a \<in> set as \<Longrightarrow> draw a c = Inr (f a c)) \<Longrightarrow>
   paint draw as cs = Inr (map (\<lambda>(a, c). f a c) (zip as cs))"
  by (induction draw as cs rule: paint.induct) simp_all

text \<open>A loop over \<open>enumerate\<close> that draws on panel \<open>i\<close> in step \<open>i\<close> computes \<open>paint\<close>.\<close>

lemma for_each_paint:
  assumes "\<And>ax i a. a \<in> set as \<Longrightarrow> i < length (child_axes ax) \<Longrightarrow>
      step ax (i, a) = on_child ax i (draw a)"
    and "k + length as \<le> length (child_axes ax)"
  shows "for_each step (enumerate k as) ax =
     rbind (paint draw as (drop k (child_axes ax)))
       (\<lambda>cs. Inr (ax\<lparr>child_axes := take k (child_axes ax) @ cs\<rparr>))"
  using assms
proof (induction as arbitrary: k ax)
  case Nil
  then show ?case by simp
next
  case (Cons a as)
  from Cons.prems(2) have k: "k < length (child_axes ax)" by simp
  then have d: "drop k (child_axes ax) = child_axes ax ! k # drop (Suc k) (child_axes ax)"
    by (simp add: Cons_nth_drop_Suc)
  have s: "step ax (k, a) = on_child ax k (draw a)"
    using Cons.prems(1) k by simp
  show ?case
  proof (cases "draw a (child_axes ax ! k)")
    case (Inl e)
    with k d s show ?thesis by (simp add: on_child_eq)
  next
    case (Inr c)
    let ?ax = "ax\<lparr>child_axes := (child_axes ax)[k := c]\<rparr>"
    have "for_each step (enumerate (Suc k) as) ?ax =
        rbind (paint draw as (drop (Suc k) (child_axes ?ax)))
          (\<lambda>cs. Inr (?ax\<lparr>child_axes := take (Suc k) (child_axes ?ax) @ cs\<rparr>))"
      using Cons.prems by (intro Cons.IH) simp_all
    moreover have "take (Suc k) ((child_axes ax)[k := c]) = take k (child_axes ax) @ [c]"
      using k by (simp add: take_Suc_conv_app_nth)
    ultimately show ?thesis
      using k d s Inr
      by (cases "paint draw as (drop (Suc k) (child_axes ax))") (simp_all add: on_child_eq)
  qed
qed

text \<open>With more regions than panels the loop raises.\<close>

lemma for_each_panels:
  assumes "\<And>ax i a. i < length (child_axes ax) \<Longrightarrow> step ax (i, a) = on_child ax i (draw a)"
    and "\<And>ax i a. length (child_axes ax) \<le> i \<Longrightarrow> \<exists>e. step ax (i, a) = Inl e"
  shows "for_each step (enumerate 0 as) ax = Inr ax' \<longleftrightarrow>
     (\<exists>cs. paint draw as (child_axes ax) = Inr cs \<and> ax' = ax\<lparr>child_axes := cs\<rparr>)"
proof (cases "length as \<le> length (child_axes ax)")
  case True
  then have "for_each step (enumerate 0 as) ax =
      rbind (paint draw as (drop 0 (child_axes ax)))
        (\<lambda>cs. Inr (ax\<lparr>child_axes := take 0 (child_axes ax) @ cs\<rparr>))"
    by (intro for_each_paint) (simp_all add: assms(1))
  then show ?thesis by (auto simp: rbind_ok_iff)
next
  case False
  define n where "n = length (child_axes ax)"
  with False have n: "n < length as" by simp
  then have as: "as = take n as @ as ! n # drop (Suc n) as"
    by (simp add: id_take_nth_drop [symmetric])
  have *: "for_each step (enumerate 0 (take n as)) ax =
      rbind (paint draw (take n as) (drop 0 (child_axes ax)))
        (\<lambda>cs. Inr (ax\<lparr>child_axes := take 0 (child_axes ax) @ cs\<rparr>))"
    using n by (intro for_each_paint) (simp_all add: assms(1) n_def)
  have 1: "length (child_axes ax'') = n"
    if "for_each step (enumerate 0 (take n as)) ax = Inr ax''" for ax''
  proof -
    from that * have "rbind (paint draw (take n as) (drop 0 (child_axes ax)))
        (\<lambda>cs. Inr (ax\<lparr>child_axes := take 0 (child_axes ax) @ cs\<rparr>)) = Inr ax''"
      by simp
    then show ?thesis by (auto simp: rbind_ok_iff n_def dest: paint_length)
  qed
  have "for_each step (enumerate 0 as) ax =
      rbind (for_each step (enumerate 0 (take n as)) ax)
        (for_each step ((n, as ! n) # enumerate (Suc n) (drop (Suc n) as)))"
    using n by (subst as) (simp add: enumerate_append_eq for_each_append min_absorb2)
  moreover have "\<nexists>ax'. rbind (for_each step (enumerate 0 (take n as)) ax)
        (for_each step ((n, as ! n) # enumerate (Suc n) (drop (Suc n) as))) = Inr ax'"
  proof (cases "for_each step (enumerate 0 (take n as)) ax")
    case (Inr ax'')
    with 1 have "length (child_axes ax'') \<le> n" by simp
    from assms(2) [OF this] obtain e where "step ax'' (n, as ! n) = Inl e" by blast
    with Inr show ?thesis by simp
  qed simp
  moreover have "\<nexists>cs. paint draw as (child_axes ax) = Inr cs"
    using False by (auto dest: paint_length)
  ultimately show ?thesis by simp
qed


section \<open>The constructor and the release of figures\<close>

lemma Graph_init_fields [simp]:
  "graph_fig_config (fst (Graph_init cfg fm)) = cfg"
  "geo_plot (fst (Graph_init cfg fm)) = GeoPlot_init cfg"
  by (simp_all add: Graph_init_def Let_def)

lemma Graph_init_fonts: "snd (Graph_init cfg fm) = fm @ [Urbanist, NotoSerifTC]"
  by (simp add: Graph_init_def Let_def register_def addfont_def)

lemma cleanup_memory_fields [simp]:
  "fignums (cleanup_memory p) = []"
  "max_open_warning (cleanup_memory p) = default_max_open_warning"
  by (simp_all add: cleanup_memory_def Let_def)

lemma managed_plot_fignums [simp]: "fignums (snd (managed_plot body p)) = []"
  by (simp add: managed_plot_def split: prod.splits)

lemma manage_memory_fignums [simp]: "fignums (snd (manage_memory body p)) = []"
  by (simp add: manage_memory_def split: prod.splits)

lemma Graph_colorbar_fields [simp]:
  "child_axes (fst (Graph_colorbar ax lo hi cmap fmt tv)) = child_axes ax"
  "number (fst (Graph_colorbar ax lo hi cmap fmt tv)) = number ax"
  "colorbars (fst (Graph_colorbar ax lo hi cmap fmt tv)) =
     colorbars ax @ [snd (Graph_colorbar ax lo hi cmap fmt tv)]"
  "cbar_vmin (snd (Graph_colorbar ax lo hi cmap fmt tv)) = lo"
  "cbar_vmax (snd (Graph_colorbar ax lo hi cmap fmt tv)) = hi"
  "cbar_cmap (snd (Graph_colorbar ax lo hi cmap fmt tv)) = cmap"
  "cbar_format (snd (Graph_colorbar ax lo hi cmap fmt tv)) = fmt"
  "cbar_locator (snd (Graph_colorbar ax lo hi cmap fmt tv)) = (if tv then MaxNLocator 6 else NullLocator)"
  by (simp_all add: Graph_colorbar_def Let_def)

lemma Graph_colorbar_snd:
  "snd (Graph_colorbar ax lo hi cmap fmt tv) = snd (Graph_colorbar ax' lo hi cmap fmt tv)"
  by (simp add: Graph_colorbar_def Let_def)


section \<open>The boundary renderer\<close>

lemma boundary_draw_eq:
  "boundary_draw ar ds a c =
     (case map_of ar a of
        None \<Rightarrow> Inl (KeyError a)
      | Some r \<Rightarrow> case ds COUNTY of
          None \<Rightarrow> Inl (DataSourceError COUNTY)
        | Some all \<Rightarrow> Inr (c\<lparr>artists := artists c @ edge_artists (features_in all (bounds r))\<rparr>))"
  unfolding boundary_draw_def boundary_plot_edge
  by (simp add: area_bbox_eq getitem_def get_county_gpd_eq read_file_eq split: option.splits)

lemma plot_boundary_step_eq:
  assumes "i < length (child_axes ax)"
  shows "plot_boundary_step ar ds ax (i, a) = on_child ax i (boundary_draw ar ds a)"
  using assms
  by (simp add: plot_boundary_step_def boundary_draw_def on_child_eq rbind_case split: sum.splits)

lemma plot_boundary_step_overflow:
  "length (child_axes ax) \<le> i \<Longrightarrow> \<exists>e. plot_boundary_step ar ds ax (i, a) = Inl e"
  by (simp add: plot_boundary_step_def on_child_eq rbind_case split: sum.splits)

lemma plot_boundary_plt: "snd (plot_boundary self ds plt) = snd (base (geo_plot self) plt)"
  by (cases "base (geo_plot self) plt") (simp add: plot_boundary_def Let_def)

lemma plot_boundary_fst:
  "fst (plot_boundary self ds plt) =
     rbind (fst (base (geo_plot self) plt))
       (for_each (plot_boundary_step (AREA_RANGE (graph_fig_config self)) ds) (area_list (geo_plot self)))"
  by (cases "base (geo_plot self) plt") (simp add: plot_boundary_def Let_def)

text \<open>The refinement lemma of the boundary renderer.\<close>

lemma plot_boundary_Inr_iff:
  "fst (plot_boundary (fst (Graph_init cfg fm)) ds plt) = Inr fig \<longleftrightarrow>
     (\<exists>ax cs. fst (base (GeoPlot_init cfg) plt) = Inr ax \<and>
        paint (boundary_draw (AREA_RANGE cfg) ds) (map fst (AREA_RANGE cfg)) (child_axes ax) = Inr cs \<and>
        fig = ax\<lparr>child_axes := cs\<rparr>)"
  by (simp add: plot_boundary_fst rbind_ok_iff
      for_each_panels [of "plot_boundary_step (AREA_RANGE cfg) ds", OF plot_boundary_step_eq plot_boundary_step_overflow])

lemma plot_boundary_ok_iff:
  "(\<exists>fig. fst (plot_boundary (fst (Graph_init cfg fm)) ds plt) = Inr fig) \<longleftrightarrow>
     first_error (AREA_RANGE cfg) layout_labels = None \<and> length (AREA_RANGE cfg) = 7 \<and>
     ds COUNTY \<noteq> None"
  (is "?L \<longleftrightarrow> ?R")
proof
  assume ?L
  then obtain ax cs where ax: "fst (base (GeoPlot_init cfg) plt) = Inr ax"
    and cs: "paint (boundary_draw (AREA_RANGE cfg) ds) (map fst (AREA_RANGE cfg)) (child_axes ax) = Inr cs"
    by (auto simp: plot_boundary_Inr_iff)
  from ax have fe: "first_error (AREA_RANGE cfg) layout_labels = None" and l: "length (child_axes ax) = 7"
    by (simp_all add: base_Inr_iff)
  from paint_length [OF cs] l first_error_None_length [OF fe] have n: "length (AREA_RANGE cfg) = 7"
    by simp
  from paint_nth [OF cs, of 0] n have "ds COUNTY \<noteq> None"
    by (auto simp: boundary_draw_eq split: option.splits)
  with fe n show ?R by simp
next
  assume r: ?R
  then obtain all where all: "ds COUNTY = Some all" by auto
  let ?ax = "(base_figure (GeoPlot_init cfg) plt)\<lparr>child_axes := layout (bounds_of (AREA_RANGE cfg))\<rparr>"
  from r have ax: "fst (base (GeoPlot_init cfg) plt) = Inr ?ax" by (simp add: base_Inr_iff)
  have "\<exists>c. boundary_draw (AREA_RANGE cfg) ds (map fst (AREA_RANGE cfg) ! i) (child_axes ?ax ! i) = Inr c"
    if "i < length (map fst (AREA_RANGE cfg))" for i
    using nth_key_map_of [of i "AREA_RANGE cfg"] that all by (auto simp: boundary_draw_eq)
  with r have "\<exists>cs. paint (boundary_draw (AREA_RANGE cfg) ds) (map fst (AREA_RANGE cfg)) (child_axes ?ax) = Inr cs"
    unfolding paint_ok_iff by simp
  with ax show ?L by (auto simp: plot_boundary_Inr_iff)
qed

lemma plot_boundary_length:
  assumes "fst (plot_boundary (fst (Graph_init cfg fm)) ds plt) = Inr fig"
  shows "length (child_axes fig) = 7"
  using assms by (auto simp: plot_boundary_Inr_iff base_child_axes dest!: paint_length)

lemma plot_boundary_child:
  assumes "fst (plot_boundary (fst (Graph_init cfg fm)) ds plt) = Inr fig" and "i < 7"
  shows "\<exists>all. ds COUNTY = Some all \<and>
     child_axes fig ! i = (layout (bounds_of (AREA_RANGE cfg)) ! i)
       \<lparr>artists := edge_artists (features_in all
          (bounds_of (AREA_RANGE cfg) (map fst (AREA_RANGE cfg) ! i)))\<rparr>"
proof -
  from assms(1) obtain ax cs where ax: "fst (base (GeoPlot_init cfg) plt) = Inr ax"
    and cs: "paint (boundary_draw (AREA_RANGE cfg) ds) (map fst (AREA_RANGE cfg)) (child_axes ax) = Inr cs"
    and fig: "fig = ax\<lparr>child_axes := cs\<rparr>"
    by (auto simp: plot_boundary_Inr_iff)
  from assms(1) have n: "length (AREA_RANGE cfg) = 7" and "ds COUNTY \<noteq> None"
    using plot_boundary_ok_iff [of cfg fm ds plt] by auto
  then obtain all where all: "ds COUNTY = Some all" by auto
  from nth_key_map_of [of i "AREA_RANGE cfg"] n assms(2)
  obtain r where r: "map_of (AREA_RANGE cfg) (map fst (AREA_RANGE cfg) ! i) = Some r" by auto
  from paint_nth [OF cs, of i] n assms(2) ax all r fig layout_nth(2) [OF assms(2)] show ?thesis
    by (simp add: boundary_draw_eq base_child_axes bounds_of_def)
qed

lemma plot_boundary_ordered:
  assumes "fst (plot_boundary (fst (Graph_init cfg fm)) ds plt) = Inr fig"
    and "map fst (AREA_RANGE cfg) = layout_labels"
    and "p \<in> set (child_axes fig)"
  shows "\<exists>all. ds COUNTY = Some all \<and> artists p = edge_artists (features_in all (extent p))"
proof -
  from assms(3) plot_boundary_length [OF assms(1)]
  obtain i where i: "i < 7" and p: "p = child_axes fig ! i" by (auto simp: in_set_conv_nth)
  from plot_boundary_child [OF assms(1) i] layout_nth [OF i, of "bounds_of (AREA_RANGE cfg)"] assms(2) p
  show ?thesis by auto
qed

lemma plot_boundary_labels:
  assumes "fst (plot_boundary (fst (Graph_init cfg fm)) ds plt) = Inr fig"
  shows "map label (child_axes fig) = layout_labels"
proof (rule nth_equalityI)
  show "length (map label (child_axes fig)) = length layout_labels"
    using plot_boundary_length [OF assms] by simp
  fix i assume "i < length (map label (child_axes fig))"
  then have i: "i < 7" using plot_boundary_length [OF assms] by simp
  from plot_boundary_child [OF assms i] layout_nth(1) [OF i, of "bounds_of (AREA_RANGE cfg)"] i
    plot_boundary_length [OF assms]
  show "map label (child_axes fig) ! i = layout_labels ! i" by auto
qed

text \<open>The sample store.\<close>

lemma sample_features_in:
  "features_in sample_counties (bounds_of FigConfig_AREA_RANGE ''taiwan'') = sample_counties"
  "features_in sample_counties (bounds_of FigConfig_AREA_RANGE ''penghu'') = [Penghu]"
  "features_in sample_counties (bounds_of FigConfig_AREA_RANGE ''kinmen'') = [Kinmen]"
  "features_in sample_counties (bounds_of FigConfig_AREA_RANGE ''kinmen-wuqiu'') = [Kinmen]"
  "features_in sample_counties (bounds_of FigConfig_AREA_RANGE ''lienchiang'') = []"
  "features_in sample_counties (bounds_of FigConfig_AREA_RANGE ''lienchiang-dongyin'') = []"
  "features_in sample_counties (bounds_of FigConfig_AREA_RANGE ''lienchiang-juguang'') = []"
  by (simp_all add: features_in_def bbox_of_def intersects_def sample_counties_def county_defs)

lemma sample_merge_regions:
  "merge_gdf_and_df sample_counties sample_rows \<lparr>left_on = [''COUNTYNAME''], right_on = [''county'']\<rparr> =
     Inr [(Taipei, taipei_10), (Penghu, penghu_20)]"
  "merge_gdf_and_df [Penghu] sample_rows \<lparr>left_on = [''COUNTYNAME''], right_on = [''county'']\<rparr> =
     Inr [(Penghu, penghu_20)]"
  "merge_gdf_and_df [Kinmen] sample_rows \<lparr>left_on = [''COUNTYNAME''], right_on = [''county'']\<rparr> =
     Inr []"
  by (simp_all add: sample_defs)

lemmas sample_regions = AREA_RANGE_keys sample_features_in sample_merge_regions

lemma boundary_draw_sample:
  "l \<in> set layout_labels \<Longrightarrow>
   boundary_draw FigConfig_AREA_RANGE sample_store l c =
     Inr (c\<lparr>artists := artists c @
       edge_artists (features_in sample_counties (bounds_of FigConfig_AREA_RANGE l))\<rparr>)"
  using first_error_FigConfig
  by (auto simp: boundary_draw_eq bounds_of_def first_error_None_iff)

lemma sample_boundary_eq:
  "fst (plot_boundary (fst (Graph_init FigConfig [])) sample_store plt0) = Inr sample_boundary"
  unfolding plot_boundary_Inr_iff
  by (simp add: base_shipped [unfolded shipped_def] layout_labels_FigConfig [simplified]
      sample_boundary_def paint_map [OF _ boundary_draw_sample])

lemma sample_boundary_artists:
  "map artists (child_axes sample_boundary) =
     [edge_artists sample_counties, edge_artists [Penghu],
      edge_artists [Kinmen], edge_artists [Kinmen], [], [], []]"
  by (simp add: sample_boundary_def layout_labels_def layout_def sample_features_in
      del: bounds_of_FigConfig)


section \<open>The choropleth renderer\<close>

lemma choropleth_kwargs_length [simp]:
  "length (left_on (choropleth_kwargs p)) = length (right_on (choropleth_kwargs p))"
  by (simp add: choropleth_kwargs_def)

lemma choropleth_county [simp]:
  "cp_level p \<noteq> ''town'' \<Longrightarrow> choropleth_path p = COUNTY"
  "cp_level p \<noteq> ''town'' \<Longrightarrow>
     choropleth_kwargs p = \<lparr>left_on = [''COUNTYNAME''], right_on = [''county'']\<rparr>"
  by (simp_all add: choropleth_path_def choropleth_kwargs_def)

lemma merge_has_column:
  assumes "merge_gdf_and_df gdf df kw = Inr m" and "\<forall>r \<in> set (rows df). c \<in> fst ` set r"
  shows "has_column m c"
  unfolding has_column_def list_all_iff
proof
  fix fr assume "fr \<in> set m"
  then have "(fst fr, snd fr) \<in> set m" by simp
  then have "snd fr \<in> set (rows df)"
    using merge_mem_iff [OF assms(1) [unfolded merge_gdf_and_df_eq]] by blast
  with assms(2) show "c \<in> fst ` set (props (fst fr) @ snd fr)" by auto
qed

lemma plot_choropleth_step_eq:
  assumes "i < length (child_axes ax)"
  shows "plot_choropleth_step ar ds p ax (i, a) = on_child ax i (choropleth_draw ar ds p a)"
  using assms
  by (simp add: plot_choropleth_step_def choropleth_draw_def choropleth_kwargs_def choropleth_path_def
      get_county_gpd_eq get_town_gpd_eq on_child_eq rbind_case split: sum.splits)

lemma plot_choropleth_step_overflow:
  assumes "length (child_axes ax) \<le> i"
  shows "\<exists>e. plot_choropleth_step ar ds p ax (i, a) = Inl e"
  using assms
  by (simp add: plot_choropleth_step_def get_county_gpd_eq get_town_gpd_eq on_child_eq rbind_case
      split: sum.splits)

lemma plot_choropleth_plt: "snd (plot_choropleth self ds p plt) = snd (base (geo_plot self) plt)"
  by (cases "base (geo_plot self) plt") (simp add: plot_choropleth_def Let_def)

lemma plot_choropleth_fst:
  "fst (plot_choropleth self ds p plt) =
     rbind (fst (base (geo_plot self) plt)) (\<lambda>ax.
     rbind (for_each (plot_choropleth_step (AREA_RANGE (graph_fig_config self)) ds p)
              (area_list (geo_plot self)) ax) (\<lambda>ax.
     rbind (series (cp_data p) (cp_column p)) (\<lambda>col.
     rbind (series_min col) (\<lambda>v_min.
     rbind (series (cp_data p) (cp_column p)) (\<lambda>col.
     rbind (series_max col) (\<lambda>v_max.
       Inr (fst (Graph_colorbar ax v_min v_max (cp_cmap p) (cp_colorbar_format p)
                   (cp_colorbar_tick_visible p)))))))))"
  by (cases "base (geo_plot self) plt") (simp add: plot_choropleth_def Let_def)

text \<open>The refinement lemma of the choropleth renderer.\<close>

lemma plot_choropleth_Inr_iff:
  "fst (plot_choropleth (fst (Graph_init cfg fm)) ds p plt) = Inr fig \<longleftrightarrow>
     (\<exists>ax cs col v_min v_max. fst (base (GeoPlot_init cfg) plt) = Inr ax \<and>
        paint (choropleth_draw (AREA_RANGE cfg) ds p) (map fst (AREA_RANGE cfg)) (child_axes ax) = Inr cs \<and>
        series (cp_data p) (cp_column p) = Inr col \<and>
        series_min col = Inr v_min \<and> series_max col = Inr v_max \<and>
        fig = fst (Graph_colorbar (ax\<lparr>child_axes := cs\<rparr>) v_min v_max (cp_cmap p)
                     (cp_colorbar_format p) (cp_colorbar_tick_visible p)))"
  by (auto simp: plot_choropleth_fst rbind_ok_iff
      for_each_panels [of "plot_choropleth_step (AREA_RANGE cfg) ds p",
        OF plot_choropleth_step_eq plot_choropleth_step_overflow])

lemma choropleth_draw_edge:
  "choropleth_draw ar ds p a child =
     rbind (area_bbox ar a) (\<lambda>bbox.
     rbind (read_file ds (choropleth_path p) bbox) (\<lambda>gdf.
     rbind (merge_gdf_and_df gdf (cp_data p) (choropleth_kwargs p)) (\<lambda>m.
     rbind (column_plot m (cp_column p) (cp_cmap p) child) (\<lambda>child.
     rbind (get_county_gpd ds bbox) (\<lambda>edge.
       Inr (child\<lparr>artists := artists child @ edge_artists edge\<rparr>))))))"
  by (simp only: choropleth_draw_def boundary_plot_edge)

lemma choropleth_draw_Inr_iff:
  "choropleth_draw ar ds p a c = Inr c' \<longleftrightarrow>
     (\<exists>r geo all m. map_of ar a = Some r \<and> ds (choropleth_path p) = Some geo \<and>
        ds COUNTY = Some all \<and>
        merge_gdf_and_df (features_in geo (bounds r)) (cp_data p) (choropleth_kwargs p) = Inr m \<and>
        (m = [] \<or> has_column m (cp_column p)) \<and>
        c' = c\<lparr>artists := artists c @ fill_artists m (cp_column p) (cp_cmap p) @
                             edge_artists (features_in all (bounds r))\<rparr>)"
proof (cases "map_of ar a")
  case None
  then show ?thesis by (simp add: choropleth_draw_edge area_bbox_eq getitem_def)
next
  case r: (Some r)
  show ?thesis
  proof (cases "ds (choropleth_path p)")
    case None
    with r show ?thesis by (simp add: choropleth_draw_edge area_bbox_eq getitem_def read_file_eq)
  next
    case geo: (Some geo)
    show ?thesis
    proof (cases "merge_gdf_and_df (features_in geo (bounds r)) (cp_data p) (choropleth_kwargs p)")
      case (Inl e)
      with r geo show ?thesis
        by (simp add: choropleth_draw_edge area_bbox_eq getitem_def read_file_eq)
    next
      case (Inr m)
      with r geo show ?thesis
        by (cases "ds COUNTY")
           (auto simp: choropleth_draw_edge area_bbox_eq getitem_def read_file_eq get_county_gpd_eq
             column_plot_eq)
    qed
  qed
qed

lemma plot_choropleth_length:
  assumes "fst (plot_choropleth (fst (Graph_init cfg fm)) ds p plt) = Inr fig"
  shows "length (AREA_RANGE cfg) = 7" "length (child_axes fig) = 7"
proof -
  from assms obtain ax cs where ax: "fst (base (GeoPlot_init cfg) plt) = Inr ax"
    and cs: "paint (choropleth_draw (AREA_RANGE cfg) ds p) (map fst (AREA_RANGE cfg)) (child_axes ax) = Inr cs"
    and fig: "child_axes fig = cs"
    by (auto simp: plot_choropleth_Inr_iff)
  from ax have fe: "first_error (AREA_RANGE cfg) layout_labels = None" and l: "length (child_axes ax) = 7"
    by (simp_all add: base_Inr_iff)
  with paint_length [OF cs] first_error_None_length [OF fe] show "length (AREA_RANGE cfg) = 7" by simp
  from paint_length [OF cs] l fig show "length (child_axes fig) = 7" by simp
qed

lemma plot_choropleth_child:
  assumes "fst (plot_choropleth (fst (Graph_init cfg fm)) ds p plt) = Inr fig" and "i < 7"
  shows "\<exists>geo all m. ds (choropleth_path p) = Some geo \<and> ds COUNTY = Some all \<and>
     merge_gdf_and_df (features_in geo (bounds_of (AREA_RANGE cfg) (map fst (AREA_RANGE cfg) ! i)))
       (cp_data p) (choropleth_kwargs p) = Inr m \<and>
     (m = [] \<or> has_column m (cp_column p)) \<and>
     child_axes fig ! i = (layout (bounds_of (AREA_RANGE cfg)) ! i)
       \<lparr>artists := fill_artists m (cp_column p) (cp_cmap p) @
          edge_artists (features_in all (bounds_of (AREA_RANGE cfg) (map fst (AREA_RANGE cfg) ! i)))\<rparr>"
proof -
  from assms(1) obtain ax cs where ax: "fst (base (GeoPlot_init cfg) plt) = Inr ax"
    and cs: "paint (choropleth_draw (AREA_RANGE cfg) ds p) (map fst (AREA_RANGE cfg)) (child_axes ax) = Inr cs"
    and fig: "child_axes fig = cs"
    by (auto simp: plot_choropleth_Inr_iff)
  from plot_choropleth_length(1) [OF assms(1)] assms(2)
  have i: "i < length (map fst (AREA_RANGE cfg))" by simp
  from paint_nth [OF cs i] ax fig
  have "choropleth_draw (AREA_RANGE cfg) ds p (map fst (AREA_RANGE cfg) ! i)
      (layout (bounds_of (AREA_RANGE cfg)) ! i) = Inr (child_axes fig ! i)"
    by (simp add: base_child_axes)
  then show ?thesis
    using layout_nth(2) [OF assms(2), of "bounds_of (AREA_RANGE cfg)"]
    by (auto simp: choropleth_draw_Inr_iff bounds_of_def)
qed

lemma plot_choropleth_colorbars:
  assumes "fst (plot_choropleth (fst (Graph_init cfg fm)) ds p plt) = Inr fig"
  shows "cp_column p \<in> set (columns (cp_data p))" "\<not> list_ex is_Str (column_cells p)"
    "colorbars fig =
       [snd (Graph_colorbar ax (column_min (column_cells p)) (column_max (column_cells p))
          (cp_cmap p) (cp_colorbar_format p) (cp_colorbar_tick_visible p))]"
  using assms
  by (auto simp: plot_choropleth_Inr_iff series_def column_cells_def series_min_Inr_iff
      series_max_Inr_iff base_colorbars Graph_colorbar_def Let_def split: if_splits)

lemma plot_choropleth_total:
  assumes fe: "first_error (AREA_RANGE cfg) layout_labels = None" and n: "length (AREA_RANGE cfg) = 7"
    and geo: "ds (choropleth_path p) = Some geo" and all: "ds COUNTY = Some all"
    and keys: "set (right_on (choropleth_kwargs p)) \<subseteq> set (columns (cp_data p))"
      "gdf_columns geo (left_on (choropleth_kwargs p))"
    and col: "cp_column p \<in> set (columns (cp_data p))"
      "\<forall>r \<in> set (rows (cp_data p)). cp_column p \<in> fst ` set r"
      "\<not> list_ex is_Str (column_cells p)"
  shows "\<exists>fig. fst (plot_choropleth (fst (Graph_init cfg fm)) ds p plt) = Inr fig"
proof -
  let ?ax = "(base_figure (GeoPlot_init cfg) plt)\<lparr>child_axes := layout (bounds_of (AREA_RANGE cfg))\<rparr>"
  from fe have ax: "fst (base (GeoPlot_init cfg) plt) = Inr ?ax" by (simp add: base_Inr_iff)
  have "\<exists>c. choropleth_draw (AREA_RANGE cfg) ds p (map fst (AREA_RANGE cfg) ! i) (child_axes ?ax ! i) = Inr c"
    if "i < length (map fst (AREA_RANGE cfg))" for i
  proof -
    from nth_key_map_of [of i "AREA_RANGE cfg"] that
    obtain r where r: "map_of (AREA_RANGE cfg) (map fst (AREA_RANGE cfg) ! i) = Some r" by auto
    from merge_returns [OF choropleth_kwargs_length keys(1)] keys(2)
    obtain m where m: "merge_gdf_and_df (features_in geo (bounds r)) (cp_data p) (choropleth_kwargs p) = Inr m"
      unfolding features_in_def using gdf_columns_filter by blast
    from merge_has_column [OF m col(2)] r geo all m show ?thesis
      unfolding choropleth_draw_Inr_iff by blast
  qed
  with n obtain cs where
    "paint (choropleth_draw (AREA_RANGE cfg) ds p) (map fst (AREA_RANGE cfg)) (child_axes ?ax) = Inr cs"
    using paint_ok_iff [of "choropleth_draw (AREA_RANGE cfg) ds p" "map fst (AREA_RANGE cfg)" "child_axes ?ax"]
    by auto
  with ax col(1,3) show ?thesis
    unfolding plot_choropleth_Inr_iff series_min_Inr_iff series_max_Inr_iff
    by (simp add: series_def column_cells_def)
qed

lemma plot_choropleth_KeyError:
  assumes "first_error (AREA_RANGE cfg) layout_labels = None" and "ds COUNTY = Some all"
    and "cp_level p \<noteq> ''town''" and "''county'' \<notin> set (columns (cp_data p))"
  shows "plot_choropleth (fst (Graph_init cfg fm)) ds p plt =
     (Inl (KeyError ''county''), plt\<lparr>fignums := fignums plt @ [next_num (fignums plt)]\<rparr>)"
proof -
  from first_error_None_length [OF assms(1)] obtain k r ks where ar: "AREA_RANGE cfg = (k, r) # ks"
    by (cases "AREA_RANGE cfg") auto
  let ?ax = "(base_figure (GeoPlot_init cfg) plt)\<lparr>child_axes := layout (bounds_of (AREA_RANGE cfg))\<rparr>"
  from assms(1) have ax: "fst (base (GeoPlot_init cfg) plt) = Inr ?ax" by (simp add: base_Inr_iff)
  have "plot_choropleth_step (AREA_RANGE cfg) ds p ?ax (0, k) = Inl (KeyError ''county'')"
    using assms(2-4) ar
    by (simp add: plot_choropleth_step_def area_bbox_eq get_county_gpd_eq read_file_eq
        merge_gdf_and_df_eq merge_def)
  with ax ar have "fst (plot_choropleth (fst (Graph_init cfg fm)) ds p plt) = Inl (KeyError ''county'')"
    by (simp add: plot_choropleth_fst)
  then show ?thesis
    by (simp add: prod_eq_iff plot_choropleth_plt base_plt)
qed

lemma ChoroplethParams_init_fields [simp]:
  "cp_data (ChoroplethParams_init d c) = d" "cp_column (ChoroplethParams_init d c) = c"
  "cp_level (ChoroplethParams_init d c) = ''county''" "cp_cmap (ChoroplethParams_init d c) = ''GnBu''"
  "cp_colorbar_format (ChoroplethParams_init d c) = ''{x:,.0f}''"
  "cp_colorbar_tick_visible (ChoroplethParams_init d c)"
  by (simp_all add: ChoroplethParams_init_def)

lemma plot_choropleth_step_level:
  "cp_level p \<noteq> ''town'' \<Longrightarrow>
   plot_choropleth_step ar ds (p\<lparr>cp_level := ''county''\<rparr>) = plot_choropleth_step ar ds p"
  by (simp add: fun_eq_iff plot_choropleth_step_def cong: if_cong)

lemma sample_params_fields [simp]:
  "cp_data sample_params = sample_rows" "cp_column sample_params = ''value''"
  "cp_level sample_params = ''county''" "cp_cmap sample_params = ''GnBu''"
  "cp_colorbar_format sample_params = ''{x:,.0f}''" "cp_colorbar_tick_visible sample_params"
  by (simp_all add: sample_params_def ChoroplethParams_init_def)

lemma sample_column_cells: "column_cells sample_params = [Num 10, Num 20]"
  by (simp add: column_cells_def sample_rows_eq cell_of_def row_defs)

lemma sample_choropleth_returns:
  "\<exists>fig. fst (plot_choropleth (fst (Graph_init FigConfig [])) sample_store (sample_params\<lparr>cp_level := l\<rparr>) plt0) = Inr fig"
  if "l \<noteq> ''town''"
  by (rule plot_choropleth_total [where geo = sample_counties and all = sample_counties])
     (use that in \<open>simp_all add: first_error_FigConfig AREA_RANGE_length column_cells_def sample_rows_eq
       sample_counties_def cell_of_def row_defs\<close>)



text \<open>Permuting the rows of the input.\<close>

lemma merge_set_cong:
  assumes "merge_gdf_and_df g d kw = Inr m" and "merge_gdf_and_df g d' kw = Inr m'"
    and "set (rows d') = set (rows d)"
  shows "set m' = set m"
proof -
  have "fr \<in> set m' \<longleftrightarrow> fr \<in> set m" for fr
    using merge_mem_iff [OF assms(1) [unfolded merge_gdf_and_df_eq], of "fst fr" "snd fr"]
      merge_mem_iff [OF assms(2) [unfolded merge_gdf_and_df_eq], of "fst fr" "snd fr"] assms(3)
    by simp
  then show ?thesis by blast
qed

lemma merge_ok_cong:
  assumes "columns d' = columns d"
  shows "(\<exists>m. merge_gdf_and_df g d' kw = Inr m) \<longleftrightarrow> (\<exists>m. merge_gdf_and_df g d kw = Inr m)"
  by (simp add: merge_gdf_and_df_eq merge_ok_iff missing_key_None_iff assms)

lemma has_column_cong: "set m' = set m \<Longrightarrow> (m' = [] \<or> has_column m' c) \<longleftrightarrow> (m = [] \<or> has_column m c)"
  by (simp add: has_column_def list_all_iff set_empty [symmetric] del: set_empty)

lemma choropleth_draw_perm:
  assumes "set (rows d') = set (rows (cp_data p))" and "columns d' = columns (cp_data p)"
    and "choropleth_draw ar ds p a c = Inr c'"
  shows "\<exists>c''. choropleth_draw ar ds (p\<lparr>cp_data := d'\<rparr>) a c = Inr c''"
proof -
  from assms(3) obtain r geo all m where r: "map_of ar a = Some r"
    and geo: "ds (choropleth_path p) = Some geo" and all: "ds COUNTY = Some all"
    and m: "merge_gdf_and_df (features_in geo (bounds r)) (cp_data p) (choropleth_kwargs p) = Inr m"
    and c: "m = [] \<or> has_column m (cp_column p)"
    unfolding choropleth_draw_Inr_iff by blast
  from m merge_ok_cong [OF assms(2)] obtain m' where
    m': "merge_gdf_and_df (features_in geo (bounds r)) d' (choropleth_kwargs p) = Inr m'" by blast
  from has_column_cong [OF merge_set_cong [OF m m' assms(1)]] c
  have "m' = [] \<or> has_column m' (cp_column p)" by simp
  with r geo all m' show ?thesis
    unfolding choropleth_draw_Inr_iff by (simp add: choropleth_path_def choropleth_kwargs_def)
qed

lemma column_cells_perm:
  assumes "mset (rows d') = mset (rows (cp_data p))"
  shows "mset (column_cells (p\<lparr>cp_data := d'\<rparr>)) = mset (column_cells p)"
proof -
  have "image_mset (\<lambda>r. cell_of r (cp_column p)) (mset (rows d')) =
      image_mset (\<lambda>r. cell_of r (cp_column p)) (mset (rows (cp_data p)))"
    using assms by simp
  then show ?thesis by (simp add: column_cells_def)
qed


section \<open>Properties of the renderers\<close>

text \<open>Claim C34: \<open>plot_boundary\<close> returns a figure exactly when \<open>base\<close> does, the region
  table has seven entries and the county dataset can be read. With an eighth region the
  loop reaches an index without a panel and raises.\<close>

theorem plot_boundary_returns_iff:
  "(\<exists>fig. fst (plot_boundary (fst (Graph_init cfg fm)) ds plt) = Inr fig) \<longleftrightarrow>
     first_error (AREA_RANGE cfg) layout_labels = None \<and> length (AREA_RANGE cfg) = 7 \<and>
     ds COUNTY \<noteq> None"
  by (rule plot_boundary_ok_iff)

text \<open>Claim C6: in a figure returned by \<open>plot_boundary\<close>, panel \<open>i\<close> keeps the label,
  the rectangle and the extent \<open>base\<close> gave it, and holds one artist: the black boundary,
  \<open>0.8\<close> wide, of the counties that meet the bounding box of the \<open>i\<close>-th region of the
  table; a panel whose region meets no county holds nothing.\<close>

theorem plot_boundary_panels:
  assumes "fst (plot_boundary (fst (Graph_init cfg fm)) ds plt) = Inr fig" and "i < 7"
  shows "\<exists>all. ds COUNTY = Some all \<and>
     label (child_axes fig ! i) = layout_labels ! i \<and>
     position (child_axes fig ! i) = position (layout (bounds_of (AREA_RANGE cfg)) ! i) \<and>
     extent (child_axes fig ! i) = bounds_of (AREA_RANGE cfg) (layout_labels ! i) \<and>
     artists (child_axes fig ! i) =
       edge_artists (features_in all (bounds_of (AREA_RANGE cfg) (map fst (AREA_RANGE cfg) ! i)))"
  using plot_boundary_child [OF assms] layout_nth [OF assms(2), of "bounds_of (AREA_RANGE cfg)"]
  by auto

theorem plot_boundary_panels_witness:
  "fst (plot_boundary (fst (Graph_init FigConfig [])) sample_store plt0) = Inr sample_boundary \<and>
   (1 :: nat) < 7 \<and>
   label (child_axes sample_boundary ! 1) = ''penghu'' \<and>
   artists (child_axes sample_boundary ! 1) = [BoundaryPlot [Penghu] ''black'' 0.8]"
  using plot_boundary_panels [OF sample_boundary_eq, of 1] sample_boundary_eq
  by (simp add: sample_regions edge_artists_def layout_labels_def del: bounds_of_FigConfig)

text \<open>When the region table lists its keys in the order in which \<open>base\<close> places
  the panels, every panel of a figure returned by \<open>plot_boundary\<close> holds the boundary of
  exactly the counties that meet the extent the panel shows.\<close>

theorem plot_boundary_in_order:
  assumes "fst (plot_boundary (fst (Graph_init cfg fm)) ds plt) = Inr fig"
    and "map fst (AREA_RANGE cfg) = layout_labels"
    and "p \<in> set (child_axes fig)"
  shows "\<exists>all. ds COUNTY = Some all \<and> artists p = edge_artists (features_in all (extent p))"
  using assms by (rule plot_boundary_ordered)

theorem plot_boundary_in_order_witness:
  "fst (plot_boundary (fst (Graph_init FigConfig [])) sample_store plt0) = Inr sample_boundary \<and>
   map fst (AREA_RANGE FigConfig) = layout_labels \<and>
   child_axes sample_boundary ! 2 \<in> set (child_axes sample_boundary) \<and>
   artists (child_axes sample_boundary ! 2) =
     edge_artists (features_in sample_counties (extent (child_axes sample_boundary ! 2)))"
proof -
  have m: "child_axes sample_boundary ! 2 \<in> set (child_axes sample_boundary)"
    by (rule nth_mem) (simp add: sample_boundary_def)
  from plot_boundary_in_order [OF sample_boundary_eq layout_labels_FigConfig m]
    sample_boundary_eq layout_labels_FigConfig m
  show ?thesis by simp
qed

text \<open>Claim C2: in a figure returned by \<open>plot_choropleth\<close>, panel \<open>i\<close> keeps the label
  and the extent \<open>base\<close> gave it and holds, in this order, the fill of the rows bound to
  the geometry of the \<open>i\<close>-th region of the table (one \<open>ColumnPlot\<close> over the pairs the
  join returns, when there are any) and the boundary of the counties of that region. The
  colours of the fill are normalised over the values bound in this panel alone.\<close>

theorem plot_choropleth_panel:
  assumes "fst (plot_choropleth (fst (Graph_init cfg fm)) ds p plt) = Inr fig" and "i < 7"
  shows "\<exists>geo all m. ds (choropleth_path p) = Some geo \<and> ds COUNTY = Some all \<and>
     merge_gdf_and_df (features_in geo (bounds_of (AREA_RANGE cfg) (map fst (AREA_RANGE cfg) ! i)))
       (cp_data p) (choropleth_kwargs p) = Inr m \<and>
     label (child_axes fig ! i) = layout_labels ! i \<and>
     extent (child_axes fig ! i) = bounds_of (AREA_RANGE cfg) (layout_labels ! i) \<and>
     artists (child_axes fig ! i) =
       (if m = [] then []
        else [ColumnPlot m (cp_column p) (cp_cmap p)
                (if list_ex is_Str (map (merged_value (cp_column p)) m) then None
                 else Some (column_min (map (merged_value (cp_column p)) m),
                            column_max (map (merged_value (cp_column p)) m)))]) @
       edge_artists (features_in all (bounds_of (AREA_RANGE cfg) (map fst (AREA_RANGE cfg) ! i)))"
  using plot_choropleth_child [OF assms] layout_nth [OF assms(2), of "bounds_of (AREA_RANGE cfg)"]
  by (force simp: fill_artists_def fill_norm_def Let_def)

theorem plot_choropleth_panel_witness:
  "\<exists>fig. fst (plot_choropleth (fst (Graph_init FigConfig [])) sample_store sample_params plt0) = Inr fig \<and>
     (1 :: nat) < 7 \<and>
     artists (child_axes fig ! 1) =
       [ColumnPlot [(Penghu, penghu_20)] ''value'' ''GnBu'' (Some (Num 20, Num 20)),
        BoundaryPlot [Penghu] ''black'' 0.8]"
proof -
  from sample_choropleth_returns [of "''county''"] obtain fig where
    fig: "fst (plot_choropleth (fst (Graph_init FigConfig [])) sample_store sample_params plt0) = Inr fig"
    by (auto simp: sample_params_def ChoroplethParams_init_def)
  from plot_choropleth_panel [OF fig, of 1]
  have "artists (child_axes fig ! 1) =
       [ColumnPlot [(Penghu, penghu_20)] ''value'' ''GnBu'' (Some (Num 20, Num 20)),
        BoundaryPlot [Penghu] ''black'' 0.8]"
    by (simp add: sample_regions del: bounds_of_FigConfig)
       (simp add: edge_artists_def merged_value_def cell_of_def column_min_def column_max_def
         row_defs county_defs)
  with fig show ?thesis by auto
qed


text \<open>When no row of the input has the join key of any feature of a region's
  geometry, \<open>plot_choropleth\<close> still returns, and the panel of that region holds only the
  boundary of its counties: no fill, and no error.\<close>

theorem plot_choropleth_fallback:
  assumes "fst (plot_choropleth (fst (Graph_init cfg fm)) ds p plt) = Inr fig" and "i < 7"
    and "ds (choropleth_path p) = Some geo"
    and "\<forall>f \<in> set (features_in geo (bounds_of (AREA_RANGE cfg) (map fst (AREA_RANGE cfg) ! i))).
         \<forall>r \<in> set (rows (cp_data p)).
           join_key (right_on (choropleth_kwargs p)) r \<noteq> join_key (left_on (choropleth_kwargs p)) (props f)"
  shows "\<exists>all. ds COUNTY = Some all \<and>
     artists (child_axes fig ! i) =
       edge_artists (features_in all (bounds_of (AREA_RANGE cfg) (map fst (AREA_RANGE cfg) ! i)))"
proof -
  from plot_choropleth_child [OF assms(1,2)] assms(3) obtain all m where all: "ds COUNTY = Some all"
    and m: "merge_gdf_and_df (features_in geo (bounds_of (AREA_RANGE cfg) (map fst (AREA_RANGE cfg) ! i)))
       (cp_data p) (choropleth_kwargs p) = Inr m"
    and c: "child_axes fig ! i = (layout (bounds_of (AREA_RANGE cfg)) ! i)
       \<lparr>artists := fill_artists m (cp_column p) (cp_cmap p) @
          edge_artists (features_in all (bounds_of (AREA_RANGE cfg) (map fst (AREA_RANGE cfg) ! i)))\<rparr>"
    by auto
  from merge_empty_iff [OF m [unfolded merge_gdf_and_df_eq]] assms(4) have "m = []" by simp
  with all c show ?thesis by (simp add: fill_artists_def)
qed

theorem plot_choropleth_fallback_witness:
  "\<exists>fig. fst (plot_choropleth (fst (Graph_init FigConfig [])) sample_store sample_params plt0) = Inr fig \<and>
     (2 :: nat) < 7 \<and> sample_store (choropleth_path sample_params) = Some sample_counties \<and>
     artists (child_axes fig ! 2) = [BoundaryPlot [Kinmen] ''black'' 0.8]"
proof -
  from sample_choropleth_returns [of "''county''"] obtain fig where
    fig: "fst (plot_choropleth (fst (Graph_init FigConfig [])) sample_store sample_params plt0) = Inr fig"
    by (auto simp: sample_params_def ChoroplethParams_init_def)
  have geo: "sample_store (choropleth_path sample_params) = Some sample_counties" by simp
  have "\<forall>f \<in> set (features_in sample_counties
          (bounds_of (AREA_RANGE FigConfig) (map fst (AREA_RANGE FigConfig) ! 2))).
        \<forall>r \<in> set (rows (cp_data sample_params)).
          join_key (right_on (choropleth_kwargs sample_params)) r \<noteq>
          join_key (left_on (choropleth_kwargs sample_params)) (props f)"
    by (simp add: sample_regions sample_rows_eq del: bounds_of_FigConfig)
  from plot_choropleth_fallback [OF fig _ geo this]
  have "artists (child_axes fig ! 2) = [BoundaryPlot [Kinmen] ''black'' 0.8]"
    by (simp add: sample_regions edge_artists_def del: bounds_of_FigConfig)
  with fig geo show ?thesis by auto
qed

text \<open>In a figure returned by \<open>plot_choropleth\<close> the county boundary is drawn
  over the fill: in every panel whose region meets a county, the last artist is the
  boundary of the counties of the region.\<close>

theorem plot_choropleth_boundary_on_top:
  assumes "fst (plot_choropleth (fst (Graph_init cfg fm)) ds p plt) = Inr fig" and "i < 7"
    and "ds COUNTY = Some all"
    and "features_in all (bounds_of (AREA_RANGE cfg) (map fst (AREA_RANGE cfg) ! i)) \<noteq> []"
  shows "last (artists (child_axes fig ! i)) =
     BoundaryPlot (features_in all (bounds_of (AREA_RANGE cfg) (map fst (AREA_RANGE cfg) ! i))) ''black'' 0.8"
  using plot_choropleth_child [OF assms(1,2)] assms(3) edge_artists_last [OF assms(4)] by auto

theorem plot_choropleth_boundary_on_top_witness:
  "\<exists>fig. fst (plot_choropleth (fst (Graph_init FigConfig [])) sample_store sample_params plt0) = Inr fig \<and>
     (0 :: nat) < 7 \<and> sample_store COUNTY = Some sample_counties \<and>
     features_in sample_counties (bounds_of (AREA_RANGE FigConfig) (map fst (AREA_RANGE FigConfig) ! 0)) \<noteq> [] \<and>
     last (artists (child_axes fig ! 0)) = BoundaryPlot sample_counties ''black'' 0.8"
proof -
  from sample_choropleth_returns [of "''county''"] obtain fig where
    fig: "fst (plot_choropleth (fst (Graph_init FigConfig [])) sample_store sample_params plt0) = Inr fig"
    by (auto simp: sample_params_def ChoroplethParams_init_def)
  have ne: "features_in sample_counties
      (bounds_of (AREA_RANGE FigConfig) (map fst (AREA_RANGE FigConfig) ! 0)) \<noteq> []"
    by (simp add: sample_regions del: bounds_of_FigConfig) (simp add: sample_counties_def)
  from plot_choropleth_boundary_on_top [OF fig _ sample_store_COUNTY ne]
  have "last (artists (child_axes fig ! 0)) = BoundaryPlot sample_counties ''black'' 0.8"
    by (simp add: sample_regions del: bounds_of_FigConfig)
  with fig ne show ?thesis by auto
qed

text \<open>Claim C7: a figure returned by \<open>plot_choropleth\<close> has exactly one colour bar; its
  range runs from the least to the greatest number of the chosen column over all rows of
  the input, matched to a feature or not, with missing values skipped, and it carries the
  colour map and the tick format of the parameters, with at most six tick intervals when
  ticks are visible and none otherwise.\<close>

theorem plot_choropleth_scale:
  assumes "fst (plot_choropleth (fst (Graph_init cfg fm)) ds p plt) = Inr fig"
  shows "\<exists>cbar. colorbars fig = [cbar] \<and>
     cbar_vmin cbar = column_min (column_cells p) \<and> cbar_vmax cbar = column_max (column_cells p) \<and>
     cbar_cmap cbar = cp_cmap p \<and> cbar_format cbar = cp_colorbar_format p \<and>
     cbar_locator cbar = (if cp_colorbar_tick_visible p then MaxNLocator 6 else NullLocator)"
  using plot_choropleth_colorbars(3) [OF assms, of fig] by simp

theorem plot_choropleth_scale_witness:
  "\<exists>fig. fst (plot_choropleth (fst (Graph_init FigConfig [])) sample_store sample_params plt0) = Inr fig \<and>
     map (\<lambda>cbar. (cbar_vmin cbar, cbar_vmax cbar, cbar_locator cbar)) (colorbars fig) =
       [(Num 10, Num 20, MaxNLocator 6)]"
proof -
  from sample_choropleth_returns [of "''county''"] obtain fig where
    fig: "fst (plot_choropleth (fst (Graph_init FigConfig [])) sample_store sample_params plt0) = Inr fig"
    by (auto simp: sample_params_def ChoroplethParams_init_def)
  from plot_choropleth_scale [OF fig] fig show ?thesis
    by (auto simp: sample_column_cells column_min_def column_max_def)
qed



text \<open>Claim C33: the colour scale does not depend on the order of the rows: when
  \<open>plot_choropleth\<close> returns for an input, it returns for every permutation of its rows,
  with the same colour bar.\<close>

theorem plot_choropleth_permutation:
  assumes "fst (plot_choropleth (fst (Graph_init cfg fm)) ds p plt) = Inr fig"
    and "mset (rows d') = mset (rows (cp_data p))" and "columns d' = columns (cp_data p)"
  shows "\<exists>fig'. fst (plot_choropleth (fst (Graph_init cfg fm)) ds (p\<lparr>cp_data := d'\<rparr>) plt) = Inr fig' \<and>
     colorbars fig' = colorbars fig"
proof -
  define p' where "p' = p\<lparr>cp_data := d'\<rparr>"
  from assms(1) obtain ax cs where ax: "fst (base (GeoPlot_init cfg) plt) = Inr ax"
    and cs: "paint (choropleth_draw (AREA_RANGE cfg) ds p) (map fst (AREA_RANGE cfg)) (child_axes ax) = Inr cs"
    by (auto simp: plot_choropleth_Inr_iff)
  from assms(2) have set: "set (rows d') = set (rows (cp_data p))" by (rule mset_eq_setD)
  have "\<exists>cs'. paint (choropleth_draw (AREA_RANGE cfg) ds p') (map fst (AREA_RANGE cfg)) (child_axes ax) = Inr cs'"
    unfolding paint_ok_iff p'_def
    using paint_length [OF cs] paint_nth [OF cs] choropleth_draw_perm [OF set assms(3)] by blast
  then obtain cs' where cs': "paint (choropleth_draw (AREA_RANGE cfg) ds p')
      (map fst (AREA_RANGE cfg)) (child_axes ax) = Inr cs'" ..
  from column_cells_perm [OF assms(2)]
  have cells: "mset (column_cells p') = mset (column_cells p)" by (simp add: p'_def)
  then have "set (column_cells p') = set (column_cells p)" by (rule mset_eq_setD)
  with plot_choropleth_colorbars(2) [OF assms(1)] have str: "\<not> list_ex is_Str (column_cells p')"
    by (simp add: list_ex_is_Str)
  from plot_choropleth_colorbars(1) [OF assms(1)] assms(3)
  have col: "series (cp_data p') (cp_column p') = Inr (column_cells p')"
    by (simp add: series_def column_cells_def p'_def)
  from ax cs' col series_min_eq [OF str] series_max_eq [OF str]
  have "\<exists>fig'. fst (plot_choropleth (fst (Graph_init cfg fm)) ds p' plt) = Inr fig'"
    unfolding plot_choropleth_Inr_iff by blast
  then obtain fig' where fig': "fst (plot_choropleth (fst (Graph_init cfg fm)) ds p' plt) = Inr fig'" ..
  from plot_choropleth_colorbars(3) [OF fig', of ax] plot_choropleth_colorbars(3) [OF assms(1), of ax]
    column_min_mset [OF cells] column_max_mset [OF cells]
  have "colorbars fig' = colorbars fig" by (simp add: p'_def)
  with fig' show ?thesis unfolding p'_def by blast
qed

theorem plot_choropleth_permutation_witness:
  "\<exists>fig fig'.
     fst (plot_choropleth (fst (Graph_init FigConfig [])) sample_store sample_params plt0) = Inr fig \<and>
     mset (rows reversed_rows) = mset (rows (cp_data sample_params)) \<and>
     columns reversed_rows = columns (cp_data sample_params) \<and>
     fst (plot_choropleth (fst (Graph_init FigConfig [])) sample_store
            (sample_params\<lparr>cp_data := reversed_rows\<rparr>) plt0) = Inr fig' \<and>
     colorbars fig' = colorbars fig"
proof -
  from sample_choropleth_returns [of "''county''"] obtain fig where
    fig: "fst (plot_choropleth (fst (Graph_init FigConfig [])) sample_store sample_params plt0) = Inr fig"
    by (auto simp: sample_params_def ChoroplethParams_init_def)
  have r: "reversed_rows = \<lparr>columns = [''county'', ''value''], rows = [penghu_20, taipei_10]\<rparr>"
    by (simp add: reversed_rows_def DataFrame_def fill_row_def Let_def row_defs)
  have m: "mset (rows reversed_rows) = mset (rows (cp_data sample_params))"
    and c: "columns reversed_rows = columns (cp_data sample_params)"
    by (simp_all add: r sample_rows_eq)
  from plot_choropleth_permutation [OF fig m c] fig m c show ?thesis by blast
qed

text \<open>Claim C22: \<open>plot_choropleth\<close> returns a figure whenever the region table has the
  seven regions that \<open>base\<close> places, the datasets can be read and carry the name columns,
  and the input has the key columns and the chosen column, defined in every row and
  without a string in it; whether any row matches a feature plays no part.\<close>

theorem plot_choropleth_returns:
  assumes "first_error (AREA_RANGE cfg) layout_labels = None" and "length (AREA_RANGE cfg) = 7"
    and "ds (choropleth_path p) = Some geo" and "ds COUNTY = Some all"
    and "set (right_on (choropleth_kwargs p)) \<subseteq> set (columns (cp_data p))"
    and "gdf_columns geo (left_on (choropleth_kwargs p))"
    and "cp_column p \<in> set (columns (cp_data p))"
    and "\<forall>r \<in> set (rows (cp_data p)). cp_column p \<in> fst ` set r"
    and "\<not> list_ex is_Str (column_cells p)"
  shows "\<exists>fig. fst (plot_choropleth (fst (Graph_init cfg fm)) ds p plt) = Inr fig"
  using assms by (rule plot_choropleth_total)

theorem plot_choropleth_returns_witness:
  "first_error (AREA_RANGE FigConfig) layout_labels = None \<and> length (AREA_RANGE FigConfig) = 7 \<and>
   sample_store (choropleth_path (ChoroplethParams_init unmatched_rows ''value'')) = Some sample_counties \<and>
   sample_store COUNTY = Some sample_counties \<and>
   gdf_columns sample_counties (left_on (choropleth_kwargs (ChoroplethParams_init unmatched_rows ''value''))) \<and>
   \<not> list_ex is_Str (column_cells (ChoroplethParams_init unmatched_rows ''value'')) \<and>
   (\<exists>fig. fst (plot_choropleth (fst (Graph_init FigConfig [])) sample_store
      (ChoroplethParams_init unmatched_rows ''value'') plt0) = Inr fig)"
proof -
  let ?p = "ChoroplethParams_init unmatched_rows ''value''"
  have 1: "first_error (AREA_RANGE FigConfig) layout_labels = None" "length (AREA_RANGE FigConfig) = 7"
    by (simp_all add: first_error_FigConfig AREA_RANGE_length)
  have 2: "sample_store (choropleth_path ?p) = Some sample_counties" by simp
  have 3: "set (right_on (choropleth_kwargs ?p)) \<subseteq> set (columns (cp_data ?p))"
    "gdf_columns sample_counties (left_on (choropleth_kwargs ?p))"
    "cp_column ?p \<in> set (columns (cp_data ?p))"
    "\<forall>r \<in> set (rows (cp_data ?p)). cp_column ?p \<in> fst ` set r"
    "\<not> list_ex is_Str (column_cells ?p)"
    by (simp_all add: unmatched_rows_eq sample_counties_def column_cells_def cell_of_def row_defs)
  from plot_choropleth_returns [OF 1 2 sample_store_COUNTY 3] 1 2 3 show ?thesis by simp
qed

text \<open>\<open>plot_choropleth\<close> treats every level other than \<open>town\<close> as \<open>county\<close>: an
  unknown level is not rejected.\<close>

theorem plot_choropleth_level_default:
  assumes "cp_level p \<noteq> ''town''"
  shows "plot_choropleth self ds p plt = plot_choropleth self ds (p\<lparr>cp_level := ''county''\<rparr>) plt"
  using assms by (simp add: plot_choropleth_def plot_choropleth_step_level)

theorem plot_choropleth_level_default_witness:
  "cp_level (sample_params\<lparr>cp_level := ''province''\<rparr>) \<noteq> ''town'' \<and>
   plot_choropleth shipped_graph sample_store (sample_params\<lparr>cp_level := ''province''\<rparr>) plt0 =
     plot_choropleth shipped_graph sample_store sample_params plt0 \<and>
   (\<exists>fig. fst (plot_choropleth shipped_graph sample_store (sample_params\<lparr>cp_level := ''province''\<rparr>) plt0) = Inr fig)"
proof -
  have "sample_params\<lparr>cp_level := ''county''\<rparr> = sample_params"
    by (simp add: sample_params_def ChoroplethParams_init_def)
  with plot_choropleth_level_default [of "sample_params\<lparr>cp_level := ''province''\<rparr>" shipped_graph sample_store plt0]
    sample_choropleth_returns [of "''province''"]
  show ?thesis by (simp add: shipped_graph_def)
qed


text \<open>An input without the key column \<open>county\<close> makes \<open>plot_choropleth\<close> raise
  \<open>KeyError\<close> from inside the loop: the figure has been created by then and stays
  registered with pyplot.\<close>

theorem plot_choropleth_missing_key:
  assumes "first_error (AREA_RANGE cfg) layout_labels = None" and "ds COUNTY = Some all"
    and "cp_level p \<noteq> ''town''" and "''county'' \<notin> set (columns (cp_data p))"
  shows "plot_choropleth (fst (Graph_init cfg fm)) ds p plt =
     (Inl (KeyError ''county''), plt\<lparr>fignums := fignums plt @ [next_num (fignums plt)]\<rparr>)"
  using assms by (rule plot_choropleth_KeyError)

theorem plot_choropleth_missing_key_witness:
  "first_error (AREA_RANGE FigConfig) layout_labels = None \<and> sample_store COUNTY = Some sample_counties \<and>
   cp_level (ChoroplethParams_init keyless_rows ''value'') \<noteq> ''town'' \<and>
   ''county'' \<notin> set (columns (cp_data (ChoroplethParams_init keyless_rows ''value''))) \<and>
   plot_choropleth (fst (Graph_init FigConfig [])) sample_store (ChoroplethParams_init keyless_rows ''value'') plt0 =
     (Inl (KeyError ''county''), \<lparr>fignums = [1], max_open_warning = 0\<rparr>)"
proof -
  let ?p = "ChoroplethParams_init keyless_rows ''value''"
  have 1: "first_error (AREA_RANGE FigConfig) layout_labels = None" by (simp add: first_error_FigConfig)
  have 2: "cp_level ?p \<noteq> ''town''" "''county'' \<notin> set (columns (cp_data ?p))"
    by (simp_all add: keyless_rows_def DataFrame_def Let_def)
  from plot_choropleth_missing_key [where cfg = FigConfig and ds = sample_store and p = ?p
      and fm = "[]" and plt = plt0, OF 1 sample_store_COUNTY 2] 1 2 show ?thesis
    by (simp add: plt0_def next_num_def)
qed

text \<open>The renderers never release a figure: after \<open>plot_boundary\<close> and after
  \<open>plot_choropleth\<close>, whether they return or raise, pyplot has exactly one more figure
  registered, under a number that was not in use, and a returned figure carries that
  number.\<close>

theorem renderers_register_figure:
  "snd (plot_boundary (fst (Graph_init cfg fm)) ds plt) =
     plt\<lparr>fignums := fignums plt @ [next_num (fignums plt)]\<rparr> \<and>
   snd (plot_choropleth (fst (Graph_init cfg fm)) ds p plt) =
     plt\<lparr>fignums := fignums plt @ [next_num (fignums plt)]\<rparr> \<and>
   next_num (fignums plt) \<notin> set (fignums plt) \<and>
   (case fst (plot_boundary (fst (Graph_init cfg fm)) ds plt) of
      Inr fig \<Rightarrow> number fig = next_num (fignums plt) | Inl e \<Rightarrow> True) \<and>
   (case fst (plot_choropleth (fst (Graph_init cfg fm)) ds p plt) of
      Inr fig \<Rightarrow> number fig = next_num (fignums plt) | Inl e \<Rightarrow> True)"
  by (auto simp: plot_boundary_plt plot_choropleth_plt base_plt next_num_fresh
      plot_boundary_Inr_iff plot_choropleth_Inr_iff split: sum.splits dest: base_number)

end
