(* ===== verification/Histogram.thy ===== *)
theory Histogram
  imports Pyplot
begin

text \<open>
  The two-dimensional histogram of matplotlib, \<open>Axes.hist2d\<close>, as the sources call it:
  with an integer number of bins, a range for each axis and a least count \<open>cmin\<close>. It is
  library code, modelled from the documented behaviour of \<open>numpy.histogram2d\<close>.

  \<^item> \<open>linspace\<close> is \<open>numpy.linspace\<close>: \<open>num\<close> equidistant values from \<open>start\<close> to \<open>stop\<close>.
  \<^item> \<open>get_outer_edges\<close> checks a range: a range with \<open>min > max\<close> is a \<open>ValueError\<close>, a
    range of one point is widened by a half to each side.
  \<^item> \<open>searchsorted\<close> is \<open>numpy.searchsorted(edges, v, side='right')\<close> on ascending edges,
    the number of edges not above \<open>v\<close>; \<open>bin_index\<close> is the bin numpy assigns to \<open>v\<close>, where
    0 and \<open>bins + 1\<close> collect the values outside the range and a value on the last edge
    belongs to the last bin.
  \<^item> \<open>histogram2d\<close> returns the counts of the \<open>bins \<times> bins\<close> cells inside the range, first
    index along \<open>x\<close>, and the edges of both axes.
  \<^item> \<open>hist2d\<close> hides the cells with fewer than \<open>cmin\<close> points, adds the mesh to the Axes
    and sets the limits of the Axes to the range of the histogram.

  For the proofs, \<open>cell_lo\<close> is the lower edge of a bin in closed form, \<open>in_cell\<close> says that
  a value lies in a bin, and \<open>counts_total\<close> adds up a grid of counts. The lemmas give the
  bin of a value in closed form (\<open>bin_index_linspace\<close>), the content of each cell
  (\<open>histogram2d_cell\<close>) and the conservation of the points inside the range
  (\<open>histogram2d_total\<close>).
\<close>

type_synonym hrange = "(pyfloat \<times> pyfloat) \<times> (pyfloat \<times> pyfloat)"

definition linspace :: "pyfloat \<Rightarrow> pyfloat \<Rightarrow> nat \<Rightarrow> pyfloat list" where
  "linspace start stop num =
     map (\<lambda>k. start + of_nat k * ((stop - start) / of_nat (num - 1))) [0..<num]"

definition get_outer_edges :: "pyfloat \<times> pyfloat \<Rightarrow> (pyfloat \<times> pyfloat) result" where
  "get_outer_edges r =
     (case r of (first_edge, last_edge) \<Rightarrow>
        if first_edge > last_edge
        then Inl (ValueError ''max must be larger than min in range parameter.'')
        else if first_edge = last_edge then Inr (first_edge - 0.5, last_edge + 0.5)
        else Inr (first_edge, last_edge))"

definition searchsorted :: "pyfloat list \<Rightarrow> pyfloat \<Rightarrow> nat" where
  "searchsorted edges v = length (filter (\<lambda>e. e \<le> v) edges)"

definition bin_index :: "pyfloat list \<Rightarrow> pyfloat \<Rightarrow> nat" where
  "bin_index edges v =
     (let n = searchsorted edges v in if v = last edges then n - 1 else n)"

definition histogram2d ::
  "pyfloat list \<Rightarrow> pyfloat list \<Rightarrow> int \<Rightarrow> hrange \<Rightarrow>
   (nat list list \<times> pyfloat list \<times> pyfloat list) result" where
  "histogram2d x y bins rng =
     (if length x \<noteq> length y then Inl (ValueError ''x and y must have the same length.'')
      else if bins < 1 then Inl (ValueError ''`bins[0]` must be positive, when an integer'')
      else
        rbind (get_outer_edges (fst rng)) (\<lambda>(x0, x1).
        rbind (get_outer_edges (snd rng)) (\<lambda>(y0, y1).
          let xedges = linspace x0 x1 (nat bins + 1);
              yedges = linspace y0 y1 (nat bins + 1);
              h = map (\<lambda>k. map (\<lambda>l.
                    length (filter (\<lambda>(px, py). bin_index xedges px = k + 1 \<and>
                                               bin_index yedges py = l + 1) (zip x y)))
                    [0..<nat bins]) [0..<nat bins]
          in Inr (h, xedges, yedges))))"

definition hist2d ::
  "pyfloat list \<Rightarrow> pyfloat list \<Rightarrow> int \<Rightarrow> pystr \<Rightarrow> pyfloat \<Rightarrow> hrange \<Rightarrow> int \<Rightarrow> axes \<Rightarrow>
   axes result" where
  "hist2d x y bins cmap alpha rng cmin ax =
     rbind (histogram2d x y bins rng) (\<lambda>(h, xedges, yedges).
       let h = map (map (\<lambda>c. if int c < cmin then None else Some c)) h;
           ax = add_artist (Hist2D h xedges yedges cmap alpha) ax
       in Inr (ax\<lparr>xlim := (hd xedges, last xedges), ylim := (hd yedges, last yedges)\<rparr>))"

text \<open>Closed forms used in the statements of the lemmas.\<close>

definition cell_lo :: "pyfloat \<Rightarrow> pyfloat \<Rightarrow> nat \<Rightarrow> nat \<Rightarrow> pyfloat" where
  "cell_lo a b n k = a + of_nat k * ((b - a) / of_nat n)"

definition in_cell :: "pyfloat \<Rightarrow> pyfloat \<Rightarrow> nat \<Rightarrow> nat \<Rightarrow> pyfloat \<Rightarrow> bool" where
  "in_cell a b n k v \<longleftrightarrow>
     cell_lo a b n k \<le> v \<and> (v < cell_lo a b n (k + 1) \<or> (k + 1 = n \<and> v = b))"

definition cell_count ::
  "hrange \<Rightarrow> nat \<Rightarrow> pyfloat list \<Rightarrow> pyfloat list \<Rightarrow> nat \<Rightarrow> nat \<Rightarrow> nat" where
  "cell_count r n x y k l =
     (case r of ((x0, x1), (y0, y1)) \<Rightarrow>
        length (filter (\<lambda>(px, py). in_cell x0 x1 n k px \<and> in_cell y0 y1 n l py) (zip x y)))"

definition in_range :: "hrange \<Rightarrow> pyfloat \<times> pyfloat \<Rightarrow> bool" where
  "in_range r p \<longleftrightarrow>
     (case r of ((x0, x1), (y0, y1)) \<Rightarrow> case p of (px, py) \<Rightarrow>
        x0 \<le> px \<and> px \<le> x1 \<and> y0 \<le> py \<and> py \<le> y1)"

definition counts_total :: "nat list list \<Rightarrow> nat" where
  "counts_total h = sum_list (map sum_list h)"

definition proper :: "hrange \<Rightarrow> bool" where
  "proper r \<longleftrightarrow> (case r of ((x0, x1), (y0, y1)) \<Rightarrow> x0 < x1 \<and> y0 < y1)"

definition widen :: "pyfloat \<times> pyfloat \<Rightarrow> pyfloat \<times> pyfloat" where
  "widen r = (if fst r = snd r then (fst r - 0.5, snd r + 0.5) else r)"

definition outer :: "hrange \<Rightarrow> hrange" where
  "outer r = (widen (fst r), widen (snd r))"

definition ordered :: "hrange \<Rightarrow> bool" where
  "ordered r \<longleftrightarrow> fst (fst r) \<le> snd (fst r) \<and> fst (snd r) \<le> snd (snd r)"

definition grid :: "hrange \<Rightarrow> nat \<Rightarrow> pyfloat list \<Rightarrow> pyfloat list \<Rightarrow> nat list list" where
  "grid r n x y = map (\<lambda>k. map (\<lambda>l. cell_count r n x y k l) [0..<n]) [0..<n]"

definition edges :: "pyfloat \<times> pyfloat \<Rightarrow> nat \<Rightarrow> pyfloat list" where
  "edges r n = linspace (fst r) (snd r) (Suc n)"

definition histogram2d_error ::
  "pyfloat list \<Rightarrow> pyfloat list \<Rightarrow> int \<Rightarrow> hrange \<Rightarrow> py_error option" where
  "histogram2d_error x y bins r =
     (if length x \<noteq> length y then Some (ValueError ''x and y must have the same length.'')
      else if bins < 1 then Some (ValueError ''`bins[0]` must be positive, when an integer'')
      else if \<not> ordered r
      then Some (ValueError ''max must be larger than min in range parameter.'')
      else None)"

definition visible_total :: "nat option list list \<Rightarrow> nat" where
  "visible_total h = counts_total (map (map (\<lambda>c. case c of None \<Rightarrow> 0 | Some n \<Rightarrow> n)) h)"

definition mask :: "int \<Rightarrow> nat list list \<Rightarrow> nat option list list" where
  "mask cmin h = map (map (\<lambda>c. if int c < cmin then None else Some c)) h"


section \<open>Edges\<close>

lemma length_linspace [simp]: "length (linspace a b num) = num"
  by (simp add: linspace_def)

lemma linspace_eq: "linspace a b (Suc n) = map (cell_lo a b n) [0..<Suc n]"
  by (simp add: linspace_def cell_lo_def del: upt_Suc)

lemma linspace_nth: "k \<le> n \<Longrightarrow> linspace a b (Suc n) ! k = cell_lo a b n k"
  unfolding linspace_eq by (simp del: upt_Suc)

lemma cell_lo_0 [simp]: "cell_lo a b n 0 = a"
  by (simp add: cell_lo_def)

lemma cell_lo_n [simp]: "0 < n \<Longrightarrow> cell_lo a b n n = b"
  by (simp add: cell_lo_def)

lemma cell_lo_mono: "a < b \<Longrightarrow> 0 < n \<Longrightarrow> k \<le> l \<Longrightarrow> cell_lo a b n k \<le> cell_lo a b n l"
  unfolding cell_lo_def by (intro add_left_mono mult_right_mono) simp_all

lemma cell_lo_strict: "a < b \<Longrightarrow> 0 < n \<Longrightarrow> k < l \<Longrightarrow> cell_lo a b n k < cell_lo a b n l"
  unfolding cell_lo_def by (intro add_strict_left_mono mult_strict_right_mono) simp_all

lemma hd_linspace [simp]: "hd (linspace a b (Suc n)) = a"
  unfolding linspace_eq by (simp add: hd_map upt_conv_Cons del: upt_Suc)

lemma last_linspace [simp]: "0 < n \<Longrightarrow> last (linspace a b (Suc n)) = b"
  unfolding linspace_eq by simp

lemma filter_less_upt: "filter (\<lambda>k. k < j) [0..<m] = [0..<min j m]"
  by (induction m) (auto simp: min_def le_Suc_eq)

lemma cell_lo_le_iff:
  assumes "a < b" and "0 < n" and "a \<le> v"
  shows "cell_lo a b n k \<le> v \<longleftrightarrow> k < nat \<lfloor>(v - a) * of_nat n / (b - a)\<rfloor> + 1"
proof -
  have "cell_lo a b n k \<le> v \<longleftrightarrow> of_nat k \<le> (v - a) * of_nat n / (b - a)"
    using assms by (simp add: cell_lo_def field_simps)
  also have "\<dots> \<longleftrightarrow> int k \<le> \<lfloor>(v - a) * of_nat n / (b - a)\<rfloor>"
    by (simp add: le_floor_iff)
  also have "\<dots> \<longleftrightarrow> k < nat \<lfloor>(v - a) * of_nat n / (b - a)\<rfloor> + 1"
    using assms by (simp add: less_Suc_eq_le le_nat_iff)
  finally show ?thesis .
qed

lemma searchsorted_linspace:
  assumes "a < b" and "0 < n"
  shows "searchsorted (linspace a b (Suc n)) v =
     (if v < a then 0 else min (nat \<lfloor>(v - a) * of_nat n / (b - a)\<rfloor> + 1) (Suc n))"
proof (cases "v < a")
  case True
  then have "\<not> cell_lo a b n k \<le> v" for k
    using cell_lo_mono [OF assms, of 0 k] by simp
  with True show ?thesis
    unfolding searchsorted_def linspace_eq by (simp add: filter_map comp_def del: upt_Suc)
next
  case False
  then have "filter (\<lambda>k. cell_lo a b n k \<le> v) [0..<Suc n] =
      [0..<min (nat \<lfloor>(v - a) * of_nat n / (b - a)\<rfloor> + 1) (Suc n)]"
    using cell_lo_le_iff [OF assms, of v] by (simp add: filter_less_upt del: upt_Suc)
  with False show ?thesis
    unfolding searchsorted_def linspace_eq by (simp add: filter_map comp_def del: upt_Suc)
qed


text \<open>The bin of a value, in closed form: the optimised search of numpy against the floor
  of the scaled offset.\<close>

lemma floor_offset_less:
  assumes "a < b" and "0 < n" and "a \<le> v" and "v < b"
  shows "nat \<lfloor>(v - a) * of_nat n / (b - a)\<rfloor> < n"
proof -
  have "(v - a) * of_nat n / (b - a) < of_nat n"
    using assms by (simp add: field_simps)
  then have "\<lfloor>(v - a) * of_nat n / (b - a)\<rfloor> < int n"
    by (simp add: floor_less_iff)
  with assms(2) show ?thesis by linarith
qed

lemma floor_offset_ge:
  assumes "a < b" and "0 < n" and "b \<le> v"
  shows "n \<le> nat \<lfloor>(v - a) * of_nat n / (b - a)\<rfloor>"
proof -
  have "of_nat n \<le> (v - a) * of_nat n / (b - a)"
    using assms by (simp add: field_simps)
  then have "int n \<le> \<lfloor>(v - a) * of_nat n / (b - a)\<rfloor>"
    by (simp add: le_floor_iff)
  then show ?thesis by simp
qed

lemma bin_index_linspace:
  assumes "a < b" and "0 < n"
  shows "bin_index (linspace a b (Suc n)) v =
     (if v < a then 0 else if b < v then n + 1 else if v = b then n
      else nat \<lfloor>(v - a) * of_nat n / (b - a)\<rfloor> + 1)"
proof -
  consider "v < a" | "a \<le> v" "v < b" | "v = b" | "b < v" by linarith
  then show ?thesis
  proof cases
    case 1
    with assms show ?thesis by (simp add: bin_index_def Let_def searchsorted_linspace)
  next
    case 2
    with assms floor_offset_less [OF assms 2] show ?thesis
      by (simp add: bin_index_def Let_def searchsorted_linspace min_def)
  next
    case 3
    with assms floor_offset_ge [OF assms, of v] show ?thesis
      by (simp add: bin_index_def Let_def searchsorted_linspace min_def)
  next
    case 4
    with assms floor_offset_ge [OF assms, of v] show ?thesis
      by (simp add: bin_index_def Let_def searchsorted_linspace min_def)
  qed
qed

lemma bin_index_eq_iff:
  assumes "a < b" and "0 < n" and "k < n"
  shows "bin_index (linspace a b (Suc n)) v = k + 1 \<longleftrightarrow> in_cell a b n k v"
proof (cases "a \<le> v")
  case True
  note le = cell_lo_le_iff [OF assms(1,2) True]
  show ?thesis
  proof (cases "v = b")
    case True
    with assms le [of k] le [of "k + 1"] floor_offset_ge [OF assms(1,2), of v] show ?thesis
      by (auto simp: bin_index_linspace in_cell_def not_less)
  next
    case False
    with assms \<open>a \<le> v\<close> le [of k] le [of "k + 1"] floor_offset_ge [OF assms(1,2), of v]
    show ?thesis
      by (auto simp: bin_index_linspace in_cell_def not_less)
  qed
next
  case False
  with assms cell_lo_mono [OF assms(1,2), of 0 k] show ?thesis
    by (auto simp: bin_index_linspace in_cell_def)
qed

lemma bin_index_inside_iff:
  assumes "a < b" and "0 < n"
  shows "1 \<le> bin_index (linspace a b (Suc n)) v \<and> bin_index (linspace a b (Suc n)) v \<le> n \<longleftrightarrow>
     a \<le> v \<and> v \<le> b"
  using assms floor_offset_less [OF assms, of v]
  by (auto simp: bin_index_linspace)



section \<open>Counts\<close>

lemma length_filter_Cons:
  "length (filter P (p # ps)) = (if P p then 1 else 0) + length (filter P ps)"
  by simp

lemma sum_list_indicator:
  "(\<Sum>k\<leftarrow>[0..<n]. if c = Suc k then 1 else 0) = (if 1 \<le> c \<and> c \<le> n then (1::nat) else 0)"
  by (induction n) auto

lemma sum_count_bins:
  "(\<Sum>k\<leftarrow>[0..<n]. length (filter (\<lambda>p. f p = Suc k \<and> Q p) ps)) =
     length (filter (\<lambda>p. 1 \<le> f p \<and> f p \<le> n \<and> Q p) ps)"
proof (induction ps)
  case (Cons p ps)
  show ?case
    unfolding length_filter_Cons sum_list_addf Cons.IH
    by (cases "Q p") (simp_all add: sum_list_indicator del: One_nat_def)
qed simp

lemma grid_count:
  "counts_total (map (\<lambda>k. map (\<lambda>l.
       length (filter (\<lambda>p. f p = Suc k \<and> g p = Suc l) ps)) [0..<n]) [0..<m]) =
     length (filter (\<lambda>p. 1 \<le> f p \<and> f p \<le> m \<and> 1 \<le> g p \<and> g p \<le> n) ps)"
proof -
  have "(\<Sum>l\<leftarrow>[0..<n]. length (filter (\<lambda>p. f p = Suc k \<and> g p = Suc l) ps)) =
      length (filter (\<lambda>p. f p = Suc k \<and> (1 \<le> g p \<and> g p \<le> n)) ps)" for k
    using sum_count_bins [of g "\<lambda>p. f p = Suc k" ps n] by (simp add: conj_commute conj_left_commute)
  then show ?thesis
    by (simp add: counts_total_def comp_def sum_count_bins)
qed

lemma length_filter_mset: "length (filter P xs) = size (filter_mset P (mset xs))"
  by (simp flip: mset_filter)


section \<open>The histogram\<close>

lemma get_outer_edges_eq:
  "get_outer_edges r =
     (if snd r < fst r then Inl (ValueError ''max must be larger than min in range parameter.'')
      else Inr (widen r))"
  by (cases r) (simp add: get_outer_edges_def widen_def)

lemma widen_less: "fst r \<le> snd r \<Longrightarrow> fst (widen r) < snd (widen r)"
  by (simp add: widen_def)

lemma widen_proper [simp]: "fst r < snd r \<Longrightarrow> widen r = r"
  by (simp add: widen_def)

lemma outer_proper [simp]: "proper r \<Longrightarrow> outer r = r"
  by (cases r) (auto simp: outer_def proper_def)

lemma proper_outer: "ordered r \<Longrightarrow> proper (outer r)"
  by (auto simp: proper_def outer_def ordered_def split: prod.splits dest: widen_less)

lemma proper_ordered: "proper r \<Longrightarrow> ordered r"
  by (auto simp: proper_def ordered_def)


lemma cell_count_bins:
  assumes "proper r" and "k < n" and "l < n"
  shows "cell_count r n x y k l =
     length (filter (\<lambda>p. bin_index (edges (fst r) n) (fst p) = Suc k \<and>
                          bin_index (edges (snd r) n) (snd p) = Suc l) (zip x y))"
  using assms
  by (auto simp: cell_count_def proper_def edges_def bin_index_eq_iff [simplified]
      intro!: arg_cong [where f = length] filter_cong)

lemma grid_cell: "k < n \<Longrightarrow> l < n \<Longrightarrow> grid r n x y ! k ! l = cell_count r n x y k l"
  by (simp add: grid_def)

lemma length_grid [simp]: "length (grid r n x y) = n"
  by (simp add: grid_def)

lemma grid_bins:
  assumes "proper r"
  shows "grid r n x y = map (\<lambda>k. map (\<lambda>l.
       length (filter (\<lambda>p. bin_index (edges (fst r) n) (fst p) = Suc k \<and>
                            bin_index (edges (snd r) n) (snd p) = Suc l) (zip x y)))
       [0..<n]) [0..<n]"
  unfolding grid_def by (intro map_cong refl) (simp add: cell_count_bins [OF assms])

text \<open>Every point inside the range is counted in exactly one cell, and no other point
  is counted.\<close>

lemma grid_total:
  assumes "proper r" and "0 < n"
  shows "counts_total (grid r n x y) = length (filter (in_range r) (zip x y))"
proof -
  obtain x0 x1 y0 y1 where r: "r = ((x0, x1), (y0, y1))" by (metis prod.collapse)
  with assms have "x0 < x1" "y0 < y1" by (simp_all add: proper_def)
  with assms(2) have "1 \<le> bin_index (edges (fst r) n) a \<and> bin_index (edges (fst r) n) a \<le> n \<and>
      1 \<le> bin_index (edges (snd r) n) b \<and> bin_index (edges (snd r) n) b \<le> n \<longleftrightarrow>
      in_range r (a, b)" for a b
    using bin_index_inside_iff [of x0 x1 n a] bin_index_inside_iff [of y0 y1 n b]
    by (auto simp: r edges_def in_range_def)
  then show ?thesis
    unfolding grid_bins [OF assms(1)] grid_count
    by (intro arg_cong [where f = length] filter_cong refl) auto
qed

text \<open>The counts depend on the points only, not on their order.\<close>

lemma grid_perm:
  assumes "mset (zip x' y') = mset (zip x y)"
  shows "grid r n x' y' = grid r n x y"
  by (simp add: grid_def cell_count_def length_filter_mset assms split: prod.splits)

lemma histogram2d_eq:
  "histogram2d x y bins r =
     (case histogram2d_error x y bins r of
        Some e \<Rightarrow> Inl e
      | None \<Rightarrow> Inr (grid (outer r) (nat bins) x y, edges (fst (outer r)) (nat bins),
                     edges (snd (outer r)) (nat bins)))"
proof (cases "histogram2d_error x y bins r")
  case None
  then have ok: "length x = length y" "1 \<le> bins" "ordered r"
    by (simp_all add: histogram2d_error_def split: if_splits)
  from proper_outer [OF ok(3)] have p: "proper (outer r)" .
  from ok have "histogram2d x y bins r =
      Inr (map (\<lambda>k. map (\<lambda>l.
             length (filter (\<lambda>p. bin_index (edges (fst (outer r)) (nat bins)) (fst p) = Suc k \<and>
                                  bin_index (edges (snd (outer r)) (nat bins)) (snd p) = Suc l)
                      (zip x y))) [0..<nat bins]) [0..<nat bins],
           edges (fst (outer r)) (nat bins), edges (snd (outer r)) (nat bins))"
    by (simp add: histogram2d_def get_outer_edges_eq ordered_def outer_def edges_def Let_def
        case_prod_unfold not_less)
  with None show ?thesis by (simp add: grid_bins [OF p])
next
  case (Some e)
  then show ?thesis
    by (cases "snd (fst r) < fst (fst r)")
       (auto simp: histogram2d_def histogram2d_error_def get_outer_edges_eq ordered_def not_le
         split: if_splits)
qed

lemma histogram2d_error_None_iff:
  "histogram2d_error x y bins r = None \<longleftrightarrow> length x = length y \<and> 1 \<le> bins \<and> ordered r"
  by (auto simp: histogram2d_error_def)

lemma hist2d_eq:
  "hist2d x y bins cmap alpha r cmin ax =
     (case histogram2d_error x y bins r of
        Some e \<Rightarrow> Inl e
      | None \<Rightarrow> Inr (ax\<lparr>xlim := fst (outer r), ylim := snd (outer r),
                        artists := artists ax @
                          [Hist2D (mask cmin (grid (outer r) (nat bins) x y))
                             (edges (fst (outer r)) (nat bins)) (edges (snd (outer r)) (nat bins))
                             cmap alpha]\<rparr>))"
proof (cases "histogram2d_error x y bins r")
  case None
  then have "0 < nat bins" by (simp add: histogram2d_error_None_iff)
  with None show ?thesis
    by (simp add: hist2d_def histogram2d_eq mask_def add_artist_def edges_def Let_def)
qed (simp add: hist2d_def histogram2d_eq)

text \<open>Hiding the cells below \<open>cmin\<close>.\<close>

lemma mask_cell:
  "k < length h \<Longrightarrow> l < length (h ! k) \<Longrightarrow>
   mask cmin h ! k ! l = (if int (h ! k ! l) < cmin then None else Some (h ! k ! l))"
  by (simp add: mask_def)

lemma visible_row_le:
  "(\<Sum>c\<leftarrow>row. case (if int c < cmin then None else Some c) of None \<Rightarrow> 0 | Some n \<Rightarrow> n) \<le>
     sum_list row"
  by (induction row) auto

lemma visible_row_eq:
  "cmin \<le> 1 \<Longrightarrow>
   map (\<lambda>c. case (if int c < cmin then None else Some c) of None \<Rightarrow> 0 | Some n \<Rightarrow> n) row = row"
  by (induction row) auto

lemma visible_total_le: "visible_total (mask cmin h) \<le> counts_total h"
  unfolding visible_total_def mask_def counts_total_def
  by (induction h) (simp_all add: comp_def add_mono visible_row_le)

lemma visible_total_eq: "cmin \<le> 1 \<Longrightarrow> visible_total (mask cmin h) = counts_total h"
  unfolding visible_total_def mask_def counts_total_def
  by (simp add: comp_def visible_row_eq)

end
