(* ===== verification/Overlays.thy ===== *)
theory Overlays
  imports Graph Histogram
begin

text \<open>
  The renderers of \<^verbatim>\<open>src/src/graph.py\<close> that draw over the boundary map: \<^verbatim>\<open>plot_dot\<close>,
  \<^verbatim>\<open>plot_bubble\<close> and \<^verbatim>\<open>plot_hist2d\<close>. Each calls \<open>plot_boundary\<close> and then draws on every
  panel in a loop over the region table.

  \<^item> The parameter classes \<^verbatim>\<open>DotParams\<close>, \<^verbatim>\<open>BubbleParams\<close> and \<^verbatim>\<open>Hist2DParams\<close> are records;
    their generated constructors with the default values are \<open>DotParams_init\<close>,
    \<open>BubbleParams_init\<close>, which runs \<open>BubbleParams_post_init\<close>, and \<open>Hist2DParams_init\<close>.
  \<^item> \<open>plot_dot_step\<close>, \<open>plot_bubble_step\<close> and \<open>plot_hist2d_step\<close> are the bodies of the
    \<open>for\<close> loops, \<open>plot_dot\<close>, \<open>plot_bubble\<close> and \<open>plot_hist2d\<close> the methods.

  The scatter renderers draw the same scatter on every panel; \<open>plot_dot_eq\<close> and
  \<open>plot_bubble_eq\<close> (through \<open>overlay_ok\<close> and \<open>overlay_raise\<close>) give their result in closed
  form. The density renderer draws on panel \<open>i\<close> the histogram of all points over the
  bounding box of region \<open>i\<close> of the table, \<open>density_draw\<close>; \<open>plot_hist2d_Inr_iff\<close> is its
  refinement lemma and \<open>plot_hist2d_child\<close> gives each panel of a returned figure, with
  \<open>density_artist\<close> the mesh it adds.
  From them: what each panel holds, that every point inside the box of a region is
  counted in exactly one cell of its panel, that the counts do not depend on the order of
  the points, and the inputs on which the renderers return.
\<close>

record DotParams =
  dp_x :: "pyfloat list"
  dp_y :: "pyfloat list"
  dp_size :: pyfloat
  dp_color :: pystr
  dp_alpha :: pyfloat

definition DotParams_init :: "pyfloat list \<Rightarrow> pyfloat list \<Rightarrow> DotParams" where
  "DotParams_init x y = \<lparr>dp_x = x, dp_y = y, dp_size = 1, dp_color = ''red'', dp_alpha = 0.5\<rparr>"

record BubbleParams =
  bp_x :: "pyfloat list"
  bp_y :: "pyfloat list"
  bp_size :: "pyfloat list option"
  bp_color :: "pystr list option"
  bp_alpha :: pyfloat
  bp_cmin :: int

definition BubbleParams_post_init :: "BubbleParams \<Rightarrow> BubbleParams" where
  "BubbleParams_post_init self =
     (let self = (if bp_size self = None
                  then self\<lparr>bp_size := Some (replicate (length (bp_x self)) 1)\<rparr> else self);
          self = (if bp_color self = None
                  then self\<lparr>bp_color := Some (replicate (length (bp_x self)) ''red'')\<rparr> else self)
      in self)"

definition BubbleParams_init ::
  "pyfloat list \<Rightarrow> pyfloat list \<Rightarrow> pyfloat list option \<Rightarrow> pystr list option \<Rightarrow> pyfloat \<Rightarrow> BubbleParams" where
  "BubbleParams_init x y sizes color alpha =
     BubbleParams_post_init
       \<lparr>bp_x = x, bp_y = y, bp_size = sizes, bp_color = color, bp_alpha = alpha, bp_cmin = 1\<rparr>"

record Hist2DParams =
  hp_x :: "pyfloat list"
  hp_y :: "pyfloat list"
  hp_bins :: int
  hp_cmap :: pystr
  hp_alpha :: pyfloat
  hp_cmin :: int

definition Hist2DParams_init :: "pyfloat list \<Rightarrow> pyfloat list \<Rightarrow> Hist2DParams" where
  "Hist2DParams_init x y =
     \<lparr>hp_x = x, hp_y = y, hp_bins = 100, hp_cmap = ''GnBu'', hp_alpha = 0.5, hp_cmin = 1\<rparr>"

text \<open>The scatter renderers.\<close>

definition plot_dot_step :: "DotParams \<Rightarrow> figure \<Rightarrow> nat \<times> pystr \<Rightarrow> figure result" where
  "plot_dot_step params ax ia =
     (case ia of (i, a) \<Rightarrow>
        on_child ax i (scatter (dp_x params) (dp_y params) (Some [dp_size params])
                         (Some [dp_color params]) (dp_alpha params) None None))"

definition plot_dot :: "Graph \<Rightarrow> datasets \<Rightarrow> DotParams \<Rightarrow> pyplot \<Rightarrow> figure result \<times> pyplot" where
  "plot_dot self ds params plt =
     (let area_list = area_list (geo_plot self)
      in case plot_boundary self ds plt of (r, plt) \<Rightarrow>
           (rbind r (\<lambda>ax. for_each (plot_dot_step params) area_list ax), plt))"

definition plot_bubble_step :: "BubbleParams \<Rightarrow> figure \<Rightarrow> nat \<times> pystr \<Rightarrow> figure result" where
  "plot_bubble_step params ax ia =
     (case ia of (i, a) \<Rightarrow>
        on_child ax i (scatter (bp_x params) (bp_y params) (bp_size params) (bp_color params)
                         (bp_alpha params) (Some ''black'') (Some 0.5)))"

definition plot_bubble :: "Graph \<Rightarrow> datasets \<Rightarrow> BubbleParams \<Rightarrow> pyplot \<Rightarrow> figure result \<times> pyplot" where
  "plot_bubble self ds params plt =
     (let area_list = area_list (geo_plot self)
      in case plot_boundary self ds plt of (r, plt) \<Rightarrow>
           (rbind r (\<lambda>ax. for_each (plot_bubble_step params) area_list ax), plt))"

text \<open>The density renderer.\<close>

definition plot_hist2d_step ::
  "area_range \<Rightarrow> Hist2DParams \<Rightarrow> figure \<Rightarrow> nat \<times> pystr \<Rightarrow> figure result" where
  "plot_hist2d_step area_range params ax ia =
     (case ia of (i, a) \<Rightarrow>
        rbind (getitem_str area_range a) (\<lambda>r.
          let bounds = bounds r
          in on_child ax i
               (hist2d (hp_x params) (hp_y params) (hp_bins params) (hp_cmap params)
                  (hp_alpha params)
                  ((min_x bounds, max_x bounds), (min_y bounds, max_y bounds))
                  (hp_cmin params))))"

definition plot_hist2d ::
  "Graph \<Rightarrow> datasets \<Rightarrow> Hist2DParams \<Rightarrow> pyplot \<Rightarrow> figure result \<times> pyplot" where
  "plot_hist2d self ds params plt =
     (let area_list = area_list (geo_plot self);
          area_range = AREA_RANGE (graph_fig_config self)
      in case plot_boundary self ds plt of (r, plt) \<Rightarrow>
           (rbind r (\<lambda>ax. for_each (plot_hist2d_step area_range params) area_list ax), plt))"

text \<open>The specification of the density renderer: the histogram of all points over the
  bounding box of the region.\<close>

definition range_of :: "area_bounds \<Rightarrow> hrange" where
  "range_of b = ((min_x b, max_x b), (min_y b, max_y b))"

definition density_draw :: "area_range \<Rightarrow> Hist2DParams \<Rightarrow> pystr \<Rightarrow> axes \<Rightarrow> axes result" where
  "density_draw ar p a child =
     rbind (getitem_str ar a) (\<lambda>r.
       hist2d (hp_x p) (hp_y p) (hp_bins p) (hp_cmap p) (hp_alpha p) (range_of (bounds r))
         (hp_cmin p) child)"

definition density_artist :: "Hist2DParams \<Rightarrow> area_bounds \<Rightarrow> artist" where
  "density_artist p b =
     Hist2D (mask (hp_cmin p) (grid (outer (range_of b)) (nat (hp_bins p)) (hp_x p) (hp_y p)))
       (edges (fst (outer (range_of b))) (nat (hp_bins p)))
       (edges (snd (outer (range_of b))) (nat (hp_bins p))) (hp_cmap p) (hp_alpha p)"

text \<open>Sample parameters.\<close>

definition sample_points :: Hist2DParams where
  "sample_points =
     (Hist2DParams_init [120.96, 120.96, 119.57, 118.3] [23.7, 23.7, 23.57, 24.4])\<lparr>hp_bins := 2\<rparr>"

definition sample_dots :: DotParams where
  "sample_dots = DotParams_init [120.96, 119.57] [23.7, 23.57]"


section \<open>The scatter renderers\<close>

text \<open>A loop that draws the same thing on every panel, after the boundary renderer.\<close>

lemma map_zip_snd: "length as = length cs \<Longrightarrow> map (\<lambda>(a, c). f c) (zip as cs) = map f cs"
  by (induction as cs rule: list_induct2) simp_all

lemma overlay_ok:
  assumes "\<And>ax i a. step ax (i, a) = on_child ax i draw" and "\<And>c. draw c = Inr (f c)"
  shows "rbind (fst (plot_boundary (fst (Graph_init cfg fm)) ds plt))
           (for_each step (area_list (geo_plot (fst (Graph_init cfg fm))))) =
         rbind (fst (plot_boundary (fst (Graph_init cfg fm)) ds plt))
           (\<lambda>fig0. Inr (fig0\<lparr>child_axes := map f (child_axes fig0)\<rparr>))"
proof (cases "fst (plot_boundary (fst (Graph_init cfg fm)) ds plt)")
  case (Inr fig0)
  then have n: "length (AREA_RANGE cfg) = 7" "length (child_axes fig0) = 7"
    using plot_boundary_ok_iff [of cfg fm ds plt] plot_boundary_length by auto
  then have 1: "for_each step (enumerate 0 (map fst (AREA_RANGE cfg))) fig0 =
      rbind (paint (\<lambda>a. draw) (map fst (AREA_RANGE cfg)) (drop 0 (child_axes fig0)))
        (\<lambda>cs. Inr (fig0\<lparr>child_axes := take 0 (child_axes fig0) @ cs\<rparr>))"
    by (intro for_each_paint) (simp_all add: assms(1))
  have 2: "paint (\<lambda>a. draw) (map fst (AREA_RANGE cfg)) (child_axes fig0) =
      Inr (map (\<lambda>(a, c). f c) (zip (map fst (AREA_RANGE cfg)) (child_axes fig0)))"
    using n by (intro paint_map) (simp_all add: assms(2))
  from 1 2 Inr n show ?thesis by (simp add: map_zip_snd)
qed simp

lemma overlay_raise:
  assumes "\<And>ax i a. step ax (i, a) = on_child ax i draw" and "\<And>c. draw c = Inl e"
  shows "rbind (fst (plot_boundary (fst (Graph_init cfg fm)) ds plt))
           (for_each step (area_list (geo_plot (fst (Graph_init cfg fm))))) =
         rbind (fst (plot_boundary (fst (Graph_init cfg fm)) ds plt)) (\<lambda>fig0. Inl e)"
proof (cases "fst (plot_boundary (fst (Graph_init cfg fm)) ds plt)")
  case (Inr fig0)
  then have n: "length (AREA_RANGE cfg) = 7" "length (child_axes fig0) = 7"
    using plot_boundary_ok_iff [of cfg fm ds plt] plot_boundary_length by auto
  then obtain k ks where "map fst (AREA_RANGE cfg) = k # ks" by (cases "AREA_RANGE cfg") auto
  with Inr n show ?thesis by (simp add: assms on_child_eq)
qed simp

lemma plot_dot_plt: "snd (plot_dot self ds p plt) = snd (plot_boundary self ds plt)"
  by (cases "plot_boundary self ds plt") (simp add: plot_dot_def Let_def)

lemma plot_bubble_plt: "snd (plot_bubble self ds p plt) = snd (plot_boundary self ds plt)"
  by (cases "plot_boundary self ds plt") (simp add: plot_bubble_def Let_def)

text \<open>The refinement lemmas of the scatter renderers.\<close>

lemma plot_dot_eq:
  "fst (plot_dot (fst (Graph_init cfg fm)) ds p plt) =
     rbind (fst (plot_boundary (fst (Graph_init cfg fm)) ds plt)) (\<lambda>fig0.
       case scatter_error (dp_x p) (dp_y p) (Some [dp_size p]) (Some [dp_color p]) of
         Some e \<Rightarrow> Inl e
       | None \<Rightarrow> Inr (fig0\<lparr>child_axes :=
           map (\<lambda>c. c\<lparr>artists := artists c @
                  [Scatter (dp_x p) (dp_y p) [dp_size p] [dp_color p] (dp_alpha p) None None]\<rparr>)
             (child_axes fig0)\<rparr>))"
proof -
  have fst: "fst (plot_dot (fst (Graph_init cfg fm)) ds p plt) =
      rbind (fst (plot_boundary (fst (Graph_init cfg fm)) ds plt))
        (for_each (plot_dot_step p) (area_list (geo_plot (fst (Graph_init cfg fm)))))"
    by (cases "plot_boundary (fst (Graph_init cfg fm)) ds plt") (simp add: plot_dot_def Let_def)
  show ?thesis
  proof (cases "scatter_error (dp_x p) (dp_y p) (Some [dp_size p]) (Some [dp_color p])")
    case None
    then show ?thesis
      unfolding fst
      by (subst overlay_ok [where draw = "scatter (dp_x p) (dp_y p) (Some [dp_size p])
            (Some [dp_color p]) (dp_alpha p) None None"])
         (simp_all add: plot_dot_step_def scatter_eq scatter_sizes_def scatter_colors_def)
  next
    case (Some e)
    then show ?thesis
      unfolding fst
      by (subst overlay_raise [where draw = "scatter (dp_x p) (dp_y p) (Some [dp_size p])
            (Some [dp_color p]) (dp_alpha p) None None" and e = e])
         (simp_all add: plot_dot_step_def scatter_eq)
  qed
qed

lemma plot_bubble_eq:
  "fst (plot_bubble (fst (Graph_init cfg fm)) ds p plt) =
     rbind (fst (plot_boundary (fst (Graph_init cfg fm)) ds plt)) (\<lambda>fig0.
       case scatter_error (bp_x p) (bp_y p) (bp_size p) (bp_color p) of
         Some e \<Rightarrow> Inl e
       | None \<Rightarrow> Inr (fig0\<lparr>child_axes :=
           map (\<lambda>c. c\<lparr>artists := artists c @
                  [Scatter (bp_x p) (bp_y p) (scatter_sizes (bp_size p)) (scatter_colors (bp_color p))
                     (bp_alpha p) (Some ''black'') (Some 0.5)]\<rparr>)
             (child_axes fig0)\<rparr>))"
proof -
  have fst: "fst (plot_bubble (fst (Graph_init cfg fm)) ds p plt) =
      rbind (fst (plot_boundary (fst (Graph_init cfg fm)) ds plt))
        (for_each (plot_bubble_step p) (area_list (geo_plot (fst (Graph_init cfg fm)))))"
    by (cases "plot_boundary (fst (Graph_init cfg fm)) ds plt") (simp add: plot_bubble_def Let_def)
  show ?thesis
  proof (cases "scatter_error (bp_x p) (bp_y p) (bp_size p) (bp_color p)")
    case None
    then show ?thesis
      unfolding fst
      by (subst overlay_ok [where draw = "scatter (bp_x p) (bp_y p) (bp_size p) (bp_color p)
            (bp_alpha p) (Some ''black'') (Some 0.5)"])
         (simp_all only: plot_bubble_step_def scatter_eq option.case prod.case)
  next
    case (Some e)
    then show ?thesis
      unfolding fst
      by (subst overlay_raise [where draw = "scatter (bp_x p) (bp_y p) (bp_size p) (bp_color p)
            (bp_alpha p) (Some ''black'') (Some 0.5)" and e = e])
         (simp_all only: plot_bubble_step_def scatter_eq option.case prod.case)
  qed
qed

lemma BubbleParams_init_fields [simp]:
  "bp_x (BubbleParams_init x y s c alpha) = x" "bp_y (BubbleParams_init x y s c alpha) = y"
  "bp_alpha (BubbleParams_init x y s c alpha) = alpha"
  "bp_size (BubbleParams_init x y s c alpha) = Some (case s of None \<Rightarrow> replicate (length x) 1 | Some s \<Rightarrow> s)"
  "bp_color (BubbleParams_init x y s c alpha) =
     Some (case c of None \<Rightarrow> replicate (length x) ''red'' | Some c \<Rightarrow> c)"
  by (simp_all add: BubbleParams_init_def BubbleParams_post_init_def Let_def split: option.splits)

lemma plot_dot_child:
  assumes "fst (plot_dot (fst (Graph_init cfg fm)) ds p plt) = Inr fig" and "i < 7"
  shows "length (dp_x p) = length (dp_y p) \<and>
     (\<exists>all. ds COUNTY = Some all \<and>
       child_axes fig ! i = (layout (bounds_of (AREA_RANGE cfg)) ! i)
         \<lparr>artists := edge_artists (features_in all
              (bounds_of (AREA_RANGE cfg) (map fst (AREA_RANGE cfg) ! i))) @
            [Scatter (dp_x p) (dp_y p) [dp_size p] [dp_color p] (dp_alpha p) None None]\<rparr>)"
proof -
  from assms(1) obtain fig0 where fig0: "fst (plot_boundary (fst (Graph_init cfg fm)) ds plt) = Inr fig0"
    and ok: "scatter_error (dp_x p) (dp_y p) (Some [dp_size p]) (Some [dp_color p]) = None"
    and fig: "fig = fig0\<lparr>child_axes :=
           map (\<lambda>c. c\<lparr>artists := artists c @
                  [Scatter (dp_x p) (dp_y p) [dp_size p] [dp_color p] (dp_alpha p) None None]\<rparr>)
             (child_axes fig0)\<rparr>"
    by (auto simp: plot_dot_eq rbind_ok_iff split: option.splits)
  from plot_boundary_child [OF fig0 assms(2)] plot_boundary_length [OF fig0] assms(2) fig ok
  show ?thesis by (auto simp: scatter_error_None_iff)
qed

lemma plot_dot_length_mismatch:
  assumes "fst (plot_boundary (fst (Graph_init cfg fm)) ds plt) = Inr fig0"
    and "length (dp_x p) \<noteq> length (dp_y p)"
  shows "plot_dot (fst (Graph_init cfg fm)) ds p plt =
     (Inl (ValueError ''x and y must be the same size''),
      plt\<lparr>fignums := fignums plt @ [next_num (fignums plt)]\<rparr>)"
  using assms
  by (simp add: prod_eq_iff plot_dot_eq plot_dot_plt plot_boundary_plt base_plt scatter_error_def)

lemma sample_dots_fields [simp]:
  "dp_x sample_dots = [120.96, 119.57]" "dp_y sample_dots = [23.7, 23.57]" "dp_size sample_dots = 1"
  "dp_color sample_dots = ''red''" "dp_alpha sample_dots = 0.5"
  by (simp_all add: sample_dots_def DotParams_init_def)

lemma sample_dots_returns:
  "\<exists>fig. fst (plot_dot (fst (Graph_init FigConfig [])) sample_store sample_dots plt0) = Inr fig"
  by (simp add: plot_dot_eq sample_boundary_eq scatter_error_def scatter_sizes_def scatter_colors_def)


section \<open>The density renderer\<close>

lemma plot_hist2d_plt: "snd (plot_hist2d self ds p plt) = snd (plot_boundary self ds plt)"
  by (cases "plot_boundary self ds plt") (simp add: plot_hist2d_def Let_def)

lemma plot_hist2d_fst:
  "fst (plot_hist2d self ds p plt) =
     rbind (fst (plot_boundary self ds plt))
       (for_each (plot_hist2d_step (AREA_RANGE (graph_fig_config self)) p) (area_list (geo_plot self)))"
  by (cases "plot_boundary self ds plt") (simp add: plot_hist2d_def Let_def)

lemma plot_hist2d_step_eq:
  assumes "i < length (child_axes ax)"
  shows "plot_hist2d_step ar p ax (i, a) = on_child ax i (density_draw ar p a)"
  using assms
  by (simp add: plot_hist2d_step_def density_draw_def range_of_def on_child_eq rbind_case Let_def
      split: sum.splits)

lemma plot_hist2d_step_overflow:
  "length (child_axes ax) \<le> i \<Longrightarrow> \<exists>e. plot_hist2d_step ar p ax (i, a) = Inl e"
  by (simp add: plot_hist2d_step_def on_child_eq rbind_case Let_def split: sum.splits)

lemma density_draw_eq:
  "density_draw ar p a c =
     (case map_of ar a of
        None \<Rightarrow> Inl (KeyError a)
      | Some r \<Rightarrow>
          case histogram2d_error (hp_x p) (hp_y p) (hp_bins p) (range_of (bounds r)) of
            Some e \<Rightarrow> Inl e
          | None \<Rightarrow> Inr (c\<lparr>xlim := fst (outer (range_of (bounds r))),
                             ylim := snd (outer (range_of (bounds r))),
                             artists := artists c @ [density_artist p (bounds r)]\<rparr>))"
  by (simp add: density_draw_def getitem_def hist2d_eq density_artist_def split: option.splits)

text \<open>The refinement lemma of the density renderer.\<close>

lemma plot_hist2d_Inr_iff:
  "fst (plot_hist2d (fst (Graph_init cfg fm)) ds p plt) = Inr fig \<longleftrightarrow>
     (\<exists>fig0 cs. fst (plot_boundary (fst (Graph_init cfg fm)) ds plt) = Inr fig0 \<and>
        paint (density_draw (AREA_RANGE cfg) p) (map fst (AREA_RANGE cfg)) (child_axes fig0) = Inr cs \<and>
        fig = fig0\<lparr>child_axes := cs\<rparr>)"
  by (simp add: plot_hist2d_fst rbind_ok_iff
      for_each_panels [of "plot_hist2d_step (AREA_RANGE cfg) p", OF plot_hist2d_step_eq plot_hist2d_step_overflow])

lemma density_draw_key:
  assumes "a \<in> set (map fst ar)"
  shows "(\<exists>c'. density_draw ar p a c = Inr c') \<longleftrightarrow>
     histogram2d_error (hp_x p) (hp_y p) (hp_bins p) (range_of (bounds_of ar a)) = None"
proof -
  from assms obtain r where "map_of ar a = Some r"
    by (cases "map_of ar a") (auto simp: map_of_eq_None_iff)
  then show ?thesis by (auto simp: density_draw_eq bounds_of_def split: option.splits)
qed

lemma plot_hist2d_ok_iff:
  "(\<exists>fig. fst (plot_hist2d (fst (Graph_init cfg fm)) ds p plt) = Inr fig) \<longleftrightarrow>
     (\<exists>fig0. fst (plot_boundary (fst (Graph_init cfg fm)) ds plt) = Inr fig0) \<and>
     (\<forall>a \<in> set (map fst (AREA_RANGE cfg)).
        histogram2d_error (hp_x p) (hp_y p) (hp_bins p) (range_of (bounds_of (AREA_RANGE cfg) a)) = None)"
proof (cases "fst (plot_boundary (fst (Graph_init cfg fm)) ds plt)")
  case (Inr fig0)
  then have n: "length (AREA_RANGE cfg) = 7" "length (child_axes fig0) = 7"
    using plot_boundary_ok_iff [of cfg fm ds plt] plot_boundary_length by auto
  have "(\<exists>c'. density_draw (AREA_RANGE cfg) p (map fst (AREA_RANGE cfg) ! i) c = Inr c') \<longleftrightarrow>
      histogram2d_error (hp_x p) (hp_y p) (hp_bins p)
        (range_of (bounds_of (AREA_RANGE cfg) (map fst (AREA_RANGE cfg) ! i))) = None"
    if "i < 7" for i c
    using that n by (intro density_draw_key nth_mem) simp
  with n have "(\<exists>cs. paint (density_draw (AREA_RANGE cfg) p) (map fst (AREA_RANGE cfg)) (child_axes fig0) = Inr cs) \<longleftrightarrow>
      (\<forall>i < length (map fst (AREA_RANGE cfg)).
         histogram2d_error (hp_x p) (hp_y p) (hp_bins p)
           (range_of (bounds_of (AREA_RANGE cfg) (map fst (AREA_RANGE cfg) ! i))) = None)"
    unfolding paint_ok_iff by auto
  with Inr show ?thesis
    by (simp add: plot_hist2d_Inr_iff all_set_conv_all_nth del: set_map)
qed (simp add: plot_hist2d_Inr_iff)

lemma plot_hist2d_child:
  assumes "fst (plot_hist2d (fst (Graph_init cfg fm)) ds p plt) = Inr fig" and "i < 7"
  shows "\<exists>all. ds COUNTY = Some all \<and>
     child_axes fig ! i = (layout (bounds_of (AREA_RANGE cfg)) ! i)
       \<lparr>xlim := fst (outer (range_of (bounds_of (AREA_RANGE cfg) (map fst (AREA_RANGE cfg) ! i)))),
        ylim := snd (outer (range_of (bounds_of (AREA_RANGE cfg) (map fst (AREA_RANGE cfg) ! i)))),
        artists := edge_artists (features_in all
            (bounds_of (AREA_RANGE cfg) (map fst (AREA_RANGE cfg) ! i))) @
          [density_artist p (bounds_of (AREA_RANGE cfg) (map fst (AREA_RANGE cfg) ! i))]\<rparr>"
proof -
  from assms(1) obtain fig0 cs
    where fig0: "fst (plot_boundary (fst (Graph_init cfg fm)) ds plt) = Inr fig0"
      and cs: "paint (density_draw (AREA_RANGE cfg) p) (map fst (AREA_RANGE cfg)) (child_axes fig0) = Inr cs"
      and fig: "fig = fig0\<lparr>child_axes := cs\<rparr>"
    by (auto simp: plot_hist2d_Inr_iff)
  from fig0 have n: "length (AREA_RANGE cfg) = 7"
    using plot_boundary_ok_iff [of cfg fm ds plt] by auto
  from nth_key_map_of [of i "AREA_RANGE cfg"] n assms(2)
  obtain r where r: "map_of (AREA_RANGE cfg) (map fst (AREA_RANGE cfg) ! i) = Some r" by auto
  from plot_boundary_child [OF fig0 assms(2)] paint_nth [OF cs, of i] n assms(2) r fig
  show ?thesis
    by (auto simp: density_draw_eq bounds_of_def split: option.splits)
qed

lemma extent_density:
  "proper (range_of b) \<Longrightarrow>
   extent (c\<lparr>xlim := fst (outer (range_of b)), ylim := snd (outer (range_of b)), artists := as\<rparr>) = b"
  by (simp add: extent_def range_of_def)


lemma density_artist_cells:
  assumes "k < nat (hp_bins p)" and "l < nat (hp_bins p)"
  shows "\<exists>h. density_artist p b =
       Hist2D h (edges (fst (outer (range_of b))) (nat (hp_bins p)))
         (edges (snd (outer (range_of b))) (nat (hp_bins p))) (hp_cmap p) (hp_alpha p) \<and>
     length h = nat (hp_bins p) \<and>
     h ! k ! l =
       (if int (cell_count (outer (range_of b)) (nat (hp_bins p)) (hp_x p) (hp_y p) k l) < hp_cmin p
        then None
        else Some (cell_count (outer (range_of b)) (nat (hp_bins p)) (hp_x p) (hp_y p) k l))"
  using assms by (simp add: density_artist_def mask_def grid_def)

lemma density_artist_total:
  assumes "1 \<le> hp_bins p" and "ordered (range_of b)"
  shows "\<exists>h xe ye. density_artist p b = Hist2D h xe ye (hp_cmap p) (hp_alpha p) \<and>
     visible_total h \<le> length (filter (in_range (outer (range_of b))) (zip (hp_x p) (hp_y p))) \<and>
     (hp_cmin p \<le> 1 \<longrightarrow>
      visible_total h = length (filter (in_range (outer (range_of b))) (zip (hp_x p) (hp_y p))))"
  using assms visible_total_le [of "hp_cmin p" "grid (outer (range_of b)) (nat (hp_bins p)) (hp_x p) (hp_y p)"]
  by (simp add: density_artist_def visible_total_eq grid_total proper_outer)

lemma density_artist_perm:
  assumes "mset (zip (hp_x p') (hp_y p')) = mset (zip (hp_x p) (hp_y p))"
    and "hp_bins p' = hp_bins p" and "hp_cmap p' = hp_cmap p" and "hp_alpha p' = hp_alpha p"
    and "hp_cmin p' = hp_cmin p"
  shows "density_artist p' b = density_artist p b"
  using assms by (simp add: density_artist_def grid_perm [OF assms(1)])

lemma plot_hist2d_errors:
  assumes "fst (plot_hist2d (fst (Graph_init cfg fm)) ds p plt) = Inr fig"
    and "a \<in> set (map fst (AREA_RANGE cfg))"
  shows "histogram2d_error (hp_x p) (hp_y p) (hp_bins p) (range_of (bounds_of (AREA_RANGE cfg) a)) = None"
  using assms plot_hist2d_ok_iff [of cfg fm ds p plt] by blast

lemma hist2d_perm:
  assumes "mset (zip x' y') = mset (zip x y)" and "length x' = length y'" and "length x = length y"
  shows "hist2d x' y' bins cmap alpha r cmin = hist2d x y bins cmap alpha r cmin"
  using assms by (simp add: fun_eq_iff hist2d_eq histogram2d_error_def grid_perm [OF assms(1)])

lemma plot_hist2d_keys:
  assumes "fst (plot_boundary (fst (Graph_init cfg fm)) ds plt) = Inr fig0"
  shows "map fst (AREA_RANGE cfg) \<noteq> []"
  using assms plot_boundary_ok_iff [of cfg fm ds plt] by auto

lemma sample_points_fields [simp]:
  "hp_x sample_points = [120.96, 120.96, 119.57, 118.3]"
  "hp_y sample_points = [23.7, 23.7, 23.57, 24.4]"
  "hp_bins sample_points = 2" "hp_cmap sample_points = ''GnBu''" "hp_alpha sample_points = 0.5"
  "hp_cmin sample_points = 1"
  by (simp_all add: sample_points_def Hist2DParams_init_def)

lemma sample_points_returns:
  "\<exists>fig. fst (plot_hist2d (fst (Graph_init FigConfig [])) sample_store sample_points plt0) = Inr fig"
  unfolding plot_hist2d_ok_iff
  by (simp add: sample_boundary_eq AREA_RANGE_keys histogram2d_error_def ordered_def range_of_def)


section \<open>Properties of the overlay renderers\<close>

text \<open>Claim C23: in a figure returned by \<open>plot_dot\<close> the coordinate lists have equal
  length, and every panel holds the boundary of the counties of its region and, drawn
  after it, one scatter of all the points with the size, colour and opacity of the
  parameters: the same points on every panel, none filtered by region.\<close>

theorem plot_dot_panels:
  assumes "fst (plot_dot (fst (Graph_init cfg fm)) ds p plt) = Inr fig" and "i < 7"
  shows "length (dp_x p) = length (dp_y p) \<and>
     (\<exists>all. ds COUNTY = Some all \<and>
       label (child_axes fig ! i) = layout_labels ! i \<and>
       extent (child_axes fig ! i) = bounds_of (AREA_RANGE cfg) (layout_labels ! i) \<and>
       artists (child_axes fig ! i) =
         edge_artists (features_in all (bounds_of (AREA_RANGE cfg) (map fst (AREA_RANGE cfg) ! i))) @
         [Scatter (dp_x p) (dp_y p) [dp_size p] [dp_color p] (dp_alpha p) None None])"
  using plot_dot_child [OF assms] layout_nth [OF assms(2), of "bounds_of (AREA_RANGE cfg)"]
  by auto

theorem plot_dot_panels_witness:
  "\<exists>fig. fst (plot_dot (fst (Graph_init FigConfig [])) sample_store sample_dots plt0) = Inr fig \<and>
     (4 :: nat) < 7 \<and>
     artists (child_axes fig ! 4) = [Scatter [120.96, 119.57] [23.7, 23.57] [1] [''red''] 0.5 None None]"
proof -
  from sample_dots_returns obtain fig where
    fig: "fst (plot_dot (fst (Graph_init FigConfig [])) sample_store sample_dots plt0) = Inr fig" ..
  from plot_dot_panels [OF fig, of 4]
  have "artists (child_axes fig ! 4) = [Scatter [120.96, 119.57] [23.7, 23.57] [1] [''red''] 0.5 None None]"
    by (simp add: sample_regions del: bounds_of_FigConfig)
  with fig show ?thesis by auto
qed

text \<open>Claim C35: \<open>plot_bubble\<close> returns a figure exactly when \<open>plot_boundary\<close> does, the
  coordinate lists have equal length, there are one or as many sizes as points, and
  none, one or as many colours as points. With the defaults that \<open>__post_init__\<close> fills
  in, the sizes and colours are as many as the points.\<close>

theorem plot_bubble_returns_iff:
  "((\<exists>fig. fst (plot_bubble (fst (Graph_init cfg fm)) ds p plt) = Inr fig) \<longleftrightarrow>
     (\<exists>fig0. fst (plot_boundary (fst (Graph_init cfg fm)) ds plt) = Inr fig0) \<and>
     length (bp_x p) = length (bp_y p) \<and>
     length (scatter_sizes (bp_size p)) \<in> {1, length (bp_x p)} \<and>
     length (scatter_colors (bp_color p)) \<in> {0, 1, length (bp_x p)}) \<and>
   scatter_sizes (bp_size (BubbleParams_init x y None None alpha)) = replicate (length x) 1 \<and>
   scatter_colors (bp_color (BubbleParams_init x y None None alpha)) = replicate (length x) ''red''"
  by (auto simp: plot_bubble_eq rbind_ok_iff scatter_error_None_iff scatter_sizes_def
      scatter_colors_def split: option.splits)


text \<open>Claim C9: in a figure returned by \<open>plot_hist2d\<close>, panel \<open>i\<close> holds the boundary of the
  counties of region \<open>i\<close> of the table and, drawn after it, one mesh over the bounding box
  of that region, cut into \<open>bins\<close> by \<open>bins\<close> cells by equidistant edges. Cell \<open>(k, l)\<close> of
  the mesh shows the number of points of the input that lie in it, a cell being closed
  below and open above except at the upper border of the box, and is hidden when that
  number is below \<open>cmin\<close>. All points are offered to every panel.\<close>

theorem plot_hist2d_panel:
  assumes "fst (plot_hist2d (fst (Graph_init cfg fm)) ds p plt) = Inr fig" and "i < 7"
    and "k < nat (hp_bins p)" and "l < nat (hp_bins p)"
    and "r = outer (range_of (bounds_of (AREA_RANGE cfg) (map fst (AREA_RANGE cfg) ! i)))"
  shows "\<exists>all h. ds COUNTY = Some all \<and>
     artists (child_axes fig ! i) =
       edge_artists (features_in all (bounds_of (AREA_RANGE cfg) (map fst (AREA_RANGE cfg) ! i))) @
       [Hist2D h (edges (fst r) (nat (hp_bins p))) (edges (snd r) (nat (hp_bins p)))
          (hp_cmap p) (hp_alpha p)] \<and>
     xlim (child_axes fig ! i) = fst r \<and> ylim (child_axes fig ! i) = snd r \<and>
     length h = nat (hp_bins p) \<and>
     h ! k ! l =
       (if int (cell_count r (nat (hp_bins p)) (hp_x p) (hp_y p) k l) < hp_cmin p then None
        else Some (cell_count r (nat (hp_bins p)) (hp_x p) (hp_y p) k l))"
  using plot_hist2d_child [OF assms(1,2)]
    density_artist_cells [OF assms(3,4), of "bounds_of (AREA_RANGE cfg) (map fst (AREA_RANGE cfg) ! i)"]
  unfolding assms(5) by auto

theorem plot_hist2d_panel_witness:
  "\<exists>fig h. fst (plot_hist2d (fst (Graph_init FigConfig [])) sample_store sample_points plt0) = Inr fig \<and>
     artists (child_axes fig ! 0) =
       [BoundaryPlot sample_counties ''black'' 0.8,
        Hist2D h [118.9, 120.75, 122.6] [21.75, 23.55, 25.35] ''GnBu'' 0.5] \<and>
     h ! 1 ! 1 = Some 2 \<and> h ! 1 ! 0 = None \<and> h ! 0 ! 1 = Some 1"
proof -
  from sample_points_returns obtain fig where
    fig: "fst (plot_hist2d (fst (Graph_init FigConfig [])) sample_store sample_points plt0) = Inr fig" ..
  have r: "((118.9, 122.6), (21.75, 25.35)) =
      outer (range_of (bounds_of (AREA_RANGE FigConfig) (map fst (AREA_RANGE FigConfig) ! 0)))"
    by (simp add: AREA_RANGE_keys range_of_def outer_def widen_def)
  note cell = plot_hist2d_panel [OF fig _ _ _ r]
  from cell [of 1 1] cell [of 1 0] cell [of 0 1]
  have "\<exists>h. artists (child_axes fig ! 0) =
        edge_artists sample_counties @
        [Hist2D h [118.9, 120.75, 122.6] [21.75, 23.55, 25.35] ''GnBu'' 0.5] \<and>
      h ! 1 ! 1 = Some 2 \<and> h ! 1 ! 0 = None \<and> h ! 0 ! 1 = Some 1"
    by (auto simp: sample_regions edges_def linspace_def upt_conv_Cons cell_count_def in_cell_def
        cell_lo_def simp del: bounds_of_FigConfig)
  with fig show ?thesis by (auto simp: edge_artists_def sample_counties_def)
qed


text \<open>Claim C11: the density of a panel is local to its region and loses no point of it.
  In a figure returned by \<open>plot_hist2d\<close> the counts shown in panel \<open>i\<close> never add up to
  more than the number of input points inside the bounding box of region \<open>i\<close>, borders
  included (a box of width or height zero being widened by a half to each side), and
  when \<open>cmin\<close> is at most one, as with the default, they add up to exactly that number:
  every point of the box is counted in exactly one cell and no point outside it is
  counted.\<close>

theorem plot_hist2d_conservation:
  assumes "fst (plot_hist2d (fst (Graph_init cfg fm)) ds p plt) = Inr fig" and "i < 7"
    and "r = outer (range_of (bounds_of (AREA_RANGE cfg) (map fst (AREA_RANGE cfg) ! i)))"
  shows "\<exists>h xe ye. last (artists (child_axes fig ! i)) = Hist2D h xe ye (hp_cmap p) (hp_alpha p) \<and>
     visible_total h \<le> length (filter (in_range r) (zip (hp_x p) (hp_y p))) \<and>
     (hp_cmin p \<le> 1 \<longrightarrow>
      visible_total h = length (filter (in_range r) (zip (hp_x p) (hp_y p))))"
proof -
  from assms(1) have n: "length (AREA_RANGE cfg) = 7"
    using plot_hist2d_ok_iff [of cfg fm ds p plt] plot_boundary_ok_iff [of cfg fm ds plt] by auto
  with assms(2) have "map fst (AREA_RANGE cfg) ! i \<in> set (map fst (AREA_RANGE cfg))"
    by (intro nth_mem) simp
  from plot_hist2d_errors [OF assms(1) this]
  have "1 \<le> hp_bins p" "ordered (range_of (bounds_of (AREA_RANGE cfg) (map fst (AREA_RANGE cfg) ! i)))"
    by (simp_all add: histogram2d_error_None_iff)
  from density_artist_total [OF this] plot_hist2d_child [OF assms(1,2)] show ?thesis
    unfolding assms(3) by auto
qed

theorem plot_hist2d_conservation_witness:
  "\<exists>fig h xe ye.
     fst (plot_hist2d (fst (Graph_init FigConfig [])) sample_store sample_points plt0) = Inr fig \<and>
     last (artists (child_axes fig ! 1)) = Hist2D h xe ye ''GnBu'' 0.5 \<and> visible_total h = 1"
proof -
  from sample_points_returns obtain fig where
    fig: "fst (plot_hist2d (fst (Graph_init FigConfig [])) sample_store sample_points plt0) = Inr fig" ..
  have r: "((119.3, 119.74), (23.16, 23.86)) =
      outer (range_of (bounds_of (AREA_RANGE FigConfig) (map fst (AREA_RANGE FigConfig) ! 1)))"
    by (simp add: AREA_RANGE_keys range_of_def outer_def widen_def)
  from plot_hist2d_conservation [OF fig _ r] fig show ?thesis
    by (auto simp: in_range_def)
qed

text \<open>Claim C24: \<open>plot_hist2d\<close> returns a figure exactly when \<open>plot_boundary\<close> does, the
  coordinate lists have equal length, \<open>bins\<close> is at least one and no region of the table
  has a bounding box with a minimum above its maximum. Nothing else of the input is
  checked: points outside every box and an empty input are accepted.\<close>

theorem plot_hist2d_returns_iff:
  "(\<exists>fig. fst (plot_hist2d (fst (Graph_init cfg fm)) ds p plt) = Inr fig) \<longleftrightarrow>
     (\<exists>fig0. fst (plot_boundary (fst (Graph_init cfg fm)) ds plt) = Inr fig0) \<and>
     length (hp_x p) = length (hp_y p) \<and> 1 \<le> hp_bins p \<and>
     list_all (\<lambda>a. ordered (range_of (bounds_of (AREA_RANGE cfg) a))) (map fst (AREA_RANGE cfg))"
proof (cases "fst (plot_boundary (fst (Graph_init cfg fm)) ds plt)")
  case (Inr fig0)
  from plot_hist2d_keys [OF this] obtain a as where "map fst (AREA_RANGE cfg) = a # as"
    by (cases "map fst (AREA_RANGE cfg)") auto
  with Inr show ?thesis
    unfolding plot_hist2d_ok_iff list_all_iff
    by (auto simp: histogram2d_error_None_iff simp del: set_map)
qed (simp add: plot_hist2d_ok_iff)

text \<open>Claim C27: the density does not depend on the order of the points: for two inputs
  with the same pairs of coordinates, in any order, \<open>plot_hist2d\<close> gives the same result,
  figure or exception, and leaves pyplot in the same state.\<close>

theorem plot_hist2d_permutation:
  assumes "mset (zip x' y') = mset (zip (hp_x p) (hp_y p))"
    and "length x' = length y'" and "length (hp_x p) = length (hp_y p)"
  shows "plot_hist2d self ds (p\<lparr>hp_x := x', hp_y := y'\<rparr>) plt = plot_hist2d self ds p plt"
proof -
  have "plot_hist2d_step ar (p\<lparr>hp_x := x', hp_y := y'\<rparr>) = plot_hist2d_step ar p" for ar
    by (simp add: fun_eq_iff plot_hist2d_step_def hist2d_perm [OF assms])
  then show ?thesis by (simp add: plot_hist2d_def)
qed

theorem plot_hist2d_permutation_witness:
  "plot_hist2d shipped_graph sample_store
     (sample_points\<lparr>hp_x := [118.3, 119.57, 120.96, 120.96], hp_y := [24.4, 23.57, 23.7, 23.7]\<rparr>) plt0 =
   plot_hist2d shipped_graph sample_store sample_points plt0"
  by (rule plot_hist2d_permutation) simp_all

end
