(* ===== verification/Subsidy.thy ===== *)
theory Subsidy
  imports Graph "HOL-Library.AList"
begin

text \<open>
  The classification map: \<^verbatim>\<open>Graph.plot_boundary_with_subsidy\<close> of \<^verbatim>\<open>src/src/graph.py\<close>.

  The renderer reads a JSON file that maps the concatenated county and township name to
  a category, builds the canvas with \<open>base\<close>, and draws on panel \<open>i\<close> the county
  boundaries, the township boundaries and the townships filled by category; at the end
  it attaches a legend of the four categories.

  \<^item> The file system is an argument, \<open>files\<close>, a map from paths to the object
    \<open>json.load\<close> returns for the file; the classification file is taken to hold an object
    with string values. \<open>open_json\<close> is \<open>open\<close> followed by \<open>json.load\<close>.
  \<^item> \<open>colormap\<close> is the dictionary of the four fill colours, \<open>town_type_of\<close> and
    \<open>color_of\<close> are the two \<open>lambda\<close> expressions of the loop, \<open>cell_add\<close> is \<open>+\<close> on the
    cells of a row and \<open>dict_get\<close> is \<open>dict.get\<close> without a default.
  \<^item> \<open>apply_rows\<close> is \<open>DataFrame.apply(f, axis=1)\<close>, \<open>set_column\<close> the assignment
    \<open>gdf[c] = values\<close> and \<open>get_column\<close> is \<open>gdf[c]\<close>. A frame without rows is taken to
    carry every column, as the frames read from the shapefiles do, and \<open>apply\<close> on it to
    give the empty column (what pandas assigns for a panel without townships depends on
    its version and is not modelled).
  \<^item> \<open>plot_boundary_with_subsidy_step\<close> is the body of the loop and
    \<open>plot_boundary_with_subsidy\<close> the method; \<open>subsidy_handles\<close> and \<open>subsidy_labels\<close> are
    the arguments of the call of \<open>ax.legend\<close>.

  The specification is \<open>subsidy_draw\<close>: what the three plotting calls of one step add to
  a panel, with \<open>subsidy_color\<close> the fill colour of a township in closed form. The
  refinement lemma is \<open>plot_boundary_with_subsidy_Inr_iff\<close>.
\<close>

type_synonym json_object = "(pystr \<times> pystr) list"
type_synonym files = "pystr \<rightharpoonup> json_object"

definition open_json :: "files \<Rightarrow> pystr \<Rightarrow> json_object result" where
  "open_json fs path =
     (case fs path of None \<Rightarrow> Inl (FileNotFoundError path) | Some obj \<Rightarrow> Inr obj)"

fun cell_add :: "cell \<Rightarrow> cell \<Rightarrow> cell result" where
  "cell_add (Str a) (Str b) = Inr (Str (a @ b))"
| "cell_add (Str a) _ = Inl (TypeError ''can only concatenate str (not float) to str'')"
| "cell_add _ (Str b) = Inl (TypeError ''unsupported operand type(s) for +: float and str'')"
| "cell_add (Num a) (Num b) = Inr (Num (a + b))"
| "cell_add _ _ = Inr NaN"

definition dict_get :: "json_object \<Rightarrow> cell \<Rightarrow> pystr option" where
  "dict_get d k = (case k of Str s \<Rightarrow> map_of d s | _ \<Rightarrow> None)"

primrec apply_rows :: "(row \<Rightarrow> 'a result) \<Rightarrow> geodataframe \<Rightarrow> 'a list result" where
  "apply_rows f [] = Inr []"
| "apply_rows f (r # rs) =
     rbind (f (props r)) (\<lambda>v. rbind (apply_rows f rs) (\<lambda>vs. Inr (v # vs)))"

definition set_column :: "pystr \<Rightarrow> cell list \<Rightarrow> geodataframe \<Rightarrow> geodataframe" where
  "set_column c vs gdf = map (\<lambda>(f, v). f\<lparr>props := AList.update c v (props f)\<rparr>) (zip gdf vs)"

definition get_column :: "geodataframe \<Rightarrow> pystr \<Rightarrow> cell list result" where
  "get_column gdf c =
     (if gdf_columns gdf [c] then Inr (map (\<lambda>f. cell_of (props f) c) gdf) else Inl (KeyError c))"

definition option_cell :: "pystr option \<Rightarrow> cell" where
  "option_cell x = (case x of None \<Rightarrow> NaN | Some s \<Rightarrow> Str s)"

text \<open>The four categories: mountain indigenous, plain indigenous, remote and offshore
  townships.\<close>

definition mountain :: pystr where
  "mountain = [CHR 0xE5, CHR 0xB1, CHR 0xB1, CHR 0xE5, CHR 0x9C, CHR 0xB0, CHR 0xE5, CHR 0x8E,
               CHR 0x9F, CHR 0xE6, CHR 0xB0, CHR 0x91, CHR 0xE5, CHR 0x8D, CHR 0x80]"

definition plain :: pystr where
  "plain = [CHR 0xE5, CHR 0xB9, CHR 0xB3, CHR 0xE5, CHR 0x9C, CHR 0xB0, CHR 0xE5, CHR 0x8E,
            CHR 0x9F, CHR 0xE6, CHR 0xB0, CHR 0x91, CHR 0xE5, CHR 0x8D, CHR 0x80]"

definition remote :: pystr where
  "remote = [CHR 0xE5, CHR 0x81, CHR 0x8F, CHR 0xE9, CHR 0x81, CHR 0xA0, CHR 0xE5, CHR 0x9C,
             CHR 0xB0, CHR 0xE5, CHR 0x8D, CHR 0x80]"

definition offshore :: pystr where
  "offshore = [CHR 0xE9, CHR 0x9B, CHR 0xA2, CHR 0xE5, CHR 0xB3, CHR 0xB6, CHR 0xE5, CHR 0x9C,
               CHR 0xB0, CHR 0xE5, CHR 0x8D, CHR 0x80]"

definition colormap :: "(pystr \<times> pystr) list" where
  "colormap =
     [(mountain, ''#477160''), (plain, ''#A8D8B9''), (remote, ''#FFC145''),
      (offshore, ''#90C2E7'')]"

definition town_type_of :: "json_object \<Rightarrow> row \<Rightarrow> pystr option result" where
  "town_type_of town_type row =
     rbind (getitem_str row ''COUNTYNAME'') (\<lambda>c.
     rbind (getitem_str row ''TOWNNAME'') (\<lambda>t.
     rbind (cell_add c t) (\<lambda>k. Inr (dict_get town_type k))))"

definition color_of :: "cell \<Rightarrow> pystr" where
  "color_of x =
     (case x of
        Str t \<Rightarrow> (case map_of colormap t of None \<Rightarrow> ''#ffffff00'' | Some c \<Rightarrow> c)
      | _ \<Rightarrow> ''#ffffff00'')"

definition subsidy_handles :: "(pystr \<times> pystr) list" where
  "subsidy_handles =
     [(''#477160'', mountain), (''#7FB685'', plain), (''#FFC145'', remote),
      (''#90C2E7'', offshore)]"

definition subsidy_labels :: "pystr list" where
  "subsidy_labels = [mountain, plain, remote, offshore]"

definition plot_boundary_with_subsidy_step ::
  "area_range \<Rightarrow> datasets \<Rightarrow> json_object \<Rightarrow> figure \<Rightarrow> nat \<times> pystr \<Rightarrow> figure result" where
  "plot_boundary_with_subsidy_step area_range ds town_type ax ia =
     (case ia of (i, a) \<Rightarrow>
        rbind (area_bbox area_range a) (\<lambda>bbox.
        rbind (get_county_gpd ds bbox) (\<lambda>county_gdf.
        rbind (get_town_gpd ds bbox) (\<lambda>town_gdf.
        rbind (apply_rows (town_type_of town_type) town_gdf) (\<lambda>types.
          let town_gdf = set_column ''town_type'' (map option_cell types) town_gdf
          in
        rbind (get_column town_gdf ''town_type'') (\<lambda>col.
          let town_gdf = set_column ''color'' (map (\<lambda>x. Str (color_of x)) col) town_gdf
          in
        rbind (on_child ax i (\<lambda>child. Inr (boundary_plot county_gdf ''black'' 0.8 child))) (\<lambda>ax.
        rbind (on_child ax i (\<lambda>child. Inr (boundary_plot town_gdf ''gray'' 0.5 child))) (\<lambda>ax.
          on_child ax i (\<lambda>child.
            rbind (get_column town_gdf ''color'') (\<lambda>color.
              Inr (color_plot town_gdf color child)))))))))))"

definition plot_boundary_with_subsidy ::
  "Graph \<Rightarrow> files \<Rightarrow> datasets \<Rightarrow> pyplot \<Rightarrow> figure result \<times> pyplot" where
  "plot_boundary_with_subsidy self fs ds plt =
     (let area_list = area_list (geo_plot self);
          area_range = AREA_RANGE (graph_fig_config self)
      in case open_json fs ''res/json/town_type_by_town.json'' of
           Inl e \<Rightarrow> (Inl e, plt)
         | Inr town_type \<Rightarrow>
             (case base (geo_plot self) plt of (r, plt) \<Rightarrow>
                (rbind r (\<lambda>ax.
                 rbind (for_each (plot_boundary_with_subsidy_step area_range ds town_type)
                          area_list ax) (\<lambda>ax.
                   Inr (ax_legend_call subsidy_handles subsidy_labels ''Noto Serif TC'' 14
                          ''lower right'' ax))), plt)))"


text \<open>The specification: what one step adds to a panel, and the colour of a township.\<close>

definition fill_colors :: "pystr option list \<Rightarrow> cell list" where
  "fill_colors types = map (\<lambda>x. Str (color_of (option_cell x))) types"

definition classified :: "geodataframe \<Rightarrow> pystr option list \<Rightarrow> geodataframe" where
  "classified towns types =
     set_column ''color'' (fill_colors types) (set_column ''town_type'' (map option_cell types) towns)"

definition town_artists :: "geodataframe \<Rightarrow> pystr option list \<Rightarrow> artist list" where
  "town_artists towns types =
     (if towns = [] then []
      else [BoundaryPlot (classified towns types) ''gray'' 0.5,
            ColorPlot (classified towns types) (fill_colors types)])"

definition subsidy_draw ::
  "area_range \<Rightarrow> datasets \<Rightarrow> json_object \<Rightarrow> pystr \<Rightarrow> axes \<Rightarrow> axes result" where
  "subsidy_draw ar ds tt a child =
     rbind (area_bbox ar a) (\<lambda>bbox.
     rbind (get_county_gpd ds bbox) (\<lambda>counties.
     rbind (get_town_gpd ds bbox) (\<lambda>towns.
     rbind (apply_rows (town_type_of tt) towns) (\<lambda>types.
       Inr (child\<lparr>artists := artists child @ edge_artists counties @ town_artists towns types\<rparr>)))))"

definition named :: "feature \<Rightarrow> bool" where
  "named f =
     (case (map_of (props f) ''COUNTYNAME'', map_of (props f) ''TOWNNAME'') of
        (Some (Str c), Some (Str t)) \<Rightarrow> True
      | _ \<Rightarrow> False)"

definition full_name :: "feature \<Rightarrow> pystr" where
  "full_name f =
     (case (map_of (props f) ''COUNTYNAME'', map_of (props f) ''TOWNNAME'') of
        (Some (Str c), Some (Str t)) \<Rightarrow> c @ t
      | _ \<Rightarrow> [])"

definition subsidy_color :: "json_object \<Rightarrow> feature \<Rightarrow> pystr" where
  "subsidy_color tt f =
     (case map_of tt (full_name f) of
        None \<Rightarrow> ''#ffffff00''
      | Some t \<Rightarrow> (case map_of colormap t of None \<Rightarrow> ''#ffffff00'' | Some c \<Rightarrow> c))"

definition subsidy_legend :: legend where
  "subsidy_legend =
     \<lparr>handles = subsidy_handles, labels = subsidy_labels, prop_family = ''Noto Serif TC'',
      prop_size = 14, loc = ''lower right''\<rparr>"


text \<open>The path the renderer opens, and sample inputs: two townships, one of them
  classified as offshore, a store that holds them, and a file system with the
  classification file.\<close>

definition town_type_path :: pystr where
  "town_type_path = ''res/json/town_type_by_town.json''"

definition town :: "pystr \<Rightarrow> pystr \<Rightarrow> area_bounds \<Rightarrow> feature" where
  "town c t e = \<lparr>props = [(''COUNTYNAME'', Str c), (''TOWNNAME'', Str t)], envelope = e\<rparr>"

definition Magong :: feature where
  "Magong = town ''Penghu'' ''Magong'' \<lparr>min_x = 119.5, max_x = 119.6, min_y = 23.5, max_y = 23.6\<rparr>"

definition Wanhua :: feature where
  "Wanhua = town ''Taipei'' ''Wanhua'' \<lparr>min_x = 121.48, max_x = 121.51, min_y = 25.01, max_y = 25.05\<rparr>"

definition town_store :: datasets where
  "town_store = sample_store(TOWN \<mapsto> [Magong, Wanhua])"

definition sample_files :: files where
  "sample_files = [town_type_path \<mapsto> [(''PenghuMagong'', offshore)]]"

definition no_files :: files where
  "no_files = Map.empty"


section \<open>Columns\<close>

lemma length_apply_rows: "apply_rows f gdf = Inr vs \<Longrightarrow> length vs = length gdf"
  by (induction gdf arbitrary: vs) (auto simp: rbind_ok_iff)

lemma apply_rows_map:
  "(\<And>r. r \<in> set gdf \<Longrightarrow> f (props r) = Inr (g r)) \<Longrightarrow> apply_rows f gdf = Inr (map g gdf)"
  by (induction gdf) simp_all

lemma apply_rows_Inr_iff:
  "apply_rows f gdf = Inr vs \<longleftrightarrow>
     length vs = length gdf \<and> (\<forall>i < length gdf. f (props (gdf ! i)) = Inr (vs ! i))"
proof (induction gdf arbitrary: vs)
  case (Cons r rs)
  show ?case
    by (cases vs) (auto simp: rbind_ok_iff Cons.IH less_Suc_eq_0_disj)
qed auto

lemma length_set_column [simp]: "length (set_column c vs gdf) = min (length gdf) (length vs)"
  by (simp add: set_column_def)

lemma set_column_Nil [simp]: "set_column c vs [] = []" "set_column c [] gdf = []"
  by (simp_all add: set_column_def)

lemma set_column_eq_Nil_iff [simp]: "set_column c vs gdf = [] \<longleftrightarrow> gdf = [] \<or> vs = []"
  by (cases gdf; cases vs) (simp_all add: set_column_def)

lemma key_in_update [simp]: "c \<in> fst ` set (AList.update c v al)"
  by (simp add: dom_update)

lemma cell_of_update [simp]: "cell_of (AList.update c v al) c = v"
  by (simp add: cell_of_def update_conv')

lemma cell_of_update_other [simp]: "c' \<noteq> c \<Longrightarrow> cell_of (AList.update c v al) c' = cell_of al c'"
  by (simp add: cell_of_def update_conv')

lemma gdf_columns_set_column [simp]: "gdf_columns (set_column c vs gdf) [c]"
  by (auto simp: gdf_columns_def set_column_def list_all_iff)

lemma get_column_set_column:
  "length vs = length gdf \<Longrightarrow> get_column (set_column c vs gdf) c = Inr vs"
  by (simp add: get_column_def) (simp add: set_column_def comp_def case_prod_unfold)


section \<open>The loop body\<close>

lemma on_child_twice:
  "rbind (on_child ax i f) (\<lambda>ax. on_child ax i g) = on_child ax i (\<lambda>c. rbind (f c) g)"
  by (cases "f (child_axes ax ! i)") (simp_all add: on_child_eq)

lemma fill_colors_eq: "map (\<lambda>x. Str (color_of x)) (map option_cell types) = fill_colors types"
  by (simp add: fill_colors_def)

lemma length_fill_colors [simp]: "length (fill_colors types) = length types"
  by (simp add: fill_colors_def)

lemma classified_eq_Nil_iff:
  "length types = length towns \<Longrightarrow> classified towns types = [] \<longleftrightarrow> towns = []"
  by (auto simp: classified_def fill_colors_def)

text \<open>The three plotting calls of a step, on one panel.\<close>

lemma town_plots:
  assumes "length types = length towns"
  shows "rbind (get_column (classified towns types) ''color'') (\<lambda>color.
       Inr (color_plot (classified towns types) color
              (boundary_plot (classified towns types) ''gray'' 0.5
                 (boundary_plot counties ''black'' 0.8 child)))) =
     Inr (child\<lparr>artists := artists child @ edge_artists counties @ town_artists towns types\<rparr>)"
proof -
  have "get_column (classified towns types) ''color'' = Inr (fill_colors types)"
    unfolding classified_def using assms by (intro get_column_set_column) simp
  then show ?thesis
    unfolding boundary_plot_edge
    by (simp add: color_plot_def boundary_plot_def add_artist_def town_artists_def
        classified_eq_Nil_iff [OF assms])
qed

lemma subsidy_types:
  assumes "apply_rows (town_type_of tt) towns = Inr types"
  shows "get_column (set_column ''town_type'' (map option_cell types) towns) ''town_type'' =
     Inr (map option_cell types)"
  using length_apply_rows [OF assms] by (intro get_column_set_column) simp

lemma plot_boundary_with_subsidy_step_eq:
  assumes "i < length (child_axes ax)"
  shows "plot_boundary_with_subsidy_step ar ds tt ax (i, a) = on_child ax i (subsidy_draw ar ds tt a)"
proof (cases "area_bbox ar a")
  case (Inr bbox)
  note bbox = this
  show ?thesis
  proof (cases "get_county_gpd ds bbox")
    case (Inr counties)
    note counties = this
    show ?thesis
    proof (cases "get_town_gpd ds bbox")
      case (Inr towns)
      note towns = this
      show ?thesis
      proof (cases "apply_rows (town_type_of tt) towns")
        case (Inr types)
        from length_apply_rows [OF this] have l: "length types = length towns" .
        have "plot_boundary_with_subsidy_step ar ds tt ax (i, a) =
            on_child ax i (\<lambda>child. Inr (child\<lparr>artists := artists child @
              edge_artists counties @ town_artists towns types\<rparr>))"
          by (simp only: plot_boundary_with_subsidy_step_def prod.case bbox counties towns Inr
              rbind.simps Let_def subsidy_types [OF Inr] fill_colors_eq on_child_twice
              town_plots [OF l] flip: classified_def)
        moreover have "subsidy_draw ar ds tt a =
            (\<lambda>child. Inr (child\<lparr>artists := artists child @
              edge_artists counties @ town_artists towns types\<rparr>))"
          by (simp add: fun_eq_iff subsidy_draw_def bbox counties towns Inr)
        ultimately show ?thesis by simp
      qed (use assms bbox counties towns in
          \<open>simp add: plot_boundary_with_subsidy_step_def subsidy_draw_def on_child_eq\<close>)
    qed (use assms bbox counties in
        \<open>simp add: plot_boundary_with_subsidy_step_def subsidy_draw_def on_child_eq\<close>)
  qed (use assms bbox in
      \<open>simp add: plot_boundary_with_subsidy_step_def subsidy_draw_def on_child_eq\<close>)
qed (use assms in \<open>simp add: plot_boundary_with_subsidy_step_def subsidy_draw_def on_child_eq\<close>)

lemma plot_boundary_with_subsidy_step_overflow:
  assumes "length (child_axes ax) \<le> i"
  shows "\<exists>e. plot_boundary_with_subsidy_step ar ds tt ax (i, a) = Inl e"
  using assms
  by (simp add: plot_boundary_with_subsidy_step_def on_child_eq rbind_case Let_def split: sum.splits)



section \<open>The renderer\<close>

lemma plot_boundary_with_subsidy_missing:
  assumes "fs town_type_path = None"
  shows "plot_boundary_with_subsidy self fs ds plt = (Inl (FileNotFoundError town_type_path), plt)"
  using assms by (simp add: plot_boundary_with_subsidy_def open_json_def town_type_path_def Let_def)

lemma plot_boundary_with_subsidy_plt:
  assumes "fs town_type_path = Some tt"
  shows "snd (plot_boundary_with_subsidy self fs ds plt) = snd (base (geo_plot self) plt)"
  using assms
  by (cases "base (geo_plot self) plt")
     (simp add: plot_boundary_with_subsidy_def open_json_def town_type_path_def Let_def)

lemma plot_boundary_with_subsidy_fst:
  assumes "fs town_type_path = Some tt"
  shows "fst (plot_boundary_with_subsidy self fs ds plt) =
     rbind (fst (base (geo_plot self) plt)) (\<lambda>ax.
     rbind (for_each (plot_boundary_with_subsidy_step (AREA_RANGE (graph_fig_config self)) ds tt)
              (area_list (geo_plot self)) ax) (\<lambda>ax.
       Inr (ax\<lparr>ax_legend := Some subsidy_legend\<rparr>)))"
  using assms
  by (cases "base (geo_plot self) plt")
     (simp add: plot_boundary_with_subsidy_def open_json_def town_type_path_def Let_def
       ax_legend_call_def subsidy_legend_def)

text \<open>The refinement lemma of the classification map.\<close>

lemma plot_boundary_with_subsidy_Inr_iff:
  "fst (plot_boundary_with_subsidy (fst (Graph_init cfg fm)) fs ds plt) = Inr fig \<longleftrightarrow>
     (\<exists>tt ax cs. fs town_type_path = Some tt \<and> fst (base (GeoPlot_init cfg) plt) = Inr ax \<and>
        paint (subsidy_draw (AREA_RANGE cfg) ds tt) (map fst (AREA_RANGE cfg)) (child_axes ax) = Inr cs \<and>
        fig = ax\<lparr>child_axes := cs, ax_legend := Some subsidy_legend\<rparr>)"
proof (cases "fs town_type_path")
  case None
  then show ?thesis by (simp add: plot_boundary_with_subsidy_missing)
next
  case (Some tt)
  then show ?thesis
    by (auto simp: plot_boundary_with_subsidy_fst rbind_ok_iff
        for_each_panels [of "plot_boundary_with_subsidy_step (AREA_RANGE cfg) ds tt",
          OF plot_boundary_with_subsidy_step_eq plot_boundary_with_subsidy_step_overflow])
qed

lemma subsidy_draw_eq:
  "subsidy_draw ar ds tt a c =
     (case map_of ar a of
        None \<Rightarrow> Inl (KeyError a)
      | Some r \<Rightarrow> case ds COUNTY of
          None \<Rightarrow> Inl (DataSourceError COUNTY)
        | Some counties \<Rightarrow> case ds TOWN of
            None \<Rightarrow> Inl (DataSourceError TOWN)
          | Some towns \<Rightarrow>
              rbind (apply_rows (town_type_of tt) (features_in towns (bounds r))) (\<lambda>types.
                Inr (c\<lparr>artists := artists c @ edge_artists (features_in counties (bounds r)) @
                       town_artists (features_in towns (bounds r)) types\<rparr>)))"
  by (simp add: subsidy_draw_def area_bbox_eq getitem_def get_county_gpd_eq get_town_gpd_eq
      read_file_eq split: option.splits)

text \<open>Townships with a county and a township name.\<close>

lemma town_type_of_named:
  "named f \<Longrightarrow> town_type_of tt (props f) = Inr (map_of tt (full_name f))"
  by (auto simp: named_def full_name_def town_type_of_def getitem_def dict_get_def
      split: option.splits cell.splits)

lemma apply_rows_named:
  "list_all named gdf \<Longrightarrow>
   apply_rows (town_type_of tt) gdf = Inr (map (\<lambda>f. map_of tt (full_name f)) gdf)"
  by (intro apply_rows_map) (simp add: list_all_iff town_type_of_named)

lemma fill_colors_named:
  "fill_colors (map (\<lambda>f. map_of tt (full_name f)) gdf) = map (\<lambda>f. Str (subsidy_color tt f)) gdf"
  by (simp add: fill_colors_def subsidy_color_def color_of_def option_cell_def split: option.splits)

lemma named_features_in: "list_all named gdf \<Longrightarrow> list_all named (features_in gdf b)"
  by (simp add: features_in_def list_all_iff)

lemma plot_boundary_with_subsidy_child:
  assumes "fst (plot_boundary_with_subsidy (fst (Graph_init cfg fm)) fs ds plt) = Inr fig"
    and "i < 7"
  shows "\<exists>tt counties towns types.
     fs town_type_path = Some tt \<and> ds COUNTY = Some counties \<and> ds TOWN = Some towns \<and>
     apply_rows (town_type_of tt)
       (features_in towns (bounds_of (AREA_RANGE cfg) (map fst (AREA_RANGE cfg) ! i))) = Inr types \<and>
     child_axes fig ! i = (layout (bounds_of (AREA_RANGE cfg)) ! i)
       \<lparr>artists :=
          edge_artists (features_in counties (bounds_of (AREA_RANGE cfg) (map fst (AREA_RANGE cfg) ! i))) @
          town_artists (features_in towns (bounds_of (AREA_RANGE cfg) (map fst (AREA_RANGE cfg) ! i)))
            types\<rparr>"
proof -
  from assms(1) obtain tt ax cs where tt: "fs town_type_path = Some tt"
    and ax: "fst (base (GeoPlot_init cfg) plt) = Inr ax"
    and cs: "paint (subsidy_draw (AREA_RANGE cfg) ds tt) (map fst (AREA_RANGE cfg)) (child_axes ax) = Inr cs"
    and fig: "fig = ax\<lparr>child_axes := cs, ax_legend := Some subsidy_legend\<rparr>"
    by (auto simp: plot_boundary_with_subsidy_Inr_iff)
  from ax have fe: "first_error (AREA_RANGE cfg) layout_labels = None"
    and l: "length (child_axes ax) = 7"
    by (simp_all add: base_Inr_iff)
  from paint_length [OF cs] l first_error_None_length [OF fe] have n: "length (AREA_RANGE cfg) = 7"
    by simp
  from nth_key_map_of [of i "AREA_RANGE cfg"] n assms(2)
  obtain r where r: "map_of (AREA_RANGE cfg) (map fst (AREA_RANGE cfg) ! i) = Some r" by auto
  from paint_nth [OF cs, of i] n assms(2) ax tt r fig layout_nth(2) [OF assms(2)] show ?thesis
    by (auto simp: subsidy_draw_eq base_child_axes bounds_of_def rbind_ok_iff split: option.splits)
qed

lemma plot_boundary_with_subsidy_total:
  assumes "fs town_type_path = Some tt"
    and "first_error (AREA_RANGE cfg) layout_labels = None" and "length (AREA_RANGE cfg) = 7"
    and "ds COUNTY = Some counties" and "ds TOWN = Some towns" and "list_all named towns"
  shows "\<exists>fig. fst (plot_boundary_with_subsidy (fst (Graph_init cfg fm)) fs ds plt) = Inr fig"
proof -
  let ?ax = "(base_figure (GeoPlot_init cfg) plt)\<lparr>child_axes := layout (bounds_of (AREA_RANGE cfg))\<rparr>"
  from assms(2) have ax: "fst (base (GeoPlot_init cfg) plt) = Inr ?ax" by (simp add: base_Inr_iff)
  have "\<exists>c. subsidy_draw (AREA_RANGE cfg) ds tt (map fst (AREA_RANGE cfg) ! i) (child_axes ?ax ! i) = Inr c"
    if "i < length (map fst (AREA_RANGE cfg))" for i
    using nth_key_map_of [of i "AREA_RANGE cfg"] that assms(4,5)
      apply_rows_named [OF named_features_in [OF assms(6)]]
    by (auto simp: subsidy_draw_eq)
  with assms(3) have "\<exists>cs. paint (subsidy_draw (AREA_RANGE cfg) ds tt) (map fst (AREA_RANGE cfg))
      (child_axes ?ax) = Inr cs"
    unfolding paint_ok_iff by simp
  with ax assms(1) show ?thesis by (auto simp: plot_boundary_with_subsidy_Inr_iff)
qed


lemma set_column_Cons [simp]:
  "set_column c (v # vs) (f # gdf) = f\<lparr>props := AList.update c v (props f)\<rparr> # set_column c vs gdf"
  by (simp add: set_column_def)

lemma set_column_envelope:
  "length vs = length gdf \<Longrightarrow> map envelope (set_column c vs gdf) = map envelope gdf"
  by (induction vs gdf rule: list_induct2) simp_all

lemma set_column_same:
  "length vs = length gdf \<Longrightarrow> map (\<lambda>f. cell_of (props f) c) (set_column c vs gdf) = vs"
  by (induction vs gdf rule: list_induct2) simp_all

lemma set_column_other:
  "length vs = length gdf \<Longrightarrow> c' \<noteq> c \<Longrightarrow>
   map (\<lambda>f. cell_of (props f) c') (set_column c vs gdf) = map (\<lambda>f. cell_of (props f) c') gdf"
  by (induction vs gdf rule: list_induct2) simp_all

lemma classified_frame:
  assumes "length types = length towns"
  shows "length (classified towns types) = length towns"
    and "map envelope (classified towns types) = map envelope towns"
    and "map (\<lambda>f. cell_of (props f) ''color'') (classified towns types) = fill_colors types"
    and "map (\<lambda>f. cell_of (props f) ''town_type'') (classified towns types) = map option_cell types"
  using assms
  by (simp_all add: classified_def set_column_envelope set_column_same set_column_other)

lemma sample_towns_in:
  "features_in [Magong, Wanhua] (bounds_of FigConfig_AREA_RANGE ''taiwan'') = [Magong, Wanhua]"
  "features_in [Magong, Wanhua] (bounds_of FigConfig_AREA_RANGE ''penghu'') = [Magong]"
  by (simp_all add: features_in_def bbox_of_def intersects_def Magong_def Wanhua_def town_def)

lemma sample_town_store [simp]:
  "town_store COUNTY = Some sample_counties" "town_store TOWN = Some [Magong, Wanhua]"
  by (simp_all add: town_store_def COUNTY_neq_TOWN)

lemma sample_named [simp]: "named Magong" "named Wanhua"
  by (simp_all add: named_def Magong_def Wanhua_def town_def)

lemma sample_subsidy_color:
  "subsidy_color [(''PenghuMagong'', offshore)] Magong = ''#90C2E7''"
  "subsidy_color [(''PenghuMagong'', offshore)] Wanhua = ''#ffffff00''"
  by (simp_all add: subsidy_color_def full_name_def Magong_def Wanhua_def town_def colormap_def
      offshore_def mountain_def plain_def remote_def)

lemma sample_subsidy_returns:
  "\<exists>fig. fst (plot_boundary_with_subsidy (fst (Graph_init FigConfig [])) sample_files town_store plt0) =
     Inr fig"
  by (rule plot_boundary_with_subsidy_total [where towns = "[Magong, Wanhua]"])
     (simp_all add: sample_files_def first_error_FigConfig AREA_RANGE_length)


section \<open>Properties of the classification map\<close>

text \<open>Claim C10: in a figure returned by \<open>plot_boundary_with_subsidy\<close>, panel \<open>i\<close> holds the
  boundary of the counties of region \<open>i\<close> and, when townships meet the region, their
  boundary in gray and their fill, in this order. For townships that carry a county and
  a township name, the fill colour of a township is the colour of the category the
  classification file gives for the concatenated names, and the transparent colour
  when the file has no entry for it or the category is none of the four; the frame that
  is drawn is the frame read, with the columns \<open>town_type\<close> and \<open>color\<close> added.\<close>

theorem plot_boundary_with_subsidy_panel:
  assumes "fst (plot_boundary_with_subsidy (fst (Graph_init cfg fm)) fs ds plt) = Inr fig"
    and "i < 7" and "fs town_type_path = Some tt" and "ds TOWN = Some towns"
    and "T = features_in towns (bounds_of (AREA_RANGE cfg) (map fst (AREA_RANGE cfg) ! i))"
    and "list_all named T"
  shows "\<exists>counties T'. ds COUNTY = Some counties \<and>
     artists (child_axes fig ! i) =
       edge_artists (features_in counties (bounds_of (AREA_RANGE cfg) (map fst (AREA_RANGE cfg) ! i))) @
       (if T = [] then []
        else [BoundaryPlot T' ''gray'' 0.5, ColorPlot T' (map (\<lambda>f. Str (subsidy_color tt f)) T)]) \<and>
     map envelope T' = map envelope T \<and>
     map (\<lambda>f. cell_of (props f) ''color'') T' = map (\<lambda>f. Str (subsidy_color tt f)) T"
proof -
  from plot_boundary_with_subsidy_child [OF assms(1,2)] assms(3,4)
  obtain counties types where c: "ds COUNTY = Some counties"
    and types: "apply_rows (town_type_of tt) T = Inr types"
    and child: "artists (child_axes fig ! i) =
      edge_artists (features_in counties (bounds_of (AREA_RANGE cfg) (map fst (AREA_RANGE cfg) ! i))) @
      town_artists T types"
    unfolding assms(5) by auto
  from types apply_rows_named [OF assms(6), of tt]
  have t: "types = map (\<lambda>f. map_of tt (full_name f)) T" by simp
  then have l: "length types = length T" by simp
  from c child classified_frame(2,3) [OF l] show ?thesis
    unfolding t fill_colors_named town_artists_def by auto
qed

theorem plot_boundary_with_subsidy_panel_witness:
  "\<exists>fig T'. fst (plot_boundary_with_subsidy (fst (Graph_init FigConfig [])) sample_files town_store plt0) =
       Inr fig \<and>
     artists (child_axes fig ! 1) =
       [BoundaryPlot [Penghu] ''black'' 0.8, BoundaryPlot T' ''gray'' 0.5,
        ColorPlot T' [Str ''#90C2E7'']] \<and>
     map envelope T' = [envelope Magong]"
proof -
  from sample_subsidy_returns obtain fig where
    fig: "fst (plot_boundary_with_subsidy (fst (Graph_init FigConfig [])) sample_files town_store plt0) =
      Inr fig" ..
  have T: "[Magong] = features_in [Magong, Wanhua]
      (bounds_of (AREA_RANGE FigConfig) (map fst (AREA_RANGE FigConfig) ! 1))"
    by (simp add: AREA_RANGE_keys sample_towns_in del: bounds_of_FigConfig)
  from plot_boundary_with_subsidy_panel [OF fig _ _ _ T, of "[(''PenghuMagong'', offshore)]"]
  have "\<exists>T'. artists (child_axes fig ! 1) =
       edge_artists [Penghu] @ [BoundaryPlot T' ''gray'' 0.5, ColorPlot T' [Str ''#90C2E7'']] \<and>
     map envelope T' = [envelope Magong]"
    by (auto simp: sample_files_def sample_regions sample_subsidy_color simp del: bounds_of_FigConfig)
  with fig show ?thesis by (auto simp: edge_artists_def)
qed

text \<open>Claim C28: when the classification file cannot be opened, \<open>plot_boundary_with_subsidy\<close>
  raises \<open>FileNotFoundError\<close> before it builds the canvas: no figure is registered and
  pyplot is unchanged. The path it opens is relative to the working directory of the
  process; it is not the configured path \<open>TOWN_TYPE_BY_TOWN\<close>.\<close>

theorem plot_boundary_with_subsidy_no_file:
  assumes "fs ''res/json/town_type_by_town.json'' = None"
  shows "plot_boundary_with_subsidy self fs ds plt =
       (Inl (FileNotFoundError ''res/json/town_type_by_town.json''), plt) \<and>
     ''res/json/town_type_by_town.json'' \<noteq> TOWN_TYPE_BY_TOWN"
  using assms
  by (simp add: plot_boundary_with_subsidy_missing [unfolded town_type_path_def]
      TOWN_TYPE_BY_TOWN_path)

theorem plot_boundary_with_subsidy_no_file_witness:
  "no_files ''res/json/town_type_by_town.json'' = None \<and>
   plot_boundary_with_subsidy shipped_graph no_files town_store plt0 =
     (Inl (FileNotFoundError ''res/json/town_type_by_town.json''), plt0)"
  using plot_boundary_with_subsidy_no_file [of no_files shipped_graph town_store plt0]
  by (simp add: no_files_def)

text \<open>Claim C26: a figure returned by \<open>plot_boundary_with_subsidy\<close> carries the legend of the
  four categories, in the font Noto Serif TC at size 14 in the lower right corner. The
  patch of the legend has the fill colour of its category for three of the categories;
  for the plain indigenous townships the legend shows \<open>#7FB685\<close> while the townships are
  filled with \<open>#A8D8B9\<close>.\<close>

theorem plot_boundary_with_subsidy_legend:
  assumes "fst (plot_boundary_with_subsidy (fst (Graph_init cfg fm)) fs ds plt) = Inr fig"
  shows "\<exists>lg. ax_legend fig = Some lg \<and> labels lg = [mountain, plain, remote, offshore] \<and>
     prop_family lg = ''Noto Serif TC'' \<and> prop_size lg = 14 \<and> loc lg = ''lower right'' \<and>
     map (\<lambda>(c, t). (t, c, map_of colormap t)) (handles lg) =
       [(mountain, ''#477160'', Some ''#477160''), (plain, ''#7FB685'', Some ''#A8D8B9''),
        (remote, ''#FFC145'', Some ''#FFC145''), (offshore, ''#90C2E7'', Some ''#90C2E7'')]"
  using assms
  by (auto simp: plot_boundary_with_subsidy_Inr_iff subsidy_legend_def subsidy_handles_def
      subsidy_labels_def colormap_def mountain_def plain_def remote_def offshore_def)

theorem plot_boundary_with_subsidy_legend_witness:
  "\<exists>fig lg. fst (plot_boundary_with_subsidy (fst (Graph_init FigConfig [])) sample_files town_store plt0) =
       Inr fig \<and>
     ax_legend fig = Some lg \<and> map fst (handles lg) = [''#477160'', ''#7FB685'', ''#FFC145'', ''#90C2E7'']"
proof -
  from sample_subsidy_returns obtain fig where
    fig: "fst (plot_boundary_with_subsidy (fst (Graph_init FigConfig [])) sample_files town_store plt0) =
      Inr fig" ..
  from plot_boundary_with_subsidy_legend [OF fig] obtain lg where "ax_legend fig = Some lg"
    and "map (\<lambda>(c, t). (t, c, map_of colormap t)) (handles lg) =
       [(mountain, ''#477160'', Some ''#477160''), (plain, ''#7FB685'', Some ''#A8D8B9''),
        (remote, ''#FFC145'', Some ''#FFC145''), (offshore, ''#90C2E7'', Some ''#90C2E7'')]"
    by auto
  moreover from this(2) have "map fst (handles lg) = [''#477160'', ''#7FB685'', ''#FFC145'', ''#90C2E7'']"
    by (auto simp: map_eq_Cons_conv)
  ultimately show ?thesis using fig by auto
qed

text \<open>Claim C25: \<open>plot_boundary_with_subsidy\<close> returns a figure whenever the classification
  file can be opened, the region table has the seven regions \<open>base\<close> places and nothing
  else, both datasets can be read and every township carries a county and a township
  name; whether the file classifies any township plays no part.\<close>

theorem plot_boundary_with_subsidy_returns:
  assumes "fs ''res/json/town_type_by_town.json'' = Some tt"
    and "first_error (AREA_RANGE cfg) layout_labels = None" and "length (AREA_RANGE cfg) = 7"
    and "ds COUNTY = Some counties" and "ds TOWN = Some towns" and "list_all named towns"
  shows "\<exists>fig. fst (plot_boundary_with_subsidy (fst (Graph_init cfg fm)) fs ds plt) = Inr fig \<and>
     snd (plot_boundary_with_subsidy (fst (Graph_init cfg fm)) fs ds plt) =
       plt\<lparr>fignums := fignums plt @ [number fig]\<rparr> \<and> number fig \<notin> set (fignums plt)"
proof -
  from assms(1) have tt: "fs town_type_path = Some tt" by (simp add: town_type_path_def)
  from plot_boundary_with_subsidy_total [where cfg = cfg and ds = ds and fs = fs, OF tt assms(2-6)]
  obtain fig
    where fig: "fst (plot_boundary_with_subsidy (fst (Graph_init cfg fm)) fs ds plt) = Inr fig" ..
  then have "number fig = next_num (fignums plt)"
    by (auto simp: plot_boundary_with_subsidy_Inr_iff dest: base_number)
  with fig show ?thesis
    by (simp add: plot_boundary_with_subsidy_plt [where fs = fs, OF tt] base_plt next_num_fresh)
qed

theorem plot_boundary_with_subsidy_returns_witness:
  "\<exists>fig. fst (plot_boundary_with_subsidy (fst (Graph_init FigConfig [])) sample_files
             (town_store(TOWN \<mapsto> [])) plt0) = Inr fig \<and>
     fignums (snd (plot_boundary_with_subsidy (fst (Graph_init FigConfig [])) sample_files
             (town_store(TOWN \<mapsto> [])) plt0)) = [number fig]"
proof -
  from plot_boundary_with_subsidy_returns [of sample_files "[(''PenghuMagong'', offshore)]" FigConfig
      "town_store(TOWN \<mapsto> [])" sample_counties "[]" "[]" plt0]
  show ?thesis
    by (auto simp: sample_files_def town_type_path_def first_error_FigConfig AREA_RANGE_length
        town_store_def COUNTY_neq_TOWN plt0_def)
qed

end
