(* ===== verification/App.thy ===== *)
theory App
  imports Overlays Subsidy
begin

text \<open>
  The HTTP service: \<^verbatim>\<open>src/app.py\<close>.

  The state of the service (\<open>server\<close>) is the module variable \<^verbatim>\<open>request_counter\<close> together
  with the state of pyplot and the lines the process has printed (\<open>console\<close>);
  \<open>graph_instance\<close> is the one \<^verbatim>\<open>Graph\<close> object, built from the shipped configuration, and
  the files \<open>fs\<close> and the contents of the datasets \<open>ds\<close> are arguments. Every handler is
  \<^verbatim>\<open>async def\<close> without an \<^verbatim>\<open>await\<close>, so it runs to completion before the next one
  starts: a run of the service is a sequence of handler calls.

  \<^item> \<open>BytesIO\<close> is the buffer \<^verbatim>\<open>io.BytesIO\<close> with the blocks written to it and its position
    (\<open>bio_write\<close>, \<open>seek\<close>, \<open>bio_read\<close>); a block is an \<open>image\<close>, the PNG of a figure with the
    \<^verbatim>\<open>bbox_inches\<close> setting and the resolution it was rendered with (\<open>savefig\<close>). The bytes
    of the PNG are not modelled, and rendering does not raise.
  \<^item> \<open>response\<close> are the answers of the service with their \<open>status_code\<close> and \<open>content\<close>.
  \<^item> \<open>ChoroplethData\<close>, \<open>DotPlotData\<close>, \<open>Hist2DData\<close> and \<open>BubbleData\<close> are the four body
    models. A request body (\<open>body\<close>) is a JSON object whose fields have the types the
    models ask for or are absent; \<open>pydantic_Field\<close> gives an absent field its default, and
    the validators (\<open>ChoroplethData_validate\<close> and so on) build the model or list the
    fields that do not fit: \<^verbatim>\<open>size\<close> and \<^verbatim>\<open>color\<close> are a scalar for one model and a list
    for another. Every field of every model has a default, so the empty body validates.
  \<^item> \<open>lifespan_startup\<close> and \<open>lifespan_shutdown\<close> are the two halves of \<^verbatim>\<open>lifespan\<close>, with the
    lines they print.
  \<^item> \<open>fig_to_image\<close> writes the image to a new buffer, rewinds it and closes the figure
    in its \<^verbatim>\<open>finally\<close> block.
  \<^item> \<open>cleanup_memory_if_needed\<close> counts a request and cleans up on every fiftieth.
  \<^item> \<open>handle_plot_request\<close> is the handler shared by the plotting routes, with its
    \<^verbatim>\<open>except\<close> clause: any exception is answered with status 500 after a cleanup.
  \<^item> \<open>home\<close>, \<open>get_boundary\<close>, \<open>get_boundary_with_subsidy\<close>, \<open>create_choropleth\<close>,
    \<open>create_dot_plot\<close>, \<open>create_hist2d\<close>, \<open>create_bubble\<close> and \<open>manual_cleanup\<close> are the
    handlers. The home page is represented by the directory and the name of its template.
  \<^item> \<open>app\<close> is the application object as \<^verbatim>\<open>FastAPI(...)\<close> builds it, with the four
    documentation routes FastAPI adds by default (\<open>FastAPI_init\<close>); the decorators
    \<^verbatim>\<open>@app.get\<close> and \<^verbatim>\<open>@app.post\<close> are \<open>app_get\<close> and \<open>app_post\<close>, which append a \<open>route\<close>;
    \<open>route_home\<close> to \<open>route_cleanup\<close> are the eight decorated definitions and \<open>loaded_app\<close>
    is the application after the module has been loaded. A route with a body validates
    it before its handler runs (\<open>validated\<close>) and answers 422 otherwise.
  \<^item> \<open>match_route\<close> finds the route of a method and a path: the first route with both;
    405 when only the path is known; a redirection (307) to the path with or without a
    trailing slash when that path is known; 404 otherwise. \<open>receive\<close> answers one
    request, and \<open>app_main\<close> is the server that the script starts: the application on
    host \<^verbatim>\<open>0.0.0.0\<close>, port 5011.

  The service is specified as a transition system over typed requests: \<open>endpoint\<close>
  dispatches a \<open>request\<close> to its handler, \<open>serve\<close> handles a list of requests in order, and
  \<open>reachable\<close> are the states the service can be in between two requests, from the start-up
  on. \<open>wire\<close> is the method, path and body a client sends for a typed request; the route
  table is shown to implement \<open>endpoint\<close> (\<open>receive_wire\<close>), and \<open>served\<close> are the states
  reached over HTTP by requests of any method, path and body. For the proofs the route
  table is read as a list of triples (\<open>table\<close>, \<open>dispatch\<close>).

  The interface between the handler and the renderers is the predicate \<open>renderer\<close>: a
  function that, when it returns a figure, has registered exactly that figure, under a
  fresh number. The lemmas on \<open>handle_plot_request\<close> hold for every renderer; the six
  renderers of \<^verbatim>\<open>Graph\<close> are shown to be renderers. The invariant of the service is \<open>idle\<close>:
  between two requests no figure is registered, the counter lies in \<open>[0, 50)\<close> and
  \<^verbatim>\<open>figure.max_open_warning\<close> has its default.

  Not modelled: JSON text and the coercions of pydantic (a number sent as a string, an
  explicit \<^verbatim>\<open>null\<close>), HTTP methods other than GET and POST, headers, the contents of the
  documentation pages and of the HTML template, and the encoding of the PNG.
\<close>

definition CLEANUP_INTERVAL :: int where
  "CLEANUP_INTERVAL = 50"

record server =
  request_counter :: int
  plt :: pyplot
  console :: stdout

definition graph_instance :: Graph where
  "graph_instance = fst (Graph_init FigConfig [])"

definition templates :: pystr where
  "templates = ''templates''"

text \<open>The buffer an image is written to, and the answers of the service.\<close>

datatype image = PNG figure pystr nat

record BytesIO =
  getvalue :: "image list"
  tell :: nat

definition BytesIO_init :: BytesIO where
  "BytesIO_init = \<lparr>getvalue = [], tell = 0\<rparr>"

definition bio_write :: "image \<Rightarrow> BytesIO \<Rightarrow> BytesIO" where
  "bio_write b io =
     \<lparr>getvalue = take (tell io) (getvalue io) @ b # drop (Suc (tell io)) (getvalue io),
      tell = Suc (tell io)\<rparr>"

definition seek :: "nat \<Rightarrow> BytesIO \<Rightarrow> BytesIO" where
  "seek pos io = io\<lparr>tell := pos\<rparr>"

definition bio_read :: "BytesIO \<Rightarrow> image list \<times> BytesIO" where
  "bio_read io =
     (drop (tell io) (getvalue io), io\<lparr>tell := max (tell io) (length (getvalue io))\<rparr>)"

datatype response =
    StreamingResponse BytesIO pystr
  | HTTPException nat py_error
  | JSONResponse "(pystr \<times> pystr) list"
  | TemplateResponse pystr pystr
  | ErrorResponse nat pystr
  | RedirectResponse pystr
  | RequestValidationError "pystr list"
  | Documentation pystr

datatype payload =
    Stream "image list"
  | Detail py_error
  | Json "(pystr \<times> pystr) list"
  | Page pystr pystr
  | Message pystr
  | Fields "pystr list"

definition status_code :: "response \<Rightarrow> nat" where
  "status_code r =
     (case r of
        StreamingResponse buf media_type \<Rightarrow> 200
      | HTTPException code e \<Rightarrow> code
      | JSONResponse obj \<Rightarrow> 200
      | TemplateResponse directory template \<Rightarrow> 200
      | ErrorResponse code detail \<Rightarrow> code
      | RedirectResponse url \<Rightarrow> 307
      | RequestValidationError errs \<Rightarrow> 422
      | Documentation path \<Rightarrow> 200)"

definition content :: "response \<Rightarrow> payload" where
  "content r =
     (case r of
        StreamingResponse buf media_type \<Rightarrow> Stream (fst (bio_read buf))
      | HTTPException code e \<Rightarrow> Detail e
      | JSONResponse obj \<Rightarrow> Json obj
      | TemplateResponse directory template \<Rightarrow> Page directory template
      | ErrorResponse code detail \<Rightarrow> Message detail
      | RedirectResponse url \<Rightarrow> Message url
      | RequestValidationError errs \<Rightarrow> Fields errs
      | Documentation path \<Rightarrow> Message path)"

text \<open>The request bodies.\<close>

record ChoroplethData =
  cd_data :: "row list"
  cd_column :: pystr
  cd_level :: pystr
  cd_cmap :: pystr
  cd_colorbar_format :: pystr
  cd_colorbar_tick_visible :: bool

record DotPlotData =
  dd_x :: "pyfloat list"
  dd_y :: "pyfloat list"
  dd_size :: pyfloat
  dd_color :: pystr
  dd_alpha :: pyfloat

record Hist2DData =
  hd_x :: "pyfloat list"
  hd_y :: "pyfloat list"
  hd_bins :: int
  hd_cmap :: pystr
  hd_alpha :: pyfloat
  hd_cmin :: int

record BubbleData =
  bd_x :: "pyfloat list"
  bd_y :: "pyfloat list"
  bd_size :: "pyfloat list"
  bd_color :: "pystr list"
  bd_alpha :: pyfloat

datatype number_or_list = Number pyfloat | Numbers "pyfloat list"

datatype string_or_list = String pystr | Strings "pystr list"

record body =
  b_data :: "row list option"
  b_column :: "pystr option"
  b_level :: "pystr option"
  b_cmap :: "pystr option"
  b_colorbar_format :: "pystr option"
  b_colorbar_tick_visible :: "bool option"
  b_x :: "pyfloat list option"
  b_y :: "pyfloat list option"
  b_size :: "number_or_list option"
  b_color :: "string_or_list option"
  b_alpha :: "pyfloat option"
  b_bins :: "int option"
  b_cmin :: "int option"

definition no_body :: body where
  "no_body =
     \<lparr>b_data = None, b_column = None, b_level = None, b_cmap = None, b_colorbar_format = None,
      b_colorbar_tick_visible = None, b_x = None, b_y = None, b_size = None, b_color = None,
      b_alpha = None, b_bins = None, b_cmin = None\<rparr>"

definition pydantic_Field :: "'a \<Rightarrow> 'a option \<Rightarrow> 'a" where
  "pydantic_Field dflt v = (case v of None \<Rightarrow> dflt | Some a \<Rightarrow> a)"

definition Taipei_City :: pystr where
  "Taipei_City =
     [CHR 0xE8, CHR 0x87, CHR 0xBA, CHR 0xE5, CHR 0x8C, CHR 0x97, CHR 0xE5, CHR 0xB8,
        CHR 0x82]"

definition New_Taipei_City :: pystr where
  "New_Taipei_City =
     [CHR 0xE6, CHR 0x96, CHR 0xB0, CHR 0xE5, CHR 0x8C, CHR 0x97, CHR 0xE5, CHR 0xB8,
        CHR 0x82]"

definition ChoroplethData_validate :: "body \<Rightarrow> pystr list + ChoroplethData" where
  "ChoroplethData_validate b =
     Inr \<lparr>cd_data = pydantic_Field [[(''county'', Str Taipei_City), (''value'', Num 10)],
                            [(''county'', Str New_Taipei_City), (''value'', Num 20)]] (b_data b),
          cd_column = pydantic_Field ''value'' (b_column b),
          cd_level = pydantic_Field ''county'' (b_level b),
          cd_cmap = pydantic_Field ''GnBu'' (b_cmap b),
          cd_colorbar_format = pydantic_Field ''{x:,.0f}'' (b_colorbar_format b),
          cd_colorbar_tick_visible = pydantic_Field True (b_colorbar_tick_visible b)\<rparr>"

definition as_number :: "pystr \<Rightarrow> pyfloat \<Rightarrow> number_or_list option \<Rightarrow> pystr list + pyfloat" where
  "as_number field dflt v =
     (case v of None \<Rightarrow> Inr dflt | Some (Number n) \<Rightarrow> Inr n | Some (Numbers ns) \<Rightarrow> Inl [field])"

definition as_numbers ::
  "pystr \<Rightarrow> pyfloat list \<Rightarrow> number_or_list option \<Rightarrow> pystr list + pyfloat list" where
  "as_numbers field dflt v =
     (case v of None \<Rightarrow> Inr dflt | Some (Numbers ns) \<Rightarrow> Inr ns | Some (Number n) \<Rightarrow> Inl [field])"

definition as_string :: "pystr \<Rightarrow> pystr \<Rightarrow> string_or_list option \<Rightarrow> pystr list + pystr" where
  "as_string field dflt v =
     (case v of None \<Rightarrow> Inr dflt | Some (String c) \<Rightarrow> Inr c | Some (Strings cs) \<Rightarrow> Inl [field])"

definition as_strings ::
  "pystr \<Rightarrow> pystr list \<Rightarrow> string_or_list option \<Rightarrow> pystr list + pystr list" where
  "as_strings field dflt v =
     (case v of None \<Rightarrow> Inr dflt | Some (Strings cs) \<Rightarrow> Inr cs | Some (String c) \<Rightarrow> Inl [field])"

definition both :: "pystr list + 'a \<Rightarrow> pystr list + 'b \<Rightarrow> pystr list + ('a \<times> 'b)" where
  "both u v =
     (case (u, v) of
        (Inr a, Inr b) \<Rightarrow> Inr (a, b)
      | (Inl e, Inr b) \<Rightarrow> Inl e
      | (Inr a, Inl e) \<Rightarrow> Inl e
      | (Inl e, Inl e') \<Rightarrow> Inl (e @ e'))"

definition DotPlotData_validate :: "body \<Rightarrow> pystr list + DotPlotData" where
  "DotPlotData_validate b =
     (case both (as_number ''size'' 10 (b_size b)) (as_string ''color'' ''red'' (b_color b)) of
        Inl errs \<Rightarrow> Inl errs
      | Inr (sz, col) \<Rightarrow>
          Inr \<lparr>dd_x = pydantic_Field [120.96] (b_x b), dd_y = pydantic_Field [23.70] (b_y b), dd_size = sz,
               dd_color = col, dd_alpha = pydantic_Field 0.5 (b_alpha b)\<rparr>)"

definition Hist2DData_validate :: "body \<Rightarrow> pystr list + Hist2DData" where
  "Hist2DData_validate b =
     Inr \<lparr>hd_x = pydantic_Field [120.96, 120.96, 120.96, 119.57, 118.30, 119.90] (b_x b),
          hd_y = pydantic_Field [23.70, 23.70, 23.70, 23.57, 24.40, 26.20] (b_y b),
          hd_bins = pydantic_Field 100 (b_bins b),
          hd_cmap = pydantic_Field ''GnBu'' (b_cmap b),
          hd_alpha = pydantic_Field 0.5 (b_alpha b),
          hd_cmin = pydantic_Field 1 (b_cmin b)\<rparr>"

definition BubbleData_validate :: "body \<Rightarrow> pystr list + BubbleData" where
  "BubbleData_validate b =
     (case both (as_numbers ''size'' [10, 20, 30, 40, 50, 60] (b_size b))
             (as_strings ''color'' [''red'', ''blue'', ''green'', ''yellow'', ''purple'', ''orange'']
                (b_color b)) of
        Inl errs \<Rightarrow> Inl errs
      | Inr (sz, col) \<Rightarrow>
          Inr \<lparr>bd_x = pydantic_Field [120.96, 120.96, 120.96, 119.57, 118.30, 119.90] (b_x b),
               bd_y = pydantic_Field [23.70, 23.70, 23.70, 23.57, 24.40, 26.20] (b_y b),
               bd_size = sz, bd_color = col, bd_alpha = pydantic_Field 0.5 (b_alpha b)\<rparr>)"

text \<open>The functions of the module.\<close>

definition savefig :: "figure \<Rightarrow> BytesIO \<Rightarrow> pystr \<Rightarrow> nat \<Rightarrow> BytesIO result" where
  "savefig fig buf bbox_inches d = Inr (bio_write (PNG fig bbox_inches d) buf)"

definition msg_initialised :: pystr where
  "msg_initialised =
     [CHR 0xE8, CHR 0xA8, CHR 0x98, CHR 0xE6, CHR 0x86, CHR 0xB6, CHR 0xE9, CHR 0xAB,
        CHR 0x94, CHR 0xE7, CHR 0xAE, CHR 0xA1, CHR 0xE7, CHR 0x90, CHR 0x86, CHR 0xE5,
        CHR 0xB7, CHR 0xB2, CHR 0xE5, CHR 0x88, CHR 0x9D, CHR 0xE5, CHR 0xA7, CHR 0x8B,
        CHR 0xE5, CHR 0x8C, CHR 0x96]"

definition msg_closed :: pystr where
  "msg_closed =
     [CHR 0xE6, CHR 0x87, CHR 0x89, CHR 0xE7, CHR 0x94, CHR 0xA8, CHR 0xE9, CHR 0x97,
        CHR 0x9C, CHR 0xE9, CHR 0x96, CHR 0x89, CHR 0xEF, CHR 0xBC, CHR 0x8C, CHR 0xE8,
        CHR 0xA8, CHR 0x98, CHR 0xE6, CHR 0x86, CHR 0xB6, CHR 0xE9, CHR 0xAB, CHR 0x94,
        CHR 0xE5, CHR 0xB7, CHR 0xB2, CHR 0xE6, CHR 0xB8, CHR 0x85, CHR 0xE7, CHR 0x90,
        CHR 0x86]"

definition lifespan_startup :: "server \<Rightarrow> server" where
  "lifespan_startup s =
     (let s = s\<lparr>request_counter := 0\<rparr>;
          s = s\<lparr>plt := cleanup_memory (plt s)\<rparr>;
          s = s\<lparr>console := print_line msg_initialised (console s)\<rparr>
      in s)"

definition lifespan_shutdown :: "server \<Rightarrow> server" where
  "lifespan_shutdown s =
     (let s = s\<lparr>plt := cleanup_memory (plt s)\<rparr>;
          s = s\<lparr>console := print_line msg_closed (console s)\<rparr>
      in s)"

definition fig_to_image :: "figure \<Rightarrow> pyplot \<Rightarrow> BytesIO result \<times> pyplot" where
  "fig_to_image fig p =
     (let img_buf = BytesIO_init;
          r = rbind (savefig fig img_buf ''tight'' 300) (\<lambda>img_buf.
              let img_buf = seek 0 img_buf
              in Inr img_buf)
      in (r, close p (number fig)))"

definition cleanup_memory_if_needed :: "server \<Rightarrow> server" where
  "cleanup_memory_if_needed s =
     (let s = s\<lparr>request_counter := request_counter s + 1\<rparr>
      in if request_counter s \<ge> CLEANUP_INTERVAL
         then (let s = s\<lparr>plt := cleanup_memory (plt s)\<rparr>;
                   s = s\<lparr>request_counter := 0\<rparr>
               in s)
         else s)"

definition handle_plot_request ::
  "(pyplot \<Rightarrow> figure result \<times> pyplot) \<Rightarrow> server \<Rightarrow> response \<times> server" where
  "handle_plot_request plot_func s =
     (let s = cleanup_memory_if_needed s
      in case plot_func (plt s) of (r, p) \<Rightarrow>
        let s = s\<lparr>plt := p\<rparr>
        in case r of
             Inl e \<Rightarrow> (HTTPException 500 e, s\<lparr>plt := cleanup_memory (plt s)\<rparr>)
           | Inr fig \<Rightarrow>
               (case fig_to_image fig (plt s) of (r, p) \<Rightarrow>
                  let s = s\<lparr>plt := p\<rparr>
                  in case r of
                       Inl e \<Rightarrow> (HTTPException 500 e, s\<lparr>plt := cleanup_memory (plt s)\<rparr>)
                     | Inr img_buf \<Rightarrow> (StreamingResponse img_buf ''image/png'', s)))"

definition home :: "server \<Rightarrow> response \<times> server" where
  "home s = (TemplateResponse templates ''home.html'', s)"

definition get_boundary :: "datasets \<Rightarrow> server \<Rightarrow> response \<times> server" where
  "get_boundary ds s = handle_plot_request (plot_boundary graph_instance ds) s"

definition get_boundary_with_subsidy :: "files \<Rightarrow> datasets \<Rightarrow> server \<Rightarrow> response \<times> server" where
  "get_boundary_with_subsidy fs ds s =
     handle_plot_request (plot_boundary_with_subsidy graph_instance fs ds) s"

definition create_choropleth :: "datasets \<Rightarrow> ChoroplethData \<Rightarrow> server \<Rightarrow> response \<times> server" where
  "create_choropleth ds data s =
     (let df = DataFrame (cd_data data);
          params = \<lparr>cp_data = df, cp_column = cd_column data, cp_level = cd_level data,
                    cp_cmap = cd_cmap data, cp_colorbar_format = cd_colorbar_format data,
                    cp_colorbar_tick_visible = cd_colorbar_tick_visible data\<rparr>
      in handle_plot_request (plot_choropleth graph_instance ds params) s)"

definition create_dot_plot :: "datasets \<Rightarrow> DotPlotData \<Rightarrow> server \<Rightarrow> response \<times> server" where
  "create_dot_plot ds data s =
     (let params = \<lparr>dp_x = dd_x data, dp_y = dd_y data, dp_size = dd_size data,
                    dp_color = dd_color data, dp_alpha = dd_alpha data\<rparr>
      in handle_plot_request (plot_dot graph_instance ds params) s)"

definition create_hist2d :: "datasets \<Rightarrow> Hist2DData \<Rightarrow> server \<Rightarrow> response \<times> server" where
  "create_hist2d ds data s =
     (let params = \<lparr>hp_x = hd_x data, hp_y = hd_y data, hp_bins = hd_bins data,
                    hp_cmap = hd_cmap data, hp_alpha = hd_alpha data, hp_cmin = hd_cmin data\<rparr>
      in handle_plot_request (plot_hist2d graph_instance ds params) s)"

definition create_bubble :: "datasets \<Rightarrow> BubbleData \<Rightarrow> server \<Rightarrow> response \<times> server" where
  "create_bubble ds data s =
     (let params = BubbleParams_init (bd_x data) (bd_y data) (Some (bd_size data))
                     (Some (bd_color data)) (bd_alpha data)
      in handle_plot_request (plot_bubble graph_instance ds params) s)"

definition manual_cleanup :: "server \<Rightarrow> response \<times> server" where
  "manual_cleanup s =
     (let s = s\<lparr>plt := cleanup_memory (plt s)\<rparr>;
          s = s\<lparr>request_counter := 0\<rparr>
      in (JSONResponse [(''message'',
           [CHR 0xE8, CHR 0xA8, CHR 0x98, CHR 0xE6, CHR 0x86, CHR 0xB6, CHR 0xE9,
            CHR 0xAB, CHR 0x94, CHR 0xE6, CHR 0xB8, CHR 0x85, CHR 0xE7, CHR 0x90,
            CHR 0x86, CHR 0xE5, CHR 0xAE, CHR 0x8C, CHR 0xE6, CHR 0x88, CHR 0x90])], s))"

text \<open>The service as a transition system.\<close>

datatype request =
    GET_home
  | GET_boundary
  | GET_boundary_with_subsidy
  | POST_choropleth ChoroplethData
  | POST_dot DotPlotData
  | POST_hist2d Hist2DData
  | POST_bubble BubbleData
  | POST_cleanup

definition endpoint :: "files \<Rightarrow> datasets \<Rightarrow> request \<Rightarrow> server \<Rightarrow> response \<times> server" where
  "endpoint fs ds rq s =
     (case rq of
        GET_home \<Rightarrow> home s
      | GET_boundary \<Rightarrow> get_boundary ds s
      | GET_boundary_with_subsidy \<Rightarrow> get_boundary_with_subsidy fs ds s
      | POST_choropleth data \<Rightarrow> create_choropleth ds data s
      | POST_dot data \<Rightarrow> create_dot_plot ds data s
      | POST_hist2d data \<Rightarrow> create_hist2d ds data s
      | POST_bubble data \<Rightarrow> create_bubble ds data s
      | POST_cleanup \<Rightarrow> manual_cleanup s)"

definition serve :: "files \<Rightarrow> datasets \<Rightarrow> request list \<Rightarrow> server \<Rightarrow> server" where
  "serve fs ds rqs s = foldl (\<lambda>s rq. snd (endpoint fs ds rq s)) s rqs"

inductive reachable :: "files \<Rightarrow> datasets \<Rightarrow> server \<Rightarrow> bool" for fs ds where
  startup: "reachable fs ds (lifespan_startup s)"
| request: "reachable fs ds s \<Longrightarrow> reachable fs ds (snd (endpoint fs ds rq s))"

definition plot_request :: "request \<Rightarrow> bool" where
  "plot_request rq = (case rq of GET_home \<Rightarrow> False | POST_cleanup \<Rightarrow> False | _ \<Rightarrow> True)"

text \<open>The application object, its routes, and the dispatch of a request to a route.\<close>

datatype http_method = GET | POST

record route =
  r_method :: http_method
  r_path :: pystr
  r_summary :: "pystr option"
  r_endpoint :: "files \<Rightarrow> datasets \<Rightarrow> body \<Rightarrow> server \<Rightarrow> response \<times> server"

record FastAPI =
  title :: pystr
  description :: pystr
  lifespan :: "(server \<Rightarrow> server) \<times> (server \<Rightarrow> server)"
  routes :: "route list"

definition documentation :: "pystr \<Rightarrow> route" where
  "documentation path =
     \<lparr>r_method = GET, r_path = path, r_summary = None,
      r_endpoint = (\<lambda>fs ds b s. (Documentation path, s))\<rparr>"

definition FastAPI_init ::
  "pystr \<Rightarrow> pystr \<Rightarrow> (server \<Rightarrow> server) \<times> (server \<Rightarrow> server) \<Rightarrow> FastAPI" where
  "FastAPI_init t d l =
     \<lparr>title = t, description = d, lifespan = l,
      routes = map documentation
        [''/openapi.json'', ''/docs'', ''/docs/oauth2-redirect'', ''/redoc'']\<rparr>"

definition add_api_route :: "route \<Rightarrow> FastAPI \<Rightarrow> FastAPI" where
  "add_api_route r a = a\<lparr>routes := routes a @ [r]\<rparr>"

definition app_get ::
  "pystr \<Rightarrow> pystr option \<Rightarrow> (files \<Rightarrow> datasets \<Rightarrow> body \<Rightarrow> server \<Rightarrow> response \<times> server) \<Rightarrow>
     FastAPI \<Rightarrow> FastAPI" where
  "app_get path summary f a =
     add_api_route \<lparr>r_method = GET, r_path = path, r_summary = summary, r_endpoint = f\<rparr> a"

definition app_post ::
  "pystr \<Rightarrow> pystr option \<Rightarrow> (files \<Rightarrow> datasets \<Rightarrow> body \<Rightarrow> server \<Rightarrow> response \<times> server) \<Rightarrow>
     FastAPI \<Rightarrow> FastAPI" where
  "app_post path summary f a =
     add_api_route \<lparr>r_method = POST, r_path = path, r_summary = summary, r_endpoint = f\<rparr> a"

definition validated ::
  "(body \<Rightarrow> pystr list + 'a) \<Rightarrow> ('a \<Rightarrow> server \<Rightarrow> response \<times> server) \<Rightarrow>
     body \<Rightarrow> server \<Rightarrow> response \<times> server" where
  "validated validate f b s =
     (case validate b of Inl errs \<Rightarrow> (RequestValidationError errs, s) | Inr data \<Rightarrow> f data s)"

definition app :: FastAPI where
  "app =
     FastAPI_init
       ([CHR 0xE5, CHR 0x9C, CHR 0xB0, CHR 0xE7, CHR 0x90, CHR 0x86, CHR 0xE5, CHR 0x9C,
          CHR 0x96, CHR 0xE8, CHR 0xA1, CHR 0xA8] @ ''API'')
       ([CHR 0xE4, CHR 0xBD, CHR 0xBF, CHR 0xE7, CHR 0x94, CHR 0xA8] @ ''FastAPI'' @
        [CHR 0xE6, CHR 0x8F, CHR 0x90, CHR 0xE4, CHR 0xBE, CHR 0x9B, CHR 0xE5, CHR 0x9C,
          CHR 0xB0, CHR 0xE7, CHR 0x90, CHR 0x86, CHR 0xE8, CHR 0xB3, CHR 0x87, CHR 0xE6,
          CHR 0x96, CHR 0x99, CHR 0xE8, CHR 0xA6, CHR 0x96, CHR 0xE8, CHR 0xA6, CHR 0xBA,
          CHR 0xE5, CHR 0x8C, CHR 0x96, CHR 0xE6, CHR 0x9C, CHR 0x8D, CHR 0xE5, CHR 0x8B,
          CHR 0x99])
       (lifespan_startup, lifespan_shutdown)"

definition route_home :: "FastAPI \<Rightarrow> FastAPI" where
  "route_home = app_get ''/'' None (\<lambda>fs ds b. home)"

definition route_boundary :: "FastAPI \<Rightarrow> FastAPI" where
  "route_boundary =
     app_get ''/boundary''
       (Some ([CHR 0xE7, CHR 0x8D, CHR 0xB2, CHR 0xE5, CHR 0x8F, CHR 0x96, CHR 0xE5,
                CHR 0x9C, CHR 0xB0, CHR 0xE5, CHR 0x9C, CHR 0x96, CHR 0xE9, CHR 0x82,
                CHR 0x8A, CHR 0xE7, CHR 0x95, CHR 0x8C]))
       (\<lambda>fs ds b. get_boundary ds)"

definition route_boundary_with_subsidy :: "FastAPI \<Rightarrow> FastAPI" where
  "route_boundary_with_subsidy =
     app_get ''/boundary_with_subsidy''
       (Some ([CHR 0xE7, CHR 0x8D, CHR 0xB2, CHR 0xE5, CHR 0x8F, CHR 0x96, CHR 0xE5,
                CHR 0xB8, CHR 0xB6, CHR 0xE8, CHR 0xA3, CHR 0x9C, CHR 0xE5, CHR 0x8A,
                CHR 0xA9, CHR 0xE5, CHR 0x9C, CHR 0xB0, CHR 0xE5, CHR 0x8D, CHR 0x80,
                CHR 0xE9, CHR 0xA1, CHR 0x8F, CHR 0xE8, CHR 0x89, CHR 0xB2, CHR 0xE7,
                CHR 0x9A, CHR 0x84, CHR 0xE5, CHR 0x9C, CHR 0xB0, CHR 0xE5, CHR 0x9C,
                CHR 0x96, CHR 0xE9, CHR 0x82, CHR 0x8A, CHR 0xE7, CHR 0x95, CHR 0x8C]))
       (\<lambda>fs ds b. get_boundary_with_subsidy fs ds)"

definition route_choropleth :: "FastAPI \<Rightarrow> FastAPI" where
  "route_choropleth =
     app_post ''/choropleth''
       (Some ([CHR 0xE5, CHR 0xBB, CHR 0xBA, CHR 0xE7, CHR 0xAB, CHR 0x8B, CHR 0xE5,
                CHR 0x88, CHR 0x86, CHR 0xE5, CHR 0xB1, CHR 0xA4, CHR 0xE8, CHR 0xA8,
                CHR 0xAD, CHR 0xE8, CHR 0x89, CHR 0xB2, CHR 0xE5, CHR 0x9C, CHR 0x96]))
       (\<lambda>fs ds. validated ChoroplethData_validate (create_choropleth ds))"

definition route_dot :: "FastAPI \<Rightarrow> FastAPI" where
  "route_dot =
     app_post ''/dot''
       (Some ([CHR 0xE5, CHR 0xBB, CHR 0xBA, CHR 0xE7, CHR 0xAB, CHR 0x8B, CHR 0xE9,
                CHR 0xBB, CHR 0x9E, CHR 0xE6, CHR 0x95, CHR 0xA3, CHR 0xE5, CHR 0xB8,
                CHR 0x83, CHR 0xE5, CHR 0x9C, CHR 0x96]))
       (\<lambda>fs ds. validated DotPlotData_validate (create_dot_plot ds))"

definition route_hist2d :: "FastAPI \<Rightarrow> FastAPI" where
  "route_hist2d =
     app_post ''/hist2d''
       (Some ([CHR 0xE5, CHR 0xBB, CHR 0xBA, CHR 0xE7, CHR 0xAB, CHR 0x8B] @
               ''2D'' @
               [CHR 0xE7, CHR 0x9B, CHR 0xB4, CHR 0xE6, CHR 0x96, CHR 0xB9, CHR 0xE5,
                CHR 0x9C, CHR 0x96]))
       (\<lambda>fs ds. validated Hist2DData_validate (create_hist2d ds))"

definition route_bubble :: "FastAPI \<Rightarrow> FastAPI" where
  "route_bubble =
     app_post ''/bubble''
       (Some ([CHR 0xE5, CHR 0xBB, CHR 0xBA, CHR 0xE7, CHR 0xAB, CHR 0x8B, CHR 0xE6,
                CHR 0xB0, CHR 0xA3, CHR 0xE6, CHR 0xB3, CHR 0xA1, CHR 0xE5, CHR 0x9C,
                CHR 0x96]))
       (\<lambda>fs ds. validated BubbleData_validate (create_bubble ds))"

definition route_cleanup :: "FastAPI \<Rightarrow> FastAPI" where
  "route_cleanup =
     app_post ''/cleanup''
       (Some ([CHR 0xE6, CHR 0x89, CHR 0x8B, CHR 0xE5, CHR 0x8B, CHR 0x95, CHR 0xE6,
                CHR 0xB8, CHR 0x85, CHR 0xE7, CHR 0x90, CHR 0x86, CHR 0xE8, CHR 0xA8,
                CHR 0x98, CHR 0xE6, CHR 0x86, CHR 0xB6, CHR 0xE9, CHR 0xAB, CHR 0x94]))
       (\<lambda>fs ds b. manual_cleanup)"

definition loaded_app :: FastAPI where
  "loaded_app =
     fold (\<lambda>decorator a. decorator a)
       [route_home, route_boundary, route_boundary_with_subsidy, route_choropleth,
        route_dot, route_hist2d, route_bubble, route_cleanup] app"

definition strip_slash :: "pystr \<Rightarrow> pystr" where
  "strip_slash path = (if path \<noteq> [] \<and> last path = CHR ''/'' then butlast path else path @ ''/'')"

definition match_route :: "route list \<Rightarrow> http_method \<Rightarrow> pystr \<Rightarrow> response + route" where
  "match_route rs m path =
     (case filter (\<lambda>r. r_path r = path \<and> r_method r = m) rs of
        r # full \<Rightarrow> Inr r
      | [] \<Rightarrow>
          if \<exists>r \<in> set rs. r_path r = path then Inl (ErrorResponse 405 ''Method Not Allowed'')
          else if path \<noteq> ''/'' \<and> (\<exists>r \<in> set rs. r_path r = strip_slash path)
          then Inl (RedirectResponse (strip_slash path))
          else Inl (ErrorResponse 404 ''Not Found''))"

definition receive ::
  "FastAPI \<Rightarrow> files \<Rightarrow> datasets \<Rightarrow> http_method \<Rightarrow> pystr \<Rightarrow> body \<Rightarrow> server \<Rightarrow> response \<times> server" where
  "receive a fs ds m path b s =
     (case match_route (routes a) m path of
        Inl r \<Rightarrow> (r, s)
      | Inr r \<Rightarrow> r_endpoint r fs ds b s)"

record uvicorn =
  uv_app :: FastAPI
  uv_host :: pystr
  uv_port :: nat

definition app_main :: uvicorn where
  "app_main = \<lparr>uv_app = loaded_app, uv_host = ''0.0.0.0'', uv_port = 5011\<rparr>"

text \<open>The interface of a renderer, and the invariant of the service.\<close>

definition renderer :: "(pyplot \<Rightarrow> figure result \<times> pyplot) \<Rightarrow> bool" where
  "renderer f \<longleftrightarrow>
     (\<forall>p fig. fst (f p) = Inr fig \<longrightarrow>
        number fig = next_num (fignums p) \<and>
        snd (f p) = p\<lparr>fignums := fignums p @ [next_num (fignums p)]\<rparr>)"

definition idle :: "server \<Rightarrow> bool" where
  "idle s \<longleftrightarrow>
     fignums (plt s) = [] \<and> 0 \<le> request_counter s \<and> request_counter s < CLEANUP_INTERVAL \<and>
     max_open_warning (plt s) = default_max_open_warning"

text \<open>
  What the handler and the routes are specified against: the buffer that holds one image
  and is rewound, and the body that carries every field of a validated request.
\<close>

definition image_buffer :: "image \<Rightarrow> BytesIO" where
  "image_buffer img = \<lparr>getvalue = [img], tell = 0\<rparr>"

definition ChoroplethData_dump :: "ChoroplethData \<Rightarrow> body" where
  "ChoroplethData_dump d =
     no_body\<lparr>b_data := Some (cd_data d), b_column := Some (cd_column d),
       b_level := Some (cd_level d), b_cmap := Some (cd_cmap d),
       b_colorbar_format := Some (cd_colorbar_format d),
       b_colorbar_tick_visible := Some (cd_colorbar_tick_visible d)\<rparr>"

definition DotPlotData_dump :: "DotPlotData \<Rightarrow> body" where
  "DotPlotData_dump d =
     no_body\<lparr>b_x := Some (dd_x d), b_y := Some (dd_y d), b_size := Some (Number (dd_size d)),
       b_color := Some (String (dd_color d)), b_alpha := Some (dd_alpha d)\<rparr>"

definition Hist2DData_dump :: "Hist2DData \<Rightarrow> body" where
  "Hist2DData_dump d =
     no_body\<lparr>b_x := Some (hd_x d), b_y := Some (hd_y d), b_bins := Some (hd_bins d),
       b_cmap := Some (hd_cmap d), b_alpha := Some (hd_alpha d), b_cmin := Some (hd_cmin d)\<rparr>"

definition BubbleData_dump :: "BubbleData \<Rightarrow> body" where
  "BubbleData_dump d =
     no_body\<lparr>b_x := Some (bd_x d), b_y := Some (bd_y d), b_size := Some (Numbers (bd_size d)),
       b_color := Some (Strings (bd_color d)), b_alpha := Some (bd_alpha d)\<rparr>"

definition wire :: "request \<Rightarrow> http_method \<times> pystr \<times> body" where
  "wire rq =
     (case rq of
        GET_home \<Rightarrow> (GET, ''/'', no_body)
      | GET_boundary \<Rightarrow> (GET, ''/boundary'', no_body)
      | GET_boundary_with_subsidy \<Rightarrow> (GET, ''/boundary_with_subsidy'', no_body)
      | POST_choropleth d \<Rightarrow> (POST, ''/choropleth'', ChoroplethData_dump d)
      | POST_dot d \<Rightarrow> (POST, ''/dot'', DotPlotData_dump d)
      | POST_hist2d d \<Rightarrow> (POST, ''/hist2d'', Hist2DData_dump d)
      | POST_bubble d \<Rightarrow> (POST, ''/bubble'', BubbleData_dump d)
      | POST_cleanup \<Rightarrow> (POST, ''/cleanup'', no_body))"

text \<open>
  The requests that need nothing but the county dataset: the home page, a cleanup, the
  boundary map, and a body whose lists fit together; for a choropleth by county, records
  that carry the key \<^verbatim>\<open>county\<close> and the chosen column, without text in that column.
\<close>

definition county_request :: "request \<Rightarrow> bool" where
  "county_request rq =
     (case rq of
        GET_home \<Rightarrow> True
      | GET_boundary \<Rightarrow> True
      | GET_boundary_with_subsidy \<Rightarrow> False
      | POST_choropleth d \<Rightarrow>
          cd_level d \<noteq> ''town'' \<and>
          list_all (\<lambda>c. c \<in> set (concat (map (map fst) (cd_data d)))) [''county'', cd_column d] \<and>
          \<not> list_ex (\<lambda>r. is_Str (cell_of r (cd_column d))) (cd_data d)
      | POST_dot d \<Rightarrow> length (dd_x d) = length (dd_y d)
      | POST_hist2d d \<Rightarrow> length (hd_x d) = length (hd_y d) \<and> 1 \<le> hd_bins d
      | POST_bubble d \<Rightarrow>
          length (bd_x d) = length (bd_y d) \<and> length (bd_size d) \<in> {1, length (bd_x d)} \<and>
          length (bd_color d) \<in> {0, 1, length (bd_x d)}
      | POST_cleanup \<Rightarrow> True)"

definition is_redirect :: "response \<Rightarrow> bool" where
  "is_redirect r = (case r of RedirectResponse url \<Rightarrow> True | _ \<Rightarrow> False)"

definition table ::
  "FastAPI \<Rightarrow> (http_method \<times> pystr \<times> (files \<Rightarrow> datasets \<Rightarrow> body \<Rightarrow> server \<Rightarrow> response \<times> server)) list" where
  "table a = map (\<lambda>r. (r_method r, r_path r, r_endpoint r)) (routes a)"

definition dispatch :: "(http_method \<times> pystr \<times> 'e) list \<Rightarrow> http_method \<Rightarrow> pystr \<Rightarrow> response + 'e" where
  "dispatch t m path =
     (case filter (\<lambda>(m', p, f). p = path \<and> m' = m) t of
        (m', p, f) # full \<Rightarrow> Inr f
      | [] \<Rightarrow>
          if \<exists>(m', p, f) \<in> set t. p = path then Inl (ErrorResponse 405 ''Method Not Allowed'')
          else if path \<noteq> ''/'' \<and> (\<exists>(m', p, f) \<in> set t. p = strip_slash path)
          then Inl (RedirectResponse (strip_slash path))
          else Inl (ErrorResponse 404 ''Not Found''))"

text \<open>
  A route table is well formed when no two routes have the same method and path and
  every path begins with a slash. The states the service reaches over HTTP are those after
  the start-up and any sequence of requests, whatever their method, path and body.
\<close>

definition well_formed :: "FastAPI \<Rightarrow> bool" where
  "well_formed a \<longleftrightarrow>
     distinct (map (\<lambda>(m, p, f). (m, p)) (table a)) \<and>
     list_all (\<lambda>(m, p, f). p \<noteq> [] \<and> hd p = CHR ''/'') (table a)"

inductive served :: "files \<Rightarrow> datasets \<Rightarrow> server \<Rightarrow> bool" for fs ds where
  startup: "served fs ds (lifespan_startup s)"
| request: "served fs ds s \<Longrightarrow> served fs ds (snd (receive loaded_app fs ds m path b s))"

definition settled :: "server \<Rightarrow> response \<times> server \<Rightarrow> bool" where
  "settled s rs \<longleftrightarrow>
     status_code (fst rs) = 200 \<or> status_code (fst rs) = 500 \<or>
     status_code (fst rs) = 422 \<and> snd rs = s"

text \<open>Sample inputs: a state with a figure left open, and a request body without a key column.\<close>

definition busy_server :: server where
  "busy_server =
     \<lparr>request_counter = 7, plt = \<lparr>fignums = [3], max_open_warning = 0\<rparr>, console = []\<rparr>"

definition keyless_data :: ChoroplethData where
  "keyless_data =
     \<lparr>cd_data = [[(''name'', Str ''Taipei''), (''value'', Num 10)]], cd_column = ''value'',
      cd_level = ''county'', cd_cmap = ''GnBu'', cd_colorbar_format = ''{x:,.0f}'',
      cd_colorbar_tick_visible = True\<rparr>"


section \<open>Renderers\<close>

lemma renderer_plot_boundary: "renderer (plot_boundary (fst (Graph_init cfg fm)) ds)"
  unfolding renderer_def
  by (auto simp: plot_boundary_plt base_plt plot_boundary_Inr_iff dest: base_number)

lemma renderer_plot_choropleth: "renderer (plot_choropleth (fst (Graph_init cfg fm)) ds p)"
  unfolding renderer_def
  by (auto simp: plot_choropleth_plt base_plt plot_choropleth_Inr_iff dest: base_number)

lemma renderer_plot_dot: "renderer (plot_dot (fst (Graph_init cfg fm)) ds p)"
  unfolding renderer_def
  by (auto simp: plot_dot_plt plot_boundary_plt base_plt plot_dot_eq rbind_ok_iff plot_boundary_Inr_iff
      split: option.splits dest: base_number)

lemma renderer_plot_bubble: "renderer (plot_bubble (fst (Graph_init cfg fm)) ds p)"
  unfolding renderer_def
  by (auto simp: plot_bubble_plt plot_boundary_plt base_plt plot_bubble_eq rbind_ok_iff
      plot_boundary_Inr_iff split: option.splits dest: base_number)

lemma renderer_plot_hist2d: "renderer (plot_hist2d (fst (Graph_init cfg fm)) ds p)"
  unfolding renderer_def
  by (auto simp: plot_hist2d_plt plot_boundary_plt base_plt plot_hist2d_Inr_iff plot_boundary_Inr_iff
      dest: base_number)

lemma renderer_plot_boundary_with_subsidy:
  "renderer (plot_boundary_with_subsidy (fst (Graph_init cfg fm)) fs ds)"
  unfolding renderer_def
  by (auto simp: plot_boundary_with_subsidy_plt base_plt plot_boundary_with_subsidy_Inr_iff
      dest: base_number)

lemmas renderers =
  renderer_plot_boundary [of FigConfig "[]", folded graph_instance_def]
  renderer_plot_choropleth [of FigConfig "[]", folded graph_instance_def]
  renderer_plot_dot [of FigConfig "[]", folded graph_instance_def]
  renderer_plot_bubble [of FigConfig "[]", folded graph_instance_def]
  renderer_plot_hist2d [of FigConfig "[]", folded graph_instance_def]
  renderer_plot_boundary_with_subsidy [of FigConfig "[]", folded graph_instance_def]

lemmas route_defs =
  endpoint_def get_boundary_def get_boundary_with_subsidy_def create_choropleth_def
  create_dot_plot_def create_hist2d_def create_bubble_def


section \<open>The image buffer\<close>

text \<open>
  \<open>fig_to_image\<close> returns a buffer that holds the image of the figure and is positioned
  at its start, and closes the figure.
\<close>

lemma fig_to_image_eq:
  "fig_to_image fig p = (Inr (image_buffer (PNG fig ''tight'' 300)), close p (number fig))"
  by (simp add: fig_to_image_def savefig_def bio_write_def seek_def BytesIO_init_def
      image_buffer_def Let_def)

lemma read_image_buffer: "fst (bio_read (image_buffer img)) = [img]"
  by (simp add: bio_read_def image_buffer_def)

text \<open>
  What is read is what lies after the position: a buffer read right after a write at its
  end gives nothing, and a rewound buffer gives everything written.
\<close>

lemma read_after_write:
  "tell io = length (getvalue io) \<Longrightarrow> fst (bio_read (bio_write b io)) = []"
  by (simp add: bio_read_def bio_write_def)

lemma read_rewound: "fst (bio_read (seek 0 io)) = getvalue io"
  by (simp add: bio_read_def seek_def)

lemma content_image [simp]: "content (StreamingResponse (image_buffer img) mt) = Stream [img]"
  by (simp add: content_def read_image_buffer)

lemma status_code_simps [simp]:
  "status_code (StreamingResponse buf mt) = 200"
  "status_code (HTTPException code e) = code"
  "status_code (JSONResponse obj) = 200"
  "status_code (TemplateResponse d t) = 200"
  "status_code (ErrorResponse code detail) = code"
  "status_code (RedirectResponse url) = 307"
  "status_code (RequestValidationError errs) = 422"
  "status_code (Documentation path) = 200"
  by (simp_all add: status_code_def)


section \<open>The handler\<close>

lemma cleanup_memory_if_needed_eq:
  "cleanup_memory_if_needed s =
     (if request_counter s + 1 \<ge> CLEANUP_INTERVAL
      then s\<lparr>request_counter := 0, plt := cleanup_memory (plt s)\<rparr>
      else s\<lparr>request_counter := request_counter s + 1\<rparr>)"
  by (simp add: cleanup_memory_if_needed_def Let_def)

text \<open>
  For a renderer the handler has two outcomes: the image of the returned figure, with
  the state as \<open>cleanup_memory_if_needed\<close> left it, or status 500 after a cleanup.
\<close>

lemma handle_plot_request_eq:
  assumes "renderer f"
  shows "handle_plot_request f s =
     (let s' = cleanup_memory_if_needed s
      in case fst (f (plt s')) of
           Inl e \<Rightarrow> (HTTPException 500 e, s'\<lparr>plt := cleanup_memory (snd (f (plt s')))\<rparr>)
         | Inr fig \<Rightarrow> (StreamingResponse (image_buffer (PNG fig ''tight'' 300)) ''image/png'', s'))"
proof -
  obtain r p where f: "f (plt (cleanup_memory_if_needed s)) = (r, p)" by force
  show ?thesis
  proof (cases r)
    case (Inl e)
    with f show ?thesis by (simp add: handle_plot_request_def Let_def)
  next
    case (Inr fig)
    with f assms have "number fig = next_num (fignums (plt (cleanup_memory_if_needed s)))"
      and "p = (plt (cleanup_memory_if_needed s))\<lparr>fignums :=
        fignums (plt (cleanup_memory_if_needed s)) @ [next_num (fignums (plt (cleanup_memory_if_needed s)))]\<rparr>"
      unfolding renderer_def by (metis fst_conv snd_conv)+
    with f Inr show ?thesis
      by (simp add: handle_plot_request_def Let_def fig_to_image_eq close_def next_num_fresh)
  qed
qed

lemma handle_plot_request_counter:
  assumes "renderer f"
  shows "request_counter (snd (handle_plot_request f s)) =
     (if request_counter s + 1 \<ge> CLEANUP_INTERVAL then 0 else request_counter s + 1)"
  by (simp add: handle_plot_request_eq [OF assms] Let_def cleanup_memory_if_needed_eq split: sum.splits)


section \<open>The invariant\<close>

lemma cleanup_memory_if_needed_idle: "idle s \<Longrightarrow> idle (cleanup_memory_if_needed s)"
  by (simp add: idle_def cleanup_memory_if_needed_eq CLEANUP_INTERVAL_def)

lemma handle_plot_request_idle:
  assumes "renderer f" and "idle s"
  shows "idle (snd (handle_plot_request f s))"
  using cleanup_memory_if_needed_idle [OF assms(2)]
  by (simp add: handle_plot_request_eq [OF assms(1)] Let_def idle_def split: sum.splits)

lemma cleanup_memory_idle: "idle s \<Longrightarrow> cleanup_memory (plt s) = plt s"
  by (simp add: idle_def cleanup_memory_def close_all_def rcdefaults_def Let_def)

lemma lifespan_startup_idle: "idle (lifespan_startup s)"
  by (simp add: lifespan_startup_def idle_def Let_def CLEANUP_INTERVAL_def)

lemma home_idle: "idle s \<Longrightarrow> idle (snd (home s))"
  by (simp add: home_def)

lemma manual_cleanup_idle: "idle (snd (manual_cleanup s))"
  by (simp add: manual_cleanup_def idle_def Let_def CLEANUP_INTERVAL_def)

lemma endpoint_idle: "idle s \<Longrightarrow> idle (snd (endpoint fs ds rq s))"
  by (cases rq)
     (simp_all add: route_defs Let_def home_idle manual_cleanup_idle handle_plot_request_idle renderers)

lemma reachable_idle: "reachable fs ds s \<Longrightarrow> idle s"
  by (induction rule: reachable.induct) (simp_all add: lifespan_startup_idle endpoint_idle)

lemma endpoint_counter:
  assumes "plot_request rq"
  shows "request_counter (snd (endpoint fs ds rq s)) =
     (if request_counter s + 1 \<ge> CLEANUP_INTERVAL then 0 else request_counter s + 1)"
  using assms
  by (cases rq)
     (simp_all add: route_defs Let_def plot_request_def handle_plot_request_counter renderers)

lemma serve_snoc: "serve fs ds (rqs @ [rq]) s = snd (endpoint fs ds rq (serve fs ds rqs s))"
  by (simp add: serve_def)

lemma serve_reachable: "reachable fs ds (serve fs ds rqs (lifespan_startup s))"
  by (induction rqs rule: rev_induct) (simp_all add: serve_snoc serve_def reachable.intros)

lemma busy_reachable: "reachable fs ds (snd (endpoint fs ds GET_boundary (lifespan_startup busy_server)))"
  by (intro reachable.intros)



section \<open>Requests that are answered with an image\<close>

lemma handle_plot_request_image:
  assumes "renderer f" and "\<And>p. \<exists>fig. fst (f p) = Inr fig"
  shows "\<exists>fig. handle_plot_request f s =
     (StreamingResponse (image_buffer (PNG fig ''tight'' 300)) ''image/png'', cleanup_memory_if_needed s)"
proof -
  from assms(2) obtain fig where "fst (f (plt (cleanup_memory_if_needed s))) = Inr fig" by blast
  then show ?thesis by (auto simp: handle_plot_request_eq [OF assms(1)] Let_def)
qed

lemma shipped_boundary:
  assumes "ds COUNTY = Some all"
  shows "\<exists>fig. fst (plot_boundary graph_instance ds p) = Inr fig"
  using assms
  by (simp add: graph_instance_def plot_boundary_ok_iff first_error_FigConfig AREA_RANGE_length)

lemma shipped_dot:
  assumes "ds COUNTY = Some all" and "length (dp_x dp) = length (dp_y dp)"
  shows "\<exists>fig. fst (plot_dot graph_instance ds dp p) = Inr fig"
  using shipped_boundary [where ds = ds and p = p, OF assms(1)] assms(2)
  by (auto simp: graph_instance_def plot_dot_eq scatter_error_def scatter_sizes_def
      scatter_colors_def)

lemma shipped_bubble:
  assumes "ds COUNTY = Some all" and "length (bd_x d) = length (bd_y d)"
    and "length (bd_size d) \<in> {1, length (bd_x d)}" and "length (bd_color d) \<in> {0, 1, length (bd_x d)}"
  shows "\<exists>fig. fst (plot_bubble graph_instance ds
     (BubbleParams_init (bd_x d) (bd_y d) (Some (bd_size d)) (Some (bd_color d)) (bd_alpha d)) p) = Inr fig"
  using shipped_boundary [where ds = ds and p = p, OF assms(1)] assms(2-)
  by (auto simp: graph_instance_def plot_bubble_eq scatter_error_def scatter_sizes_def
      scatter_colors_def BubbleParams_init_def BubbleParams_post_init_def)

lemma shipped_hist2d:
  assumes "ds COUNTY = Some all" and "length (hp_x hp) = length (hp_y hp)" and "1 \<le> hp_bins hp"
  shows "\<exists>fig. fst (plot_hist2d graph_instance ds hp p) = Inr fig"
  using shipped_boundary [where ds = ds and p = p, OF assms(1)] assms(2-)
  by (simp add: graph_instance_def plot_hist2d_ok_iff AREA_RANGE_keys histogram2d_error_def
      ordered_def range_of_def)

lemma shipped_choropleth:
  assumes "ds COUNTY = Some all" and "gdf_columns all [''COUNTYNAME'']"
    and "cp_level cp \<noteq> ''town''" and "cp_data cp = DataFrame recs"
    and "''county'' \<in> set (concat (map (map fst) recs))"
    and "cp_column cp \<in> set (concat (map (map fst) recs))"
    and "\<not> list_ex (\<lambda>r. is_Str (cell_of r (cp_column cp))) recs"
  shows "\<exists>fig. fst (plot_choropleth graph_instance ds cp p) = Inr fig"
proof -
  have cols: "set (columns (cp_data cp)) = set (concat (map (map fst) recs))"
    by (simp add: assms(4) DataFrame_columns)
  with assms(6) have col: "cp_column cp \<in> set (columns (DataFrame recs))" by (simp add: assms(4))
  have cells: "column_cells cp = map (\<lambda>r. cell_of r (cp_column cp)) recs"
    using DataFrame_cells [OF col] by (simp add: column_cells_def assms(4))
  show ?thesis
    unfolding graph_instance_def
  proof (rule plot_choropleth_total [where geo = all and all = all])
    show "\<forall>r \<in> set (rows (cp_data cp)). cp_column cp \<in> fst ` set r"
      using col by (auto simp: assms(4) DataFrame_rows)
    show "\<not> list_ex is_Str (column_cells cp)"
      using assms(7) by (simp add: cells list_ex_iff)
  qed (use assms cols in \<open>simp_all add: first_error_FigConfig AREA_RANGE_length choropleth_path_def
      choropleth_kwargs_def\<close>)
qed

text \<open>
  When the county dataset can be read and carries the county names, every request that
  needs nothing else is answered with status 200; a plotting request among them with the
  image of a figure, after which the state is as counting the request left it.
\<close>

lemma county_request_image:
  assumes "ds COUNTY = Some all" and "gdf_columns all [''COUNTYNAME'']"
    and "county_request rq" and "plot_request rq"
  shows "\<exists>fig. endpoint fs ds rq s =
     (StreamingResponse (image_buffer (PNG fig ''tight'' 300)) ''image/png'', cleanup_memory_if_needed s)"
proof (cases rq)
  case GET_boundary
  with shipped_boundary [where ds = ds, OF assms(1)] show ?thesis
    by (simp add: endpoint_def get_boundary_def handle_plot_request_image renderers)
next
  case (POST_choropleth d)
  with assms(3) shipped_choropleth [where ds = ds and recs = "cd_data d", OF assms(1,2)] show ?thesis
    by (simp add: endpoint_def create_choropleth_def Let_def county_request_def
        handle_plot_request_image renderers)
next
  case (POST_dot d)
  with assms(3) shipped_dot [where ds = ds, OF assms(1)] show ?thesis
    by (simp add: endpoint_def create_dot_plot_def Let_def county_request_def
        handle_plot_request_image renderers)
next
  case (POST_hist2d d)
  with assms(3) shipped_hist2d [where ds = ds, OF assms(1)] show ?thesis
    by (simp add: endpoint_def create_hist2d_def Let_def county_request_def
        handle_plot_request_image renderers)
next
  case (POST_bubble d)
  with assms(3) have c: "length (bd_x d) = length (bd_y d)"
    "length (bd_size d) \<in> {1, length (bd_x d)}" "length (bd_color d) \<in> {0, 1, length (bd_x d)}"
    by (auto simp: county_request_def)
  have "\<exists>fig. fst (plot_bubble graph_instance ds
      (BubbleParams_init (bd_x d) (bd_y d) (Some (bd_size d)) (Some (bd_color d)) (bd_alpha d)) p) =
      Inr fig" for p
    by (rule shipped_bubble [where ds = ds, OF assms(1) c])
  with POST_bubble show ?thesis
    by (simp add: endpoint_def create_bubble_def Let_def handle_plot_request_image renderers)
qed (use assms(3,4) in \<open>simp_all add: county_request_def plot_request_def\<close>)


section \<open>Routes and request bodies\<close>

text \<open>The routes of the application, in the order they were added.\<close>

lemmas route_decorators =
  route_home_def route_boundary_def route_boundary_with_subsidy_def route_choropleth_def
  route_dot_def route_hist2d_def route_bubble_def route_cleanup_def
  app_get_def app_post_def add_api_route_def

lemma table_loaded_app:
  "table loaded_app =
     [(GET, ''/openapi.json'', \<lambda>fs ds b s. (Documentation ''/openapi.json'', s)),
      (GET, ''/docs'', \<lambda>fs ds b s. (Documentation ''/docs'', s)),
      (GET, ''/docs/oauth2-redirect'', \<lambda>fs ds b s. (Documentation ''/docs/oauth2-redirect'', s)),
      (GET, ''/redoc'', \<lambda>fs ds b s. (Documentation ''/redoc'', s)),
      (GET, ''/'', \<lambda>fs ds b. home),
      (GET, ''/boundary'', \<lambda>fs ds b. get_boundary ds),
      (GET, ''/boundary_with_subsidy'', \<lambda>fs ds b. get_boundary_with_subsidy fs ds),
      (POST, ''/choropleth'', \<lambda>fs ds. validated ChoroplethData_validate (create_choropleth ds)),
      (POST, ''/dot'', \<lambda>fs ds. validated DotPlotData_validate (create_dot_plot ds)),
      (POST, ''/hist2d'', \<lambda>fs ds. validated Hist2DData_validate (create_hist2d ds)),
      (POST, ''/bubble'', \<lambda>fs ds. validated BubbleData_validate (create_bubble ds)),
      (POST, ''/cleanup'', \<lambda>fs ds b. manual_cleanup)]"
  by (simp add: table_def loaded_app_def app_def FastAPI_init_def documentation_def route_decorators)

text \<open>Matching a route depends on the methods and paths of the table only.\<close>

lemma filter_table:
  "map (\<lambda>r. (r_method r, r_path r, r_endpoint r)) (filter (\<lambda>r. r_path r = path \<and> r_method r = m) rs) =
     filter (\<lambda>(m', p, f). p = path \<and> m' = m) (map (\<lambda>r. (r_method r, r_path r, r_endpoint r)) rs)"
  by (induction rs) auto

lemma match_route_dispatch:
  "map_sum id r_endpoint (match_route (routes a) m path) = dispatch (table a) m path"
proof -
  let ?F = "filter (\<lambda>r. r_path r = path \<and> r_method r = m) (routes a)"
  have tbl: "filter (\<lambda>(m', p, f). p = path \<and> m' = m) (table a) =
      map (\<lambda>r. (r_method r, r_path r, r_endpoint r)) ?F"
    unfolding table_def by (rule filter_table [symmetric])
  have paths: "(\<exists>(m', p', f) \<in> set (table a). p' = p) \<longleftrightarrow> (\<exists>r \<in> set (routes a). r_path r = p)" for p
    unfolding table_def by auto
  show ?thesis
  proof (cases ?F)
    case Nil
    then show ?thesis
      unfolding match_route_def dispatch_def tbl paths by simp
  next
    case (Cons r full)
    then show ?thesis
      unfolding match_route_def dispatch_def tbl by simp
  qed
qed

lemma receive_eq:
  "receive a fs ds m path b s =
     (case dispatch (table a) m path of Inl r \<Rightarrow> (r, s) | Inr f \<Rightarrow> f fs ds b s)"
  unfolding match_route_dispatch [symmetric]
  by (cases "match_route (routes a) m path") (simp_all add: receive_def)

lemma dispatch_Inr: "dispatch t m path = Inr f \<Longrightarrow> (m, path, f) \<in> set t"
proof -
  assume a: "dispatch t m path = Inr f"
  show ?thesis
  proof (cases "filter (\<lambda>(m', p, f). p = path \<and> m' = m) t")
    case Nil
    with a show ?thesis by (simp add: dispatch_def split: if_splits)
  next
    case (Cons x full)
    obtain m' p f' where x: "x = (m', p, f')" by (cases x)
    from Cons have "x \<in> set (filter (\<lambda>(m', p, f). p = path \<and> m' = m) t)" by simp
    with x have "(m', p, f') \<in> set t" "p = path" "m' = m" by auto
    moreover from a Cons x have "f' = f" by (simp add: dispatch_def)
    ultimately show ?thesis by simp
  qed
qed

text \<open>A request that matches no route is answered without touching the state.\<close>

lemma receive_unrouted:
  "match_route (routes a) m path = Inl r \<Longrightarrow> receive a fs ds m path b s = (r, s)"
  by (simp add: receive_def)

lemma receive_routed:
  "match_route (routes a) m path = Inr r \<Longrightarrow> receive a fs ds m path b s = r_endpoint r fs ds b s"
  by (simp add: receive_def)

text \<open>
  A validated body that is printed as a request body validates to itself: the fields a
  client sends are the fields the route receives.
\<close>

lemma ChoroplethData_roundtrip: "ChoroplethData_validate (ChoroplethData_dump d) = Inr d"
  by (simp add: ChoroplethData_validate_def ChoroplethData_dump_def no_body_def pydantic_Field_def)

lemma DotPlotData_roundtrip: "DotPlotData_validate (DotPlotData_dump d) = Inr d"
  by (simp add: DotPlotData_validate_def DotPlotData_dump_def no_body_def pydantic_Field_def
      both_def as_number_def as_string_def)

lemma Hist2DData_roundtrip: "Hist2DData_validate (Hist2DData_dump d) = Inr d"
  by (simp add: Hist2DData_validate_def Hist2DData_dump_def no_body_def pydantic_Field_def)

lemma BubbleData_roundtrip: "BubbleData_validate (BubbleData_dump d) = Inr d"
  by (simp add: BubbleData_validate_def BubbleData_dump_def no_body_def pydantic_Field_def
      both_def as_numbers_def as_strings_def)

lemmas body_roundtrips =
  ChoroplethData_roundtrip DotPlotData_roundtrip Hist2DData_roundtrip BubbleData_roundtrip

text \<open>A body whose fields have the wrong shape is rejected before the handler runs.\<close>

lemma validated_Inl: "validate b = Inl errs \<Longrightarrow> validated validate f b s = (RequestValidationError errs, s)"
  by (simp add: validated_def)

lemma validated_Inr: "validate b = Inr d \<Longrightarrow> validated validate f b s = f d s"
  by (simp add: validated_def)

lemma validated_idle:
  assumes "\<And>d. idle (snd (f d s))" and "idle s"
  shows "idle (snd (validated validate f b s))"
  using assms by (cases "validate b") (simp_all add: validated_def)

text \<open>The request that \<open>wire\<close> sends for a typed request is handled by the route of that request.\<close>

lemma receive_wire:
  "(case wire rq of (m, path, b) \<Rightarrow> receive loaded_app fs ds m path b s) = endpoint fs ds rq s"
  by (cases rq)
     (simp_all add: wire_def receive_eq dispatch_def table_loaded_app endpoint_def validated_def
        body_roundtrips)

text \<open>The handler behind each path, and the three answers of the dispatch itself.\<close>

lemma receive_paths:
  "receive loaded_app fs ds GET ''/'' b s = home s"
  "receive loaded_app fs ds GET ''/boundary'' b s = get_boundary ds s"
  "receive loaded_app fs ds GET ''/boundary_with_subsidy'' b s = get_boundary_with_subsidy fs ds s"
  "receive loaded_app fs ds POST ''/choropleth'' b s =
     validated ChoroplethData_validate (create_choropleth ds) b s"
  "receive loaded_app fs ds POST ''/dot'' b s = validated DotPlotData_validate (create_dot_plot ds) b s"
  "receive loaded_app fs ds POST ''/hist2d'' b s = validated Hist2DData_validate (create_hist2d ds) b s"
  "receive loaded_app fs ds POST ''/bubble'' b s = validated BubbleData_validate (create_bubble ds) b s"
  "receive loaded_app fs ds POST ''/cleanup'' b s = manual_cleanup s"
  by (simp_all add: receive_eq dispatch_def table_loaded_app)

lemma receive_errors:
  "receive loaded_app fs ds POST ''/boundary'' b s = (ErrorResponse 405 ''Method Not Allowed'', s)"
  "receive loaded_app fs ds GET ''/cleanup'' b s = (ErrorResponse 405 ''Method Not Allowed'', s)"
  "receive loaded_app fs ds GET ''/boundary/'' b s = (RedirectResponse ''/boundary'', s)"
  "receive loaded_app fs ds GET ''/map'' b s = (ErrorResponse 404 ''Not Found'', s)"
  by (simp_all add: receive_eq dispatch_def table_loaded_app strip_slash_def)

text \<open>Every route keeps the invariant of the service, and so does the dispatch.\<close>

lemma handlers_idle:
  assumes "idle s"
  shows "idle (snd (get_boundary ds s))"
    and "idle (snd (get_boundary_with_subsidy fs ds s))"
    and "idle (snd (create_choropleth ds d1 s))"
    and "idle (snd (create_dot_plot ds d2 s))"
    and "idle (snd (create_hist2d ds d3 s))"
    and "idle (snd (create_bubble ds d4 s))"
  by (simp_all add: get_boundary_def get_boundary_with_subsidy_def create_choropleth_def
      create_dot_plot_def create_hist2d_def create_bubble_def Let_def
      handle_plot_request_idle [OF _ assms] renderers)

lemma route_idle:
  "list_all (\<lambda>(m, path, f). \<forall>fs ds b s. idle s \<longrightarrow> idle (snd (f fs ds b s))) (table loaded_app)"
  unfolding table_loaded_app
  by (simp add: handlers_idle home_idle manual_cleanup_idle validated_idle)

lemma receive_idle:
  assumes "idle s"
  shows "idle (snd (receive loaded_app fs ds m path b s))"
proof (cases "dispatch (table loaded_app) m path")
  case (Inl r)
  with assms show ?thesis by (simp add: receive_eq)
next
  case (Inr f)
  from dispatch_Inr [OF this] route_idle assms have "idle (snd (f fs ds b s))"
    unfolding list_all_iff by blast
  with Inr show ?thesis by (simp add: receive_eq)
qed


text \<open>
  No handler answers with a redirection, and the dispatch redirects only to the path of
  a route: a redirection is never answered by another one.
\<close>

lemma is_redirect_simps [simp]:
  "is_redirect (RedirectResponse url)"
  "\<not> is_redirect (StreamingResponse buf mt)"
  "\<not> is_redirect (HTTPException code e)"
  "\<not> is_redirect (JSONResponse obj)"
  "\<not> is_redirect (TemplateResponse d t)"
  "\<not> is_redirect (ErrorResponse code detail)"
  "\<not> is_redirect (RequestValidationError errs)"
  "\<not> is_redirect (Documentation path)"
  by (simp_all add: is_redirect_def)

lemma is_redirect_iff: "is_redirect r \<longleftrightarrow> (\<exists>url. r = RedirectResponse url)"
  by (cases r) simp_all

lemma handle_plot_request_no_redirect:
  "renderer f \<Longrightarrow> \<not> is_redirect (fst (handle_plot_request f s))"
  by (simp add: handle_plot_request_eq Let_def split: sum.splits)

lemma handlers_no_redirect:
  "\<not> is_redirect (fst (get_boundary ds s))"
  "\<not> is_redirect (fst (get_boundary_with_subsidy fs ds s))"
  "\<not> is_redirect (fst (create_choropleth ds d1 s))"
  "\<not> is_redirect (fst (create_dot_plot ds d2 s))"
  "\<not> is_redirect (fst (create_hist2d ds d3 s))"
  "\<not> is_redirect (fst (create_bubble ds d4 s))"
  "\<not> is_redirect (fst (home s))"
  "\<not> is_redirect (fst (manual_cleanup s))"
  by (simp_all add: get_boundary_def get_boundary_with_subsidy_def create_choropleth_def
      create_dot_plot_def create_hist2d_def create_bubble_def Let_def home_def manual_cleanup_def
      handle_plot_request_no_redirect renderers)

lemma validated_no_redirect:
  "(\<And>d. \<not> is_redirect (fst (f d s))) \<Longrightarrow> \<not> is_redirect (fst (validated validate f b s))"
  by (cases "validate b") (simp_all add: validated_def)

lemma route_no_redirect:
  "list_all (\<lambda>(m, path, f). \<forall>fs ds b s. \<not> is_redirect (fst (f fs ds b s))) (table loaded_app)"
  unfolding table_loaded_app by (simp add: handlers_no_redirect validated_no_redirect)

lemma dispatch_redirect:
  assumes "dispatch t m path = Inl r" and "is_redirect r"
  shows "r = RedirectResponse (strip_slash path)"
    and "\<exists>(m', p, f) \<in> set t. p = strip_slash path"
    and "\<not> (\<exists>(m', p, f) \<in> set t. p = path)"
  using assms by (auto simp: dispatch_def split: list.splits if_splits)

lemma dispatch_known_path:
  assumes "\<exists>(m', p, f) \<in> set t. p = path" and "dispatch t m path = Inl r"
  shows "r = ErrorResponse 405 ''Method Not Allowed''"
  using assms by (auto simp: dispatch_def split: list.splits if_splits)

lemma receive_redirect:
  assumes "fst (receive loaded_app fs ds m path b s) = RedirectResponse p"
  shows "snd (receive loaded_app fs ds m path b s) = s"
    and "\<not> is_redirect (fst (receive loaded_app fs' ds' m' p b' s'))"
proof -
  let ?t = "table loaded_app"
  have inl: "dispatch ?t m path = Inl (RedirectResponse p)"
  proof (cases "dispatch ?t m path")
    case (Inl r)
    with assms show ?thesis by (simp add: receive_eq)
  next
    case (Inr f)
    from dispatch_Inr [OF this] route_no_redirect
    have "\<not> is_redirect (fst (f fs ds b s))" unfolding list_all_iff by blast
    with Inr assms show ?thesis by (simp add: receive_eq)
  qed
  then show "snd (receive loaded_app fs ds m path b s) = s" by (simp add: receive_eq)
  from dispatch_redirect(1,2) [OF inl] have known: "\<exists>(m', p', f) \<in> set ?t. p' = p" by simp
  show "\<not> is_redirect (fst (receive loaded_app fs' ds' m' p b' s'))"
  proof (cases "dispatch ?t m' p")
    case (Inl r)
    with dispatch_known_path [OF known Inl] show ?thesis by (simp add: receive_eq)
  next
    case (Inr f)
    from dispatch_Inr [OF this] route_no_redirect
    have "\<not> is_redirect (fst (f fs' ds' b' s'))" unfolding list_all_iff by blast
    with Inr show ?thesis by (simp add: receive_eq)
  qed
qed


text \<open>
  The status of an answer: a handler answers 200 or 500, a rejected body is answered 422
  before the handler runs, and the dispatch itself answers 307, 404 or 405.
\<close>

lemma handle_plot_request_settled: "renderer f \<Longrightarrow> settled s (handle_plot_request f s)"
  by (simp add: settled_def handle_plot_request_eq Let_def split: sum.splits)

lemma handlers_settled:
  "settled s (get_boundary ds s)"
  "settled s (get_boundary_with_subsidy fs ds s)"
  "settled s (create_choropleth ds d1 s)"
  "settled s (create_dot_plot ds d2 s)"
  "settled s (create_hist2d ds d3 s)"
  "settled s (create_bubble ds d4 s)"
  "settled s (home s)"
  "settled s (manual_cleanup s)"
  "settled s (Documentation path, s)"
  by (simp_all add: get_boundary_def get_boundary_with_subsidy_def create_choropleth_def
      create_dot_plot_def create_hist2d_def create_bubble_def handle_plot_request_settled renderers)
     (simp_all add: settled_def home_def manual_cleanup_def Let_def)

lemma validated_settled: "(\<And>d. settled s (f d s)) \<Longrightarrow> settled s (validated validate f b s)"
  by (cases "validate b") (simp_all add: validated_def, simp add: settled_def)

lemma route_settled:
  "list_all (\<lambda>(m, path, f). \<forall>fs ds b s. settled s (f fs ds b s)) (table loaded_app)"
  unfolding table_loaded_app by (simp add: handlers_settled validated_settled)

lemma dispatch_Inl:
  "dispatch t m path = Inl r \<Longrightarrow>
     r = ErrorResponse 405 ''Method Not Allowed'' \<or> r = ErrorResponse 404 ''Not Found'' \<or>
     r = RedirectResponse (strip_slash path)"
  by (auto simp: dispatch_def split: list.splits if_splits)

lemma receive_cases:
  obtains (unrouted) r where "receive loaded_app fs ds m path b s = (r, s)"
      and "status_code r = 405 \<or> status_code r = 404 \<or> status_code r = 307"
    | (routed) "settled s (receive loaded_app fs ds m path b s)"
proof (cases "dispatch (table loaded_app) m path")
  case (Inl r)
  from dispatch_Inl [OF Inl] have "status_code r = 405 \<or> status_code r = 404 \<or> status_code r = 307"
    by auto
  with Inl unrouted show ?thesis by (simp add: receive_eq)
next
  case (Inr f)
  from dispatch_Inr [OF this] route_settled have "settled s (f fs ds b s)"
    unfolding list_all_iff by blast
  with Inr routed show ?thesis by (simp add: receive_eq)
qed

text \<open>States reached through typed requests are states reached over HTTP.\<close>

lemma served_idle: "served fs ds s \<Longrightarrow> idle s"
  by (induction rule: served.induct) (simp_all add: lifespan_startup_idle receive_idle)

lemma reachable_served: "reachable fs ds s \<Longrightarrow> served fs ds s"
proof (induction rule: reachable.induct)
  case (startup s)
  show ?case by (rule served.startup)
next
  case (request s rq)
  obtain m path b where w: "wire rq = (m, path, b)" by (cases "wire rq")
  with receive_wire [where rq = rq and fs = fs and ds = ds and s = s] have "endpoint fs ds rq s = receive loaded_app fs ds m path b s"
    by simp
  with served.request [OF request.IH] show ?case by simp
qed

text \<open>
  Well-formed route tables: the decorators keep a table well formed as long as they add a
  new pair of method and path, and in a well-formed table every route is found.
\<close>

lemma table_add_api_route:
  "table (add_api_route r a) = table a @ [(r_method r, r_path r, r_endpoint r)]"
  by (simp add: table_def add_api_route_def)

lemma add_api_route_well_formed:
  assumes "well_formed a" and "(r_method r, r_path r) \<notin> (\<lambda>(m, p, f). (m, p)) ` set (table a)"
    and "r_path r \<noteq> []" and "hd (r_path r) = CHR ''/''"
  shows "well_formed (add_api_route r a)"
  using assms by (simp add: well_formed_def table_add_api_route)



text \<open>A bubble request whose sizes are neither one nor as many as the points is answered 500.\<close>

lemma create_bubble_sizes:
  assumes "length (bd_size d) \<notin> {1, length (bd_x d)}"
  shows "status_code (fst (create_bubble ds d s)) = 500"
proof -
  let ?p = "BubbleParams_init (bd_x d) (bd_y d) (Some (bd_size d)) (Some (bd_color d)) (bd_alpha d)"
  have p: "bp_x ?p = bd_x d" "bp_size ?p = Some (bd_size d)"
    by (simp_all add: BubbleParams_init_def BubbleParams_post_init_def)
  with assms have "scatter_error (bp_x ?p) (bp_y ?p) (bp_size ?p) (bp_color ?p) \<noteq> None"
    by (simp add: scatter_error_def scatter_sizes_def)
  then have "\<exists>e. fst (plot_bubble graph_instance ds ?p plt) = Inl e" for plt
    unfolding graph_instance_def plot_bubble_eq
    by (cases "fst (plot_boundary (fst (Graph_init FigConfig [])) ds plt)") auto
  then show ?thesis
    unfolding create_bubble_def Let_def handle_plot_request_eq [OF renderers(4)]
    by (metis (no_types, lifting) fst_conv status_code_simps(2) sum.case(1))
qed

section \<open>Properties of the service\<close>

text \<open>Claim C3: between two requests no figure is registered with pyplot: in every state
  the service reaches after its start-up, whatever the requests and whether they were
  answered with an image or an error, the list of open figures is empty.\<close>

theorem server_no_open_figure:
  assumes "reachable fs ds s"
  shows "fignums (plt s) = []"
  using reachable_idle [OF assms] by (simp add: idle_def)

theorem server_no_open_figure_witness:
  "reachable sample_files sample_store (snd (endpoint sample_files sample_store GET_boundary (lifespan_startup busy_server))) \<and>
   fignums (plt (snd (endpoint sample_files sample_store GET_boundary (lifespan_startup busy_server)))) = []"
  using server_no_open_figure [OF busy_reachable [of sample_files sample_store]] busy_reachable [of sample_files sample_store]
  by simp

text \<open>In every state the service reaches, \<open>request_counter\<close> is at least 0 and
  below \<open>CLEANUP_INTERVAL\<close>, which is 50.\<close>

theorem server_counter_range:
  assumes "reachable fs ds s"
  shows "0 \<le> request_counter s \<and> request_counter s < 50"
  using reachable_idle [OF assms] by (simp add: idle_def CLEANUP_INTERVAL_def)

theorem server_counter_range_witness:
  "reachable sample_files sample_store (snd (endpoint sample_files sample_store POST_cleanup (lifespan_startup busy_server))) \<and>
   0 \<le> request_counter (snd (endpoint sample_files sample_store POST_cleanup (lifespan_startup busy_server))) \<and>
   request_counter (snd (endpoint sample_files sample_store POST_cleanup (lifespan_startup busy_server))) < 50"
proof -
  have r: "reachable sample_files sample_store (snd (endpoint sample_files sample_store POST_cleanup (lifespan_startup busy_server)))"
    by (intro reachable.intros)
  from server_counter_range [OF r] r show ?thesis by simp
qed

text \<open>Claim C36: after \<open>n\<close> plotting requests since the start-up, none of them a manual
  cleanup, \<open>request_counter\<close> is \<open>n mod 50\<close>: the periodic cleanup runs on every fiftieth
  plotting request and on no other, whether the requests succeed or fail.\<close>

theorem serve_counter:
  assumes "list_all plot_request rqs"
  shows "request_counter (serve fs ds rqs (lifespan_startup s)) = int (length rqs mod 50)"
  using assms
proof (induction rqs rule: rev_induct)
  case Nil
  then show ?case by (simp add: serve_def lifespan_startup_def Let_def)
next
  case (snoc rq rqs)
  have "length rqs mod 50 < 50" by simp
  then have "int (Suc (length rqs) mod 50) =
      (if int (length rqs mod 50) + 1 \<ge> 50 then 0 else int (length rqs mod 50) + 1)"
    by (simp add: mod_Suc) linarith
  with snoc show ?case
    by (simp add: serve_snoc endpoint_counter CLEANUP_INTERVAL_def)
qed

theorem serve_counter_witness:
  "list_all plot_request (replicate 51 GET_boundary) \<and>
   request_counter (serve sample_files sample_store (replicate 51 GET_boundary) (lifespan_startup busy_server)) = 1"
proof -
  have l: "list_all plot_request (replicate 51 GET_boundary)"
    by (simp add: list_all_iff plot_request_def)
  from serve_counter [OF l, of sample_files sample_store busy_server] l show ?thesis by simp
qed

text \<open>Claim C13: for every renderer, \<open>handle_plot_request\<close> first counts the request; when
  the renderer returns a figure, the answer is the PNG of that figure, rendered tightly
  at 300 dpi, and the figure is closed again, so that pyplot is as the counting left it;
  when the renderer raises, the answer has status 500 and carries the exception, and all
  figures are closed.\<close>

theorem handle_plot_request_outcome:
  assumes "renderer f"
  shows "handle_plot_request f s =
     (case fst (f (plt (cleanup_memory_if_needed s))) of
        Inr fig \<Rightarrow> (StreamingResponse (image_buffer (PNG fig ''tight'' 300)) ''image/png'', cleanup_memory_if_needed s)
      | Inl e \<Rightarrow> (HTTPException 500 e,
          (cleanup_memory_if_needed s)\<lparr>plt := \<lparr>fignums = [], max_open_warning = default_max_open_warning\<rparr>\<rparr>))"
  by (simp add: handle_plot_request_eq [OF assms] Let_def cleanup_memory_def rcdefaults_def close_all_def
      split: sum.splits)

theorem handle_plot_request_outcome_witness:
  "renderer (plot_boundary graph_instance sample_store) \<and>
   handle_plot_request (plot_boundary graph_instance sample_store) \<lparr>request_counter = 0, plt = plt0, console = []\<rparr> =
     (StreamingResponse (image_buffer (PNG sample_boundary ''tight'' 300)) ''image/png'',
      \<lparr>request_counter = 1, plt = plt0, console = []\<rparr>)"
  using handle_plot_request_outcome [OF renderers(1), of sample_store "\<lparr>request_counter = 0, plt = plt0, console = []\<rparr>"]
    renderers(1) [of sample_store]
  by (simp add: cleanup_memory_if_needed_eq CLEANUP_INTERVAL_def graph_instance_def sample_boundary_eq)

text \<open>The assignment \<^verbatim>\<open>rcParams["figure.max_open_warning"] = 0\<close> made when
  \<^verbatim>\<open>graph.py\<close> is imported does not survive the start-up: \<open>cleanup_memory\<close> resets the
  parameters, and in every state the service reaches the entry has its default, 20.\<close>

theorem server_max_open_warning:
  assumes "reachable fs ds s"
  shows "max_open_warning (plt s) = 20"
  using reachable_idle [OF assms] by (simp add: idle_def default_max_open_warning_def)

theorem server_max_open_warning_witness:
  "reachable sample_files sample_store (lifespan_startup \<lparr>request_counter = 0, plt = graph_module plt0, console = []\<rparr>) \<and>
   max_open_warning (graph_module plt0) = 0 \<and>
   max_open_warning (plt (lifespan_startup \<lparr>request_counter = 0, plt = graph_module plt0, console = []\<rparr>)) = 20"
proof -
  have r: "reachable sample_files sample_store (lifespan_startup \<lparr>request_counter = 0, plt = graph_module plt0, console = []\<rparr>)"
    by (rule reachable.startup)
  from server_max_open_warning [OF r] r show ?thesis by (simp add: graph_module_def)
qed




text \<open>Claim C15: in every state the service reaches over HTTP, whatever the methods, paths
  and bodies of the requests it received, \<open>request_counter\<close> is at least 0 and below
  \<open>CLEANUP_INTERVAL\<close>, and no figure is registered with pyplot.\<close>

theorem served_counter_bounds:
  assumes "served fs ds s"
  shows "0 \<le> request_counter s \<and> request_counter s < CLEANUP_INTERVAL \<and> fignums (plt s) = []"
  using served_idle [OF assms] by (simp add: idle_def)

theorem served_counter_bounds_witness:
  "served sample_files sample_store
     (snd (receive loaded_app sample_files sample_store GET ''/map'' no_body (lifespan_startup busy_server))) \<and>
   request_counter
     (snd (receive loaded_app sample_files sample_store GET ''/map'' no_body (lifespan_startup busy_server))) = 0"
proof -
  have r: "served sample_files sample_store
     (snd (receive loaded_app sample_files sample_store GET ''/map'' no_body (lifespan_startup busy_server)))"
    by (intro served.intros)
  from served_counter_bounds [OF r] r show ?thesis
    by (simp add: receive_errors lifespan_startup_def Let_def)
qed

text \<open>Claim C18: every request is answered with one of the status codes 200, 307, 404, 405,
  422 and 500, and an answer other than 200 and 500 leaves the state of the service as it
  was: a request that matches no route, or whose body is rejected, is not counted.\<close>

theorem receive_status:
  assumes "receive loaded_app fs ds m path b s = (r, s')"
  shows "status_code r \<in> {200, 307, 404, 405, 422, 500} \<and>
     (status_code r \<notin> {200, 500} \<longrightarrow> s' = s)"
  using assms
  by (cases rule: receive_cases [where fs = fs and ds = ds and m = m and path = path and b = b and s = s])
     (auto simp: settled_def)

theorem receive_status_witness:
  "receive loaded_app sample_files sample_store POST ''/boundary'' no_body busy_server =
     (ErrorResponse 405 ''Method Not Allowed'', busy_server) \<and>
   status_code (ErrorResponse 405 ''Method Not Allowed'') = 405"
  using receive_status [where fs = sample_files and ds = sample_store and m = POST
      and path = "''/boundary''" and b = no_body and s = busy_server]
  by (simp add: receive_errors)




text \<open>Claim C30: a body posted to \<^verbatim>\<open>/bubble\<close> that gives coordinates but neither sizes nor
  colours is given the six default sizes of the model; unless it has exactly six points
  it is answered with status 500.\<close>

theorem bubble_request_default_sizes:
  assumes "b_x b = Some xs" and "length xs \<noteq> 6" and "b_size b = None" and "b_color b = None"
  shows "status_code (fst (receive loaded_app fs ds POST ''/bubble'' b s)) = 500"
proof -
  from assms obtain d where d: "BubbleData_validate b = Inr d" "bd_x d = xs" "length (bd_size d) = 6"
    by (simp add: BubbleData_validate_def both_def as_numbers_def as_strings_def pydantic_Field_def)
  with assms(2) have "length (bd_size d) \<notin> {1, length (bd_x d)}" by auto
  from create_bubble_sizes [OF this] d(1) show ?thesis
    by (simp add: receive_paths validated_Inr)
qed

theorem bubble_request_default_sizes_witness:
  "status_code (fst (receive loaded_app sample_files sample_store POST ''/bubble''
     (no_body\<lparr>b_x := Some [121.5, 120.2], b_y := Some [25.0, 23.0]\<rparr>) busy_server)) = 500"
  using bubble_request_default_sizes [where b = "no_body\<lparr>b_x := Some [121.5, 120.2], b_y := Some [25.0, 23.0]\<rparr>"
      and xs = "[121.5, 120.2]" and fs = sample_files and ds = sample_store and s = busy_server]
  by (simp add: no_body_def)

end
