(* ===== verification/Example.thy ===== *)
theory Example
  imports Overlays
begin

text \<open>
  The example script: \<^verbatim>\<open>src/example_usage.py\<close>.

  \<open>main\<close> builds a \<^verbatim>\<open>Graph\<close>, calls the choropleth, density, dot and bubble renderers one
  after the other with sample parameters, and prints a line before and after each.
  It never closes a figure.

  \<^item> The state the script works on is \<open>world\<close>: the state of pyplot, the registered
    fonts, the position of numpy's global random generator in its stream, and the
    lines printed so far. An exception of a renderer ends \<open>main\<close>; \<open>call\<close> is this
    sequencing of a plotting call.
  \<^item> \<open>print\<close> appends a line to the output. \<open>DataFrame_dict\<close> is \<open>pd.DataFrame\<close> on a
    dictionary of columns. \<open>seed\<close> and \<open>uniform\<close> are \<open>np.random.seed\<close> and
    \<open>np.random.uniform\<close>: the stream of samples of \<open>[0, 1)\<close> that the seed selects is an
    argument \<open>u\<close> of \<open>main\<close>, since its values are those of numpy's generator, and
    \<open>uniform\<close> scales the next \<open>n\<close> of them.
  \<^item> \<open>sample_data\<close>, \<open>choropleth_params\<close>, \<open>hist2d_params\<close>, \<open>x_points\<close>, \<open>y_points\<close>,
    \<open>dot_params\<close>, \<open>bubble_sizes\<close>, \<open>bubble_colors\<close> and \<open>bubble_params\<close> are the local
    variables of \<open>main\<close>; the \<open>msg\<close> constants are the printed lines and the \<open>city\<close>
    constants the county names of the sample data.

  The lemmas give the result of \<open>main\<close> in closed form (\<open>main_eq\<close>), the figures it leaves
  open and the inputs on which it runs to the end.
\<close>

record world =
  w_plt :: pyplot
  w_fonts :: font_manager
  w_rng :: nat
  w_stdout :: "pystr list"

definition print :: "pystr \<Rightarrow> world \<Rightarrow> world" where
  "print line w = w\<lparr>w_stdout := w_stdout w @ [line]\<rparr>"

definition seed :: "nat \<Rightarrow> world \<Rightarrow> world" where
  "seed n w = w\<lparr>w_rng := 0\<rparr>"

definition uniform ::
  "(nat \<Rightarrow> pyfloat) \<Rightarrow> pyfloat \<Rightarrow> pyfloat \<Rightarrow> nat \<Rightarrow> world \<Rightarrow> pyfloat list \<times> world" where
  "uniform u low high n w =
     (map (\<lambda>i. low + (high - low) * u (w_rng w + i)) [0..<n], w\<lparr>w_rng := w_rng w + n\<rparr>)"

definition DataFrame_dict :: "(pystr \<times> cell list) list \<Rightarrow> dataframe result" where
  "DataFrame_dict d =
     (if \<exists>c \<in> set d. length (snd c) \<noteq> length (snd (hd d))
      then Inl (ValueError ''All arrays must be of the same length'')
      else Inr \<lparr>columns = map fst d,
                rows = map (\<lambda>i. map (\<lambda>c. (fst c, snd c ! i)) d) [0..<length (snd (hd d))]\<rparr>)"

definition call ::
  "(pyplot \<Rightarrow> figure result \<times> pyplot) \<Rightarrow> (world \<Rightarrow> unit result \<times> world) \<Rightarrow> world \<Rightarrow>
   unit result \<times> world" where
  "call plot k w =
     (case plot (w_plt w) of
        (Inl e, p) \<Rightarrow> (Inl e, w\<lparr>w_plt := p\<rparr>)
      | (Inr fig, p) \<Rightarrow> k (w\<lparr>w_plt := p\<rparr>))"

text \<open>The literals of the script.\<close>

definition msg_choropleth :: pystr where
  "msg_choropleth =
     [CHR 0x31, CHR 0x2E, CHR 0x20, CHR 0xE7, CHR 0xAD, CHR 0x89, CHR 0xE5, CHR 0x80,
      CHR 0xBC, CHR 0xE5, CHR 0x8D, CHR 0x80, CHR 0xE5, CHR 0x9F, CHR 0x9F, CHR 0xE5,
      CHR 0x9C, CHR 0x96, CHR 0xE7, CHR 0xAF, CHR 0x84, CHR 0xE4, CHR 0xBE, CHR 0x8B]"

definition msg_choropleth_done :: pystr where
  "msg_choropleth_done =
     [CHR 0xE7, CHR 0xAD, CHR 0x89, CHR 0xE5, CHR 0x80, CHR 0xBC, CHR 0xE5, CHR 0x8D,
      CHR 0x80, CHR 0xE5, CHR 0x9F, CHR 0x9F, CHR 0xE5, CHR 0x9C, CHR 0x96, CHR 0xE7,
      CHR 0xB9, CHR 0xAA, CHR 0xE8, CHR 0xA3, CHR 0xBD, CHR 0xE5, CHR 0xAE, CHR 0x8C,
      CHR 0xE6, CHR 0x88, CHR 0x90]"

definition msg_hist2d :: pystr where
  "msg_hist2d =
     [CHR 0x32, CHR 0x2E, CHR 0x20, CHR 0x32, CHR 0x44, CHR 0xE7, CHR 0x9B, CHR 0xB4,
      CHR 0xE6, CHR 0x96, CHR 0xB9, CHR 0xE5, CHR 0x9C, CHR 0x96, CHR 0xE7, CHR 0xAF,
      CHR 0x84, CHR 0xE4, CHR 0xBE, CHR 0x8B]"

definition msg_hist2d_done :: pystr where
  "msg_hist2d_done =
     [CHR 0x32, CHR 0x44, CHR 0xE7, CHR 0x9B, CHR 0xB4, CHR 0xE6, CHR 0x96, CHR 0xB9,
      CHR 0xE5, CHR 0x9C, CHR 0x96, CHR 0xE7, CHR 0xB9, CHR 0xAA, CHR 0xE8, CHR 0xA3,
      CHR 0xBD, CHR 0xE5, CHR 0xAE, CHR 0x8C, CHR 0xE6, CHR 0x88, CHR 0x90]"

definition msg_dot :: pystr where
  "msg_dot =
     [CHR 0x33, CHR 0x2E, CHR 0x20, CHR 0xE9, CHR 0xBB, CHR 0x9E, CHR 0xE5, CHR 0x9C,
      CHR 0x96, CHR 0xE7, CHR 0xAF, CHR 0x84, CHR 0xE4, CHR 0xBE, CHR 0x8B]"

definition msg_dot_done :: pystr where
  "msg_dot_done =
     [CHR 0xE9, CHR 0xBB, CHR 0x9E, CHR 0xE5, CHR 0x9C, CHR 0x96, CHR 0xE7, CHR 0xB9,
      CHR 0xAA, CHR 0xE8, CHR 0xA3, CHR 0xBD, CHR 0xE5, CHR 0xAE, CHR 0x8C, CHR 0xE6,
      CHR 0x88, CHR 0x90]"

definition msg_bubble :: pystr where
  "msg_bubble =
     [CHR 0x34, CHR 0x2E, CHR 0x20, CHR 0xE6, CHR 0xB0, CHR 0xA3, CHR 0xE6, CHR 0xB3,
      CHR 0xA1, CHR 0xE5, CHR 0x9C, CHR 0x96, CHR 0xE7, CHR 0xAF, CHR 0x84, CHR 0xE4,
      CHR 0xBE, CHR 0x8B]"

definition msg_bubble_done :: pystr where
  "msg_bubble_done =
     [CHR 0xE6, CHR 0xB0, CHR 0xA3, CHR 0xE6, CHR 0xB3, CHR 0xA1, CHR 0xE5, CHR 0x9C,
      CHR 0x96, CHR 0xE7, CHR 0xB9, CHR 0xAA, CHR 0xE8, CHR 0xA3, CHR 0xBD, CHR 0xE5,
      CHR 0xAE, CHR 0x8C, CHR 0xE6, CHR 0x88, CHR 0x90]"

definition msg_all_done :: pystr where
  "msg_all_done =
     [CHR 0x0A, CHR 0xE6, CHR 0x89, CHR 0x80, CHR 0xE6, CHR 0x9C, CHR 0x89, CHR 0xE5,
      CHR 0x9C, CHR 0x96, CHR 0xE8, CHR 0xA1, CHR 0xA8, CHR 0xE7, CHR 0xB9, CHR 0xAA,
      CHR 0xE8, CHR 0xA3, CHR 0xBD, CHR 0xE5, CHR 0xAE, CHR 0x8C, CHR 0xE6, CHR 0x88,
      CHR 0x90, CHR 0xEF, CHR 0xBC, CHR 0x81]"

definition msg_advantages :: pystr where
  "msg_advantages =
     [CHR 0x0A, CHR 0xE4, CHR 0xBD, CHR 0xBF, CHR 0xE7, CHR 0x94, CHR 0xA8, CHR 0xE7,
      CHR 0x89, CHR 0xA9, CHR 0xE4, CHR 0xBB, CHR 0xB6, CHR 0xE5, CHR 0x8C, CHR 0x96,
      CHR 0xE5, CHR 0x8F, CHR 0x83, CHR 0xE6, CHR 0x95, CHR 0xB8, CHR 0xE7, CHR 0x9A,
      CHR 0x84, CHR 0xE5, CHR 0x84, CHR 0xAA, CHR 0xE9, CHR 0xBB, CHR 0x9E, CHR 0xEF,
      CHR 0xBC, CHR 0x9A]"

definition msg_clear :: pystr where
  "msg_clear =
     [CHR 0x2D, CHR 0x20, CHR 0xE5, CHR 0x8F, CHR 0x83, CHR 0xE6, CHR 0x95, CHR 0xB8,
      CHR 0xE7, CHR 0xB5, CHR 0x84, CHR 0xE7, CHR 0xB9, CHR 0x94, CHR 0xE6, CHR 0x9B,
      CHR 0xB4, CHR 0xE6, CHR 0xB8, CHR 0x85, CHR 0xE6, CHR 0x99, CHR 0xB0]"

definition msg_type_safe :: pystr where
  "msg_type_safe =
     [CHR 0x2D, CHR 0x20, CHR 0xE9, CHR 0xA1, CHR 0x9E, CHR 0xE5, CHR 0x9E, CHR 0x8B,
      CHR 0xE5, CHR 0xAE, CHR 0x89, CHR 0xE5, CHR 0x85, CHR 0xA8]"

definition msg_reuse :: pystr where
  "msg_reuse =
     [CHR 0x2D, CHR 0x20, CHR 0xE6, CHR 0x9B, CHR 0xB4, CHR 0xE5, CHR 0xAE, CHR 0xB9,
      CHR 0xE6, CHR 0x98, CHR 0x93, CHR 0xE9, CHR 0x87, CHR 0x8D, CHR 0xE7, CHR 0x94,
      CHR 0xA8, CHR 0xE5, CHR 0x92, CHR 0x8C, CHR 0xE4, CHR 0xBF, CHR 0xAE, CHR 0xE6,
      CHR 0x94, CHR 0xB9, CHR 0xE5, CHR 0x8F, CHR 0x83, CHR 0xE6, CHR 0x95, CHR 0xB8]"

definition msg_defaults :: pystr where
  "msg_defaults =
     [CHR 0x2D, CHR 0x20, CHR 0xE6, CHR 0x94, CHR 0xAF, CHR 0xE6, CHR 0x8C, CHR 0x81,
      CHR 0xE9, CHR 0xA0, CHR 0x90, CHR 0xE8, CHR 0xA8, CHR 0xAD, CHR 0xE5, CHR 0x80,
      CHR 0xBC, CHR 0xE5, CHR 0x92, CHR 0x8C, CHR 0xE9, CHR 0xA9, CHR 0x97, CHR 0xE8,
      CHR 0xAD, CHR 0x89]"

definition taipei_city :: pystr where
  "taipei_city =
     [CHR 0xE5, CHR 0x8F, CHR 0xB0, CHR 0xE5, CHR 0x8C, CHR 0x97, CHR 0xE5, CHR 0xB8,
      CHR 0x82]"

definition new_taipei_city :: pystr where
  "new_taipei_city =
     [CHR 0xE6, CHR 0x96, CHR 0xB0, CHR 0xE5, CHR 0x8C, CHR 0x97, CHR 0xE5, CHR 0xB8,
      CHR 0x82]"

definition taoyuan_city :: pystr where
  "taoyuan_city =
     [CHR 0xE6, CHR 0xA1, CHR 0x83, CHR 0xE5, CHR 0x9C, CHR 0x92, CHR 0xE5, CHR 0xB8,
      CHR 0x82]"

definition taichung_city :: pystr where
  "taichung_city =
     [CHR 0xE5, CHR 0x8F, CHR 0xB0, CHR 0xE4, CHR 0xB8, CHR 0xAD, CHR 0xE5, CHR 0xB8,
      CHR 0x82]"

definition tainan_city :: pystr where
  "tainan_city =
     [CHR 0xE5, CHR 0x8F, CHR 0xB0, CHR 0xE5, CHR 0x8D, CHR 0x97, CHR 0xE5, CHR 0xB8,
      CHR 0x82]"

definition kaohsiung_city :: pystr where
  "kaohsiung_city =
     [CHR 0xE9, CHR 0xAB, CHR 0x98, CHR 0xE9, CHR 0x9B, CHR 0x84, CHR 0xE5, CHR 0xB8,
      CHR 0x82]"

text \<open>The local variables of \<open>main\<close>.\<close>

definition sample_data :: "dataframe result" where
  "sample_data =
     DataFrame_dict
       [(''county'', map Str [taipei_city, new_taipei_city, taoyuan_city, taichung_city,
                             tainan_city, kaohsiung_city]),
        (''population'', map Num [2600000, 4000000, 2250000, 2800000, 1880000, 2770000])]"

definition choropleth_params :: "dataframe \<Rightarrow> ChoroplethParams" where
  "choropleth_params data =
     \<lparr>cp_data = data, cp_column = ''population'', cp_level = ''county'',
      cp_cmap = ''GnBu'', cp_colorbar_format = ''{x:,.0f}'', cp_colorbar_tick_visible = True\<rparr>"

definition hist2d_params :: "pyfloat list \<Rightarrow> pyfloat list \<Rightarrow> Hist2DParams" where
  "hist2d_params x_coords y_coords =
     \<lparr>hp_x = x_coords, hp_y = y_coords, hp_bins = 50, hp_cmap = ''Reds'', hp_alpha = 0.7,
      hp_cmin = 2\<rparr>"

definition x_points :: "pyfloat list" where
  "x_points = [121.5, 121.0, 120.7, 120.2, 120.5, 120.3]"

definition y_points :: "pyfloat list" where
  "y_points = [25.0, 24.8, 24.2, 23.5, 22.8, 22.6]"

definition dot_params :: DotParams where
  "dot_params =
     \<lparr>dp_x = x_points, dp_y = y_points, dp_size = 50, dp_color = ''blue'', dp_alpha = 0.8\<rparr>"

definition bubble_sizes :: "pyfloat list" where
  "bubble_sizes = [100, 200, 150, 300, 250, 180]"

definition bubble_colors :: "pystr list" where
  "bubble_colors = [''red'', ''green'', ''blue'', ''orange'', ''purple'', ''yellow'']"

definition bubble_params :: BubbleParams where
  "bubble_params =
     BubbleParams_init x_points y_points (Some bubble_sizes) (Some bubble_colors) 0.6"

definition main :: "(nat \<Rightarrow> pyfloat) \<Rightarrow> datasets \<Rightarrow> world \<Rightarrow> unit result \<times> world" where
  "main u ds w =
     (case Graph_init FigConfig (w_fonts w) of (graph, fm) \<Rightarrow>
      let w = w\<lparr>w_fonts := fm\<rparr>;
          w = print msg_choropleth w
      in case sample_data of
           Inl e \<Rightarrow> (Inl e, w)
         | Inr data \<Rightarrow>
      call (plot_choropleth graph ds (choropleth_params data)) (\<lambda>w.
      let w = print msg_choropleth_done w;
          w = print msg_hist2d w;
          w = seed 42 w
      in case uniform u 119 122 1000 w of (x_coords, w) \<Rightarrow>
         case uniform u 22 25 1000 w of (y_coords, w) \<Rightarrow>
      call (plot_hist2d graph ds (hist2d_params x_coords y_coords)) (\<lambda>w.
      let w = print msg_hist2d_done w;
          w = print msg_dot w
      in
      call (plot_dot graph ds dot_params) (\<lambda>w.
      let w = print msg_dot_done w;
          w = print msg_bubble w
      in
      call (plot_bubble graph ds bubble_params) (\<lambda>w.
      let w = print msg_bubble_done w;
          w = print msg_all_done w;
          w = print msg_advantages w;
          w = print msg_clear w;
          w = print msg_type_safe w;
          w = print msg_reuse w;
          w = print msg_defaults w
      in (Inr (), w)) w) w) w) w)"


text \<open>The figures a run leaves open: \<open>opened n p\<close> is pyplot after \<open>n\<close> figures were
  created and none was closed.\<close>

definition opened :: "nat \<Rightarrow> pyplot \<Rightarrow> pyplot" where
  "opened n p = p\<lparr>fignums := fignums p @ map (\<lambda>i. next_num (fignums p) + i) [0..<n]\<rparr>"

definition messages :: "pystr list" where
  "messages =
     [msg_choropleth, msg_choropleth_done, msg_hist2d, msg_hist2d_done, msg_dot, msg_dot_done,
      msg_bubble, msg_bubble_done, msg_all_done, msg_advantages, msg_clear, msg_type_safe,
      msg_reuse, msg_defaults]"

definition w0 :: world where
  "w0 = \<lparr>w_plt = plt0, w_fonts = [], w_rng = 7, w_stdout = []\<rparr>"


section \<open>Sequencing\<close>

lemma call_eq:
  "call plot k w =
     (case fst (plot (w_plt w)) of
        Inl e \<Rightarrow> (Inl e, w\<lparr>w_plt := snd (plot (w_plt w))\<rparr>)
      | Inr fig \<Rightarrow> k (w\<lparr>w_plt := snd (plot (w_plt w))\<rparr>))"
  by (simp add: call_def case_prod_unfold split: sum.splits)

lemma call_ok:
  assumes "\<And>p. \<exists>fig. fst (plot p) = Inr fig"
  shows "call plot k w = k (w\<lparr>w_plt := snd (plot (w_plt w))\<rparr>)"
  using assms [of "w_plt w"] by (auto simp: call_eq)

lemma opened_0 [simp]: "opened 0 p = p"
  by (simp add: opened_def)

lemma opened_Suc: "opened (Suc n) p = (opened n p)\<lparr>fignums := fignums (opened n p) @ [next_num (fignums p) + n]\<rparr>"
  by (simp add: opened_def)

lemma next_num_opened: "next_num (fignums (opened n p)) = next_num (fignums p) + n"
proof (induction n)
  case (Suc n)
  from next_num_snoc [of "fignums (opened n p)"] Suc show ?case
    by (simp add: opened_Suc)
qed simp

lemma opens_one:
  "snd (plot_choropleth self ds cp (opened n p)) = opened (Suc n) p"
  "snd (plot_hist2d self ds hp (opened n p)) = opened (Suc n) p"
  "snd (plot_dot self ds dp (opened n p)) = opened (Suc n) p"
  "snd (plot_bubble self ds bp (opened n p)) = opened (Suc n) p"
  by (simp_all add: plot_choropleth_plt plot_hist2d_plt plot_dot_plt plot_bubble_plt
      plot_boundary_plt base_plt opened_Suc next_num_opened)

lemma print_fields [simp]:
  "w_plt (print l w) = w_plt w" "w_fonts (print l w) = w_fonts w" "w_rng (print l w) = w_rng w"
  "w_stdout (print l w) = w_stdout w @ [l]"
  by (simp_all add: print_def)

lemma uniform_fields [simp]:
  "w_plt (snd (uniform u lo hi n w)) = w_plt w" "w_stdout (snd (uniform u lo hi n w)) = w_stdout w"
  "length (fst (uniform u lo hi n w)) = n"
  by (simp_all add: uniform_def)

lemma seed_fields [simp]: "w_plt (seed n w) = w_plt w" "w_stdout (seed n w) = w_stdout w"
  by (simp_all add: seed_def)



section \<open>The four calls\<close>

definition sample_frame :: dataframe where
  "sample_frame =
     \<lparr>columns = [''county'', ''population''],
      rows = [[(''county'', Str taipei_city), (''population'', Num 2600000)],
              [(''county'', Str new_taipei_city), (''population'', Num 4000000)],
              [(''county'', Str taoyuan_city), (''population'', Num 2250000)],
              [(''county'', Str taichung_city), (''population'', Num 2800000)],
              [(''county'', Str tainan_city), (''population'', Num 1880000)],
              [(''county'', Str kaohsiung_city), (''population'', Num 2770000)]]\<rparr>"

lemma sample_data_eq: "sample_data = Inr sample_frame"
  by (simp add: sample_data_def DataFrame_dict_def sample_frame_def upt_conv_Cons)

lemma choropleth_params_fields [simp]:
  "cp_data (choropleth_params d) = d" "cp_column (choropleth_params d) = ''population''"
  "cp_level (choropleth_params d) = ''county''"
  by (simp_all add: choropleth_params_def)

lemma hist2d_params_fields [simp]:
  "hp_x (hist2d_params x y) = x" "hp_y (hist2d_params x y) = y" "hp_bins (hist2d_params x y) = 50"
  "hp_cmin (hist2d_params x y) = 2"
  by (simp_all add: hist2d_params_def)

lemma shipped_boundary_ok:
  assumes "ds COUNTY = Some all"
  shows "\<exists>fig. fst (plot_boundary (fst (Graph_init FigConfig fm)) ds p) = Inr fig"
  using assms by (simp add: plot_boundary_ok_iff first_error_FigConfig AREA_RANGE_length)

lemma example_choropleth_ok:
  assumes "ds COUNTY = Some all" and "gdf_columns all [''COUNTYNAME'']"
  shows "\<exists>fig. fst (plot_choropleth (fst (Graph_init FigConfig fm)) ds (choropleth_params sample_frame) p) =
     Inr fig"
  using assms
  by (intro plot_choropleth_total [where geo = all and all = all])
     (simp_all add: first_error_FigConfig AREA_RANGE_length choropleth_path_def choropleth_kwargs_def
       column_cells_def sample_frame_def cell_of_def)

lemma example_hist2d_ok:
  assumes "ds COUNTY = Some all" and "length x = length y"
  shows "\<exists>fig. fst (plot_hist2d (fst (Graph_init FigConfig fm)) ds (hist2d_params x y) p) = Inr fig"
  using assms shipped_boundary_ok [where ds = ds, OF assms(1)]
  by (simp add: plot_hist2d_ok_iff AREA_RANGE_keys histogram2d_error_def ordered_def range_of_def)

lemma example_dot_ok:
  assumes "ds COUNTY = Some all"
  shows "\<exists>fig. fst (plot_dot (fst (Graph_init FigConfig fm)) ds dot_params p) = Inr fig"
  using shipped_boundary_ok [where ds = ds and fm = fm and p = p, OF assms]
  by (auto simp: plot_dot_eq scatter_error_def scatter_sizes_def scatter_colors_def dot_params_def
      x_points_def y_points_def)

lemma example_bubble_ok:
  assumes "ds COUNTY = Some all"
  shows "\<exists>fig. fst (plot_bubble (fst (Graph_init FigConfig fm)) ds bubble_params p) = Inr fig"
  using shipped_boundary_ok [where ds = ds and fm = fm and p = p, OF assms]
  by (auto simp: plot_bubble_eq scatter_error_def scatter_sizes_def scatter_colors_def
      bubble_params_def x_points_def y_points_def bubble_sizes_def bubble_colors_def)

lemma opens:
  "snd (plot_choropleth self ds cp p) = opened 1 p"
  "snd (plot_hist2d self ds hp (opened 1 p)) = opened 2 p"
  "snd (plot_dot self ds dp (opened 2 p)) = opened 3 p"
  "snd (plot_bubble self ds bp (opened 3 p)) = opened 4 p"
  using opens_one(1) [of self ds cp 0 p] opens_one(2) [of self ds hp 1 p]
    opens_one(3) [of self ds dp 2 p] opens_one(4) [of self ds bp 3 p]
  by (simp_all add: eval_nat_numeral)

text \<open>A run to the end.\<close>

lemma main_run:
  assumes "ds COUNTY = Some all" and "gdf_columns all [''COUNTYNAME'']"
  shows "fst (main u ds w) = Inr ()"
    and "w_plt (snd (main u ds w)) = opened 4 (w_plt w)"
    and "w_stdout (snd (main u ds w)) = w_stdout w @ messages"
  unfolding main_def
  by (simp_all add: case_prod_unfold sample_data_eq Let_def
      call_ok [OF example_choropleth_ok [where ds = ds, OF assms]]
      call_ok [OF example_hist2d_ok [where ds = ds, OF assms(1)]]
      call_ok [OF example_dot_ok [where ds = ds, OF assms(1)]]
      call_ok [OF example_bubble_ok [where ds = ds, OF assms(1)]]
      opens messages_def del: One_nat_def)


text \<open>Wherever \<open>main\<close> stops, the figures of the renderers it called are open.\<close>

lemma main_stops:
  "w_plt (snd (main u ds w)) \<in>
     {opened 1 (w_plt w), opened 2 (w_plt w), opened 3 (w_plt w), opened 4 (w_plt w)} \<and>
   (fst (main u ds w) = Inr () \<longrightarrow> w_plt (snd (main u ds w)) = opened 4 (w_plt w))"
  unfolding main_def
  by (simp add: case_prod_unfold sample_data_eq Let_def call_eq opens del: One_nat_def
      split: sum.splits)

lemma main_opened:
  "\<exists>k. 1 \<le> k \<and> k \<le> 4 \<and> w_plt (snd (main u ds w)) = opened k (w_plt w) \<and>
     (fst (main u ds w) = Inr () \<longrightarrow> k = 4)"
proof -
  from main_stops [of u ds w] consider
      "w_plt (snd (main u ds w)) = opened 1 (w_plt w)" "fst (main u ds w) \<noteq> Inr ()"
    | "w_plt (snd (main u ds w)) = opened 2 (w_plt w)" "fst (main u ds w) \<noteq> Inr ()"
    | "w_plt (snd (main u ds w)) = opened 3 (w_plt w)" "fst (main u ds w) \<noteq> Inr ()"
    | "w_plt (snd (main u ds w)) = opened 4 (w_plt w)"
    by auto
  then show ?thesis
  proof cases
    case 1 then show ?thesis by (intro exI [of _ 1]) simp
  next
    case 2 then show ?thesis by (intro exI [of _ 2]) simp
  next
    case 3 then show ?thesis by (intro exI [of _ 3]) simp
  next
    case 4 then show ?thesis by (intro exI [of _ 4]) simp
  qed
qed

lemma sample_counties_named: "gdf_columns sample_counties [''COUNTYNAME'']"
  by (simp add: gdf_columns_def sample_counties_def county_defs)


section \<open>Properties of the example script\<close>

text \<open>\<open>main\<close> runs to the end whenever the county dataset can be read and its
  features carry the column \<open>COUNTYNAME\<close>: the four renderers return for the sample
  parameters, whatever the random coordinates are and whether any sample county name
  matches a feature. It then has printed its fourteen lines in order.\<close>

theorem main_returns:
  assumes "ds COUNTY = Some all" and "gdf_columns all [''COUNTYNAME'']"
  shows "fst (main u ds w) = Inr () \<and>
     w_stdout (snd (main u ds w)) =
       w_stdout w @
       [msg_choropleth, msg_choropleth_done, msg_hist2d, msg_hist2d_done, msg_dot, msg_dot_done,
        msg_bubble, msg_bubble_done, msg_all_done, msg_advantages, msg_clear, msg_type_safe,
        msg_reuse, msg_defaults]"
  using main_run(1,3) [where ds = ds, OF assms] by (simp add: messages_def)

theorem main_returns_witness:
  "sample_store COUNTY = Some sample_counties \<and> gdf_columns sample_counties [''COUNTYNAME''] \<and>
   fst (main (\<lambda>i. 0) sample_store w0) = Inr () \<and> length (w_stdout (snd (main (\<lambda>i. 0) sample_store w0))) = 14"
  using main_returns [where ds = sample_store, OF sample_store_COUNTY sample_counties_named, of "\<lambda>i. 0" w0]
    sample_counties_named
  by (simp add: w0_def)

text \<open>Claim C39: \<open>main\<close> never closes a figure. Wherever it stops, the figures of the
  renderers it has called, between one and four, are registered with pyplot under
  consecutive fresh numbers after the figures that were open before; when it returns,
  four figures are left open.\<close>

theorem main_leaves_figures_open:
  "\<exists>k. 1 \<le> k \<and> k \<le> 4 \<and>
     fignums (w_plt (snd (main u ds w))) =
       fignums (w_plt w) @ map (\<lambda>i. next_num (fignums (w_plt w)) + i) [0..<k] \<and>
     (fst (main u ds w) = Inr () \<longrightarrow> k = 4)"
  using main_opened [of u ds w] by (auto simp: opened_def)

theorem main_leaves_figures_open_witness:
  "fst (main (\<lambda>i. 0) sample_store w0) = Inr () \<and>
   fignums (w_plt (snd (main (\<lambda>i. 0) sample_store w0))) = [1, 2, 3, 4]"
proof -
  have r: "fst (main (\<lambda>i. 0) sample_store w0) = Inr ()"
    by (rule main_run(1) [where ds = sample_store, OF sample_store_COUNTY sample_counties_named])
  from main_leaves_figures_open [of "\<lambda>i. 0" sample_store w0] r show ?thesis
    by (auto simp: w0_def plt0_def next_num_def upt_conv_Cons)
qed

end
