(* ===== verification/Test_Api.thy ===== *)
theory Test_Api
  imports Client
begin

text \<open>
  The script \<^verbatim>\<open>src/test/test_api.py\<close>: six requests to the service, each in a
  \<^verbatim>\<open>try\<close> block that prints whether the answer had status 200 and, for the plotting
  routes, writes the image to a file.

  \<^item> \<open>tester\<close> is the state of the script: what it can reach (\<open>t_net\<close>), the lines it has
    printed (\<open>t_stdout\<close>) and the files it has written (\<open>t_disk\<close>, name and content,
    in the order of writing). \<open>say\<close> is \<^verbatim>\<open>print\<close>, \<open>write_file\<close> is \<^verbatim>\<open>open(name, "wb")\<close>
    followed by \<^verbatim>\<open>write\<close>; writing a file does not fail.
  \<^item> \<open>probe\<close> is the \<^verbatim>\<open>try\<close> block the script repeats: the request, the test of the
    status, the lines printed in each case and the \<^verbatim>\<open>except\<close> clause. \<open>check_home\<close> to
    \<open>check_bubble\<close> are the six blocks with their messages, \<open>choropleth_data\<close> to
    \<open>bubble_data\<close> the bodies they post; the header \<^verbatim>\<open>Content-Type\<close> the script adds is
    the one \<^verbatim>\<open>requests\<close> sets for a JSON body anyway.
  \<^item> \<open>test_api_endpoints\<close> is the function of that name and \<open>test_api_main\<close> the script
    (its two seconds of sleep change nothing of the state).

  The lemmas say what a block does in each of its three cases. Two runs of the whole
  script follow from them: against the service as \<^verbatim>\<open>app.py\<close> starts it, which listens at
  port 5011 while \<open>base_url\<close> names port 5010, every block is refused (\<open>unreachable\<close>);
  against a service at the port of the script that can read the county dataset
  (\<open>serving\<close>), every block passes (\<open>passed\<close>) and the five images are on disk.
\<close>

record tester =
  t_net :: network
  t_stdout :: "line list"
  t_disk :: "(pystr \<times> payload) list"

definition say :: "line \<Rightarrow> tester \<Rightarrow> tester" where
  "say l t = t\<lparr>t_stdout := t_stdout t @ [l]\<rparr>"

definition write_file :: "pystr \<Rightarrow> payload \<Rightarrow> tester \<Rightarrow> tester" where
  "write_file file c t = t\<lparr>t_disk := t_disk t @ [(file, c)]\<rparr>"

definition probe ::
  "(network \<Rightarrow> (client_error + response) \<times> network) \<Rightarrow> pystr \<Rightarrow> (pystr \<times> pystr) option \<Rightarrow>
     pystr \<Rightarrow> pystr option \<Rightarrow> pystr \<Rightarrow> tester \<Rightarrow> tester" where
  "probe call ok file fail info exc t =
     (case call (t_net t) of
        (Inl e, net) \<Rightarrow> say (TextError exc e) (t\<lparr>t_net := net\<rparr>)
      | (Inr response, net) \<Rightarrow>
          (let t = t\<lparr>t_net := net\<rparr>
           in if status_code response = 200
              then (let t = say (Text ok) t
                    in case file of
                         None \<Rightarrow> t
                       | Some (file_name, saved) \<Rightarrow>
                           say (Text saved) (write_file file_name (content response) t))
              else (let t = say (Text (fail @ digits (status_code response))) t
                    in case info of
                         None \<Rightarrow> t
                       | Some prefix \<Rightarrow> say (TextResponse prefix response) t)))"

definition base_url :: pystr where
  "base_url = ''http://localhost:5010''"

definition choropleth_data :: body where
  "choropleth_data =
     no_body\<lparr>b_data := Some
         [[(''county'', Str ([CHR 0xE8, CHR 0x87, CHR 0xBA, CHR 0xE5, CHR 0x8C, CHR 0x97,
                       CHR 0xE5, CHR 0xB8, CHR 0x82])), (''value'', Num 100)],
          [(''county'', Str ([CHR 0xE6, CHR 0x96, CHR 0xB0, CHR 0xE5, CHR 0x8C, CHR 0x97,
                       CHR 0xE5, CHR 0xB8, CHR 0x82])), (''value'', Num 200)],
          [(''county'', Str ([CHR 0xE6, CHR 0xA1, CHR 0x83, CHR 0xE5, CHR 0x9C, CHR 0x92,
                       CHR 0xE5, CHR 0xB8, CHR 0x82])), (''value'', Num 150)],
          [(''county'', Str ([CHR 0xE8, CHR 0x87, CHR 0xBA, CHR 0xE4, CHR 0xB8, CHR 0xAD,
                       CHR 0xE5, CHR 0xB8, CHR 0x82])), (''value'', Num 180)],
          [(''county'', Str ([CHR 0xE8, CHR 0x87, CHR 0xBA, CHR 0xE5, CHR 0x8D, CHR 0x97,
                       CHR 0xE5, CHR 0xB8, CHR 0x82])), (''value'', Num 120)],
          [(''county'', Str ([CHR 0xE9, CHR 0xAB, CHR 0x98, CHR 0xE9, CHR 0x9B, CHR 0x84,
                       CHR 0xE5, CHR 0xB8, CHR 0x82])), (''value'', Num 220)]],
       b_column := Some ''value'', b_level := Some ''county'', b_cmap := Some ''Blues'',
       b_colorbar_format := Some ''{x:,.0f}'', b_colorbar_tick_visible := Some True\<rparr>"

definition dot_data :: body where
  "dot_data =
     no_body\<lparr>b_x := Some [121.5, 120.2, 120.7, 120.9, 120.3],
       b_y := Some [25.0, 23.0, 24.2, 24.8, 22.6],
       b_size := Some (Number 100), b_color := Some (String ''red''), b_alpha := Some 0.8\<rparr>"

definition hist2d_data :: body where
  "hist2d_data =
     no_body\<lparr>b_x := Some (concat (replicate 20 [120.96, 121.5, 120.2, 120.7, 120.9, 120.3])),
       b_y := Some (concat (replicate 20 [23.70, 25.0, 23.0, 24.2, 24.8, 22.6])),
       b_bins := Some 30, b_cmap := Some ''Reds'', b_alpha := Some 0.7, b_cmin := Some 2\<rparr>"

definition bubble_data :: body where
  "bubble_data =
     no_body\<lparr>b_x := Some [121.5, 120.2, 120.7, 120.9, 120.3],
       b_y := Some [25.0, 23.0, 24.2, 24.8, 22.6],
       b_size := Some (Numbers [100, 200, 150, 300, 250]),
       b_color := Some (Strings [''red'', ''blue'', ''green'', ''orange'', ''purple'']),
       b_alpha := Some 0.6\<rparr>"

definition check_home :: "tester \<Rightarrow> tester" where
  "check_home t =
     (let t = say (Text (''1. '' @
         [CHR 0xE6, CHR 0xB8, CHR 0xAC, CHR 0xE8, CHR 0xA9, CHR 0xA6, CHR 0xE9, CHR 0xA6,
          CHR 0x96, CHR 0xE9, CHR 0xA0, CHR 0x81, CHR 0xE7, CHR 0xAB, CHR 0xAF, CHR 0xE9,
          CHR 0xBB, CHR 0x9E] @
         ''...'')) t
      in probe (requests_get (base_url @ ''/''))
         ([CHR 0xE2, CHR 0x9C, CHR 0x85] @
         '' '' @
         [CHR 0xE9, CHR 0xA6, CHR 0x96, CHR 0xE9, CHR 0xA0, CHR 0x81, CHR 0xE7, CHR 0xAB,
          CHR 0xAF, CHR 0xE9, CHR 0xBB, CHR 0x9E, CHR 0xE6, CHR 0xAD, CHR 0xA3, CHR 0xE5,
          CHR 0xB8, CHR 0xB8])
         None
         ([CHR 0xE2, CHR 0x9D, CHR 0x8C] @
         '' '' @
         [CHR 0xE9, CHR 0xA6, CHR 0x96, CHR 0xE9, CHR 0xA0, CHR 0x81, CHR 0xE7, CHR 0xAB,
          CHR 0xAF, CHR 0xE9, CHR 0xBB, CHR 0x9E, CHR 0xE5, CHR 0xA4, CHR 0xB1, CHR 0xE6,
          CHR 0x95, CHR 0x97] @
         '': '')
         None
         ([CHR 0xE2, CHR 0x9D, CHR 0x8C] @
         '' '' @
         [CHR 0xE9, CHR 0xA6, CHR 0x96, CHR 0xE9, CHR 0xA0, CHR 0x81, CHR 0xE7, CHR 0xAB,
          CHR 0xAF, CHR 0xE9, CHR 0xBB, CHR 0x9E, CHR 0xE9, CHR 0x80, CHR 0xA3, CHR 0xE6,
          CHR 0x8E, CHR 0xA5, CHR 0xE5, CHR 0xA4, CHR 0xB1, CHR 0xE6, CHR 0x95, CHR 0x97] @
         '': '') t)"

definition check_boundary :: "tester \<Rightarrow> tester" where
  "check_boundary t =
     (let t = say (Text ([CHR 0x0A] @
         ''2. '' @
         [CHR 0xE6, CHR 0xB8, CHR 0xAC, CHR 0xE8, CHR 0xA9, CHR 0xA6, CHR 0xE9, CHR 0x82,
          CHR 0x8A, CHR 0xE7, CHR 0x95, CHR 0x8C, CHR 0xE5, CHR 0x9C, CHR 0x96, CHR 0xE7,
          CHR 0xAB, CHR 0xAF, CHR 0xE9, CHR 0xBB, CHR 0x9E] @
         ''...'')) t
      in probe (requests_get (base_url @ ''/boundary''))
         ([CHR 0xE2, CHR 0x9C, CHR 0x85] @
         '' '' @
         [CHR 0xE9, CHR 0x82, CHR 0x8A, CHR 0xE7, CHR 0x95, CHR 0x8C, CHR 0xE5, CHR 0x9C,
          CHR 0x96, CHR 0xE7, CHR 0xAB, CHR 0xAF, CHR 0xE9, CHR 0xBB, CHR 0x9E, CHR 0xE6,
          CHR 0xAD, CHR 0xA3, CHR 0xE5, CHR 0xB8, CHR 0xB8])
         (Some (''test_boundary.png'',
         (''   '' @
         [CHR 0xE5, CHR 0xB7, CHR 0xB2, CHR 0xE4, CHR 0xBF, CHR 0x9D, CHR 0xE5, CHR 0xAD,
          CHR 0x98, CHR 0xE7, CHR 0x82, CHR 0xBA] @
         '' test_boundary.png'')))
         ([CHR 0xE2, CHR 0x9D, CHR 0x8C] @
         '' '' @
         [CHR 0xE9, CHR 0x82, CHR 0x8A, CHR 0xE7, CHR 0x95, CHR 0x8C, CHR 0xE5, CHR 0x9C,
          CHR 0x96, CHR 0xE7, CHR 0xAB, CHR 0xAF, CHR 0xE9, CHR 0xBB, CHR 0x9E, CHR 0xE5,
          CHR 0xA4, CHR 0xB1, CHR 0xE6, CHR 0x95, CHR 0x97] @
         '': '')
         None
         ([CHR 0xE2, CHR 0x9D, CHR 0x8C] @
         '' '' @
         [CHR 0xE9, CHR 0x82, CHR 0x8A, CHR 0xE7, CHR 0x95, CHR 0x8C, CHR 0xE5, CHR 0x9C,
          CHR 0x96, CHR 0xE7, CHR 0xAB, CHR 0xAF, CHR 0xE9, CHR 0xBB, CHR 0x9E, CHR 0xE5,
          CHR 0xA4, CHR 0xB1, CHR 0xE6, CHR 0x95, CHR 0x97] @
         '': '') t)"

definition check_choropleth :: "tester \<Rightarrow> tester" where
  "check_choropleth t =
     (let t = say (Text ([CHR 0x0A] @
         ''3. '' @
         [CHR 0xE6, CHR 0xB8, CHR 0xAC, CHR 0xE8, CHR 0xA9, CHR 0xA6, CHR 0xE7, CHR 0xAD,
          CHR 0x89, CHR 0xE5, CHR 0x80, CHR 0xBC, CHR 0xE5, CHR 0x8D, CHR 0x80, CHR 0xE5,
          CHR 0x9F, CHR 0x9F, CHR 0xE5, CHR 0x9C, CHR 0x96, CHR 0xE7, CHR 0xAB, CHR 0xAF,
          CHR 0xE9, CHR 0xBB, CHR 0x9E] @
         ''...'')) t
      in probe (requests_post (base_url @ ''/choropleth'') choropleth_data)
         ([CHR 0xE2, CHR 0x9C, CHR 0x85] @
         '' '' @
         [CHR 0xE7, CHR 0xAD, CHR 0x89, CHR 0xE5, CHR 0x80, CHR 0xBC, CHR 0xE5, CHR 0x8D,
          CHR 0x80, CHR 0xE5, CHR 0x9F, CHR 0x9F, CHR 0xE5, CHR 0x9C, CHR 0x96, CHR 0xE7,
          CHR 0xAB, CHR 0xAF, CHR 0xE9, CHR 0xBB, CHR 0x9E, CHR 0xE6, CHR 0xAD, CHR 0xA3,
          CHR 0xE5, CHR 0xB8, CHR 0xB8])
         (Some (''test_choropleth.png'',
         (''   '' @
         [CHR 0xE5, CHR 0xB7, CHR 0xB2, CHR 0xE4, CHR 0xBF, CHR 0x9D, CHR 0xE5, CHR 0xAD,
          CHR 0x98, CHR 0xE7, CHR 0x82, CHR 0xBA] @
         '' test_choropleth.png'')))
         ([CHR 0xE2, CHR 0x9D, CHR 0x8C] @
         '' '' @
         [CHR 0xE7, CHR 0xAD, CHR 0x89, CHR 0xE5, CHR 0x80, CHR 0xBC, CHR 0xE5, CHR 0x8D,
          CHR 0x80, CHR 0xE5, CHR 0x9F, CHR 0x9F, CHR 0xE5, CHR 0x9C, CHR 0x96, CHR 0xE7,
          CHR 0xAB, CHR 0xAF, CHR 0xE9, CHR 0xBB, CHR 0x9E, CHR 0xE5, CHR 0xA4, CHR 0xB1,
          CHR 0xE6, CHR 0x95, CHR 0x97] @
         '': '')
         (Some (''   '' @
         [CHR 0xE9, CHR 0x8C, CHR 0xAF, CHR 0xE8, CHR 0xAA, CHR 0xA4, CHR 0xE4, CHR 0xBF,
          CHR 0xA1, CHR 0xE6, CHR 0x81, CHR 0xAF] @
         '': ''))
         ([CHR 0xE2, CHR 0x9D, CHR 0x8C] @
         '' '' @
         [CHR 0xE7, CHR 0xAD, CHR 0x89, CHR 0xE5, CHR 0x80, CHR 0xBC, CHR 0xE5, CHR 0x8D,
          CHR 0x80, CHR 0xE5, CHR 0x9F, CHR 0x9F, CHR 0xE5, CHR 0x9C, CHR 0x96, CHR 0xE7,
          CHR 0xAB, CHR 0xAF, CHR 0xE9, CHR 0xBB, CHR 0x9E, CHR 0xE5, CHR 0xA4, CHR 0xB1,
          CHR 0xE6, CHR 0x95, CHR 0x97] @
         '': '') t)"

definition check_dot :: "tester \<Rightarrow> tester" where
  "check_dot t =
     (let t = say (Text ([CHR 0x0A] @
         ''4. '' @
         [CHR 0xE6, CHR 0xB8, CHR 0xAC, CHR 0xE8, CHR 0xA9, CHR 0xA6, CHR 0xE9, CHR 0xBB,
          CHR 0x9E, CHR 0xE5, CHR 0x9C, CHR 0x96, CHR 0xE7, CHR 0xAB, CHR 0xAF, CHR 0xE9,
          CHR 0xBB, CHR 0x9E] @
         ''...'')) t
      in probe (requests_post (base_url @ ''/dot'') dot_data)
         ([CHR 0xE2, CHR 0x9C, CHR 0x85] @
         '' '' @
         [CHR 0xE9, CHR 0xBB, CHR 0x9E, CHR 0xE5, CHR 0x9C, CHR 0x96, CHR 0xE7, CHR 0xAB,
          CHR 0xAF, CHR 0xE9, CHR 0xBB, CHR 0x9E, CHR 0xE6, CHR 0xAD, CHR 0xA3, CHR 0xE5,
          CHR 0xB8, CHR 0xB8])
         (Some (''test_dot.png'',
         (''   '' @
         [CHR 0xE5, CHR 0xB7, CHR 0xB2, CHR 0xE4, CHR 0xBF, CHR 0x9D, CHR 0xE5, CHR 0xAD,
          CHR 0x98, CHR 0xE7, CHR 0x82, CHR 0xBA] @
         '' test_dot.png'')))
         ([CHR 0xE2, CHR 0x9D, CHR 0x8C] @
         '' '' @
         [CHR 0xE9, CHR 0xBB, CHR 0x9E, CHR 0xE5, CHR 0x9C, CHR 0x96, CHR 0xE7, CHR 0xAB,
          CHR 0xAF, CHR 0xE9, CHR 0xBB, CHR 0x9E, CHR 0xE5, CHR 0xA4, CHR 0xB1, CHR 0xE6,
          CHR 0x95, CHR 0x97] @
         '': '')
         (Some (''   '' @
         [CHR 0xE9, CHR 0x8C, CHR 0xAF, CHR 0xE8, CHR 0xAA, CHR 0xA4, CHR 0xE4, CHR 0xBF,
          CHR 0xA1, CHR 0xE6, CHR 0x81, CHR 0xAF] @
         '': ''))
         ([CHR 0xE2, CHR 0x9D, CHR 0x8C] @
         '' '' @
         [CHR 0xE9, CHR 0xBB, CHR 0x9E, CHR 0xE5, CHR 0x9C, CHR 0x96, CHR 0xE7, CHR 0xAB,
          CHR 0xAF, CHR 0xE9, CHR 0xBB, CHR 0x9E, CHR 0xE5, CHR 0xA4, CHR 0xB1, CHR 0xE6,
          CHR 0x95, CHR 0x97] @
         '': '') t)"

definition check_hist2d :: "tester \<Rightarrow> tester" where
  "check_hist2d t =
     (let t = say (Text ([CHR 0x0A] @
         ''5. '' @
         [CHR 0xE6, CHR 0xB8, CHR 0xAC, CHR 0xE8, CHR 0xA9, CHR 0xA6] @
         ''2D'' @
         [CHR 0xE7, CHR 0x9B, CHR 0xB4, CHR 0xE6, CHR 0x96, CHR 0xB9, CHR 0xE5, CHR 0x9C,
          CHR 0x96, CHR 0xE7, CHR 0xAB, CHR 0xAF, CHR 0xE9, CHR 0xBB, CHR 0x9E] @
         ''...'')) t
      in probe (requests_post (base_url @ ''/hist2d'') hist2d_data)
         ([CHR 0xE2, CHR 0x9C, CHR 0x85] @
         '' 2D'' @
         [CHR 0xE7, CHR 0x9B, CHR 0xB4, CHR 0xE6, CHR 0x96, CHR 0xB9, CHR 0xE5, CHR 0x9C,
          CHR 0x96, CHR 0xE7, CHR 0xAB, CHR 0xAF, CHR 0xE9, CHR 0xBB, CHR 0x9E, CHR 0xE6,
          CHR 0xAD, CHR 0xA3, CHR 0xE5, CHR 0xB8, CHR 0xB8])
         (Some (''test_hist2d.png'',
         (''   '' @
         [CHR 0xE5, CHR 0xB7, CHR 0xB2, CHR 0xE4, CHR 0xBF, CHR 0x9D, CHR 0xE5, CHR 0xAD,
          CHR 0x98, CHR 0xE7, CHR 0x82, CHR 0xBA] @
         '' test_hist2d.png'')))
         ([CHR 0xE2, CHR 0x9D, CHR 0x8C] @
         '' 2D'' @
         [CHR 0xE7, CHR 0x9B, CHR 0xB4, CHR 0xE6, CHR 0x96, CHR 0xB9, CHR 0xE5, CHR 0x9C,
          CHR 0x96, CHR 0xE7, CHR 0xAB, CHR 0xAF, CHR 0xE9, CHR 0xBB, CHR 0x9E, CHR 0xE5,
          CHR 0xA4, CHR 0xB1, CHR 0xE6, CHR 0x95, CHR 0x97] @
         '': '')
         (Some (''   '' @
         [CHR 0xE9, CHR 0x8C, CHR 0xAF, CHR 0xE8, CHR 0xAA, CHR 0xA4, CHR 0xE4, CHR 0xBF,
          CHR 0xA1, CHR 0xE6, CHR 0x81, CHR 0xAF] @
         '': ''))
         ([CHR 0xE2, CHR 0x9D, CHR 0x8C] @
         '' 2D'' @
         [CHR 0xE7, CHR 0x9B, CHR 0xB4, CHR 0xE6, CHR 0x96, CHR 0xB9, CHR 0xE5, CHR 0x9C,
          CHR 0x96, CHR 0xE7, CHR 0xAB, CHR 0xAF, CHR 0xE9, CHR 0xBB, CHR 0x9E, CHR 0xE5,
          CHR 0xA4, CHR 0xB1, CHR 0xE6, CHR 0x95, CHR 0x97] @
         '': '') t)"

definition check_bubble :: "tester \<Rightarrow> tester" where
  "check_bubble t =
     (let t = say (Text ([CHR 0x0A] @
         ''6. '' @
         [CHR 0xE6, CHR 0xB8, CHR 0xAC, CHR 0xE8, CHR 0xA9, CHR 0xA6, CHR 0xE6, CHR 0xB0,
          CHR 0xA3, CHR 0xE6, CHR 0xB3, CHR 0xA1, CHR 0xE5, CHR 0x9C, CHR 0x96, CHR 0xE7,
          CHR 0xAB, CHR 0xAF, CHR 0xE9, CHR 0xBB, CHR 0x9E] @
         ''...'')) t
      in probe (requests_post (base_url @ ''/bubble'') bubble_data)
         ([CHR 0xE2, CHR 0x9C, CHR 0x85] @
         '' '' @
         [CHR 0xE6, CHR 0xB0, CHR 0xA3, CHR 0xE6, CHR 0xB3, CHR 0xA1, CHR 0xE5, CHR 0x9C,
          CHR 0x96, CHR 0xE7, CHR 0xAB, CHR 0xAF, CHR 0xE9, CHR 0xBB, CHR 0x9E, CHR 0xE6,
          CHR 0xAD, CHR 0xA3, CHR 0xE5, CHR 0xB8, CHR 0xB8])
         (Some (''test_bubble.png'',
         (''   '' @
         [CHR 0xE5, CHR 0xB7, CHR 0xB2, CHR 0xE4, CHR 0xBF, CHR 0x9D, CHR 0xE5, CHR 0xAD,
          CHR 0x98, CHR 0xE7, CHR 0x82, CHR 0xBA] @
         '' test_bubble.png'')))
         ([CHR 0xE2, CHR 0x9D, CHR 0x8C] @
         '' '' @
         [CHR 0xE6, CHR 0xB0, CHR 0xA3, CHR 0xE6, CHR 0xB3, CHR 0xA1, CHR 0xE5, CHR 0x9C,
          CHR 0x96, CHR 0xE7, CHR 0xAB, CHR 0xAF, CHR 0xE9, CHR 0xBB, CHR 0x9E, CHR 0xE5,
          CHR 0xA4, CHR 0xB1, CHR 0xE6, CHR 0x95, CHR 0x97] @
         '': '')
         (Some (''   '' @
         [CHR 0xE9, CHR 0x8C, CHR 0xAF, CHR 0xE8, CHR 0xAA, CHR 0xA4, CHR 0xE4, CHR 0xBF,
          CHR 0xA1, CHR 0xE6, CHR 0x81, CHR 0xAF] @
         '': ''))
         ([CHR 0xE2, CHR 0x9D, CHR 0x8C] @
         '' '' @
         [CHR 0xE6, CHR 0xB0, CHR 0xA3, CHR 0xE6, CHR 0xB3, CHR 0xA1, CHR 0xE5, CHR 0x9C,
          CHR 0x96, CHR 0xE7, CHR 0xAB, CHR 0xAF, CHR 0xE9, CHR 0xBB, CHR 0x9E, CHR 0xE5,
          CHR 0xA4, CHR 0xB1, CHR 0xE6, CHR 0x95, CHR 0x97] @
         '': '') t)"

definition test_api_endpoints :: "tester \<Rightarrow> tester" where
  "test_api_endpoints t =
     (let t = say (Text ([CHR 0xF0, CHR 0x9F, CHR 0xA7, CHR 0xAA] @
                      '' '' @
                      [CHR 0xE9, CHR 0x96, CHR 0x8B, CHR 0xE5, CHR 0xA7, CHR 0x8B,
                       CHR 0xE6, CHR 0xB8, CHR 0xAC, CHR 0xE8, CHR 0xA9, CHR 0xA6] @
                      ''GIS Toolkit API...'')) t;
          t = say (Text (([CHR 0xE5, CHR 0x9F, CHR 0xBA, CHR 0xE7, CHR 0xA4, CHR 0x8E] @
                      ''URL: '') @ base_url)) t;
          t = say (Text (replicate 50 CHR ''-'')) t;
          t = check_home t;
          t = check_boundary t;
          t = check_choropleth t;
          t = check_dot t;
          t = check_hist2d t;
          t = check_bubble t;
          t = say (Text (CHR 0x0A # replicate 50 CHR ''='')) t;
          t = say (Text ([CHR 0xF0, CHR 0x9F, CHR 0x8E, CHR 0x89] @
                      '' API'' @
                      [CHR 0xE6, CHR 0xB8, CHR 0xAC, CHR 0xE8, CHR 0xA9, CHR 0xA6,
                       CHR 0xE5, CHR 0xAE, CHR 0x8C, CHR 0xE6, CHR 0x88, CHR 0x90,
                       CHR 0xEF, CHR 0xBC, CHR 0x81])) t;
          t = say (Text (''   '' @
                      [CHR 0xE8, CHR 0xAB, CHR 0x8B, CHR 0xE6, CHR 0xAA, CHR 0xA2,
                       CHR 0xE6, CHR 0x9F, CHR 0xA5, CHR 0xE7, CHR 0x94, CHR 0x9F,
                       CHR 0xE6, CHR 0x88, CHR 0x90, CHR 0xE7, CHR 0x9A, CHR 0x84] @
                      ''PNG'' @
                      [CHR 0xE6, CHR 0x96, CHR 0x87, CHR 0xE4, CHR 0xBB, CHR 0xB6,
                       CHR 0xE4, CHR 0xBB, CHR 0xA5, CHR 0xE9, CHR 0xA9, CHR 0x97,
                       CHR 0xE8, CHR 0xAD, CHR 0x89, CHR 0xE5, CHR 0x9C, CHR 0x96,
                       CHR 0xE8, CHR 0xA1, CHR 0xA8, CHR 0xE8, CHR 0xB3, CHR 0xAA,
                       CHR 0xE9, CHR 0x87, CHR 0x8F, CHR 0xE3, CHR 0x80, CHR 0x82])) t;
          t = say (Text (''   '' @
                      [CHR 0xE5, CHR 0xA6, CHR 0x82, CHR 0xE9, CHR 0x9C, CHR 0x80,
                       CHR 0xE6, CHR 0x9B, CHR 0xB4, CHR 0xE8, CHR 0xA9, CHR 0xB3,
                       CHR 0xE7, CHR 0xB4, CHR 0xB0, CHR 0xE7, CHR 0x9A, CHR 0x84] @
                      ''API'' @
                      [CHR 0xE6, CHR 0x96, CHR 0x87, CHR 0xE6, CHR 0xAA, CHR 0x94,
                       CHR 0xEF, CHR 0xBC, CHR 0x8C, CHR 0xE8, CHR 0xAB, CHR 0x8B,
                       CHR 0xE8, CHR 0xA8, CHR 0xAA, CHR 0xE5, CHR 0x95, CHR 0x8F] @
                      '': http://localhost:5010/docs'')) t
      in t)"

definition test_api_main :: "tester \<Rightarrow> tester" where
  "test_api_main t =
     (let t = say (Text ([CHR 0xE7, CHR 0xAD, CHR 0x89, CHR 0xE5, CHR 0xBE, CHR 0x85] @
                      ''API'' @
                      [CHR 0xE6, CHR 0x9C, CHR 0x8D, CHR 0xE5, CHR 0x8B, CHR 0x99,
                       CHR 0xE5, CHR 0x99, CHR 0xA8, CHR 0xE5, CHR 0x95, CHR 0x9F,
                       CHR 0xE5, CHR 0x8B, CHR 0x95] @
                      ''...'')) t
      in test_api_endpoints t)"

text \<open>
  The six blocks in order, and what a run is measured by: the number of blocks that
  found status 200, were answered with another status, or could not connect.
\<close>

definition checks :: "(tester \<Rightarrow> tester) list" where
  "checks = [check_home, check_boundary, check_choropleth, check_dot, check_hist2d, check_bubble]"

definition tester0 :: "network \<Rightarrow> tester" where
  "tester0 net = \<lparr>t_net = net, t_stdout = [], t_disk = []\<rparr>"

definition is_refusal :: "line \<Rightarrow> bool" where
  "is_refusal l = (case l of TextError p e \<Rightarrow> True | _ \<Rightarrow> False)"

definition refusals :: "tester \<Rightarrow> nat" where
  "refusals t = length (filter is_refusal (t_stdout t))"

definition serving :: "datasets \<Rightarrow> network \<Rightarrow> bool" where
  "serving ds net \<longleftrightarrow>
     (case net_listen net of
        None \<Rightarrow> False
      | Some srv \<Rightarrow> uv_app srv = loaded_app \<and> uv_port srv = 5010) \<and>
     net_datasets net = ds"

definition counted :: "network \<Rightarrow> network" where
  "counted net = net\<lparr>net_server := cleanup_memory_if_needed (net_server net)\<rparr>"

definition passed :: "pystr \<Rightarrow> tester \<Rightarrow> tester \<Rightarrow> bool" where
  "passed f t t' \<longleftrightarrow>
     (\<exists>fig. t_disk t' = t_disk t @ [(f, Stream [PNG fig ''tight'' 300])]) \<and>
     refusals t' = refusals t \<and> t_net t' = counted (t_net t)"

definition unreachable :: "network \<Rightarrow> bool" where
  "unreachable net = (case net_listen net of None \<Rightarrow> True | Some srv \<Rightarrow> uv_port srv \<noteq> 5010)"


section \<open>Printing and probing\<close>

lemma say_fields [simp]:
  "t_net (say l t) = t_net t" "t_disk (say l t) = t_disk t" "t_stdout (say l t) = t_stdout t @ [l]"
  by (simp_all add: say_def)

lemma write_file_fields [simp]:
  "t_net (write_file f c t) = t_net t" "t_disk (write_file f c t) = t_disk t @ [(f, c)]"
  "t_stdout (write_file f c t) = t_stdout t"
  by (simp_all add: write_file_def)

lemma refusals_say [simp]: "refusals (say l t) = refusals t + (if is_refusal l then 1 else 0)"
  by (simp add: refusals_def)

lemma refusals_net [simp]: "refusals (t\<lparr>t_net := net\<rparr>) = refusals t"
  by (simp add: refusals_def)

lemma refusals_write_file [simp]: "refusals (write_file f c t) = refusals t"
  by (simp add: refusals_def)

lemma is_refusal_simps [simp]:
  "is_refusal (TextError p e)" "\<not> is_refusal (Text s)" "\<not> is_refusal (TextResponse p r)"
  by (simp_all add: is_refusal_def)

text \<open>The three cases of a block.\<close>

lemma probe_refused:
  "call (t_net t) = (Inl e, net) \<Longrightarrow>
     probe call ok file fail info exc t = say (TextError exc e) (t\<lparr>t_net := net\<rparr>)"
  by (simp add: probe_def)

lemma probe_ok:
  "call (t_net t) = (Inr r, net) \<Longrightarrow> status_code r = 200 \<Longrightarrow>
     probe call ok file fail info exc t =
       (case file of
          None \<Rightarrow> say (Text ok) (t\<lparr>t_net := net\<rparr>)
        | Some (f, saved) \<Rightarrow>
            say (Text saved) (write_file f (content r) (say (Text ok) (t\<lparr>t_net := net\<rparr>))))"
  by (simp add: probe_def Let_def split: option.splits)

lemma probe_failed:
  "call (t_net t) = (Inr r, net) \<Longrightarrow> status_code r \<noteq> 200 \<Longrightarrow>
     probe call ok file fail info exc t =
       (case info of
          None \<Rightarrow> say (Text (fail @ digits (status_code r))) (t\<lparr>t_net := net\<rparr>)
        | Some p \<Rightarrow>
            say (TextResponse p r) (say (Text (fail @ digits (status_code r))) (t\<lparr>t_net := net\<rparr>)))"
  by (simp add: probe_def Let_def split: option.splits)


section \<open>The addresses of the script\<close>

lemma base_url_address:
  assumes "p \<noteq> []" and "hd p = CHR ''/''"
  shows "parse_url (base_url @ p) = Some \<lparr>u_host = ''localhost'', u_port = 5010, u_path = p\<rparr>"
proof -
  have "base_url @ p = url_str \<lparr>u_host = ''localhost'', u_port = 5010, u_path = p\<rparr>"
    by (simp add: base_url_def url_str_def digits_numeral digit_char_simps)
  with assms show ?thesis by (simp only: parse_url_url_str) (simp add: parse_url_url_str)
qed

lemma send_unreachable:
  assumes "unreachable net" and "p \<noteq> []" and "hd p = CHR ''/''"
  shows "send m (base_url @ p) b net = (Inl (ConnectionError (base_url @ p)), net)"
  using assms(1) base_url_address [OF assms(2,3)]
  by (simp add: send_def unreachable_def split: option.splits)

text \<open>
  When nothing listens at the port of \<open>base_url\<close>, every block prints its \<^verbatim>\<open>except\<close>
  line and nothing else happens.
\<close>

lemma check_unreachable:
  "list_all (\<lambda>c. \<forall>t. unreachable (t_net t) \<longrightarrow>
     t_net (c t) = t_net t \<and> t_disk (c t) = t_disk t \<and> refusals (c t) = Suc (refusals t)) checks"
  by (simp add: checks_def check_home_def check_boundary_def check_choropleth_def check_dot_def
      check_hist2d_def check_bubble_def Let_def requests_get_def requests_post_def
      send_unreachable probe_refused)


text \<open>Against the service as \<^verbatim>\<open>app.py\<close> starts it, nothing listens at the port of \<open>base_url\<close>.\<close>

lemma started_unreachable: "unreachable (started app_main fs ds)"
  by (simp add: unreachable_def started_def uvicorn_run_def app_main_def)

lemma run_unreachable:
  assumes "unreachable (t_net t)"
  shows "t_net (test_api_endpoints t) = t_net t"
    and "t_disk (test_api_endpoints t) = t_disk t"
    and "refusals (test_api_endpoints t) = refusals t + 6"
  using check_unreachable assms by (simp_all add: test_api_endpoints_def checks_def Let_def)


section \<open>A run against a service at the port of the script\<close>

lemma length_concat_replicate [simp]: "length (concat (replicate n xs)) = n * length xs"
  by (induction n) simp_all

text \<open>The four bodies of the script are valid, and need nothing but the county dataset.\<close>

lemma bodies_valid:
  "\<exists>d. ChoroplethData_validate choropleth_data = Inr d \<and> county_request (POST_choropleth d)"
  "\<exists>d. DotPlotData_validate dot_data = Inr d \<and> county_request (POST_dot d)"
  "\<exists>d. Hist2DData_validate hist2d_data = Inr d \<and> county_request (POST_hist2d d)"
  "\<exists>d. BubbleData_validate bubble_data = Inr d \<and> county_request (POST_bubble d)"
  by (simp_all add: ChoroplethData_validate_def DotPlotData_validate_def Hist2DData_validate_def
      BubbleData_validate_def choropleth_data_def dot_data_def hist2d_data_def bubble_data_def
      no_body_def pydantic_Field_def both_def as_number_def as_numbers_def as_string_def
      as_strings_def county_request_def cell_of_def)

lemma serving_counted [simp]: "serving ds (counted net) = serving ds net"
  by (simp add: serving_def counted_def)

text \<open>
  A block whose request is a plotting request that needs only the county dataset writes
  the image of a figure to its file, and the service has counted one request.
\<close>

lemma probe_plot:
  assumes net: "serving ds (t_net t)" and ds: "ds COUNTY = Some all" "gdf_columns all [''COUNTYNAME'']"
    and p: "p \<noteq> []" "hd p = CHR ''/''"
    and route: "\<And>fs s. receive loaded_app fs ds m p b s = endpoint fs ds rq s"
    and rq: "county_request rq" "plot_request rq"
  shows "passed f t (probe (send m (base_url @ p) b) ok (Some (f, saved)) fail info exc t)"
proof -
  from net obtain srv where srv: "net_listen (t_net t) = Some srv" "uv_app srv = loaded_app"
    "uv_port srv = 5010" and data: "net_datasets (t_net t) = ds"
    by (auto simp: serving_def split: option.splits)
  from county_request_image [where ds = ds, OF ds rq, of "net_files (t_net t)" "net_server (t_net t)"]
  obtain fig where img: "endpoint (net_files (t_net t)) ds rq (net_server (t_net t)) =
      (StreamingResponse (image_buffer (PNG fig ''tight'' 300)) ''image/png'',
       cleanup_memory_if_needed (net_server (t_net t)))" by blast
  have "send m (base_url @ p) b (t_net t) =
      (Inr (StreamingResponse (image_buffer (PNG fig ''tight'' 300)) ''image/png''), counted (t_net t))"
    unfolding counted_def
    by (rule send_direct [OF base_url_address [OF p] srv(1)])
       (simp_all add: local_hosts_def srv data route img)
  then show ?thesis
    by (simp add: probe_ok passed_def)
qed

lemma passed_say: "passed f (say (Text l) t) t' \<Longrightarrow> passed f t t'"
  by (simp add: passed_def)

lemma checks_pass:
  assumes "serving ds (t_net t)" and "ds COUNTY = Some all" and "gdf_columns all [''COUNTYNAME'']"
  shows "passed ''test_boundary.png'' t (check_boundary t)"
    and "passed ''test_choropleth.png'' t (check_choropleth t)"
    and "passed ''test_dot.png'' t (check_dot t)"
    and "passed ''test_hist2d.png'' t (check_hist2d t)"
    and "passed ''test_bubble.png'' t (check_bubble t)"
proof -
  note plot = probe_plot [where ds = ds, OF _ assms(2,3)]
  from bodies_valid obtain d1 d2 d3 d4 where
    d1: "ChoroplethData_validate choropleth_data = Inr d1" "county_request (POST_choropleth d1)" and
    d2: "DotPlotData_validate dot_data = Inr d2" "county_request (POST_dot d2)" and
    d3: "Hist2DData_validate hist2d_data = Inr d3" "county_request (POST_hist2d d3)" and
    d4: "BubbleData_validate bubble_data = Inr d4" "county_request (POST_bubble d4)"
    by blast
  show "passed ''test_boundary.png'' t (check_boundary t)"
    unfolding check_boundary_def Let_def requests_get_def
    by (rule passed_say, rule plot [where rq = GET_boundary])
       (simp_all add: assms(1) receive_paths endpoint_def county_request_def plot_request_def)
  show "passed ''test_choropleth.png'' t (check_choropleth t)"
    unfolding check_choropleth_def Let_def requests_post_def
    by (rule passed_say, rule plot [where rq = "POST_choropleth d1"])
       (simp_all add: assms(1) receive_paths endpoint_def validated_Inr d1 plot_request_def)
  show "passed ''test_dot.png'' t (check_dot t)"
    unfolding check_dot_def Let_def requests_post_def
    by (rule passed_say, rule plot [where rq = "POST_dot d2"])
       (simp_all add: assms(1) receive_paths endpoint_def validated_Inr d2 plot_request_def)
  show "passed ''test_hist2d.png'' t (check_hist2d t)"
    unfolding check_hist2d_def Let_def requests_post_def
    by (rule passed_say, rule plot [where rq = "POST_hist2d d3"])
       (simp_all add: assms(1) receive_paths endpoint_def validated_Inr d3 plot_request_def)
  show "passed ''test_bubble.png'' t (check_bubble t)"
    unfolding check_bubble_def Let_def requests_post_def
    by (rule passed_say, rule plot [where rq = "POST_bubble d4"])
       (simp_all add: assms(1) receive_paths endpoint_def validated_Inr d4 plot_request_def)
qed

lemma check_home_passes:
  assumes "serving ds (t_net t)"
  shows "t_net (check_home t) = t_net t" and "t_disk (check_home t) = t_disk t"
    and "refusals (check_home t) = refusals t"
proof -
  from assms obtain srv where srv: "net_listen (t_net t) = Some srv" "uv_app srv = loaded_app"
    "uv_port srv = 5010" by (auto simp: serving_def split: option.splits)
  have "send GET (base_url @ ''/'') no_body (t_net t) =
      (Inr (TemplateResponse templates ''home.html''), (t_net t)\<lparr>net_server := net_server (t_net t)\<rparr>)"
    by (rule send_direct [OF base_url_address srv(1)])
       (simp_all add: local_hosts_def srv receive_paths home_def)
  then show "t_net (check_home t) = t_net t" and "t_disk (check_home t) = t_disk t"
    and "refusals (check_home t) = refusals t"
    by (simp_all add: check_home_def Let_def requests_get_def probe_ok)
qed


lemma test_api_endpoints_shape:
  "\<exists>h1 h2 h3 f1 f2 f3 f4. \<forall>t. test_api_endpoints t =
     say (Text f4) (say (Text f3) (say (Text f2) (say (Text f1)
       (check_bubble (check_hist2d (check_dot (check_choropleth (check_boundary (check_home
         (say (Text h3) (say (Text h2) (say (Text h1) t))))))))))))"
  unfolding test_api_endpoints_def Let_def by (intro exI allI) (rule refl)

lemma passed_serving: "passed f t t' \<Longrightarrow> serving ds (t_net t) \<Longrightarrow> serving ds (t_net t')"
  by (simp add: passed_def)

lemma passedD:
  assumes "passed f t t'"
  obtains fig where "t_disk t' = t_disk t @ [(f, Stream [PNG fig ''tight'' 300])]"
    and "refusals t' = refusals t" and "t_net t' = counted (t_net t)"
  using assms by (auto simp: passed_def)

text \<open>
  A whole run against a service that listens at the port of the script and has the county
  dataset: no block is refused, the five images are on disk under the names of the script,
  in its order, and the service has counted five requests.
\<close>

lemma run_serving:
  assumes net: "serving ds (t_net t)" and ds: "ds COUNTY = Some all" "gdf_columns all [''COUNTYNAME'']"
  shows "\<exists>i1 i2 i3 i4 i5.
      t_disk (test_api_endpoints t) = t_disk t @
        [(''test_boundary.png'', Stream [PNG i1 ''tight'' 300]),
         (''test_choropleth.png'', Stream [PNG i2 ''tight'' 300]),
         (''test_dot.png'', Stream [PNG i3 ''tight'' 300]),
         (''test_hist2d.png'', Stream [PNG i4 ''tight'' 300]),
         (''test_bubble.png'', Stream [PNG i5 ''tight'' 300])] \<and>
      refusals (test_api_endpoints t) = refusals t \<and>
      t_net (test_api_endpoints t) = (counted ^^ 5) (t_net t)"
proof -
  from test_api_endpoints_shape obtain h1 h2 h3 f1 f2 f3 f4 where
    shape: "test_api_endpoints t =
     say (Text f4) (say (Text f3) (say (Text f2) (say (Text f1)
       (check_bubble (check_hist2d (check_dot (check_choropleth (check_boundary (check_home
         (say (Text h3) (say (Text h2) (say (Text h1) t))))))))))))"
    by blast
  define t0 where "t0 = say (Text h3) (say (Text h2) (say (Text h1) t))"
  define t1 where "t1 = check_home t0"
  define t2 where "t2 = check_boundary t1"
  define t3 where "t3 = check_choropleth t2"
  define t4 where "t4 = check_dot t3"
  define t5 where "t5 = check_hist2d t4"
  define t6 where "t6 = check_bubble t5"
  have t0: "serving ds (t_net t0)" "t_disk t0 = t_disk t" "refusals t0 = refusals t" "t_net t0 = t_net t"
    using net by (simp_all add: t0_def)
  have t1: "serving ds (t_net t1)" "t_disk t1 = t_disk t" "refusals t1 = refusals t" "t_net t1 = t_net t"
    using check_home_passes [OF t0(1)] t0 by (simp_all add: t1_def)
  note pass = checks_pass [where ds = ds, OF _ ds]
  have p2: "passed ''test_boundary.png'' t1 t2" unfolding t2_def by (rule pass(1) [OF t1(1)])
  note s2 = passed_serving [OF p2 t1(1)]
  have p3: "passed ''test_choropleth.png'' t2 t3" unfolding t3_def by (rule pass(2) [OF s2])
  note s3 = passed_serving [OF p3 s2]
  have p4: "passed ''test_dot.png'' t3 t4" unfolding t4_def by (rule pass(3) [OF s3])
  note s4 = passed_serving [OF p4 s3]
  have p5: "passed ''test_hist2d.png'' t4 t5" unfolding t5_def by (rule pass(4) [OF s4])
  note s5 = passed_serving [OF p5 s4]
  have p6: "passed ''test_bubble.png'' t5 t6" unfolding t6_def by (rule pass(5) [OF s5])
  have final: "test_api_endpoints t = say (Text f4) (say (Text f3) (say (Text f2) (say (Text f1) t6)))"
    by (simp add: shape t0_def t1_def t2_def t3_def t4_def t5_def t6_def)
  from p2 p3 p4 p5 p6 show ?thesis
    by (elim passedD) (simp add: final t1 numeral_eq_Suc)
qed


lemma test_api_main_shape: "\<exists>h. \<forall>t. test_api_main t = test_api_endpoints (say (Text h) t)"
  unfolding test_api_main_def Let_def by (intro exI allI) (rule refl)

lemma serving_started:
  "serving ds (started (app_main\<lparr>uv_port := 5010\<rparr>) fs ds)"
  by (simp add: serving_def started_def uvicorn_run_def app_main_def)

lemma counted_counter:
  "request_counter (net_server net) + 5 < CLEANUP_INTERVAL \<Longrightarrow>
     request_counter (net_server ((counted ^^ 5) net)) = request_counter (net_server net) + 5"
  by (simp add: numeral_eq_Suc counted_def cleanup_memory_if_needed_eq Let_def CLEANUP_INTERVAL_def)


section \<open>Properties of the script\<close>

text \<open>Claim C31: run against the service as \<^verbatim>\<open>app.py\<close> starts it, the script reaches nothing:
  the service listens at port 5011 and the script calls port 5010, so each of its six
  blocks ends in its exception branch, no file is written and the service receives no
  request, whatever the files and datasets of the machine.\<close>

theorem test_api_refused:
  "refusals (test_api_main (tester0 (started app_main fs ds))) = 6 \<and>
   t_disk (test_api_main (tester0 (started app_main fs ds))) = [] \<and>
   t_net (test_api_main (tester0 (started app_main fs ds))) = started app_main fs ds"
proof -
  from test_api_main_shape obtain h where
    h: "\<And>t. test_api_main t = test_api_endpoints (say (Text h) t)" by blast
  have "unreachable (t_net (say (Text h) (tester0 (started app_main fs ds))))"
    by (simp add: started_unreachable tester0_def)
  from run_unreachable [OF this] show ?thesis
    by (simp add: h tester0_def refusals_def)
qed

text \<open>Claim C32: run against a service that listens at the port of the script and can read
  the county dataset, every block of the script is answered with status 200: the five
  images are written under the names of the script, in its order, each the picture of a
  figure at 300 dpi, none of the blocks ends in its exception branch, and the service has
  counted five requests.\<close>

theorem test_api_passes:
  assumes "serving ds net" and "ds COUNTY = Some all" and "gdf_columns all [''COUNTYNAME'']"
  shows "\<exists>i1 i2 i3 i4 i5.
      t_disk (test_api_main (tester0 net)) =
        [(''test_boundary.png'', Stream [PNG i1 ''tight'' 300]),
         (''test_choropleth.png'', Stream [PNG i2 ''tight'' 300]),
         (''test_dot.png'', Stream [PNG i3 ''tight'' 300]),
         (''test_hist2d.png'', Stream [PNG i4 ''tight'' 300]),
         (''test_bubble.png'', Stream [PNG i5 ''tight'' 300])] \<and>
      refusals (test_api_main (tester0 net)) = 0 \<and>
      t_net (test_api_main (tester0 net)) = (counted ^^ 5) net"
proof -
  from test_api_main_shape obtain h where
    h: "\<And>t. test_api_main t = test_api_endpoints (say (Text h) t)" by blast
  have "serving ds (t_net (say (Text h) (tester0 net)))"
    using assms(1) by (simp add: tester0_def)
  from run_serving [OF this assms(2,3)] show ?thesis
    by (simp add: h tester0_def refusals_def)
qed

theorem test_api_passes_witness:
  "\<exists>i1 i2 i3 i4 i5.
      t_disk (test_api_main (tester0 (started (app_main\<lparr>uv_port := 5010\<rparr>) sample_files sample_store))) =
        [(''test_boundary.png'', Stream [PNG i1 ''tight'' 300]),
         (''test_choropleth.png'', Stream [PNG i2 ''tight'' 300]),
         (''test_dot.png'', Stream [PNG i3 ''tight'' 300]),
         (''test_hist2d.png'', Stream [PNG i4 ''tight'' 300]),
         (''test_bubble.png'', Stream [PNG i5 ''tight'' 300])] \<and>
      request_counter (net_server (t_net (test_api_main (tester0
        (started (app_main\<lparr>uv_port := 5010\<rparr>) sample_files sample_store))))) = 5"
proof -
  have c: "request_counter (net_server (started (app_main\<lparr>uv_port := 5010\<rparr>) sample_files sample_store)) = 0"
    by (simp add: started_def uvicorn_run_def app_main_def loaded_app_def route_decorators app_def
        FastAPI_init_def lifespan_startup_def Let_def fresh_server_def)
  have ds: "sample_store COUNTY = Some sample_counties" by (simp add: sample_store_def)
  have cols: "gdf_columns sample_counties [''COUNTYNAME'']"
    by (simp add: gdf_columns_def sample_counties_def county_defs)
  from test_api_passes [where ds = sample_store, OF serving_started ds cols, of sample_files]
  show ?thesis
    by (auto simp: counted_counter c CLEANUP_INTERVAL_def)
qed

end
