(* ===== verification/Spec2Isabelle.thy ===== *)
theory Spec2Isabelle
  imports App Example Test_Api
begin

text \<open>
  \<^bold>\<open>A verification development for the gis-toolkit map renderer.\<close>

  The program renders composite maps of Taiwan: one main panel for the main island and
  six inset panels for the outlying island groups, overlaid with boundaries, choropleth
  fills, scatter points or density histograms, and served over HTTP. Its parts, leaves
  first:

  \<^item> \<^verbatim>\<open>src/src/config.py\<close>: resource paths, font registration and the class \<^verbatim>\<open>FigConfig\<close>
    with the region table \<^verbatim>\<open>AREA_RANGE\<close> (the region registry).
  \<^item> \<^verbatim>\<open>src/src/core.py\<close>: class \<^verbatim>\<open>GeoPlot\<close>, the layout engine, which creates the figure
    and places the panels, and class \<^verbatim>\<open>GeoData\<close>, which reads the boundary datasets and
    joins caller data onto them.
  \<^item> \<^verbatim>\<open>src/src/graph.py\<close>: class \<^verbatim>\<open>Graph\<close>, the six renderers and the colour scale, and the
    parameter classes. Every renderer calls \<^verbatim>\<open>GeoPlot.base\<close>, directly or through
    \<^verbatim>\<open>plot_boundary\<close>, and then, for each entry \<open>(i, a)\<close> of \<^verbatim>\<open>area_list\<close>, draws the data of
    region \<open>a\<close> on panel \<open>i\<close>.
  \<^item> \<^verbatim>\<open>src/app.py\<close>: the HTTP service, which validates the body of a request, calls a
    renderer, encodes the figure and releases it, with a request counter and a periodic
    cleanup.
  \<^item> \<^verbatim>\<open>src/example_usage.py\<close>: a script that calls four renderers in a row.
  \<^item> \<^verbatim>\<open>src/test/test_api.py\<close> and \<^verbatim>\<open>src/test/memory_test.py\<close>: clients that call a
    running service over HTTP.

  \<^bold>\<open>Theories.\<close>

  \<^item> \<open>GIS_Prelude\<close>: Python values in HOL. Strings are \<open>string\<close> (UTF-8 bytes outside
    ASCII), floats are \<open>rat\<close> (the decimal literals read exactly; IEEE rounding is not
    modelled), exceptions are values of \<open>py_error\<close> and a computation that may raise
    returns \<open>py_error + 'a\<close>; dictionaries are association lists in insertion order;
    \<open>for_each\<close> is a \<open>for\<close> loop whose body may raise; the standard output is the list
    of printed lines (\<open>stdout\<close>, \<open>print_line\<close>). With the lemmas on results, look-ups,
    enumeration and loops that the components share.
  \<^item> \<open>Config\<close> models \<^verbatim>\<open>config.py\<close>: the paths, \<open>register\<close>, \<open>register_all\<close> and \<open>show_all\<close>
    on a font manager (the list of registered font files), the class \<open>Shapefile\<close>, the
    records \<open>area_bounds\<close>, \<open>area_info\<close> and \<open>fig_config\<close>, and the shipped configuration
    \<open>FigConfig\<close> with its table \<open>FigConfig_AREA_RANGE\<close>. Lemmas: what \<open>show_all\<close> prints; the
    keys of the table and their order, its levels and bounding boxes, its
    well-formedness, and where its centres and boxes lie.
  \<^item> \<open>Format\<close> models the part of Python's format specification language the sources
    use, \<open>[+][,][.n]f\<close>: the specification (\<open>format_spec\<close>, \<open>parse_spec\<close>, \<open>spec_str\<close>), the
    printing of a number (\<open>format_f\<close>, with \<open>round_half_even\<close>, \<open>digits\<close>, \<open>group3\<close>) and of
    a tick of a colour bar (\<open>tick_label\<close>), and the reading of a label (\<open>read_label\<close>).
    Lemmas: termination of the two loops, the length of a decimal numeral, the round
    trips of numerals, specifications and labels, and the error of a label, at most half
    a unit of its last decimal.
  \<^item> \<open>Frames\<close> models the data the program handles and the operations of pandas and
    geopandas it calls (\<open>DataFrame\<close>, \<open>series\<close>, \<open>series_min\<close>, \<open>series_max\<close>, \<open>merge\<close>,
    \<open>read_file\<close>), from their documentation: these libraries are not code of the
    repository. Lemmas: when each returns, what the join pairs, what a read returns.
  \<^item> \<open>Pyplot\<close> models the state of matplotlib the program builds (\<open>axes\<close>, \<open>figure\<close>,
    the artists drawn on an Axes) and pyplot's registry of open figures (\<open>pyplot\<close>,
    \<open>subplots\<close>, \<open>close\<close>, \<open>close_all\<close>, \<open>rcdefaults\<close>), again from the library's
    documentation. Lemmas: a new figure gets a fresh number and is registered; closing
    removes it; what a plotting call adds to an Axes.
  \<^item> \<open>GeoPlot\<close> models class \<^verbatim>\<open>GeoPlot\<close> of \<^verbatim>\<open>core.py\<close>: \<open>GeoPlot_init\<close> (the constructor),
    \<open>cal_insert_ax_height\<close>, \<open>inset\<close> and \<open>base\<close>, each the whole method with its
    look-ups and divisions as possible exceptions. The configuration is an argument, so
    the lemmas hold for every region table. The abstract specification is \<open>layout\<close>, the
    seven panels in closed form, with \<open>first_error\<close> for the exception; the refinement
    lemma \<open>base_eq\<close> says that \<open>base\<close> computes exactly these. From it: panel \<open>i\<close> is
    region \<open>i\<close> exactly when the table is in placement order; every panel shows its
    region's bounding box; every inset is aspect-locked; which panels are disjoint.
  \<^item> \<open>GeoData\<close> models class \<^verbatim>\<open>GeoData\<close> of \<^verbatim>\<open>core.py\<close>: \<open>get_county_gpd\<close>, \<open>get_town_gpd\<close>
    and \<open>merge_gdf_and_df\<close>, as functions of the contents of the datasets. Lemmas: the
    join binds exactly the pairs with equal keys, covers every feature once when the
    keys of the rows are distinct, and fans out when they repeat.
  \<^item> \<open>Histogram\<close> models \<open>Axes.hist2d\<close> of matplotlib from the documentation of
    \<open>numpy.histogram2d\<close>: equidistant edges, the bin of a value by a search in the edges,
    the counts of the cells, the hiding of cells below \<open>cmin\<close>. Lemmas: the bin of a
    value in closed form, by the floor of its scaled offset (\<open>bin_index_linspace\<close>); a
    cell counts the points of a half-open box (\<open>cell_count_bins\<close>); the counts add up to
    the points inside the range (\<open>grid_total\<close>) and depend on the multiset of points
    only (\<open>grid_perm\<close>).
  \<^item> \<open>Graph\<close> models class \<^verbatim>\<open>Graph\<close> of \<^verbatim>\<open>graph.py\<close>: \<open>ChoroplethParams\<close>, the constructor
    \<open>Graph_init\<close>, \<open>plot_boundary\<close> and \<open>plot_choropleth\<close> with the bodies of their loops,
    \<open>Graph_colorbar\<close> (\<^verbatim>\<open>_colorbar\<close>), and \<open>managed_plot\<close>, \<open>ensure_figure_closed\<close>,
    \<open>cleanup_memory\<close> and \<open>manage_memory\<close>. The specification of a renderer is \<open>paint\<close>,
    which pairs regions with panels in order; the generic lemmas \<open>for_each_paint\<close> and
    \<open>for_each_panels\<close> say that a loop over \<^verbatim>\<open>area_list\<close> computes it, and the refinement
    lemmas \<open>plot_boundary_Inr_iff\<close> and \<open>plot_choropleth_Inr_iff\<close> instantiate them.
    From them: what each panel holds, the fallback to the bare boundary, the boundary on
    top, the colour bar over the whole input and its independence of the order of the
    rows, the labels of its ticks, the inputs on which a renderer returns, and the
    exceptions otherwise.
  \<^item> \<open>Overlays\<close> models the renderers that draw over the boundary map: \<open>DotParams\<close>,
    \<open>BubbleParams\<close>, \<open>Hist2DParams\<close>, \<open>plot_dot\<close>, \<open>plot_bubble\<close> and \<open>plot_hist2d\<close> with the
    bodies of their loops. Lemmas: the same scatter of all points on every panel; on
    panel \<open>i\<close> the histogram of all points over the bounding box of region \<open>i\<close>, which
    counts every point of the box exactly once and is independent of the order of the
    points; the inputs on which these renderers return.
  \<^item> \<open>Subsidy\<close> models \<^verbatim>\<open>plot_boundary_with_subsidy\<close>: the classification file as an
    argument (\<open>files\<close>), the two \<open>lambda\<close> expressions, the column assignments, the body
    of the loop and the legend. Lemmas: the fill colour of every township in closed
    form, the legend and where it differs from the fills, the exception when the file
    is missing, and the inputs on which the renderer returns.
  \<^item> \<open>App\<close> models \<^verbatim>\<open>app.py\<close>: the state \<open>server\<close>, the buffer \<open>BytesIO\<close>, the four body
    models with their defaults and validators, \<open>lifespan_startup\<close>, \<open>lifespan_shutdown\<close>,
    \<open>fig_to_image\<close>, \<open>cleanup_memory_if_needed\<close>, \<open>handle_plot_request\<close>, the eight handlers
    (\<open>home\<close>, \<open>get_boundary\<close>, \<open>get_boundary_with_subsidy\<close>, \<open>create_choropleth\<close>,
    \<open>create_dot_plot\<close>, \<open>create_hist2d\<close>, \<open>create_bubble\<close>, \<open>manual_cleanup\<close>), the application
    object with its route table as the decorators build it (\<open>app\<close>, \<open>route_home\<close> to
    \<open>route_cleanup\<close>, \<open>loaded_app\<close>), the dispatch of a method and a path to a route
    (\<open>match_route\<close>, \<open>receive\<close>) and the server \<open>app_main\<close>. The abstract specification is
    the service as a transition system over typed requests (\<open>endpoint\<close>, \<open>serve\<close>,
    \<open>reachable\<close>); the refinement lemma \<open>receive_wire\<close> says that the route table
    implements it. The handler's lemmas are stated for every function that satisfies
    the interface \<open>renderer\<close>, and the six renderers are shown to satisfy it. The
    invariant \<open>idle\<close> holds in every state reached over HTTP (\<open>served\<close>), by rule
    induction. Further lemmas: the status codes of the answers, well-formedness of the
    route table, the round trip of request bodies, the requests that are answered with
    an image.
  \<^item> \<open>Client\<close> models the calls of the \<^verbatim>\<open>requests\<close> library the scripts make: addresses
    (\<open>parse_url\<close>, \<open>url_str\<close>), the process a client can reach (\<open>network\<close>, \<open>uvicorn_run\<close>),
    and an exchange with redirections followed (\<open>follow\<close>, \<open>send\<close>, \<open>requests_get\<close>,
    \<open>requests_post\<close>). Lemmas: the round trip of addresses, that following redirections
    ends with an answer, that a refused connection leaves the service untouched.
  \<^item> \<open>Test_Api\<close> models \<^verbatim>\<open>test/test_api.py\<close>: the \<^verbatim>\<open>try\<close> block the script repeats
    (\<open>probe\<close>), its six blocks with their bodies and messages, \<open>test_api_endpoints\<close> and
    the script \<open>test_api_main\<close>, over the lines printed and the files written. Lemmas:
    what a block does in each of its cases, and the outcome of the whole script against
    the service as \<^verbatim>\<open>app.py\<close> starts it and against a service at the port of the script.
  \<^item> \<open>Example\<close> models \<^verbatim>\<open>example_usage.py\<close>: \<open>main\<close> as a function of the datasets, the
    stream of random samples and the state of the process, with its printed lines.
    Lemmas: \<open>main\<close> runs to the end whenever the county dataset is readable and named,
    and it leaves every figure it created open.
  \<^item> This theory holds the properties that span the components: what a request to
    \<^verbatim>\<open>/boundary\<close>, a request to \<^verbatim>\<open>/choropleth\<close> without a key column and a request to
    \<^verbatim>\<open>/boundary_with_subsidy\<close> without the classification file are answered with, in
    every reachable state of the service.

  \<^bold>\<open>Bounds.\<close> Every loop of the program runs over a finite list and is structurally
  recursive, so every operation is total and a claim that a renderer returns is a claim
  that its result is a figure and not an exception. \<open>digits\<close> and \<open>group3\<close> of theory
  \<open>Format\<close> recurse on a quotient and on a prefix and have termination proofs. The one
  function with fuel is \<open>follow\<close> of theory \<open>Client\<close>: the fuel is the limit of thirty
  redirections of the \<^verbatim>\<open>requests\<close> library, after which the library raises
  \<^verbatim>\<open>TooManyRedirects\<close>; against the application two requests always suffice
  (\<open>requests_answered\<close>). The service is modelled for request sequences of every length. Floats are rationals, so
  the edges of a histogram are exact; a point closer to an edge than the rounding error
  of its computation may fall into the neighbouring cell in the program.

  \<^bold>\<open>Not modelled.\<close> The pixels matplotlib draws and the aspect geopandas imposes when it
  plots, the contents of the shapefiles beyond attributes and envelopes, font files, the
  syntax of the JSON file, JSON text on the wire and the coercions of pydantic (bodies
  are objects with well-typed or absent fields), HTTP methods other than GET and POST,
  headers, the documentation pages FastAPI generates, the HTML template, the encoding of
  the PNG, garbage collection, the texts of exceptions and responses inside printed
  lines, sleeping, and the script \<^verbatim>\<open>src/test/memory_test.py\<close>, whose results are the
  memory readings of the operating system.
\<close>

lemma reachable_counted:
  assumes "reachable fs ds s"
  shows "fignums (plt (cleanup_memory_if_needed s)) = []"
  using cleanup_memory_if_needed_idle [OF reachable_idle [OF assms]] by (simp add: idle_def)

text \<open>Claim C12: in every state the service reaches, when the county dataset can be read,
  a request to \<^verbatim>\<open>/boundary\<close> is answered with the PNG, at 300 dpi, of figure number 1,
  whose seven panels carry the labels of the seven regions in placement order, each
  panel holding the boundary of exactly the counties that meet the extent it shows; the
  request is counted and no figure stays open.\<close>

theorem boundary_request:
  assumes "reachable fs ds s" and "ds COUNTY = Some all"
  shows "\<exists>fig. endpoint fs ds GET_boundary s =
       (StreamingResponse (image_buffer (PNG fig ''tight'' 300)) ''image/png'', cleanup_memory_if_needed s) \<and>
     fignums (plt (cleanup_memory_if_needed s)) = [] \<and>
     number fig = 1 \<and> map label (child_axes fig) = layout_labels \<and>
     list_all (\<lambda>p. artists p = edge_artists (features_in all (extent p))) (child_axes fig)"
proof -
  let ?p = "plt (cleanup_memory_if_needed s)"
  from reachable_counted [OF assms(1)] have p: "fignums ?p = []" .
  from assms(2) obtain fig where
    fig: "fst (plot_boundary (fst (Graph_init FigConfig [])) ds ?p) = Inr fig"
    using plot_boundary_ok_iff [of FigConfig "[]" ds ?p]
    by (auto simp: first_error_FigConfig AREA_RANGE_length)
  then have "endpoint fs ds GET_boundary s =
      (StreamingResponse (image_buffer (PNG fig ''tight'' 300)) ''image/png'', cleanup_memory_if_needed s)"
    by (simp add: endpoint_def get_boundary_def graph_instance_def
        handle_plot_request_eq [OF renderer_plot_boundary] Let_def)
  moreover from fig p have "number fig = 1"
    by (auto simp: plot_boundary_Inr_iff next_num_def dest: base_number)
  moreover have "artists q = edge_artists (features_in all (extent q))" if "q \<in> set (child_axes fig)" for q
    using plot_boundary_ordered [OF fig layout_labels_FigConfig that] assms(2) by simp
  ultimately show ?thesis
    using p plot_boundary_labels [OF fig] by (auto simp: list_all_iff)
qed

theorem boundary_request_witness:
  "reachable sample_files sample_store (lifespan_startup busy_server) \<and> sample_store COUNTY = Some sample_counties \<and>
   (\<exists>fig. fst (endpoint sample_files sample_store GET_boundary (lifespan_startup busy_server)) =
       StreamingResponse (image_buffer (PNG fig ''tight'' 300)) ''image/png'' \<and>
     number fig = 1 \<and> map label (child_axes fig) = layout_labels)"
  using boundary_request [where fs = sample_files and ds = sample_store and s = "lifespan_startup busy_server",
      OF reachable.startup sample_store_COUNTY]
    reachable.startup [of sample_files sample_store busy_server]
  by auto

text \<open>In every state the service reaches, a request to \<^verbatim>\<open>/choropleth\<close> at county
  level whose records have no field \<open>county\<close> is not rejected before rendering: a figure
  is created, the join raises \<open>KeyError\<close>, and the request is answered with status 500
  after all figures have been closed.\<close>

theorem choropleth_request_without_key:
  assumes "reachable fs ds s" and "ds COUNTY = Some all" and "cd_level data \<noteq> ''town''"
    and "''county'' \<notin> set (concat (map (map fst) (cd_data data)))"
  shows "fst (endpoint fs ds (POST_choropleth data) s) = HTTPException 500 (KeyError ''county'') \<and>
     fignums (plt (snd (endpoint fs ds (POST_choropleth data) s))) = []"
proof -
  let ?params = "\<lparr>cp_data = DataFrame (cd_data data), cp_column = cd_column data, cp_level = cd_level data,
      cp_cmap = cd_cmap data, cp_colorbar_format = cd_colorbar_format data,
      cp_colorbar_tick_visible = cd_colorbar_tick_visible data\<rparr>"
  have "fst (plot_choropleth (fst (Graph_init FigConfig [])) ds ?params p) = Inl (KeyError ''county'')" for p
    using assms(2-4)
    by (subst plot_choropleth_KeyError [where all = all])
       (simp_all add: first_error_FigConfig DataFrame_columns)
  then show ?thesis
    by (simp add: endpoint_def create_choropleth_def graph_instance_def
        handle_plot_request_eq [OF renderer_plot_choropleth] Let_def)
qed

theorem choropleth_request_without_key_witness:
  "reachable sample_files sample_store (lifespan_startup busy_server) \<and> sample_store COUNTY = Some sample_counties \<and>
   cd_level keyless_data \<noteq> ''town'' \<and>
   ''county'' \<notin> set (concat (map (map fst) (cd_data keyless_data))) \<and>
   fst (endpoint sample_files sample_store (POST_choropleth keyless_data) (lifespan_startup busy_server)) =
     HTTPException 500 (KeyError ''county'')"
proof -
  have k: "cd_level keyless_data \<noteq> ''town''"
    "''county'' \<notin> set (concat (map (map fst) (cd_data keyless_data)))"
    by (simp_all add: keyless_data_def)
  from choropleth_request_without_key [where fs = sample_files and ds = sample_store and s = "lifespan_startup busy_server",
      OF reachable.startup sample_store_COUNTY k]
    reachable.startup [of sample_files sample_store busy_server] k
  show ?thesis by simp
qed


text \<open>Claim C29: in every state the service reaches, a request to \<^verbatim>\<open>/boundary_with_subsidy\<close>
  while the classification file cannot be opened is answered with status 500 and the
  \<open>FileNotFoundError\<close>; the request is counted, and nothing else of the state changes:
  no figure was created.\<close>

theorem subsidy_request_without_file:
  assumes "reachable fs ds s" and "fs ''res/json/town_type_by_town.json'' = None"
  shows "endpoint fs ds GET_boundary_with_subsidy s =
     (HTTPException 500 (FileNotFoundError ''res/json/town_type_by_town.json''),
      cleanup_memory_if_needed s)"
proof -
  from assms(2) have "fs town_type_path = None" by (simp add: town_type_path_def)
  from plot_boundary_with_subsidy_missing [where fs = fs, OF this]
  show ?thesis
    using cleanup_memory_idle [OF cleanup_memory_if_needed_idle [OF reachable_idle [OF assms(1)]]]
    by (simp add: endpoint_def get_boundary_with_subsidy_def town_type_path_def
        handle_plot_request_eq [OF renderer_plot_boundary_with_subsidy [of FigConfig "[]",
          folded graph_instance_def]] Let_def)
qed

theorem subsidy_request_without_file_witness:
  "reachable no_files sample_store (lifespan_startup busy_server) \<and>
   no_files ''res/json/town_type_by_town.json'' = None \<and>
   endpoint no_files sample_store GET_boundary_with_subsidy (lifespan_startup busy_server) =
     (HTTPException 500 (FileNotFoundError ''res/json/town_type_by_town.json''),
      \<lparr>request_counter = 1, plt = \<lparr>fignums = [], max_open_warning = 20\<rparr>,
       console = [msg_initialised]\<rparr>)"
proof -
  have f: "no_files ''res/json/town_type_by_town.json'' = None" by (simp add: no_files_def)
  from subsidy_request_without_file [where fs = no_files and ds = sample_store and
      s = "lifespan_startup busy_server", OF reachable.startup f]
    reachable.startup [of no_files sample_store busy_server] f
  show ?thesis
    by (simp add: cleanup_memory_if_needed_eq lifespan_startup_def Let_def CLEANUP_INTERVAL_def
        cleanup_memory_def close_all_def rcdefaults_def default_max_open_warning_def busy_server_def
        print_line_def)
qed

end
